(* ===== verification/Ofcir_Prelude.thy ===== *)
theory Ofcir_Prelude
  imports Main "HOL-Library.Monad_Syntax" "HOL-Library.List_Lexorder" "HOL-Library.Char_ord"
begin

text \<open>
  What every component of the model shares: Go errors as values of a tree, the
  \<open>errors.Is\<close>/\<open>errors.As\<close> walks the code uses, Go's 64-bit integers, times and
  durations, panics, the collections of simplification rules the component theories fill,
  and the generic lemmas on lists and maps.
\<close>

section \<open>Collections\<close>

named_theorems go_defs \<open>definitions of the Go standard library model\<close>
named_theorems api_defs \<open>constants and predicates of the api/v1 types\<close>
named_theorems fsm_defs \<open>handlers and primitives of the CIResource state machine\<close>
named_theorems handler_defs \<open>HTTP handlers and their helpers\<close>

section \<open>Panics and effects\<close>

text \<open>
  A call that may reach a nil dereference, a failed type assertion or an index out of range
  returns \<^typ>\<open>('a \<times> 'w) option\<close>: \<^term>\<open>None\<close> is the panic, \<^term>\<open>Some (a, w)\<close> the result with
  the world after the call. Calls are sequenced with the \<open>do\<close> notation of the option monad,
  the world threaded by hand.
\<close>

type_synonym ('w, 'a) call = "'w \<Rightarrow> 'a \<times> 'w"
type_synonym ('w, 'a) go = "'w \<Rightarrow> ('a \<times> 'w) option"

section \<open>Errors\<close>

text \<open>
  Go errors are interface values; \<open>errors.As\<close> and \<open>errors.Is\<close> look at the tree of wrapped
  errors. The first three constructors are the ways the code builds errors
  (\<open>errors.New\<close> or \<open>fmt.Errorf\<close> without \<open>%w\<close>, \<open>fmt.Errorf\<close> with \<open>%w\<close> last,
  \<open>errors.Join\<close>), \<open>ResourceNotFoundError\<close> is the repository's own error type, and the
  others are errors of the libraries the code inspects: Kubernetes API statuses, AWS API errors
  with their code, libvirt errors with their number, and the context errors.
\<close>

datatype error =
    ErrorString string
  | WrapError string error
  | JoinError "error list"
  | ResourceNotFoundError string
  | StatusNotFound string
  | StatusConflict string
  | StatusOther string
  | SmithyAPIError string string
  | LibvirtError int string
  | ContextCanceled
  | ContextDeadlineExceeded

text \<open>\<open>errors.As\<close> with a target of type \<open>ResourceNotFoundError\<close>.\<close>

fun errors_As_ResourceNotFound :: "error \<Rightarrow> bool" where
  "errors_As_ResourceNotFound (ResourceNotFoundError i) = True"
| "errors_As_ResourceNotFound (WrapError m e) = errors_As_ResourceNotFound e"
| "errors_As_ResourceNotFound (JoinError es) = list_ex errors_As_ResourceNotFound es"
| "errors_As_ResourceNotFound e = False"

text \<open>\<open>errors.As\<close> with a target of type \<open>smithy.APIError\<close>, reading its code: the first one in
  the depth-first walk.\<close>

fun errors_As_APIError :: "error \<Rightarrow> string option"
  and errors_As_APIErrors :: "error list \<Rightarrow> string option" where
  "errors_As_APIError (SmithyAPIError code m) = Some code"
| "errors_As_APIError (WrapError m e) = errors_As_APIError e"
| "errors_As_APIError (JoinError es) = errors_As_APIErrors es"
| "errors_As_APIError e = None"
| "errors_As_APIErrors [] = None"
| "errors_As_APIErrors (e # es) =
     (case errors_As_APIError e of Some c \<Rightarrow> Some c | None \<Rightarrow> errors_As_APIErrors es)"

text \<open>\<open>IsNotFound\<close> of the Kubernetes API errors: it looks through wrapped errors too.\<close>

fun IsNotFound :: "error \<Rightarrow> bool" where
  "IsNotFound (StatusNotFound m) = True"
| "IsNotFound (WrapError m e) = IsNotFound e"
| "IsNotFound (JoinError es) = list_ex IsNotFound es"
| "IsNotFound e = False"

text \<open>The text of an error, \<open>err.Error()\<close>; the library errors carry theirs.\<close>

fun error_text :: "error \<Rightarrow> string"
  and error_texts :: "error list \<Rightarrow> string" where
  "error_text (ErrorString m) = m"
| "error_text (WrapError m e) = m @ error_text e"
| "error_text (JoinError es) = error_texts es"
| "error_text (ResourceNotFoundError i) = ''Resource '' @ i @ '' not found''"
| "error_text (StatusNotFound m) = m"
| "error_text (StatusConflict m) = m"
| "error_text (StatusOther m) = m"
| "error_text (SmithyAPIError code m) = m"
| "error_text (LibvirtError n m) = m"
| "error_text ContextCanceled = ''context canceled''"
| "error_text ContextDeadlineExceeded = ''context deadline exceeded''"
| "error_texts [] = []"
| "error_texts [e] = error_text e"
| "error_texts (e # f # es) = error_text e @ [CHR 0x0A] @ error_texts (f # es)"

section \<open>Checked calls\<close>

text \<open>A call whose error makes the function return at once, the pattern
  \<open>x, err := f(); if err != nil { return \<dots> }\<close>: \<open>fail\<close> is what is returned, \<open>k\<close> the rest.\<close>

definition checked ::
  "('w, error + 'b) call \<Rightarrow> (error \<Rightarrow> 'a) \<Rightarrow> ('b \<Rightarrow> ('w, 'a) go) \<Rightarrow> ('w, 'a) go" where
  "checked f fail k w =
     (case f w of (Inl err, w) \<Rightarrow> Some (fail err, w) | (Inr x, w) \<Rightarrow> k x w)"

lemma checked_simps [simp]:
  "f w = (Inl err, w') \<Longrightarrow> checked f fail k w = Some (fail err, w')"
  "f w = (Inr x, w') \<Longrightarrow> checked f fail k w = k x w'"
  by (simp_all add: checked_def)

lemma checked_Some:
  "checked f fail k w = Some (r, w') \<longleftrightarrow>
     (\<exists>err. f w = (Inl err, w') \<and> r = fail err) \<or> (\<exists>x w1. f w = (Inr x, w1) \<and> k x w1 = Some (r, w'))"
  by (auto simp: checked_def split: prod.split sum.split)

lemma checked_None:
  "checked f fail k w = None \<longleftrightarrow> (\<exists>x w1. f w = (Inr x, w1) \<and> k x w1 = None)"
  by (auto simp: checked_def split: prod.split sum.split)

text \<open>How a call that may panic can have returned, one rule for each way of choosing.\<close>

lemma case_sum_Some:
  "(case s of Inl a \<Rightarrow> f a | Inr b \<Rightarrow> g b) = Some y \<longleftrightarrow>
     (\<exists>a. s = Inl a \<and> f a = Some y) \<or> (\<exists>b. s = Inr b \<and> g b = Some y)"
  by (cases s) auto

lemma case_option_Some:
  "(case x of None \<Rightarrow> f | Some a \<Rightarrow> g a) = Some y \<longleftrightarrow>
     x = None \<and> f = Some y \<or> (\<exists>a. x = Some a \<and> g a = Some y)"
  by (cases x) auto

lemma case_prod_Some: "(case p of (a, b) \<Rightarrow> f a b) = Some y \<longleftrightarrow> (\<exists>a b. p = (a, b) \<and> f a b = Some y)"
  by (cases p) auto

lemma if_Some: "(if P then x else z) = Some y \<longleftrightarrow> P \<and> x = Some y \<or> \<not> P \<and> z = Some y"
  by simp

lemmas go_Some = bind_eq_Some_conv case_sum_Some case_option_Some case_prod_Some if_Some checked_Some Let_def

section \<open>64-bit integers\<close>

text \<open>Go's \<open>int\<close> is 64 bits wide on the deployed platforms and wraps around.\<close>

definition int64 :: "int \<Rightarrow> int" where
  "int64 x = (x + 2 ^ 63) mod 2 ^ 64 - 2 ^ 63"

definition min_int64 :: int where "min_int64 = - (2 ^ 63)"
definition max_int64 :: int where "max_int64 = 2 ^ 63 - 1"

definition in_int64 :: "int \<Rightarrow> bool" where
  "in_int64 x \<longleftrightarrow> min_int64 \<le> x \<and> x \<le> max_int64"

lemmas int64_bounds = min_int64_def max_int64_def in_int64_def

lemma int64_id [simp]: "in_int64 x \<Longrightarrow> int64 x = x"
  by (simp add: int64_def int64_bounds)

lemma in_int64_int64 [simp, intro]: "in_int64 (int64 x)"
proof -
  have "(x + 2 ^ 63) mod 2 ^ 64 < 2 ^ 64" "0 \<le> (x + 2 ^ 63) mod 2 ^ 64" by simp_all
  then show ?thesis by (simp add: int64_def int64_bounds)
qed

section \<open>Durations and times\<close>

text \<open>\<open>time.Duration\<close> counts nanoseconds. A \<open>time.Time\<close> is read as the nanoseconds since
  Go's zero time, so the zero time is \<open>0\<close>.\<close>

datatype Duration = Duration (Nanoseconds: int)

instantiation Duration :: linorder
begin

definition less_eq_Duration :: "Duration \<Rightarrow> Duration \<Rightarrow> bool" where
  "less_eq_Duration a b \<longleftrightarrow> Nanoseconds a \<le> Nanoseconds b"

definition less_Duration :: "Duration \<Rightarrow> Duration \<Rightarrow> bool" where
  "less_Duration a b \<longleftrightarrow> Nanoseconds a < Nanoseconds b"

instance
  by standard (auto simp: less_eq_Duration_def less_Duration_def Duration.expand)

end

instantiation Duration :: zero
begin

definition zero_Duration :: Duration where "zero_Duration = Duration 0"

instance ..

end

lemmas Duration_order = less_eq_Duration_def less_Duration_def zero_Duration_def

definition Millisecond :: Duration where "Millisecond = Duration 1000000"
definition Second :: Duration where "Second = Duration 1000000000"
definition Minute :: Duration where "Minute = Duration 60000000000"

type_synonym Time = int

text \<open>\<open>t.Sub u\<close>: the difference, saturated at the ends of the 64-bit range. \<open>time.Since u\<close>
  is \<open>Now().Sub u\<close>.\<close>

definition time_Sub :: "Time \<Rightarrow> Time \<Rightarrow> Duration" where
  "time_Sub t u = Duration (max min_int64 (min max_int64 (t - u)))"

lemma time_Sub_exact: "in_int64 (t - u) \<Longrightarrow> time_Sub t u = Duration (t - u)"
  by (auto simp: time_Sub_def int64_bounds)

section \<open>Lists and maps\<close>

lemma filter_sort_key_eq:
  "filter (\<lambda>x. f x = k) (sort_key f xs) = filter (\<lambda>x. f x = k) xs"
  by (rule sort_key_stable)

lemma foldl_upd_notin:
  "k \<notin> fst ` set kvs \<Longrightarrow> foldl (\<lambda>m (a, b). m(a \<mapsto> b)) m kvs k = m k"
  by (induction kvs arbitrary: m) auto

lemma list_ex_False_iff [simp]: "\<not> list_ex P xs \<longleftrightarrow> list_all (\<lambda>x. \<not> P x) xs"
  by (induction xs) auto

lemma last_occurrence_sorted:
  assumes "sorted xs" and "xs \<noteq> []" and "x \<in> set xs"
  shows "x \<le> last xs"
proof -
  from assms(2) have "xs = butlast xs @ [last xs]" by simp
  with assms(1) have "\<forall>y\<in>set (butlast xs). y \<le> last xs"
    by (metis sorted_append list.set_intros(1))
  moreover from assms(2,3) have "x \<in> set (butlast xs) \<or> x = last xs"
    by (metis in_set_butlastD in_set_conv_decomp_last \<open>xs = butlast xs @ [last xs]\<close>
        rotate1.simps(2) set_ConsD set_rotate1)
  ultimately show ?thesis by auto
qed

end
