(* ===== verification/Go_Strings.thy ===== *)
theory Go_Strings
  imports Ofcir_Prelude "HOL-Library.Sublist"
begin

text \<open>
  The string functions of the Go standard library the program uses, on byte strings:
  \<open>strconv.Itoa\<close> and the verbs \<open>%d\<close> and \<open>%04d\<close>, \<open>strconv.Atoi\<close>, \<open>strings.LastIndex\<close>,
  \<open>strings.Split\<close>, \<open>strings.TrimSpace\<close>, \<open>strings.Contains\<close>. The lemmas give the round trips
  between printing and reading numbers, the last separator of a name, and the pieces of a
  comma-separated list.
\<close>

section \<open>Decimal digits\<close>

definition digit :: "nat \<Rightarrow> char" where
  "digit d = char_of (48 + d)"

definition is_digit :: "char \<Rightarrow> bool" where
  "is_digit c \<longleftrightarrow> 48 \<le> (of_char c :: nat) \<and> (of_char c :: nat) \<le> 57"

definition digit_val :: "char \<Rightarrow> nat" where
  "digit_val c = of_char c - 48"

fun digits :: "nat \<Rightarrow> string" where
  "digits n = (if n < 10 then [digit n] else digits (n div 10) @ [digit (n mod 10)])"

declare digits.simps [simp del]

definition dec_val :: "string \<Rightarrow> nat" where
  "dec_val s = foldl (\<lambda>a c. 10 * a + digit_val c) 0 s"

lemma of_char_digit: "d < 10 \<Longrightarrow> (of_char (digit d) :: nat) = 48 + d"
  by (simp add: digit_def)

lemma is_digit_digit [simp]: "d < 10 \<Longrightarrow> is_digit (digit d)"
  by (simp add: is_digit_def of_char_digit)

lemma digit_val_digit [simp]: "d < 10 \<Longrightarrow> digit_val (digit d) = d"
  by (simp add: digit_val_def of_char_digit)

lemma dec_val_Nil [simp]: "dec_val [] = 0"
  by (simp add: dec_val_def)

lemma dec_val_snoc [simp]: "dec_val (s @ [c]) = 10 * dec_val s + digit_val c"
  by (simp add: dec_val_def)

lemma digits_nonempty [simp]: "digits n \<noteq> []"
  by (subst digits.simps) simp

lemma digits_are_digits [simp]: "list_all is_digit (digits n)"
proof (induction n rule: digits.induct)
  case (1 n)
  then show ?case by (subst digits.simps) (simp add: is_digit_digit)
qed

lemma dec_val_digits [simp]: "dec_val (digits n) = n"
proof (induction n rule: digits.induct)
  case (1 n)
  show ?case
  proof (cases "n < 10")
    case True
    then show ?thesis
      by (subst digits.simps) (simp add: dec_val_snoc [of "[]", simplified])
  next
    case False
    with 1 show ?thesis by (subst digits.simps) simp
  qed
qed

lemma dec_val_zeros [simp]: "dec_val (replicate k CHR ''0'' @ s) = dec_val s"
proof -
  have "foldl (\<lambda>a c. 10 * a + digit_val c) 0 (replicate k CHR ''0'') = 0"
    by (induction k) (simp_all add: digit_val_def)
  then show ?thesis by (simp add: dec_val_def)
qed

lemma zeros_are_digits [simp]: "list_all is_digit (replicate k CHR ''0'')"
  by (induction k) (simp_all add: is_digit_def)

lemma is_digit_not_sign:
  "is_digit c \<Longrightarrow> c \<noteq> CHR ''-''" "is_digit c \<Longrightarrow> c \<noteq> CHR ''+''" "is_digit c \<Longrightarrow> c \<noteq> CHR '',''"
  by (auto simp: is_digit_def)

lemma digits_no_sign:
  "list_all is_digit s \<Longrightarrow> CHR ''-'' \<notin> set s" "list_all is_digit s \<Longrightarrow> CHR ''+'' \<notin> set s"
  by (auto simp: list_all_iff dest: is_digit_not_sign)

section \<open>Printing integers\<close>

definition Itoa :: "int \<Rightarrow> string" where
  "Itoa i = (if i < 0 then CHR ''-'' # digits (nat (- i)) else digits (nat i))"

text \<open>The verb \<open>%04d\<close>: padded with zeros to a width of four, which counts the sign.\<close>

definition Sprintf_04d :: "int \<Rightarrow> string" where
  "Sprintf_04d i =
     (if i < 0
      then CHR ''-'' # replicate (3 - length (digits (nat (- i)))) CHR ''0'' @ digits (nat (- i))
      else replicate (4 - length (digits (nat i))) CHR ''0'' @ digits (nat i))"

lemma Sprintf_04d_digits: "0 \<le> i \<Longrightarrow> list_all is_digit (Sprintf_04d i)"
  by (simp add: Sprintf_04d_def)

lemma dec_val_Sprintf_04d: "0 \<le> i \<Longrightarrow> dec_val (Sprintf_04d i) = nat i"
  by (simp add: Sprintf_04d_def)

section \<open>Reading integers\<close>

text \<open>\<open>strconv.Atoi\<close>: an optional sign, then at least one decimal digit and nothing else, and a
  value that fits 64 bits. \<^term>\<open>None\<close> stands for the syntax and range errors.\<close>

definition Atoi :: "string \<Rightarrow> int option" where
  "Atoi s =
     (let neg = (case s of c # _ \<Rightarrow> c = CHR ''-'' | [] \<Rightarrow> False);
          ds = (case s of c # r \<Rightarrow> (if c = CHR ''-'' \<or> c = CHR ''+'' then r else s) | [] \<Rightarrow> []);
          v = (if neg then - int (dec_val ds) else int (dec_val ds))
      in if ds = [] \<or> \<not> list_all is_digit ds \<or> \<not> in_int64 v then None else Some v)"

lemma Atoi_digits:
  assumes "list_all is_digit s" and "s \<noteq> []" and "int (dec_val s) \<le> max_int64"
  shows "Atoi s = Some (int (dec_val s))"
proof -
  from assms(1,2) obtain c r where s: "s = c # r" and "is_digit c" by (cases s) auto
  then have "c \<noteq> CHR ''-''" "c \<noteq> CHR ''+''" using is_digit_not_sign by auto
  with s assms show ?thesis by (simp add: Atoi_def Let_def int64_bounds)
qed

lemma Atoi_Some_in_int64: "Atoi s = Some v \<Longrightarrow> in_int64 v"
  by (auto simp: Atoi_def Let_def split: if_splits)

lemma Atoi_Sprintf_04d:
  assumes "0 \<le> i" and "i \<le> max_int64"
  shows "Atoi (Sprintf_04d i) = Some i"
proof -
  have "Sprintf_04d i \<noteq> []" using assms(1) by (simp add: Sprintf_04d_def)
  moreover have "int (dec_val (Sprintf_04d i)) = i" using assms(1) by (simp add: dec_val_Sprintf_04d)
  ultimately show ?thesis
    using Atoi_digits [of "Sprintf_04d i"] assms by (simp add: Sprintf_04d_digits)
qed

section \<open>Searching and splitting\<close>

text \<open>\<open>strings.LastIndex\<close> for a one-byte separator.\<close>

fun LastIndex :: "string \<Rightarrow> char \<Rightarrow> int" where
  "LastIndex [] c = -1"
| "LastIndex (x # s) c =
     (let j = LastIndex s c in if j \<ge> 0 then j + 1 else if x = c then 0 else -1)"

lemma LastIndex_absent: "c \<notin> set s \<Longrightarrow> LastIndex s c = -1"
  by (induction s) auto

lemma LastIndex_append:
  "c \<notin> set r \<Longrightarrow> LastIndex (p @ c # r) c = int (length p)"
  by (induction p) (simp_all add: LastIndex_absent)

lemma LastIndex_bounds: "-1 \<le> LastIndex s c \<and> LastIndex s c < int (length s)"
  by (induction s) (auto simp: Let_def)

lemma LastIndex_found:
  "0 \<le> LastIndex s c \<Longrightarrow> s ! nat (LastIndex s c) = c"
  by (induction s) (auto simp: Let_def nat_add_distrib split: if_splits)

text \<open>\<open>strings.Split\<close> with a one-byte separator: always at least one piece.\<close>

fun Split :: "string \<Rightarrow> char \<Rightarrow> string list" where
  "Split [] c = [[]]"
| "Split (x # s) c =
     (if x = c then [] # Split s c
      else (case Split s c of [] \<Rightarrow> [[x]] | p # ps \<Rightarrow> (x # p) # ps))"

lemma Split_nonempty [simp]: "Split s c \<noteq> []"
  by (cases s) (auto split: list.splits)

lemma Split_absent: "c \<notin> set s \<Longrightarrow> Split s c = [s]"
  by (induction s) auto

lemma Split_pieces: "p \<in> set (Split s c) \<Longrightarrow> c \<notin> set p"
  by (induction s arbitrary: p) (auto split: if_splits list.splits)

fun Join :: "string list \<Rightarrow> char \<Rightarrow> string" where
  "Join [] c = []"
| "Join [p] c = p"
| "Join (p # q # ps) c = p @ c # Join (q # ps) c"

lemma Split_append: "c \<notin> set p \<Longrightarrow> Split (p @ c # s) c = p # Split s c"
  by (induction p) auto

lemma Split_Join: "ps \<noteq> [] \<Longrightarrow> \<forall>p\<in>set ps. c \<notin> set p \<Longrightarrow> Split (Join ps c) c = ps"
  by (induction ps c rule: Join.induct) (simp_all add: Split_absent Split_append)

lemma Join_Split: "Join (Split s c) c = s"
proof (induction s)
  case (Cons x s)
  then show ?case by (cases "Split s c" rule: list.exhaust; cases "tl (Split s c)") auto
qed simp

text \<open>\<open>strings.Contains\<close>.\<close>

definition strings_Contains :: "string \<Rightarrow> string \<Rightarrow> bool" where
  "strings_Contains s t \<longleftrightarrow> sublist t s"

text \<open>\<open>strings.TrimSpace\<close> on UTF-8: the bytes of each white space rune of Unicode.\<close>

definition space_runes :: "string list" where
  "space_runes =
     map (map char_of)
      ([[9], [10], [11], [12], [13], [32], [194, 133], [194, 160], [225, 154, 128],
       [226, 128, 128], [226, 128, 129], [226, 128, 130], [226, 128, 131], [226, 128, 132],
       [226, 128, 133], [226, 128, 134], [226, 128, 135], [226, 128, 136], [226, 128, 137],
       [226, 128, 138], [226, 128, 168], [226, 128, 169], [226, 128, 175], [226, 129, 159],
       [227, 128, 128]] :: nat list list)"

lemma space_runes_nonempty: "p \<in> set space_runes \<Longrightarrow> p \<noteq> []"
  by (auto simp: space_runes_def)

function trim_front :: "string list \<Rightarrow> string \<Rightarrow> string" where
  "trim_front ps s =
     (case find (\<lambda>p. p \<noteq> [] \<and> prefix p s) ps of None \<Rightarrow> s | Some p \<Rightarrow> trim_front ps (drop (length p) s))"
  by pat_completeness auto
termination
  by (relation "measure (length \<circ> snd)") (auto simp: find_Some_iff prefix_def)

declare trim_front.simps [simp del]

definition TrimSpace :: "string \<Rightarrow> string" where
  "TrimSpace s = rev (trim_front (map rev space_runes) (rev (trim_front space_runes s)))"

lemma trim_front_none:
  "(\<forall>p\<in>set ps. p \<noteq> [] \<longrightarrow> \<not> prefix p s) \<Longrightarrow> trim_front ps s = s"
  by (subst trim_front.simps) (auto simp: find_Some_iff split: option.splits)

end
