(* ===== verification/Api_Types.thy ===== *)
theory Api_Types
  imports Go_Strings
begin

text \<open>
  The custom resources of \<open>api/v1\<close>: \<open>CIPool\<close> and \<open>CIResource\<close> with their specs, statuses,
  states and types (\<open>cipool_types.go\<close>, \<open>ciresource_types.go\<close>). The state and type names are
  Go string types, open to any value an object of the cluster may carry, so they are strings
  here. Field names that occur in several Go structs carry the struct's name as a prefix.
\<close>

section \<open>Object metadata\<close>

text \<open>The part of \<open>metav1.ObjectMeta\<close> the code reads or writes. A \<open>nil\<close> label map is
  \<^term>\<open>None\<close>; a missing deletion timestamp is \<^term>\<open>None\<close>.\<close>

record ObjectMeta =
  Name :: string
  Namespace :: string
  Labels :: "(string \<rightharpoonup> string) option"
  Finalizers :: "string list"
  DeletionTimestamp :: "Time option"
  ResourceVersion :: string

definition IsZero :: "Time option \<Rightarrow> bool" where [api_defs]:
  "IsZero t \<longleftrightarrow> (case t of None \<Rightarrow> True | Some n \<Rightarrow> n = 0)"

section \<open>Pools\<close>

type_synonym CIPoolState = string
type_synonym CIResourceType = string

definition StatePoolAvailable :: CIPoolState where [api_defs]: "StatePoolAvailable = ''available''"
definition StatePoolOffline :: CIPoolState where [api_defs]: "StatePoolOffline = ''offline''"

record CIPoolSpec =
  PSpec_Provider :: string
  PSpec_Priority :: int
  PSpec_Size :: int
  PSpec_ProviderInfo :: string
  PSpec_Timeout :: Duration
  PSpec_State :: CIPoolState
  PSpec_Type :: CIResourceType

record CIPoolStatus =
  PStatus_State :: CIPoolState
  PStatus_Size :: int
  PStatus_LastUpdated :: "Time option"

record CIPool =
  P_Meta :: ObjectMeta
  P_Spec :: CIPoolSpec
  P_Status :: CIPoolStatus

definition IsFallbackPool :: "CIPool \<Rightarrow> bool" where [api_defs]:
  "IsFallbackPool c \<longleftrightarrow> PSpec_Priority (P_Spec c) = -1"

abbreviation pool_name :: "CIPool \<Rightarrow> string" where "pool_name p \<equiv> Name (P_Meta p)"

section \<open>Resources\<close>

type_synonym CIResourceState = string

definition StateNone :: CIResourceState where [api_defs]: "StateNone = ''''"
definition StateProvisioning :: CIResourceState where [api_defs]: "StateProvisioning = ''provisioning''"
definition StateProvisioningWait :: CIResourceState where
  [api_defs]: "StateProvisioningWait = ''provisioning wait''"
definition StateAvailable :: CIResourceState where [api_defs]: "StateAvailable = ''available''"
definition StateInUse :: CIResourceState where [api_defs]: "StateInUse = ''in use''"
definition StateMaintenance :: CIResourceState where [api_defs]: "StateMaintenance = ''maintenance''"
definition StateCleaning :: CIResourceState where [api_defs]: "StateCleaning = ''cleaning''"
definition StateCleaningWait :: CIResourceState where [api_defs]: "StateCleaningWait = ''cleaning wait''"
definition StateDelete :: CIResourceState where [api_defs]: "StateDelete = ''delete''"
definition StateError :: CIResourceState where [api_defs]: "StateError = ''error''"

lemmas cir_state_names =
  StateNone_def StateProvisioning_def StateProvisioningWait_def StateAvailable_def StateInUse_def
  StateMaintenance_def StateCleaning_def StateCleaningWait_def StateDelete_def StateError_def

text \<open>The ten names are pairwise different, so the state machine's table has one entry each.\<close>

definition cir_states :: "CIResourceState list" where
  "cir_states =
     [StateNone, StateProvisioning, StateProvisioningWait, StateAvailable, StateInUse,
      StateMaintenance, StateCleaning, StateCleaningWait, StateDelete, StateError]"

lemma distinct_cir_states: "distinct cir_states"
  by (simp add: cir_states_def cir_state_names)

lemmas cir_states_neq [simp] =
  distinct_cir_states [unfolded cir_states_def distinct.simps list.set insert_iff empty_iff
    de_Morgan_disj simp_thms]
  distinct_cir_states [unfolded cir_states_def, folded distinct_rev
    [of "[StateNone, StateProvisioning, StateProvisioningWait, StateAvailable, StateInUse,
      StateMaintenance, StateCleaning, StateCleaningWait, StateDelete, StateError]"],
    unfolded rev.simps append.simps distinct.simps list.set insert_iff empty_iff
    de_Morgan_disj simp_thms]

definition EvictionLabel :: string where [api_defs]: "EvictionLabel = ''ofcir/eviction''"
definition OfcirFinalizer :: string where [api_defs]: "OfcirFinalizer = ''ofcir.openshift/finalizer''"

definition TypeCIHost :: CIResourceType where [api_defs]: "TypeCIHost = ''host''"
definition TypeCICluster :: CIResourceType where [api_defs]: "TypeCICluster = ''cluster''"

record CIResourceSpec =
  CSpec_PoolRef :: string
  CSpec_State :: CIResourceState
  CSpec_Extra :: string
  CSpec_Type :: CIResourceType

record CIResourceStatus =
  CStatus_ResourceId :: string
  CStatus_Address :: string
  CStatus_ProviderInfo :: string
  CStatus_Extra :: string
  CStatus_State :: CIResourceState
  CStatus_LastUpdated :: "Time option"

record CIResource =
  C_Meta :: ObjectMeta
  C_Spec :: CIResourceSpec
  C_Status :: CIResourceStatus

abbreviation cir_name :: "CIResource \<Rightarrow> string" where "cir_name c \<equiv> Name (C_Meta c)"
abbreviation cir_pool :: "CIResource \<Rightarrow> string" where "cir_pool c \<equiv> CSpec_PoolRef (C_Spec c)"
abbreviation spec_state :: "CIResource \<Rightarrow> CIResourceState" where
  "spec_state c \<equiv> CSpec_State (C_Spec c)"
abbreviation status_state :: "CIResource \<Rightarrow> CIResourceState" where
  "status_state c \<equiv> CStatus_State (C_Status c)"

text \<open>The single-field assignments of the code, \<open>cir.Spec.State = s\<close> and so on.\<close>

definition set_spec_state :: "CIResourceState \<Rightarrow> CIResource \<Rightarrow> CIResource" where
  "set_spec_state s c = c\<lparr>C_Spec := (C_Spec c)\<lparr>CSpec_State := s\<rparr>\<rparr>"

definition set_status_state :: "CIResourceState \<Rightarrow> CIResource \<Rightarrow> CIResource" where
  "set_status_state s c = c\<lparr>C_Status := (C_Status c)\<lparr>CStatus_State := s\<rparr>\<rparr>"

definition set_finalizers :: "string list \<Rightarrow> CIResource \<Rightarrow> CIResource" where
  "set_finalizers fs c = c\<lparr>C_Meta := (C_Meta c)\<lparr>Finalizers := fs\<rparr>\<rparr>"

lemma set_spec_state_sel [simp]:
  "C_Meta (set_spec_state s c) = C_Meta c"
  "C_Status (set_spec_state s c) = C_Status c"
  "C_Spec (set_spec_state s c) = (C_Spec c)\<lparr>CSpec_State := s\<rparr>"
  by (simp_all add: set_spec_state_def)

lemma set_status_state_sel [simp]:
  "C_Meta (set_status_state s c) = C_Meta c"
  "C_Spec (set_status_state s c) = C_Spec c"
  "C_Status (set_status_state s c) = (C_Status c)\<lparr>CStatus_State := s\<rparr>"
  by (simp_all add: set_status_state_def)

lemma set_finalizers_sel [simp]:
  "C_Status (set_finalizers fs c) = C_Status c"
  "C_Spec (set_finalizers fs c) = C_Spec c"
  "C_Meta (set_finalizers fs c) = (C_Meta c)\<lparr>Finalizers := fs\<rparr>"
  by (simp_all add: set_finalizers_def)

end
