(* ===== verification/Provider.thy ===== *)
theory Provider
  imports Api_Types
begin

text \<open>
  The provider interface of \<open>pkg/providers/provider.go\<close> and the error of
  \<open>pkg/providers/errors.go\<close>. A value of the Go interface is a record of functions over the
  provider's world \<open>'w\<close> (the cloud behind it and the package's variables); each may panic.
  The locale \<open>provider_keeps\<close> says that the operations keep an invariant of the world, \<open>provider\<close>
  adds what the state machine relies on, \<open>total_provider\<close> that no operation panics; every
  provider theory interprets them on its own model.
\<close>

section \<open>Resources and the interface\<close>

record Resource =
  Id :: string
  Address :: string
  Metadata :: string

text \<open>The zero value \<open>Resource{}\<close>.\<close>

definition Resource0 :: Resource where
  "Resource0 = \<lparr>Id = '''', Address = '''', Metadata = ''''\<rparr>"

record 'w Provider =
  Acquire :: "int \<Rightarrow> string \<Rightarrow> string \<Rightarrow> ('w, Resource \<times> error option) go"
  AcquireCompleted :: "string \<Rightarrow> ('w, bool \<times> Resource \<times> error option) go"
  Clean :: "string \<Rightarrow> ('w, error option) go"
  CleanCompleted :: "string \<Rightarrow> ('w, bool \<times> error option) go"
  Release :: "string \<Rightarrow> ('w, error option) go"

definition NewResourceNotFoundError :: "string \<Rightarrow> error" where
  "NewResourceNotFoundError i = ResourceNotFoundError i"

lemma NewResourceNotFoundError_As [simp]:
  "errors_As_ResourceNotFound (NewResourceNotFoundError i)"
  by (simp add: NewResourceNotFoundError_def)

section \<open>The contract\<close>

locale provider_keeps =
  fixes P :: "'w Provider"
    and inv :: "'w \<Rightarrow> bool"
  assumes inv_Acquire: "\<And>r. inv w \<Longrightarrow> Acquire P n pn pt w = Some (r, w') \<Longrightarrow> inv w'"
    and inv_AcquireCompleted: "\<And>r. inv w \<Longrightarrow> AcquireCompleted P i w = Some (r, w') \<Longrightarrow> inv w'"
    and inv_Clean: "\<And>r. inv w \<Longrightarrow> Clean P i w = Some (r, w') \<Longrightarrow> inv w'"
    and inv_CleanCompleted: "\<And>r. inv w \<Longrightarrow> CleanCompleted P i w = Some (r, w') \<Longrightarrow> inv w'"
    and inv_Release: "\<And>r. inv w \<Longrightarrow> Release P i w = Some (r, w') \<Longrightarrow> inv w'"
begin

lemmas inv_ops = inv_Acquire inv_AcquireCompleted inv_Clean inv_CleanCompleted inv_Release

end

locale provider = provider_keeps +
  assumes ready_id: "\<And>r. inv w \<Longrightarrow> AcquireCompleted P i w = Some ((True, r, e), w') \<Longrightarrow> e = None \<and> Id r = i"
    and cleaned_ok: "inv w \<Longrightarrow> CleanCompleted P i w = Some ((True, e), w') \<Longrightarrow> e = None"

locale total_provider = provider +
  assumes no_panic_Acquire: "inv w \<Longrightarrow> Acquire P n pn pt w \<noteq> None"
    and no_panic_AcquireCompleted: "inv w \<Longrightarrow> AcquireCompleted P i w \<noteq> None"
    and no_panic_Clean: "inv w \<Longrightarrow> Clean P i w \<noteq> None"
    and no_panic_CleanCompleted: "inv w \<Longrightarrow> CleanCompleted P i w \<noteq> None"
    and no_panic_Release: "inv w \<Longrightarrow> Release P i w \<noteq> None"
begin

lemmas no_panic =
  no_panic_Acquire no_panic_AcquireCompleted no_panic_Clean no_panic_CleanCompleted no_panic_Release

end

end
