(* ===== verification/Aws_Handler.thy ===== *)
theory Aws_Handler
  imports Provider
begin

text \<open>
  The first half of \<open>pkg/providers/aws.go\<close>: the handler over the EC2 client of one region
  (\<open>awsHandler\<close>) and the interface it implements (\<open>AWSHandlerInterface\<close>). The EC2 client and
  the SDK's configuration loader are code of libraries, hence arguments. Pointer results are
  options. The locale \<open>aws_handler\<close> is what the provider relies on: a call returns a value or an
  error, never both or neither, and a region that was found is one of those asked about.
\<close>

section \<open>The EC2 client as the code calls it\<close>

record BlockDeviceSpec =
  DeviceName :: string
  DeviceSize :: int
  DeviceType :: string

record RunInstancesInput =
  RI_ImageId :: string
  RI_InstanceType :: string
  RI_KeyName :: string
  RI_MinCount :: int
  RI_MaxCount :: int
  RI_SecurityGroupIds :: "string list"
  RI_Device :: BlockDeviceSpec
  RI_DeleteOnTermination :: bool
  RI_InstanceTags :: "(string \<times> string) list"
  RI_UserData :: "string option"
  RI_SubnetId :: "string option"

record DescribeInstancesInput =
  DI_InstanceIds :: "string list"
  DI_Filters :: "(string \<times> string list) list"

record Ec2Instance =
  InstanceId :: "string option"
  InstanceStateName :: "string option"
  PublicIpAddress :: "string option"

record 'w EC2Client =
  RunInstances :: "RunInstancesInput \<Rightarrow> ('w, Ec2Instance list \<times> error option) call"
  TerminateInstances :: "string list \<Rightarrow> ('w, error option) call"
  DescribeInstances :: "DescribeInstancesInput \<Rightarrow> ('w, Ec2Instance list list \<times> error option) call"

type_synonym credentials = "string \<times> string"

text \<open>\<open>GetEC2Client\<close> of \<open>AWSClientsBuilder\<close>, over the SDK's \<open>LoadDefaultConfig\<close> and
  \<open>NewFromConfig\<close>.\<close>

definition GetEC2Client ::
  "(credentials \<Rightarrow> string \<Rightarrow> ('w, error + 'cfg) call) \<Rightarrow> ('cfg \<Rightarrow> 'w EC2Client)
   \<Rightarrow> string \<Rightarrow> credentials \<Rightarrow> ('w, error + 'w EC2Client) call" where
  "GetEC2Client loadDefaultConfig newFromConfig region creds w =
     (case loadDefaultConfig creds region w of
        (Inl err, w) \<Rightarrow> (Inl err, w)
      | (Inr cfg, w) \<Rightarrow> (Inr (newFromConfig cfg), w))"

section \<open>The handler of one region\<close>

definition MinInstanceCount :: int where "MinInstanceCount = 1"
definition MaxInstanceCount :: int where "MaxInstanceCount = 1"
definition PoolNameFilter :: string where "PoolNameFilter = ''tag:cipool''"
definition InstanceStateFilterName :: string where "InstanceStateFilterName = ''instance-state-name''"
definition RunningState :: string where "RunningState = ''running''"

record RunInstanceParams =
  Run_Region :: string
  Run_InstanceType :: string
  Run_AMI :: string
  Run_KeyPair :: string
  Run_SecurityGroupID :: string
  Run_SubnetIDs :: "string list"
  Run_UserData :: string
  Run_PoolName :: string
  Run_Device :: BlockDeviceSpec

record InstanceIdentifier =
  II_Region :: string
  II_InstanceID :: string

record FindRegionParams =
  Find_InstanceID :: string
  Find_PossibleRegions :: "string list"

record PoolFilterParams =
  Filter_Region :: string
  Filter_PoolName :: string

record 'w AWSHandlerInterface =
  RunInstanceInRegion :: "RunInstanceParams \<Rightarrow> ('w, string option \<times> error option) call"
  ReleaseInstanceInRegion :: "InstanceIdentifier \<Rightarrow> ('w, error option) call"
  FindInstanceRegion :: "FindRegionParams \<Rightarrow> ('w, string option \<times> error option) call"
  GetTotalAmountOfPoolInstancesInRegion :: "PoolFilterParams \<Rightarrow> ('w, int option \<times> error option) call"
  IsInstanceInRegionActive :: "InstanceIdentifier \<Rightarrow> ('w, bool option \<times> error option) call"
  GetInstanceInRegionPublicIP :: "InstanceIdentifier \<Rightarrow> ('w, string option \<times> error option) call"

record 'w awsHandler =
  staticCredentials :: credentials
  clientsBuilder :: "string \<Rightarrow> credentials \<Rightarrow> ('w, error + 'w EC2Client) call"

definition NewAWSHandler ::
  "(string \<Rightarrow> credentials \<Rightarrow> ('w, error + 'w EC2Client) call) \<Rightarrow> string \<Rightarrow> string
   \<Rightarrow> error + 'w awsHandler" where
  "NewAWSHandler builder awsAccessKey awsSecretAccessKey =
     (if awsAccessKey = '''' \<or> awsSecretAccessKey = ''''
      then Inl (ErrorString ''AWS access key and secret access key are required'')
      else Inr \<lparr>staticCredentials = (awsAccessKey, awsSecretAccessKey), clientsBuilder = builder\<rparr>)"

definition client_error :: "string \<Rightarrow> error \<Rightarrow> error" where
  "client_error region err = WrapError (''failed to create EC2 client for region '' @ region @ '': '') err"

definition run_base_input :: "RunInstanceParams \<Rightarrow> RunInstancesInput" where
  "run_base_input params =
     \<lparr>RI_ImageId = Run_AMI params, RI_InstanceType = Run_InstanceType params,
      RI_KeyName = Run_KeyPair params, RI_MinCount = MinInstanceCount, RI_MaxCount = MaxInstanceCount,
      RI_SecurityGroupIds = [Run_SecurityGroupID params], RI_Device = Run_Device params,
      RI_DeleteOnTermination = True, RI_InstanceTags = [(''cipool'', Run_PoolName params)],
      RI_UserData = (if Run_UserData params \<noteq> '''' then Some (Run_UserData params) else None),
      RI_SubnetId = None\<rparr>"

definition subnet_error :: "string \<Rightarrow> error \<Rightarrow> error" where
  "subnet_error subnetID err = WrapError (''subnet '' @ subnetID @ '': '') err"

text \<open>The loop over the subnets: the identifier returned from inside it, or the errors the
  attempts left behind.\<close>

fun try_subnets ::
  "'w EC2Client \<Rightarrow> RunInstancesInput \<Rightarrow> string list \<Rightarrow> error list \<Rightarrow> ('w, error list + string) call" where
  "try_subnets client baseInput [] attemptErrors w = (Inl attemptErrors, w)"
| "try_subnets client baseInput (subnetID # subnets) attemptErrors w =
     (case RunInstances client (baseInput\<lparr>RI_SubnetId := Some subnetID\<rparr>) w of
        ((output, Some runErr), w) \<Rightarrow>
          try_subnets client baseInput subnets (attemptErrors @ [subnet_error subnetID runErr]) w
      | ((output, None), w) \<Rightarrow>
          (case output of
             i # _ \<Rightarrow>
               (case InstanceId i of
                  Some iid \<Rightarrow> (Inr iid, w)
                | None \<Rightarrow> (Inl (attemptErrors @ [subnet_error subnetID (ErrorString ''no instance ID returned'')]), w))
           | [] \<Rightarrow> (Inl (attemptErrors @ [subnet_error subnetID (ErrorString ''no instance ID returned'')]), w)))"

definition show_device :: "BlockDeviceSpec \<Rightarrow> string" where
  "show_device d = ''{DeviceName:'' @ DeviceName d @ '' DeviceSize:'' @ Itoa (DeviceSize d) @
     '' DeviceType:'' @ DeviceType d @ ''}''"

text \<open>\<open>errors.Join\<close> of no error is nil, which \<open>%w\<close> prints as such.\<close>

definition run_error :: "RunInstanceParams \<Rightarrow> error list \<Rightarrow> error" where
  "run_error params attemptErrors =
     (let m = ''failed running instance '' @ Run_InstanceType params @ '' with ami ID '' @ Run_AMI params @
        '' in region '' @ Run_Region params @ '' with keypair name '' @ Run_KeyPair params @
        '', security group '' @ Run_SecurityGroupID params @ '', attempted subnets ['' @
        Join (Run_SubnetIDs params) (CHR '' '') @ ''] and block devices '' @ show_device (Run_Device params) @ '': ''
      in if attemptErrors = [] then ErrorString (m @ ''%!w(<nil>)'') else WrapError m (JoinError attemptErrors))"

definition aws_RunInstanceInRegion ::
  "'w awsHandler \<Rightarrow> RunInstanceParams \<Rightarrow> ('w, string option \<times> error option) call" where
  "aws_RunInstanceInRegion h params w =
     (case clientsBuilder h (Run_Region params) (staticCredentials h) w of
        (Inl err, w) \<Rightarrow> ((None, Some (client_error (Run_Region params) err)), w)
      | (Inr client, w) \<Rightarrow>
          (case try_subnets client (run_base_input params) (Run_SubnetIDs params) [] w of
             (Inr iid, w) \<Rightarrow> ((Some iid, None), w)
           | (Inl attemptErrors, w) \<Rightarrow> ((None, Some (run_error params attemptErrors)), w)))"

definition aws_ReleaseInstanceInRegion ::
  "'w awsHandler \<Rightarrow> InstanceIdentifier \<Rightarrow> ('w, error option) call" where
  "aws_ReleaseInstanceInRegion h ii w =
     (case clientsBuilder h (II_Region ii) (staticCredentials h) w of
        (Inl err, w) \<Rightarrow> (Some (client_error (II_Region ii) err), w)
      | (Inr client, w) \<Rightarrow>
          (case TerminateInstances client [II_InstanceID ii] w of
             (Some err, w) \<Rightarrow>
               (Some (WrapError (''failed to terminate instance '' @ II_InstanceID ii @ '' in region '' @
                  II_Region ii @ '': '') err), w)
           | (None, w) \<Rightarrow> (None, w)))"

definition by_instance_id :: "string \<Rightarrow> DescribeInstancesInput" where
  "by_instance_id i = \<lparr>DI_InstanceIds = [i], DI_Filters = []\<rparr>"

definition some_instance :: "Ec2Instance list list \<Rightarrow> Ec2Instance option" where
  "some_instance reservations =
     (case reservations of (i # _) # _ \<Rightarrow> Some i | _ \<Rightarrow> None)"

definition is_notfound_code :: "error \<Rightarrow> bool" where
  "is_notfound_code err \<longleftrightarrow>
     (case errors_As_APIError err of Some code \<Rightarrow> strings_Contains code ''NotFound'' | None \<Rightarrow> False)"

fun aws_find_region ::
  "'w awsHandler \<Rightarrow> string \<Rightarrow> string list \<Rightarrow> ('w, string option \<times> error option) call" where
  "aws_find_region h i [] w =
     ((None, Some (ErrorString (''instance '' @ i @ '' not found in any region''))), w)"
| "aws_find_region h i (region # regions) w =
     (case clientsBuilder h region (staticCredentials h) w of
        (Inl err, w) \<Rightarrow> aws_find_region h i regions w
      | (Inr client, w) \<Rightarrow>
          (case DescribeInstances client (by_instance_id i) w of
             ((output, Some err), w) \<Rightarrow>
               (if is_notfound_code err then aws_find_region h i regions w
                else ((None, Some (WrapError (''failed describing instances in region '' @ region @ '': '') err)), w))
           | ((output, None), w) \<Rightarrow>
               (if some_instance output \<noteq> None then ((Some region, None), w)
                else aws_find_region h i regions w)))"

definition aws_FindInstanceRegion ::
  "'w awsHandler \<Rightarrow> FindRegionParams \<Rightarrow> ('w, string option \<times> error option) call" where
  "aws_FindInstanceRegion h params = aws_find_region h (Find_InstanceID params) (Find_PossibleRegions params)"

definition aws_GetTotalAmountOfPoolInstancesInRegion ::
  "'w awsHandler \<Rightarrow> PoolFilterParams \<Rightarrow> ('w, int option \<times> error option) call" where
  "aws_GetTotalAmountOfPoolInstancesInRegion h params w =
     (case clientsBuilder h (Filter_Region params) (staticCredentials h) w of
        (Inl err, w) \<Rightarrow> ((None, Some (client_error (Filter_Region params) err)), w)
      | (Inr client, w) \<Rightarrow>
          (case DescribeInstances client
                  \<lparr>DI_InstanceIds = [],
                   DI_Filters = [(PoolNameFilter, [Filter_PoolName params]),
                                 (InstanceStateFilterName, [RunningState])]\<rparr> w of
             ((out, Some err), w) \<Rightarrow>
               ((None, Some (WrapError (''failed listing all running instances from pool '' @
                   Filter_PoolName params @ '' in '' @ Filter_Region params @ '': '') err)), w)
           | ((out, None), w) \<Rightarrow>
               ((Some (foldl (\<lambda>total res. total + int (length res)) 0 out), None), w)))"

definition describe_one ::
  "'w awsHandler \<Rightarrow> InstanceIdentifier \<Rightarrow> ('w, error + Ec2Instance) call" where
  "describe_one h ii w =
     (case clientsBuilder h (II_Region ii) (staticCredentials h) w of
        (Inl err, w) \<Rightarrow> (Inl (client_error (II_Region ii) err), w)
      | (Inr client, w) \<Rightarrow>
          (case DescribeInstances client (by_instance_id (II_InstanceID ii)) w of
             ((out, Some err), w) \<Rightarrow>
               (Inl (WrapError (''failed describing instance '' @ II_InstanceID ii @ '' in region '' @
                  II_Region ii @ '': '') err), w)
           | ((out, None), w) \<Rightarrow>
               (case some_instance out of
                  None \<Rightarrow> (Inl (ErrorString (''instance '' @ II_InstanceID ii @ '' in region '' @
                             II_Region ii @ '' doesn't exist'')), w)
                | Some i \<Rightarrow> (Inr i, w))))"

definition aws_IsInstanceInRegionActive ::
  "'w awsHandler \<Rightarrow> InstanceIdentifier \<Rightarrow> ('w, bool option \<times> error option) call" where
  "aws_IsInstanceInRegionActive h ii w =
     (case describe_one h ii w of
        (Inl err, w) \<Rightarrow> ((None, Some err), w)
      | (Inr i, w) \<Rightarrow>
          (case InstanceStateName i of
             None \<Rightarrow> ((None, Some (ErrorString (''instance '' @ II_InstanceID ii @ '' in region '' @
                        II_Region ii @ '' doesn't have a state''))), w)
           | Some s \<Rightarrow> ((Some (s = RunningState), None), w)))"

definition aws_GetInstanceInRegionPublicIP ::
  "'w awsHandler \<Rightarrow> InstanceIdentifier \<Rightarrow> ('w, string option \<times> error option) call" where
  "aws_GetInstanceInRegionPublicIP h ii w =
     (case describe_one h ii w of
        (Inl err, w) \<Rightarrow> ((None, Some err), w)
      | (Inr i, w) \<Rightarrow>
          (case PublicIpAddress i of
             None \<Rightarrow> ((None, Some (ErrorString (''instance '' @ II_InstanceID ii @ '' in region '' @
                        II_Region ii @ '' doesn't have public IP address''))), w)
           | Some ip \<Rightarrow> ((Some ip, None), w)))"

definition awsHandlerImpl :: "'w awsHandler \<Rightarrow> 'w AWSHandlerInterface" where
  "awsHandlerImpl h =
     \<lparr>RunInstanceInRegion = aws_RunInstanceInRegion h,
      ReleaseInstanceInRegion = aws_ReleaseInstanceInRegion h,
      FindInstanceRegion = aws_FindInstanceRegion h,
      GetTotalAmountOfPoolInstancesInRegion = aws_GetTotalAmountOfPoolInstancesInRegion h,
      IsInstanceInRegionActive = aws_IsInstanceInRegionActive h,
      GetInstanceInRegionPublicIP = aws_GetInstanceInRegionPublicIP h\<rparr>"

lemma awsHandlerImpl_sel [simp]:
  "RunInstanceInRegion (awsHandlerImpl h) = aws_RunInstanceInRegion h"
  "ReleaseInstanceInRegion (awsHandlerImpl h) = aws_ReleaseInstanceInRegion h"
  "FindInstanceRegion (awsHandlerImpl h) = aws_FindInstanceRegion h"
  "GetTotalAmountOfPoolInstancesInRegion (awsHandlerImpl h) = aws_GetTotalAmountOfPoolInstancesInRegion h"
  "IsInstanceInRegionActive (awsHandlerImpl h) = aws_IsInstanceInRegionActive h"
  "GetInstanceInRegionPublicIP (awsHandlerImpl h) = aws_GetInstanceInRegionPublicIP h"
  by (simp_all add: awsHandlerImpl_def)

section \<open>The interface's contract\<close>

locale aws_handler =
  fixes H :: "'w AWSHandlerInterface"
  assumes run_result: "\<And>v e. RunInstanceInRegion H p w = ((v, e), w') \<Longrightarrow> v = None \<longleftrightarrow> e \<noteq> None"
    and find_result: "\<And>v e. FindInstanceRegion H q w = ((v, e), w') \<Longrightarrow>
           (case v of None \<Rightarrow> e \<noteq> None | Some r \<Rightarrow> e = None \<and> r \<in> set (Find_PossibleRegions q))"
    and total_result: "\<And>v e. GetTotalAmountOfPoolInstancesInRegion H f w = ((v, e), w') \<Longrightarrow>
           (case v of None \<Rightarrow> e \<noteq> None | Some n \<Rightarrow> e = None \<and> 0 \<le> n)"
    and active_result: "\<And>v e. IsInstanceInRegionActive H ii w = ((v, e), w') \<Longrightarrow> v = None \<longleftrightarrow> e \<noteq> None"
    and ip_result: "\<And>v e. GetInstanceInRegionPublicIP H ii w = ((v, e), w') \<Longrightarrow> v = None \<longleftrightarrow> e \<noteq> None"

lemma aws_find_region_result:
  "aws_find_region h i regions w = ((v, e), w') \<Longrightarrow>
     (case v of None \<Rightarrow> e \<noteq> None | Some r \<Rightarrow> e = None \<and> r \<in> set regions)"
proof (induction regions arbitrary: w)
  case (Cons r rs)
  then consider w1 where "aws_find_region h i rs w1 = ((v, e), w')" | "v = Some r" "e = None"
    | "v = None" "e \<noteq> None"
    by (auto split: prod.splits sum.splits option.splits if_splits)
  then show ?case
  proof cases
    case 1
    then show ?thesis using Cons.IH [OF 1] by (auto split: option.splits)
  qed auto
qed auto

lemma foldl_lengths_nonneg: "0 \<le> n \<Longrightarrow> (0::int) \<le> foldl (\<lambda>t r. t + int (length r)) n rs"
  by (induction rs arbitrary: n) auto

interpretation awsImpl: aws_handler "awsHandlerImpl h" for h
proof (unfold_locales, goal_cases)
  case (2 q w w' v e)
  then show ?case using aws_find_region_result by (auto simp: aws_FindInstanceRegion_def)
qed (auto simp: aws_RunInstanceInRegion_def aws_GetTotalAmountOfPoolInstancesInRegion_def
      aws_IsInstanceInRegionActive_def aws_GetInstanceInRegionPublicIP_def
      split: prod.splits sum.splits option.splits intro: foldl_lengths_nonneg
      dest: sym [where s = "Some _"])

end
