(* ===== verification/Aws_Provider.thy ===== *)
theory Aws_Provider
  imports Aws_Handler
begin

text \<open>
  The second half of \<open>pkg/providers/aws.go\<close>: the configuration, its defaults, the factory and
  the provider's operations over the handler interface. \<open>json.Unmarshal\<close> of the secret is an
  argument (\<open>unmarshal\<close>, from the text and the defaults to the configuration and an error). The
  pointer \<open>MachineSpec\<close> is nil when the JSON says \<open>null\<close>; the operations that dereference it
  then panic.
\<close>

section \<open>Configuration\<close>

definition defaultInstanceType :: string where "defaultInstanceType = ''c5n.metal''"
definition defaultAMI :: string where "defaultAMI = ''ami-0a73e96a849c232cc''"
definition defaultRegion :: string where "defaultRegion = ''us-east-1''"
definition defaultDeviceName :: string where "defaultDeviceName = ''/dev/xvda''"
definition defaultDeviceSize :: int where "defaultDeviceSize = 1024"
definition defaultDeviceType :: string where "defaultDeviceType = ''gp2''"

record InstanceSpec =
  Inst_Type :: string
  Inst_AMIID :: string

record RegionSpec =
  Region_Name :: string
  Region_KeyPairName :: string
  Region_SecurityGroupID :: string
  Region_SubnetID :: string
  Region_SubnetIDs :: "string list"
  Region_Instances :: "InstanceSpec list"

record MachineSpec =
  Regions :: "RegionSpec list"
  Device :: BlockDeviceSpec

record awsProviderConfig =
  AccessKey :: string
  SecretAccessKey :: string
  UserData :: string
  MachineSpec_ptr :: "MachineSpec option"

definition aws_default_config :: awsProviderConfig where
  "aws_default_config =
     \<lparr>AccessKey = '''', SecretAccessKey = '''', UserData = '''',
      MachineSpec_ptr = Some
        \<lparr>Regions =
           [\<lparr>Region_Name = defaultRegion, Region_KeyPairName = '''', Region_SecurityGroupID = '''',
             Region_SubnetID = '''', Region_SubnetIDs = [],
             Region_Instances = [\<lparr>Inst_Type = defaultInstanceType, Inst_AMIID = defaultAMI\<rparr>]\<rparr>],
         Device = \<lparr>DeviceName = defaultDeviceName, DeviceSize = defaultDeviceSize,
                   DeviceType = defaultDeviceType\<rparr>\<rparr>\<rparr>"

section \<open>Operations\<close>

definition FromPtr :: "'a \<Rightarrow> 'a option \<Rightarrow> 'a" where
  "FromPtr zero p = (case p of None \<Rightarrow> zero | Some a \<Rightarrow> a)"

lemma FromPtr_simps [simp]: "FromPtr z None = z" "FromPtr z (Some a) = a"
  by (simp_all add: FromPtr_def)

fun count_regions ::
  "'w AWSHandlerInterface \<Rightarrow> string \<Rightarrow> RegionSpec list \<Rightarrow> int \<Rightarrow> ('w, int \<times> error option) call" where
  "count_regions H poolName [] tot w = ((tot, None), w)"
| "count_regions H poolName (r # rs) tot w =
     (case GetTotalAmountOfPoolInstancesInRegion H
             \<lparr>Filter_Region = Region_Name r, Filter_PoolName = poolName\<rparr> w of
        ((count, Some err), w) \<Rightarrow>
          ((tot, Some (WrapError (''failed counting the total amount of instances in pool '' @ poolName @
              '' in region '' @ Region_Name r @ '': '') err)), w)
      | ((count, None), w) \<Rightarrow> count_regions H poolName rs (tot + FromPtr 0 count) w)"

definition region_subnets :: "RegionSpec \<Rightarrow> string list" where
  "region_subnets r =
     (if Region_SubnetIDs r = [] \<and> Region_SubnetID r \<noteq> '''' then [Region_SubnetID r]
      else Region_SubnetIDs r)"

definition run_params ::
  "awsProviderConfig \<Rightarrow> MachineSpec \<Rightarrow> string \<Rightarrow> RegionSpec \<Rightarrow> InstanceSpec \<Rightarrow> RunInstanceParams" where
  "run_params cfg ms poolName r i =
     \<lparr>Run_Region = Region_Name r, Run_InstanceType = Inst_Type i, Run_AMI = Inst_AMIID i,
      Run_KeyPair = Region_KeyPairName r, Run_SecurityGroupID = Region_SecurityGroupID r,
      Run_SubnetIDs = region_subnets r, Run_UserData = UserData cfg, Run_PoolName = poolName,
      Run_Device = \<lparr>DeviceName = DeviceName (Device ms), DeviceSize = DeviceSize (Device ms),
                    DeviceType = DeviceType (Device ms)\<rparr>\<rparr>"

text \<open>The nested loops over regions and instance types, flattened to one list of pairs;
  \<^term>\<open>None\<close> when they end without a return.\<close>

fun try_instances ::
  "'w AWSHandlerInterface \<Rightarrow> awsProviderConfig \<Rightarrow> MachineSpec \<Rightarrow> string
   \<Rightarrow> (RegionSpec \<times> InstanceSpec) list \<Rightarrow> ('w, (Resource \<times> error option) option) call" where
  "try_instances H cfg ms poolName [] w = (None, w)"
| "try_instances H cfg ms poolName ((r, i) # ris) w =
     (if region_subnets r = []
      then (Some (Resource0, Some (ErrorString (''no subnet IDs provided for region '' @ Region_Name r))), w)
      else (case RunInstanceInRegion H (run_params cfg ms poolName r i) w of
              ((iid, Some err), w) \<Rightarrow> try_instances H cfg ms poolName ris w
            | ((iid, None), w) \<Rightarrow> (Some (Resource0\<lparr>Id := FromPtr '''' iid\<rparr>, None), w)))"

definition region_instances :: "RegionSpec list \<Rightarrow> (RegionSpec \<times> InstanceSpec) list" where
  "region_instances rs = concat (map (\<lambda>r. map (\<lambda>i. (r, i)) (Region_Instances r)) rs)"

definition aws_Acquire ::
  "'w AWSHandlerInterface \<Rightarrow> awsProviderConfig \<Rightarrow> int \<Rightarrow> string \<Rightarrow> string
   \<Rightarrow> ('w, Resource \<times> error option) go" where
  "aws_Acquire H cfg poolSize poolName poolType w =
     do {
       ms \<leftarrow> MachineSpec_ptr cfg;
       Some (case count_regions H poolName (Regions ms) 0 w of
           ((tot, Some err), w) \<Rightarrow> ((Resource0, Some err), w)
         | ((tot, None), w) \<Rightarrow>
             (if tot \<ge> poolSize
              then ((Resource0, Some (ErrorString (''refusing to create instance, already have '' @
                      Itoa tot @ '' and pool size is '' @ Itoa poolSize))), w)
              else (case try_instances H cfg ms poolName (region_instances (Regions ms)) w of
                      (Some result, w) \<Rightarrow> (result, w)
                    | (None, w) \<Rightarrow> ((Resource0, Some (ErrorString ''error creating instance'')), w))))
     }"

definition getSupportedRegions :: "awsProviderConfig \<Rightarrow> string list option" where
  "getSupportedRegions cfg = map_option (\<lambda>ms. map Region_Name (Regions ms)) (MachineSpec_ptr cfg)"

definition aws_AcquireCompleted ::
  "'w AWSHandlerInterface \<Rightarrow> awsProviderConfig \<Rightarrow> string \<Rightarrow> ('w, bool \<times> Resource \<times> error option) go" where
  "aws_AcquireCompleted H cfg i w =
     do {
       regions \<leftarrow> getSupportedRegions cfg;
       let res = Resource0\<lparr>Id := i\<rparr>;
       Some (case FindInstanceRegion H \<lparr>Find_InstanceID = i, Find_PossibleRegions = regions\<rparr> w of
           ((region, Some err), w) \<Rightarrow> ((False, res, Some (WrapError ''error finding instance: '' err)), w)
         | ((region, None), w) \<Rightarrow>
             (case IsInstanceInRegionActive H \<lparr>II_Region = FromPtr '''' region, II_InstanceID = i\<rparr> w of
                ((isRunning, Some err), w) \<Rightarrow>
                  ((False, res, Some (WrapError ''error checking if instance is active: '' err)), w)
              | ((isRunning, None), w) \<Rightarrow>
                  (if \<not> FromPtr False isRunning then ((False, res, None), w)
                   else (case GetInstanceInRegionPublicIP H
                                 \<lparr>II_Region = FromPtr '''' region, II_InstanceID = i\<rparr> w of
                           ((ip, Some err), w) \<Rightarrow>
                             ((False, res, Some (WrapError ''error checking if instance public IP: '' err)), w)
                         | ((ip, None), w) \<Rightarrow> ((True, res\<lparr>Address := FromPtr '''' ip\<rparr>, None), w)))))
     }"

definition aws_Clean :: "string \<Rightarrow> ('w, error option) go" where
  "aws_Clean i w = Some (None, w)"

definition aws_CleanCompleted :: "string \<Rightarrow> ('w, bool \<times> error option) go" where
  "aws_CleanCompleted i w = Some ((True, None), w)"

definition aws_Release ::
  "'w AWSHandlerInterface \<Rightarrow> awsProviderConfig \<Rightarrow> string \<Rightarrow> ('w, error option) go" where
  "aws_Release H cfg i w =
     do {
       regions \<leftarrow> getSupportedRegions cfg;
       Some (case FindInstanceRegion H \<lparr>Find_InstanceID = i, Find_PossibleRegions = regions\<rparr> w of
           ((region, Some err), w) \<Rightarrow> (Some (WrapError ''error finding instance for release: '' err), w)
         | ((region, None), w) \<Rightarrow>
             (case ReleaseInstanceInRegion H \<lparr>II_Region = FromPtr '''' region, II_InstanceID = i\<rparr> w of
                (Some err, w) \<Rightarrow> (Some (WrapError ''error releasing instance: '' err), w)
              | (None, w) \<Rightarrow> (None, w)))
     }"

definition awsProvider :: "'w AWSHandlerInterface \<Rightarrow> awsProviderConfig \<Rightarrow> 'w Provider" where
  "awsProvider H cfg =
     \<lparr>Acquire = aws_Acquire H cfg, AcquireCompleted = aws_AcquireCompleted H cfg, Clean = aws_Clean,
      CleanCompleted = aws_CleanCompleted, Release = aws_Release H cfg\<rparr>"

definition AWSProviderFactory ::
  "(string \<Rightarrow> awsProviderConfig \<Rightarrow> awsProviderConfig \<times> error option)
   \<Rightarrow> (string \<Rightarrow> credentials \<Rightarrow> ('w, error + 'w EC2Client) call)
   \<Rightarrow> string \<Rightarrow> (string \<rightharpoonup> string) \<Rightarrow> error + 'w Provider" where
  "AWSProviderFactory unmarshal builder providerInfo secretData =
     (let (config, err) =
            (case secretData ''config'' of
               Some configJson \<Rightarrow> unmarshal configJson aws_default_config
             | None \<Rightarrow> (aws_default_config, None))
      in (case err of
            Some e \<Rightarrow> Inl (WrapError ''error in provider config json: '' e)
          | None \<Rightarrow>
              (case NewAWSHandler builder (AccessKey config) (SecretAccessKey config) of
                 Inl e \<Rightarrow> Inl (WrapError ''failed creating AWS handler: '' e)
               | Inr handler \<Rightarrow> Inr (awsProvider (awsHandlerImpl handler) config))))"

lemma awsProvider_sel [simp]:
  "Acquire (awsProvider H cfg) = aws_Acquire H cfg"
  "AcquireCompleted (awsProvider H cfg) = aws_AcquireCompleted H cfg"
  "Clean (awsProvider H cfg) = aws_Clean"
  "CleanCompleted (awsProvider H cfg) = aws_CleanCompleted"
  "Release (awsProvider H cfg) = aws_Release H cfg"
  by (simp_all add: awsProvider_def)

lemmas aws_defs =
  aws_Acquire_def aws_AcquireCompleted_def aws_Clean_def aws_CleanCompleted_def aws_Release_def

section \<open>The provider contract\<close>

lemma aws_ready_id:
  "aws_AcquireCompleted H cfg i w = Some ((True, r, e), w') \<Longrightarrow> e = None \<and> Id r = i"
  by (cases "getSupportedRegions cfg")
    (auto simp: aws_AcquireCompleted_def Let_def Resource0_def
      split: prod.split_asm option.split_asm if_split_asm)

interpretation aws: provider "awsProvider H cfg" "\<lambda>w. True" for H cfg
  by unfold_locales (auto simp: aws_CleanCompleted_def dest: aws_ready_id)

text \<open>No operation panics once the configuration has a machine spec.\<close>

interpretation aws_total: total_provider "awsProvider H (cfg\<lparr>MachineSpec_ptr := Some ms\<rparr>)" "\<lambda>w. True"
  for H cfg ms
  by unfold_locales (simp_all add: aws_defs getSupportedRegions_def Let_def)

section \<open>What the operations do\<close>

text \<open>Over any handler that keeps its contract.\<close>

context aws_handler begin

lemma count_regions_nonneg:
  "count_regions H poolName rs n w = ((tot, None), w') \<Longrightarrow> 0 \<le> n \<Longrightarrow> n \<le> tot"
proof (induction rs arbitrary: n w)
  case (Cons r rs)
  obtain count e w1 where
    g: "GetTotalAmountOfPoolInstancesInRegion H \<lparr>Filter_Region = Region_Name r, Filter_PoolName = poolName\<rparr> w
          = ((count, e), w1)" by (metis prod.exhaust)
  with Cons.prems have e: "e = None" by (auto split: option.splits)
  with total_result [OF g] obtain c where "count = Some c" "0 \<le> c" by (auto split: option.splits)
  with g e Cons.prems Cons.IH [of "n + c" w1] show ?case by simp
qed simp

lemma try_instances_Some:
  "try_instances H cfg ms poolName ris w = (Some (r, None), w') \<Longrightarrow>
     \<exists>rs i w1. (rs, i) \<in> set ris \<and> region_subnets rs \<noteq> [] \<and>
       RunInstanceInRegion H (run_params cfg ms poolName rs i) w1 = ((Some (Id r), None), w')"
proof (induction ris arbitrary: w)
  case (Cons ri ris)
  obtain rs i where ri: "ri = (rs, i)" by (cases ri)
  obtain v e w1 where run: "RunInstanceInRegion H (run_params cfg ms poolName rs i) w = ((v, e), w1)"
    by (metis prod.exhaust)
  from Cons.prems ri have sub: "region_subnets rs \<noteq> []" by (auto split: if_splits)
  show ?case
  proof (cases e)
    case None
    with run_result [OF run] obtain x where "v = Some x" by auto
    with None run sub ri Cons.prems show ?thesis
      by (intro exI [of _ rs] exI [of _ i] exI [of _ w]) auto
  next
    case (Some x)
    with run sub ri Cons.prems have "try_instances H cfg ms poolName ris w1 = (Some (r, None), w')" by simp
    from Cons.IH [OF this] show ?thesis by auto
  qed
qed simp

text \<open>A resource that is ready was found in a configured region, runs, and has the address the
  handler gave.\<close>

lemma completed_ready:
  assumes "aws_AcquireCompleted H cfg i w = Some ((True, res, err), w')"
  shows "\<exists>ms region ip w1 w2. MachineSpec_ptr cfg = Some ms \<and> region \<in> Region_Name ` set (Regions ms) \<and>
           FindInstanceRegion H \<lparr>Find_InstanceID = i, Find_PossibleRegions = map Region_Name (Regions ms)\<rparr> w =
             ((Some region, None), w1) \<and>
           IsInstanceInRegionActive H \<lparr>II_Region = region, II_InstanceID = i\<rparr> w1 = ((Some True, None), w2) \<and>
           GetInstanceInRegionPublicIP H \<lparr>II_Region = region, II_InstanceID = i\<rparr> w2 = ((Some ip, None), w') \<and>
           err = None \<and> Id res = i \<and> Address res = ip"
proof -
  from assms obtain ms where ms: "MachineSpec_ptr cfg = Some ms"
    by (auto simp: aws_AcquireCompleted_def getSupportedRegions_def bind_eq_Some_conv)
  let ?q = "\<lparr>Find_InstanceID = i, Find_PossibleRegions = map Region_Name (Regions ms)\<rparr>"
  obtain v e w1 where find: "FindInstanceRegion H ?q w = ((v, e), w1)" by (metis prod.exhaust)
  with assms ms have "e = None"
    by (auto simp: aws_AcquireCompleted_def getSupportedRegions_def Let_def split: option.splits)
  with find_result [OF find] obtain region where region: "v = Some region" "region \<in> Region_Name ` set (Regions ms)"
    by (auto split: option.splits)
  let ?ii = "\<lparr>II_Region = region, II_InstanceID = i\<rparr>"
  obtain a e2 w2 where act: "IsInstanceInRegionActive H ?ii w1 = ((a, e2), w2)" by (metis prod.exhaust)
  with assms ms find \<open>e = None\<close> region have a: "e2 = None" "FromPtr False a"
    by (auto simp: aws_AcquireCompleted_def getSupportedRegions_def Let_def split: option.splits if_splits)
  with active_result [OF act] have "a = Some True" by auto
  obtain ip e3 w3 where ip: "GetInstanceInRegionPublicIP H ?ii w2 = ((ip, e3), w3)" by (metis prod.exhaust)
  with assms ms find \<open>e = None\<close> region act a have e3: "e3 = None" "w3 = w'" "err = None" "Id res = i"
      "Address res = FromPtr '''' ip"
    by (auto simp: aws_AcquireCompleted_def getSupportedRegions_def Let_def Resource0_def split: option.splits)
  with ip_result [OF ip] obtain x where "ip = Some x" by auto
  with ms region find \<open>e = None\<close> act ip a \<open>a = Some True\<close> e3 show ?thesis by auto
qed

end

end
