(* ===== verification/Aws_Log.thy ===== *)
theory Aws_Log
  imports Aws_Provider "HOL-Library.Sublist"
begin

text \<open>
  A log of the requests the AWS provider sends to EC2, each with the region it went to and its
  answer, kept beside the world of any handler. What an acquisition asked for, in which order, and
  which request its result came from are statements on the log of a run.
\<close>

section \<open>The log\<close>

datatype ec2_event =
    Ran string RunInstancesInput "Ec2Instance list \<times> error option"
  | Described string DescribeInstancesInput "Ec2Instance list list \<times> error option"
  | Terminated string "string list" "error option"

definition noting :: "('r \<Rightarrow> ec2_event) \<Rightarrow> ('w, 'r) call \<Rightarrow> (ec2_event list \<times> 'w, 'r) call" where
  "noting ev c = (\<lambda>(l, w). case c w of (r, w) \<Rightarrow> (r, l @ [ev r], w))"

lemma noting_apply [simp]: "noting ev c (l, w) = (case c w of (r, w) \<Rightarrow> (r, l @ [ev r], w))"
  by (simp add: noting_def)

definition log_client :: "string \<Rightarrow> 'w EC2Client \<Rightarrow> (ec2_event list \<times> 'w) EC2Client" where
  "log_client region c =
     \<lparr>RunInstances = \<lambda>i. noting (Ran region i) (RunInstances c i),
      TerminateInstances = \<lambda>is. noting (Terminated region is) (TerminateInstances c is),
      DescribeInstances = \<lambda>i. noting (Described region i) (DescribeInstances c i)\<rparr>"

lemma log_client_sel [simp]:
  "RunInstances (log_client region c) i = noting (Ran region i) (RunInstances c i)"
  "TerminateInstances (log_client region c) is = noting (Terminated region is) (TerminateInstances c is)"
  "DescribeInstances (log_client region c) d = noting (Described region d) (DescribeInstances c d)"
  by (simp_all add: log_client_def)

lemma map_sum_eq_Inr: "map_sum f g x = Inr y \<longleftrightarrow> (\<exists>z. x = Inr z \<and> y = g z)"
  by (cases x) auto

definition log_handler :: "'w awsHandler \<Rightarrow> (ec2_event list \<times> 'w) awsHandler" where
  "log_handler h =
     \<lparr>staticCredentials = staticCredentials h,
      clientsBuilder = \<lambda>region cred (l, w).
        case clientsBuilder h region cred w of (r, w) \<Rightarrow> (map_sum id (log_client region) r, l, w)\<rparr>"

lemma log_handler_sel [simp]:
  "staticCredentials (log_handler h) = staticCredentials h"
  "clientsBuilder (log_handler h) region cred (l, w) =
     (case clientsBuilder h region cred w of (r, w) \<Rightarrow> (map_sum id (log_client region) r, l, w))"
  by (simp_all add: log_handler_def)

text \<open>What was asked to be started, the instance a request started, and how many instances a
  description lists.\<close>

fun run_request :: "ec2_event \<Rightarrow> (string \<times> RunInstancesInput) option" where
  "run_request (Ran region i a) = Some (region, i)"
| "run_request e = None"

fun started_instance :: "ec2_event \<Rightarrow> string option" where
  "started_instance (Ran region i (inst # rest, None)) = InstanceId inst"
| "started_instance e = None"

fun listed :: "ec2_event \<Rightarrow> int" where
  "listed (Described region i (out, None)) = (\<Sum>reservation\<leftarrow>out. int (length reservation))"
| "listed e = 0"

section \<open>What an acquisition asks for\<close>

definition running_of_pool :: "string \<Rightarrow> DescribeInstancesInput" where
  "running_of_pool pool =
     \<lparr>DI_InstanceIds = [], DI_Filters = [(''tag:cipool'', [pool]), (''instance-state-name'', [''running''])]\<rparr>"

definition wanted_request ::
  "awsProviderConfig \<Rightarrow> MachineSpec \<Rightarrow> string \<Rightarrow> RegionSpec \<Rightarrow> InstanceSpec \<Rightarrow> string \<Rightarrow> RunInstancesInput" where
  "wanted_request cfg ms pool r i subnet =
     \<lparr>RI_ImageId = Inst_AMIID i, RI_InstanceType = Inst_Type i, RI_KeyName = Region_KeyPairName r,
      RI_MinCount = 1, RI_MaxCount = 1, RI_SecurityGroupIds = [Region_SecurityGroupID r], RI_Device = Device ms,
      RI_DeleteOnTermination = True, RI_InstanceTags = [(''cipool'', pool)],
      RI_UserData = (if UserData cfg = '''' then None else Some (UserData cfg)), RI_SubnetId = Some subnet\<rparr>"

text \<open>The requests of a configuration: every region with its instance types and its subnets, in
  order.\<close>

definition wanted_of ::
  "awsProviderConfig \<Rightarrow> MachineSpec \<Rightarrow> string \<Rightarrow> RegionSpec \<times> InstanceSpec \<Rightarrow> (string \<times> RunInstancesInput) list" where
  "wanted_of cfg ms pool = (\<lambda>(r, i). map (\<lambda>s. (Region_Name r, wanted_request cfg ms pool r i s)) (region_subnets r))"

definition wanted_requests ::
  "awsProviderConfig \<Rightarrow> MachineSpec \<Rightarrow> string \<Rightarrow> (string \<times> RunInstancesInput) list" where
  "wanted_requests cfg ms pool =
     concat (map (\<lambda>r. concat (map (\<lambda>i. wanted_of cfg ms pool (r, i)) (Region_Instances r))) (Regions ms))"

lemma concat_map_concat: "concat (map f (concat xss)) = concat (map (\<lambda>xs. concat (map f xs)) xss)"
  by (induction xss) simp_all

lemma wanted_region_instances:
  "wanted_requests cfg ms pool = concat (map (wanted_of cfg ms pool) (region_instances (Regions ms)))"
  by (simp add: wanted_requests_def region_instances_def concat_map_concat comp_def)

lemma run_base_wanted:
  "(run_base_input (run_params cfg ms pool r i))\<lparr>RI_SubnetId := Some s\<rparr> = wanted_request cfg ms pool r i s"
  by (simp add: run_base_input_def run_params_def wanted_request_def MinInstanceCount_def MaxInstanceCount_def)

text \<open>What a part of a run adds to the log: requests out of \<open>qs\<close> in their order, none of which
  started an instance but the last one when there is a result.\<close>

definition tried :: "(string \<times> RunInstancesInput) list \<Rightarrow> string option \<Rightarrow> ec2_event list \<Rightarrow> bool" where
  "tried qs result es \<longleftrightarrow>
     subseq (map run_request es) (map Some qs) \<and>
     (case result of
        None \<Rightarrow> \<forall>e\<in>set es. started_instance e = None
      | Some iid \<Rightarrow> es \<noteq> [] \<and> (\<forall>e\<in>set (butlast es). started_instance e = None) \<and> started_instance (last es) = Some iid)"

lemma tried_none: "tried qs None []"
  by (simp add: tried_def)

lemma tried_append:
  assumes "tried qs None es" and "tried rs result fs"
  shows "tried (qs @ rs) result (es @ fs)"
  using assms by (auto simp: tried_def butlast_append list_emb_append_mono split: option.splits)

lemma tried_prefix:
  assumes "tried qs result es"
  shows "tried (qs @ rs) result es"
  using assms by (auto simp: tried_def intro: subseq_order.trans)

lemma try_subnets_log:
  assumes "try_subnets (log_client region client) base subnets errs (l, w) = (r, l', w')"
  shows "\<exists>es. l' = l @ es \<and>
    tried (map (\<lambda>s. (region, base\<lparr>RI_SubnetId := Some s\<rparr>)) subnets) (case r of Inl e \<Rightarrow> None | Inr iid \<Rightarrow> Some iid) es"
  using assms
proof (induction subnets arbitrary: errs l w)
  case (Cons s ss)
  let ?q = "base\<lparr>RI_SubnetId := Some s\<rparr>"
  obtain out e w1 where run: "RunInstances client ?q w = ((out, e), w1)" by (metis prod.exhaust)
  let ?ev = "Ran region ?q (out, e)"
  show ?case
  proof (cases e)
    case (Some x)
    with run Cons.prems have "try_subnets (log_client region client) base ss (errs @ [subnet_error s x]) (l @ [?ev], w1) = (r, l', w')"
      by simp
    from Cons.IH [OF this] obtain es where es: "l' = (l @ [?ev]) @ es"
      "tried (map (\<lambda>s. (region, base\<lparr>RI_SubnetId := Some s\<rparr>)) ss) (case r of Inl e \<Rightarrow> None | Inr iid \<Rightarrow> Some iid) es" by blast
    moreover have "tried [(region, ?q)] None [?ev]" using Some by (simp add: tried_def)
    ultimately show ?thesis using tried_append [of "[(region, ?q)]" "[?ev]"] by (intro exI [of _ "?ev # es"]) simp
  next
    case None
    with run Cons.prems have "l' = l @ [?ev]"
        "r = (case started_instance ?ev of Some iid \<Rightarrow> Inr iid
           | None \<Rightarrow> Inl (errs @ [subnet_error s (ErrorString ''no instance ID returned'')]))"
      by (auto split: list.splits option.splits)
    then show ?thesis
      by (intro exI [of _ "[?ev]"]) (auto simp: tried_def split: option.split)
  qed
qed (auto simp: tried_none)

lemma RunInstance_log:
  assumes "aws_RunInstanceInRegion (log_handler h) (run_params cfg ms pool r i) (l, w) = ((v, e), l', w')"
  shows "\<exists>es. l' = l @ es \<and> tried (wanted_of cfg ms pool (r, i)) (if e = None then v else None) es \<and> (e = None \<longrightarrow> v \<noteq> None)"
proof -
  let ?p = "run_params cfg ms pool r i"
  obtain b w1 where b: "clientsBuilder h (Region_Name r) (staticCredentials h) w = (b, w1)" by (metis prod.exhaust)
  have sel: "Run_Region ?p = Region_Name r" "Run_SubnetIDs ?p = region_subnets r" by (simp_all add: run_params_def)
  show ?thesis
  proof (cases b)
    case (Inl x)
    with b assms show ?thesis
      using tried_prefix [OF tried_none, of "[]" "wanted_of cfg ms pool (r, i)"]
      by (auto simp: aws_RunInstanceInRegion_def sel)
  next
    case (Inr client)
    obtain x l1 w2 where t: "try_subnets (log_client (Region_Name r) client) (run_base_input ?p) (region_subnets r) [] (l, w1)
        = (x, l1, w2)" by (metis prod.exhaust)
    from try_subnets_log [OF t] obtain es where es: "l1 = l @ es"
      "tried (wanted_of cfg ms pool (r, i)) (case x of Inl e \<Rightarrow> None | Inr iid \<Rightarrow> Some iid) es"
      by (auto simp: wanted_of_def run_base_wanted)
    with t b Inr assms show ?thesis
      by (cases x) (auto simp: aws_RunInstanceInRegion_def sel)
  qed
qed

lemma try_instances_log:
  assumes "try_instances (awsHandlerImpl (log_handler h)) cfg ms pool ris (l, w) = (Some (res, None), l', w')"
  shows "\<exists>es. l' = l @ es \<and> tried (concat (map (wanted_of cfg ms pool) ris)) (Some (Id res)) es"
  using assms
proof (induction ris arbitrary: l w)
  case (Cons ri ris)
  obtain r i where ri: "ri = (r, i)" by (metis prod.exhaust)
  obtain v e l1 w1 where run: "aws_RunInstanceInRegion (log_handler h) (run_params cfg ms pool r i) (l, w) = ((v, e), l1, w1)"
    by (metis prod.exhaust)
  from RunInstance_log [OF run] obtain es where es: "l1 = l @ es"
    "tried (wanted_of cfg ms pool (r, i)) (if e = None then v else None) es" "e = None \<longrightarrow> v \<noteq> None" by blast
  show ?case
  proof (cases e)
    case None
    with es(3) obtain iid where v: "v = Some iid" by auto
    with None run ri Cons.prems have "Id res = iid" "l' = l1" by (auto split: if_split_asm)
    then show ?thesis using es None v ri tried_prefix by auto
  next
    case (Some x)
    with run ri Cons.prems have "try_instances (awsHandlerImpl (log_handler h)) cfg ms pool ris (l1, w1) = (Some (res, None), l', w')"
      by (auto split: if_split_asm)
    from Cons.IH [OF this] obtain fs where "l' = l1 @ fs" "tried (concat (map (wanted_of cfg ms pool) ris)) (Some (Id res)) fs"
      by blast
    then show ?thesis using es Some ri tried_append by (intro exI [of _ "es @ fs"]) simp
  qed
qed simp

lemma count_regions_log:
  assumes "count_regions (awsHandlerImpl (log_handler h)) pool rs n (l, w) = ((tot, None), l', w')"
  shows "\<exists>es. l' = l @ es \<and> tot = n + (\<Sum>e\<leftarrow>es. listed e) \<and>
    list_all2 (\<lambda>r e. \<exists>out. e = Described (Region_Name r) (running_of_pool pool) (out, None)) rs es"
  using assms
proof (induction rs arbitrary: n l w)
  case (Cons r rs)
  have total: "foldl (\<lambda>t res. t + int (length res)) k out = k + (\<Sum>res\<leftarrow>out. int (length res))" for k and out :: "Ec2Instance list list"
    by (induction out arbitrary: k) simp_all
  let ?f = "\<lparr>Filter_Region = Region_Name r, Filter_PoolName = pool\<rparr>"
  have q: "\<lparr>DI_InstanceIds = [], DI_Filters = [(PoolNameFilter, [pool]), (InstanceStateFilterName, [RunningState])]\<rparr> = running_of_pool pool"
    by (simp add: running_of_pool_def PoolNameFilter_def InstanceStateFilterName_def RunningState_def)
  obtain v x l1 w1 where g: "aws_GetTotalAmountOfPoolInstancesInRegion (log_handler h) ?f (l, w) = ((v, x), l1, w1)"
    by (metis prod.exhaust)
  from g Cons.prems have "x = None" by (auto split: option.splits)
  with g obtain out where out: "v = Some (\<Sum>res\<leftarrow>out. int (length res))"
      "l1 = l @ [Described (Region_Name r) (running_of_pool pool) (out, None)]"
    by (auto simp: aws_GetTotalAmountOfPoolInstancesInRegion_def q total map_sum_eq_Inr split: prod.split_asm sum.split_asm option.split_asm)
  with g \<open>x = None\<close> Cons.prems Cons.IH [of "n + (\<Sum>res\<leftarrow>out. int (length res))" l1 w1] obtain es where
    "l' = l1 @ es" "tot = n + (\<Sum>res\<leftarrow>out. int (length res)) + (\<Sum>e\<leftarrow>es. listed e)"
    "list_all2 (\<lambda>r e. \<exists>out. e = Described (Region_Name r) (running_of_pool pool) (out, None)) rs es" by auto
  with out show ?case by (intro exI [of _ "Described (Region_Name r) (running_of_pool pool) (out, None) # es"]) simp
qed simp

lemma aws_Acquire_log:
  assumes "aws_Acquire (awsHandlerImpl (log_handler h)) cfg poolSize pool t (l, w) = Some ((res, None), l', w')"
  shows "\<exists>ms counts tries. MachineSpec_ptr cfg = Some ms \<and> l' = l @ counts @ tries \<and>
    list_all2 (\<lambda>r e. \<exists>out. e = Described (Region_Name r) (running_of_pool pool) (out, None)) (Regions ms) counts \<and>
    (\<Sum>e\<leftarrow>counts. listed e) < poolSize \<and> tried (wanted_requests cfg ms pool) (Some (Id res)) tries"
proof -
  from assms obtain ms where ms: "MachineSpec_ptr cfg = Some ms" by (auto simp: aws_Acquire_def bind_eq_Some_conv)
  obtain tot e l1 w1 where cnt: "count_regions (awsHandlerImpl (log_handler h)) pool (Regions ms) 0 (l, w) = ((tot, e), l1, w1)"
    by (metis prod.exhaust)
  with assms ms have e: "e = None" "tot < poolSize" by (auto simp: aws_Acquire_def split: option.split_asm if_split_asm)
  obtain r l2 w2 where tr: "try_instances (awsHandlerImpl (log_handler h)) cfg ms pool (region_instances (Regions ms)) (l1, w1)
      = (r, l2, w2)" by (metis prod.exhaust)
  with assms ms cnt e have "r = Some (res, None)" "l2 = l'" by (auto simp: aws_Acquire_def split: option.split_asm)
  with tr try_instances_log [of h cfg ms pool "region_instances (Regions ms)" l1 w1 res l' w2] obtain tries where
    "l' = l1 @ tries" "tried (wanted_requests cfg ms pool) (Some (Id res)) tries" by (auto simp: wanted_region_instances)
  with count_regions_log [OF cnt [unfolded e(1)]] ms e(2) show ?thesis by fastforce
qed

end
