(* ===== verification/Provider_Factory.thy ===== *)
theory Provider_Factory
  imports Provider
begin

text \<open>
  The choice of a provider by the pool's provider name, \<open>pkg/providers/providersFactory.go\<close>.
  The factory functions it dispatches to are fields of a record over one world \<open>'w\<close>, so that
  the state machine can be run with any of them.
\<close>

type_synonym ProviderType = string
type_synonym SecretData = "string \<rightharpoonup> string"

definition ProviderDummy :: ProviderType where "ProviderDummy = ''fake-provider''"
definition ProviderLibvirt :: ProviderType where "ProviderLibvirt = ''libvirt''"
definition ProviderIronic :: ProviderType where "ProviderIronic = ''ironic''"
definition ProviderEquinix :: ProviderType where "ProviderEquinix = ''equinix''"
definition ProviderIbmcloud :: ProviderType where "ProviderIbmcloud = ''ibmcloud''"
definition ProviderAWS :: ProviderType where "ProviderAWS = ''aws''"

lemmas provider_types =
  ProviderDummy_def ProviderLibvirt_def ProviderIronic_def ProviderEquinix_def ProviderIbmcloud_def
  ProviderAWS_def

type_synonym 'w factory = "string \<Rightarrow> SecretData \<Rightarrow> ('w, error + 'w Provider) go"

record 'w ProviderFactories =
  MakeDummy :: "string \<Rightarrow> SecretData \<Rightarrow> ('w, 'w Provider) call"
  MakeLibvirt :: "'w factory"
  MakeIronic :: "'w factory"
  MakeEquinix :: "'w factory"
  MakeIbmcloud :: "'w factory"
  MakeAWS :: "'w factory"

definition NewProvider ::
  "'w ProviderFactories \<Rightarrow> CIPool \<Rightarrow> SecretData \<Rightarrow> ('w, error + 'w Provider) go" where
  "NewProvider fac pool poolSecret w =
     (let p = PSpec_Provider (P_Spec pool); info = PSpec_ProviderInfo (P_Spec pool) in
      if p = ProviderDummy then (case MakeDummy fac info poolSecret w of (d, w) \<Rightarrow> Some (Inr d, w))
      else if p = ProviderLibvirt then MakeLibvirt fac info poolSecret w
      else if p = ProviderIronic then MakeIronic fac info poolSecret w
      else if p = ProviderEquinix then MakeEquinix fac info poolSecret w
      else if p = ProviderIbmcloud then MakeIbmcloud fac info poolSecret w
      else if p = ProviderAWS then MakeAWS fac info poolSecret w
      else Some (Inl (ErrorString (''unknown provider type: '' @ p)), w))"

text \<open>An unknown name is an error and touches nothing.\<close>

lemma NewProvider_unknown:
  assumes "PSpec_Provider (P_Spec pool) \<notin>
     {ProviderDummy, ProviderLibvirt, ProviderIronic, ProviderEquinix, ProviderIbmcloud, ProviderAWS}"
  shows "NewProvider fac pool sec w =
     Some (Inl (ErrorString (''unknown provider type: '' @ PSpec_Provider (P_Spec pool))), w)"
  using assms by (simp add: NewProvider_def Let_def)

end
