(* ===== verification/Cir_Fsm.thy ===== *)
theory Cir_Fsm
  imports Provider_Factory
begin

text \<open>
  The state machine of a CIResource, \<open>controllers/ciresource_fsm.go\<close>. \<open>NewCIResourceFSM\<close> builds
  the table of states; a state's \<open>onEntry\<close> is a method value, here the name of the handler.
  In the code the handler's \<open>context\<close> argument and \<open>f.currentContext\<close> share the pointers to
  the resource, so the context is threaded through the handlers as one value. The finalizer
  helpers of the controller library are an argument (\<open>lib\<close>), as is the clock.
\<close>

section \<open>Constants and the library's finalizer helpers\<close>

definition fallbackResourceID :: string where "fallbackResourceID = ''000-fallback-dummy-000''"
definition defaultCirRetryDelay :: Duration where "defaultCirRetryDelay = Minute"
definition defaultCirProvisioningWaitDelay :: Duration where
  "defaultCirProvisioningWaitDelay = Duration (30 * Nanoseconds Second)"
definition defaultCIPoolRetryDelay :: Duration where "defaultCIPoolRetryDelay = Minute"

record Controllerutil =
  ContainsFinalizer :: "string list \<Rightarrow> string \<Rightarrow> bool"
  AddFinalizer :: "string list \<Rightarrow> string \<Rightarrow> string list"
  RemoveFinalizer :: "string list \<Rightarrow> string \<Rightarrow> string list"

text \<open>Their documented behaviour, where a property needs it.\<close>

definition finalizer_laws :: "Controllerutil \<Rightarrow> bool" where
  "finalizer_laws lib \<longleftrightarrow>
     (\<forall>fs f. ContainsFinalizer lib (AddFinalizer lib fs f) f) \<and>
     (\<forall>fs f. \<not> ContainsFinalizer lib (RemoveFinalizer lib fs f) f)"

section \<open>The machine\<close>

record 'w CIResourceFSMContext =
  Ctx_CIResource :: CIResource
  Ctx_CIPool :: CIPool
  Ctx_Provider :: "'w Provider"

definition modify_cir ::
  "(CIResource \<Rightarrow> CIResource) \<Rightarrow> 'w CIResourceFSMContext \<Rightarrow> 'w CIResourceFSMContext" where
  "modify_cir g ctx = ctx\<lparr>Ctx_CIResource := g (Ctx_CIResource ctx)\<rparr>"

definition modify_status :: "(CIResourceStatus \<Rightarrow> CIResourceStatus) \<Rightarrow> CIResource \<Rightarrow> CIResource" where
  "modify_status g c = c\<lparr>C_Status := g (C_Status c)\<rparr>"

type_synonym 'w CIResourceFSMGuard = "'w CIResourceFSMContext \<Rightarrow> bool"

record 'w fsmTransition =
  eventId :: string
  dst :: CIResourceState
  guard :: "'w CIResourceFSMGuard option"

definition Transition ::
  "string \<Rightarrow> CIResourceState \<Rightarrow> 'w CIResourceFSMGuard list \<Rightarrow> 'w fsmTransition" where
  "Transition e d g =
     \<lparr>eventId = e, dst = d, guard = (case g of [g0] \<Rightarrow> Some g0 | _ \<Rightarrow> None)\<rparr>"

text \<open>The method values that occur as \<open>onEntry\<close>.\<close>

datatype fsmHandler =
    HandleStateNone
  | HandleStateProvisioning
  | HandleStateProvisioningWait
  | HandleStateAvailable
  | HandleStateMaintenance
  | HandleStateInUse
  | HandleStateCleaning
  | HandleStateCleaningWait
  | HandleStateDelete

record 'w fsmState =
  state_id :: CIResourceState
  transitions :: "string \<rightharpoonup> 'w fsmTransition"
  onEntry :: fsmHandler

text \<open>The handler run before any state, when one is set: it reads the context, may change the
  resource behind its pointer and the world.\<close>

type_synonym 'w main_handler =
  "'w CIResourceFSMContext \<Rightarrow> ('w, (Duration \<times> error option) \<times> CIResource) go"

record 'w CIResourceFSM =
  currentState :: "'w fsmState option"
  statusDirty :: bool
  resourceDirty :: bool
  states :: "CIResourceState \<rightharpoonup> 'w fsmState"
  beforeAnyState :: "'w main_handler option"

definition fsm_State ::
  "CIResourceState \<Rightarrow> fsmHandler \<Rightarrow> 'w fsmTransition list \<Rightarrow> 'w CIResourceFSM \<Rightarrow> 'w CIResourceFSM" where
  "fsm_State i h ts f =
     f\<lparr>states := (states f)(i \<mapsto>
        \<lparr>state_id = i, transitions = foldl (\<lambda>m t. m(eventId t \<mapsto> t)) Map.empty ts, onEntry = h\<rparr>)\<rparr>"

definition BeforeAnyState :: "'w main_handler \<Rightarrow> 'w CIResourceFSM \<Rightarrow> 'w CIResourceFSM" where
  "BeforeAnyState before f = f\<lparr>beforeAnyState := Some before\<rparr>"

definition empty_fsm :: "'w CIResourceFSM" where
  "empty_fsm = \<lparr>currentState = None, statusDirty = False, resourceDirty = False,
     states = Map.empty, beforeAnyState = None\<rparr>"

definition NewCIResourceFSM :: "'w CIResourceFSM" where
  "NewCIResourceFSM =
     (fsm_State StateDelete HandleStateDelete [] \<circ>
      fsm_State StateCleaningWait HandleStateCleaningWait
        [Transition ''on-cleaning-complete'' StateAvailable []] \<circ>
      fsm_State StateCleaning HandleStateCleaning
        [Transition ''on-cleaning-requested'' StateCleaningWait []] \<circ>
      fsm_State StateInUse HandleStateInUse
        [Transition ''released'' StateCleaning [],
         Transition ''fallback-provisioning'' StateProvisioning []] \<circ>
      fsm_State StateMaintenance HandleStateMaintenance
        [Transition ''on-maintenance-complete'' StateAvailable [],
         Transition ''on-delete'' StateDelete []] \<circ>
      fsm_State StateAvailable HandleStateAvailable
        [Transition ''on-maintenance'' StateMaintenance [],
         Transition ''acquired'' StateInUse [],
         Transition ''on-delete'' StateDelete []] \<circ>
      fsm_State StateProvisioningWait HandleStateProvisioningWait
        [Transition ''on-provisioning-complete'' StateAvailable []] \<circ>
      fsm_State StateProvisioning HandleStateProvisioning
        [Transition ''on-provisioning-requested'' StateProvisioningWait [],
         Transition ''fallback-available'' StateAvailable []] \<circ>
      fsm_State StateNone HandleStateNone
        [Transition ''init'' StateProvisioning []]) empty_fsm"

section \<open>Primitives of the handlers\<close>

type_synonym 'w fsm_result =
  "(Duration \<times> error option) \<times> 'w CIResourceFSMContext \<times> 'w CIResourceFSM"

definition TriggerEvent ::
  "string \<Rightarrow> 'w CIResourceFSMContext \<Rightarrow> 'w CIResourceFSM \<Rightarrow> 'w fsm_result" where
  "TriggerEvent name ctx f =
     (case currentState f of
        None \<Rightarrow> ((0, Some (ErrorString ''no state selected'')), ctx, f)
      | Some st \<Rightarrow>
          (case transitions st name of
             None \<Rightarrow> ((0, Some (ErrorString (''event not found: '' @ name))), ctx, f)
           | Some t \<Rightarrow>
               (if \<exists>g \<in> set_option (guard t). \<not> g ctx then ((defaultCirRetryDelay, None), ctx, f)
                else ((defaultCirRetryDelay, None), modify_cir (set_status_state (dst t)) ctx,
                      f\<lparr>statusDirty := True\<rparr>))))"

definition UpdateResourceOnly ::
  "'w CIResourceFSMContext \<Rightarrow> 'w CIResourceFSM \<Rightarrow> 'w fsm_result" where
  "UpdateResourceOnly ctx f = ((defaultCirRetryDelay, None), ctx, f\<lparr>resourceDirty := True\<rparr>)"

type_synonym 'w fsm_handler =
  "'w CIResourceFSMContext \<Rightarrow> 'w CIResourceFSM \<Rightarrow> ('w, 'w fsm_result) go"

section \<open>Handlers\<close>

definition handleStateNone :: "Controllerutil \<Rightarrow> 'w fsm_handler" where
  "handleStateNone lib ctx f w =
     (let m = C_Meta (Ctx_CIResource ctx) in
      if IsZero (DeletionTimestamp m) \<and> \<not> ContainsFinalizer lib (Finalizers m) OfcirFinalizer
      then Some (UpdateResourceOnly
             (modify_cir (set_finalizers (AddFinalizer lib (Finalizers m) OfcirFinalizer)) ctx) f, w)
      else Some (TriggerEvent ''init'' ctx f, w))"

definition handleStateProvisioning :: "'w fsm_handler" where
  "handleStateProvisioning ctx f w =
     (let pool = Ctx_CIPool ctx in
      if IsFallbackPool pool \<and> spec_state (Ctx_CIResource ctx) \<noteq> StateInUse
      then Some (TriggerEvent ''fallback-available''
             (modify_cir (modify_status (\<lambda>s. s\<lparr>CStatus_ResourceId := fallbackResourceID\<rparr>)) ctx) f, w)
      else do {
        ((resource, err), w) \<leftarrow>
          Acquire (Ctx_Provider ctx) (PSpec_Size (P_Spec pool)) (pool_name pool) (PSpec_Type (P_Spec pool)) w;
        (case err of
           Some e \<Rightarrow> Some (((0, Some e), ctx, f), w)
         | None \<Rightarrow>
             Some (TriggerEvent ''on-provisioning-requested''
               (modify_cir (modify_status (\<lambda>s. s\<lparr>CStatus_ResourceId := Id resource,
                  CStatus_ProviderInfo := PSpec_ProviderInfo (P_Spec pool)\<rparr>)) ctx) f, w))
      })"

definition handleStateProvisioningWait :: "'w fsm_handler" where
  "handleStateProvisioningWait ctx f w =
     do {
       ((isReady, resource, err), w) \<leftarrow>
         AcquireCompleted (Ctx_Provider ctx) (CStatus_ResourceId (C_Status (Ctx_CIResource ctx))) w;
       (case err of
          Some e \<Rightarrow> Some (((0, Some e), ctx, f), w)
        | None \<Rightarrow>
            (if isReady
             then (case TriggerEvent ''on-provisioning-complete''
                          (modify_cir (modify_status (\<lambda>s. s\<lparr>CStatus_Address := Address resource,
                             CStatus_Extra := Metadata resource\<rparr>)) ctx) f of
                     (ignored, ctx, f) \<Rightarrow> Some (((0, None), ctx, f), w))
             else Some (((defaultCirProvisioningWaitDelay, None), ctx, f), w)))
     }"

definition handleStateAvailable :: "'w fsm_handler" where
  "handleStateAvailable ctx f w =
     (let cir = Ctx_CIResource ctx in
      if \<not> IsZero (DeletionTimestamp (C_Meta cir)) then Some (TriggerEvent ''on-delete'' ctx f, w)
      else if spec_state cir = status_state cir then Some (((defaultCirRetryDelay, None), ctx, f), w)
      else if spec_state cir = StateMaintenance then Some (TriggerEvent ''on-maintenance'' ctx f, w)
      else if spec_state cir = StateInUse then Some (TriggerEvent ''acquired'' ctx f, w)
      else Some (((defaultCirRetryDelay, None), ctx, f), w))"

definition handleStateMaintenance :: "'w fsm_handler" where
  "handleStateMaintenance ctx f w =
     (let cir = Ctx_CIResource ctx in
      if \<not> IsZero (DeletionTimestamp (C_Meta cir)) then Some (TriggerEvent ''on-delete'' ctx f, w)
      else if spec_state cir = status_state cir then Some (((defaultCirRetryDelay, None), ctx, f), w)
      else if spec_state cir = StateAvailable then Some (TriggerEvent ''on-maintenance-complete'' ctx f, w)
      else Some (((defaultCirRetryDelay, None), ctx, f), w))"

text \<open>\<open>now\<close> is the clock at the call of \<open>time.Since\<close>; a missing \<open>LastUpdated\<close> is a nil
  dereference.\<close>

definition handleStateInUse :: "Time \<Rightarrow> 'w fsm_handler" where
  "handleStateInUse now ctx f w =
     (let cir = Ctx_CIResource ctx; pool = Ctx_CIPool ctx in
      if spec_state cir = StateAvailable then Some (TriggerEvent ''released'' ctx f, w)
      else if spec_state cir = StateInUse
      then (if IsFallbackPool pool \<and> CStatus_Address (C_Status cir) = '''' \<and>
               CStatus_ResourceId (C_Status cir) = fallbackResourceID
            then Some (TriggerEvent ''fallback-provisioning'' ctx f, w)
            else do {
              lastUpdated \<leftarrow> CStatus_LastUpdated (C_Status cir);
              if time_Sub now lastUpdated > PSpec_Timeout (P_Spec pool)
              then Some (UpdateResourceOnly (modify_cir (set_spec_state StateAvailable) ctx) f, w)
              else Some (((defaultCirRetryDelay, None), ctx, f), w)
            })
      else Some (((defaultCirRetryDelay, None), ctx, f), w))"

definition reset_fallback :: "CIResourceStatus \<Rightarrow> CIResourceStatus" where
  "reset_fallback s = s\<lparr>CStatus_Address := '''', CStatus_Extra := '''', CStatus_ProviderInfo := '''',
     CStatus_ResourceId := fallbackResourceID\<rparr>"

definition handleStateCleaning :: "'w fsm_handler" where
  "handleStateCleaning ctx f w =
     (let i = CStatus_ResourceId (C_Status (Ctx_CIResource ctx)) in
      if IsFallbackPool (Ctx_CIPool ctx)
      then do {
        (err, w) \<leftarrow> (if i \<noteq> fallbackResourceID then Release (Ctx_Provider ctx) i w else Some (None, w));
        (if \<exists>e \<in> set_option err. \<not> errors_As_ResourceNotFound e
         then Some (((defaultCIPoolRetryDelay, err), ctx, f), w)
         else Some (TriggerEvent ''on-cleaning-requested'' (modify_cir (modify_status reset_fallback) ctx) f, w))
      }
      else do {
        (err, w) \<leftarrow> Clean (Ctx_Provider ctx) i w;
        (if err \<noteq> None
         then Some (((defaultCIPoolRetryDelay, err), ctx, f), w)
         else Some (TriggerEvent ''on-cleaning-requested'' ctx f, w))
      })"

definition handleStateCleaningWait :: "'w fsm_handler" where
  "handleStateCleaningWait ctx f w =
     (if IsFallbackPool (Ctx_CIPool ctx) then Some (TriggerEvent ''on-cleaning-complete'' ctx f, w)
      else do {
        ((isCleaned, err), w) \<leftarrow>
          CleanCompleted (Ctx_Provider ctx) (CStatus_ResourceId (C_Status (Ctx_CIResource ctx))) w;
        (if err \<noteq> None then Some (((defaultCIPoolRetryDelay, err), ctx, f), w)
         else if isCleaned then Some (TriggerEvent ''on-cleaning-complete'' ctx f, w)
         else Some (((defaultCirProvisioningWaitDelay, None), ctx, f), w))
      })"

definition handleStateDelete :: "Controllerutil \<Rightarrow> 'w fsm_handler" where
  "handleStateDelete lib ctx f w =
     (let cir = Ctx_CIResource ctx; m = C_Meta cir; i = CStatus_ResourceId (C_Status cir);
          finish = (\<lambda>w. Some (UpdateResourceOnly
             (modify_cir (set_finalizers (RemoveFinalizer lib (Finalizers m) OfcirFinalizer)) ctx) f, w)) in
      if ContainsFinalizer lib (Finalizers m) OfcirFinalizer
      then (if IsFallbackPool (Ctx_CIPool ctx) \<and> i = fallbackResourceID then finish w
            else do {
              (err, w) \<leftarrow> Release (Ctx_Provider ctx) i w;
              (if \<exists>e \<in> set_option err. \<not> errors_As_ResourceNotFound e
               then Some (((defaultCIPoolRetryDelay, err), ctx, f), w)
               else finish w)
            })
      else Some (((defaultCIPoolRetryDelay, None), ctx, f), w))"

fun run_handler :: "Controllerutil \<Rightarrow> Time \<Rightarrow> fsmHandler \<Rightarrow> 'w fsm_handler" where
  "run_handler lib now HandleStateNone = handleStateNone lib"
| "run_handler lib now HandleStateProvisioning = handleStateProvisioning"
| "run_handler lib now HandleStateProvisioningWait = handleStateProvisioningWait"
| "run_handler lib now HandleStateAvailable = handleStateAvailable"
| "run_handler lib now HandleStateMaintenance = handleStateMaintenance"
| "run_handler lib now HandleStateInUse = handleStateInUse now"
| "run_handler lib now HandleStateCleaning = handleStateCleaning"
| "run_handler lib now HandleStateCleaningWait = handleStateCleaningWait"
| "run_handler lib now HandleStateDelete = handleStateDelete lib"

section \<open>Process\<close>

text \<open>The four results of \<open>Process\<close>, the resource behind the caller's pointer, the machine.\<close>

type_synonym 'w process_result =
  "(bool \<times> bool \<times> Duration \<times> error option) \<times> CIResource \<times> 'w CIResourceFSM"

definition run_state ::
  "Controllerutil \<Rightarrow> Time \<Rightarrow> 'w fsmState \<Rightarrow> 'w CIResourceFSMContext \<Rightarrow> 'w CIResourceFSM
   \<Rightarrow> ('w, 'w process_result) go" where
  "run_state lib now st ctx f w =
     do {
       (((retryAfter, err), ctx, f), w) \<leftarrow> run_handler lib now (onEntry st) ctx f w;
       Some (((resourceDirty f, statusDirty f, retryAfter, err), Ctx_CIResource ctx, f), w)
     }"

definition Process ::
  "Controllerutil \<Rightarrow> 'w ProviderFactories \<Rightarrow> Time \<Rightarrow> CIResource \<Rightarrow> CIPool \<Rightarrow> SecretData \<Rightarrow> 'w CIResourceFSM
   \<Rightarrow> ('w, 'w process_result) go" where
  "Process lib fac now cir cipool cipoolSecret f w =
     do {
       (made, w) \<leftarrow> NewProvider fac cipool cipoolSecret w;
       case made of
         Inl err \<Rightarrow>
           Some (((False, False, 0, Some (WrapError ''error in provider factory: '' err)), cir, f), w)
       | Inr p \<Rightarrow>
           (let ctx = \<lparr>Ctx_CIResource = cir, Ctx_CIPool = cipool, Ctx_Provider = p\<rparr> in
            case states f (status_state cir) of
              None \<Rightarrow>
                Some (((False, False, 0, Some (ErrorString (''state not found: '' @ status_state cir))), cir, f), w)
            | Some st \<Rightarrow>
                (let f = f\<lparr>currentState := Some st\<rparr> in
                 case beforeAnyState f of
                   None \<Rightarrow> run_state lib now st ctx f w
                 | Some before \<Rightarrow>
                     do {
                       (((retryAfter, err), cir), w) \<leftarrow> before ctx w;
                       let ctx = ctx\<lparr>Ctx_CIResource := cir\<rparr>;
                       if retryAfter \<noteq> 0 \<or> err \<noteq> None
                       then Some (((resourceDirty f, statusDirty f, retryAfter,
                              Some (case err of Some e \<Rightarrow> WrapError ''error in main handler: '' e
                                    | None \<Rightarrow> ErrorString ''error in main handler: %!w(<nil>)'')), cir, f), w)
                       else run_state lib now st ctx f w
                     }))
     }"

end
