(* ===== verification/Fsm_Process.thy ===== *)
theory Fsm_Process
  imports Fsm_Contract
begin

text \<open>
  What \<open>Process\<close> of \<open>controllers/ciresource_fsm.go\<close> does on the machine the reconciler builds for
  every request. \<open>Process_run\<close> reduces it to one handler; the facts of the locale
  \<open>state_handler\<close>, through its nine interpretations, then give the properties of every state at
  once, and the provider contracts give what holds of the provider's world.
\<close>

section \<open>One run, one handler\<close>

lemma fsm_known_cases:
  assumes "states (NewCIResourceFSM :: 'w CIResourceFSM) s = Some st"
  obtains "s = StateNone" "onEntry st = HandleStateNone"
  | "s = StateProvisioning" "onEntry st = HandleStateProvisioning"
  | "s = StateProvisioningWait" "onEntry st = HandleStateProvisioningWait"
  | "s = StateAvailable" "onEntry st = HandleStateAvailable"
  | "s = StateMaintenance" "onEntry st = HandleStateMaintenance"
  | "s = StateInUse" "onEntry st = HandleStateInUse"
  | "s = StateCleaning" "onEntry st = HandleStateCleaning"
  | "s = StateCleaningWait" "onEntry st = HandleStateCleaningWait"
  | "s = StateDelete" "onEntry st = HandleStateDelete"
proof -
  from assms have "s \<in> set fsm_known" using fsm_states_None_iff [where ?'a = 'w, of s] by auto
  with assms fsm_onEntry [OF assms] that show ?thesis
    by (auto simp: fsm_known_def)
qed

lemma fresh_fsm_eq:
  "states NewCIResourceFSM s = Some st \<Longrightarrow> NewCIResourceFSM\<lparr>currentState := Some st\<rparr> = fresh_fsm s"
  by (simp add: fresh_fsm_def)

definition fsm_ctx :: "CIResource \<Rightarrow> CIPool \<Rightarrow> 'w Provider \<Rightarrow> 'w CIResourceFSMContext" where
  "fsm_ctx cir pool p = \<lparr>Ctx_CIResource = cir, Ctx_CIPool = pool, Ctx_Provider = p\<rparr>"

lemma fsm_ctx_sel [simp]:
  "Ctx_CIResource (fsm_ctx cir pool p) = cir" "Ctx_CIPool (fsm_ctx cir pool p) = pool"
  "Ctx_Provider (fsm_ctx cir pool p) = p"
  by (simp_all add: fsm_ctx_def)

lemma Process_run:
  assumes "NewProvider fac pool sec w = Some (Inr p, w1)"
    and "states NewCIResourceFSM (status_state cir) = Some st"
  shows "Process lib fac now cir pool sec NewCIResourceFSM w =
     run_state lib now st (fsm_ctx cir pool p) (fresh_fsm (status_state cir)) w1"
  using assms by (simp add: Process_def Let_def fresh_fsm_eq [OF assms(2)] fsm_ctx_def)

lemma Process_cases:
  fixes w :: 'w
  assumes "Process lib fac now cir pool sec NewCIResourceFSM w = Some (((rd, sd, d, e), cir', f'), w')"
  obtains (failed) "\<not> rd" "\<not> sd" "cir' = cir" "e \<noteq> None"
      "(\<exists>err. NewProvider fac pool sec w = Some (Inl err, w')) \<or>
       (\<exists>p. NewProvider fac pool sec w = Some (Inr p, w') \<and> status_state cir \<notin> set fsm_known)"
  | (ran) p w1 and st :: "'w fsmState" and ctx' where "NewProvider fac pool sec w = Some (Inr p, w1)"
      "states NewCIResourceFSM (status_state cir) = Some st"
      "run_handler lib now (onEntry st) (fsm_ctx cir pool p) (fresh_fsm (status_state cir)) w1 =
         Some (((d, e), ctx', f'), w')"
      "rd = resourceDirty f'" "sd = statusDirty f'" "cir' = Ctx_CIResource ctx'"
proof (cases "NewProvider fac pool sec w")
  case None
  with assms show ?thesis by (simp add: Process_def)
next
  case (Some r)
  obtain made w1 where r: "r = (made, w1)" by (cases r)
  show ?thesis
  proof (cases made)
    case (Inl err)
    with assms Some r show ?thesis by (intro failed) (auto simp: Process_def)
  next
    case (Inr p)
    with Some r have np: "NewProvider fac pool sec w = Some (Inr p, w1)" by simp
    show ?thesis
    proof (cases "states (NewCIResourceFSM :: 'w CIResourceFSM) (status_state cir)")
      case None
      with assms np have "\<not> rd" "\<not> sd" "cir' = cir" "e \<noteq> None" "w' = w1"
        by (auto simp: Process_def Let_def)
      with None np show ?thesis using fsm_states_None_iff [where ?'a = 'w] by (intro failed) auto
    next
      case (Some st)
      with assms np obtain ctx' where
        "run_handler lib now (onEntry st) (fsm_ctx cir pool p) (fresh_fsm (status_state cir)) w1 =
           Some (((d, e), ctx', f'), w')"
        "rd = resourceDirty f'" "sd = statusDirty f'" "cir' = Ctx_CIResource ctx'"
        by (auto simp: Process_run run_state_def split: bind_splits prod.split_asm)
      with np Some show ?thesis by (rule ran)
    qed
  qed
qed

lemma run_handler_step:
  fixes w :: 'w
  assumes "states (NewCIResourceFSM :: 'w CIResourceFSM) (status_state (Ctx_CIResource ctx)) = Some st"
    and "run_handler lib now (onEntry st) ctx (fresh_fsm (status_state (Ctx_CIResource ctx))) w =
      Some (((d, e), ctx', f'), w')"
  shows "step_ok (Ctx_CIResource ctx) (Ctx_CIResource ctx') (resourceDirty f') (statusDirty f') e"
  using assms(1)
  by (rule fsm_known_cases)
    (use assms(2) in \<open>auto dest!: none.step provisioning.step provisioning_wait.step available.step
       maintenance.step in_use.step cleaning.step cleaning_wait.step delete.step\<close>)

lemma Process_step:
  assumes "Process lib fac now cir pool sec NewCIResourceFSM w = Some (((rd, sd, d, e), cir', f'), w')"
  shows "step_ok cir cir' rd sd e"
  using assms
proof (cases rule: Process_cases)
  case failed
  then show ?thesis by simp
next
  case (ran p w1 st ctx')
  then show ?thesis using run_handler_step [of "fsm_ctx cir pool p" st lib now w1 d e ctx' f' w'] by simp
qed


lemma process_writes_lemma:
  assumes "Process lib fac now cir pool sec NewCIResourceFSM w = Some (((rd, sd, d, e), cir', f'), w')"
  shows "\<not> (rd \<and> sd)" "e \<noteq> None \<Longrightarrow> \<not> rd \<and> \<not> sd" "\<not> rd \<Longrightarrow> \<not> sd \<Longrightarrow> cir' = cir"
    "sd \<longleftrightarrow> status_state cir' \<noteq> status_state cir"
    "sd \<Longrightarrow> C_Meta cir' = C_Meta cir \<and> C_Spec cir' = C_Spec cir"
    "rd \<Longrightarrow> C_Status cir' = C_Status cir"
    "C_Meta cir' = (C_Meta cir)\<lparr>Finalizers := Finalizers (C_Meta cir')\<rparr>"
    "C_Spec cir' = (C_Spec cir)\<lparr>CSpec_State := spec_state cir'\<rparr>"
  using Process_step [OF assms] unfolding step_ok_def by auto

section \<open>The finalizer\<close>

text \<open>Who touches the finalizers: the first state adds, the last one removes.\<close>

lemma run_handler_meta:
  fixes w :: 'w
  assumes "states (NewCIResourceFSM :: 'w CIResourceFSM) (status_state cir) = Some st"
    and "run_handler lib now (onEntry st) (fsm_ctx cir pool p) (fresh_fsm (status_state cir)) w =
      Some (((d, e), ctx', f'), w')"
  shows "Finalizers (C_Meta (Ctx_CIResource ctx')) = Finalizers (C_Meta cir) \<or>
    status_state cir = StateNone \<and> IsZero (DeletionTimestamp (C_Meta cir)) \<and>
      Finalizers (C_Meta (Ctx_CIResource ctx')) = AddFinalizer lib (Finalizers (C_Meta cir)) OfcirFinalizer \<or>
    status_state cir = StateDelete \<and>
      Finalizers (C_Meta (Ctx_CIResource ctx')) = RemoveFinalizer lib (Finalizers (C_Meta cir)) OfcirFinalizer \<and>
      (IsFallbackPool pool \<and> CStatus_ResourceId (C_Status cir) = fallbackResourceID \<or>
       (\<exists>err. Release p (CStatus_ResourceId (C_Status cir)) w = Some (err, w') \<and>
          (\<forall>x \<in> set_option err. errors_As_ResourceNotFound x)))"
  using assms(1)
proof (rule fsm_known_cases)
  assume s: "status_state cir = StateNone" "onEntry st = HandleStateNone"
  with assms(2) show ?thesis
    by (auto simp: handleStateNone_def UpdateResourceOnly_def Let_def split: if_split_asm)
next
  assume s: "status_state cir = StateDelete" "onEntry st = HandleStateDelete"
  with assms(2) show ?thesis
    by (auto simp: handleStateDelete_def UpdateResourceOnly_def Let_def split: handler_splits)
qed (use assms(2) in \<open>auto simp: handleStateProvisioning_def handleStateProvisioningWait_def
    handleStateAvailable_def handleStateMaintenance_def handleStateInUse_def handleStateCleaning_def
    handleStateCleaningWait_def UpdateResourceOnly_def Let_def split: handler_splits\<close>)

lemma Process_finalizer_removed:
  fixes w :: 'w
  assumes "finalizer_laws lib"
    and "Process lib fac now cir pool sec NewCIResourceFSM w = Some (((rd, sd, d, e), cir', f'), w')"
    and "ContainsFinalizer lib (Finalizers (C_Meta cir)) OfcirFinalizer"
    and "\<not> ContainsFinalizer lib (Finalizers (C_Meta cir')) OfcirFinalizer"
  obtains p w1 where "NewProvider fac pool sec w = Some (Inr p, w1)" "status_state cir = StateDelete"
    "IsFallbackPool pool \<and> CStatus_ResourceId (C_Status cir) = fallbackResourceID \<or>
     (\<exists>err. Release p (CStatus_ResourceId (C_Status cir)) w1 = Some (err, w') \<and>
        (\<forall>x \<in> set_option err. errors_As_ResourceNotFound x))"
  using assms(2)
proof (cases rule: Process_cases)
  case failed
  with assms(3,4) show ?thesis by simp
next
  case (ran p w1 st ctx')
  from run_handler_meta [OF ran(2,3)] assms(1,3,4) ran(6) have
    "status_state cir = StateDelete \<and>
      (IsFallbackPool pool \<and> CStatus_ResourceId (C_Status cir) = fallbackResourceID \<or>
       (\<exists>err. Release p (CStatus_ResourceId (C_Status cir)) w1 = Some (err, w') \<and>
          (\<forall>x \<in> set_option err. errors_As_ResourceNotFound x)))"
    by (auto simp: finalizer_laws_def)
  with ran(1) show ?thesis by (intro that) auto
qed

section \<open>The states that only look\<close>

lemma quiet_world:
  fixes w :: 'w
  assumes "status_state cir \<in> {StateNone, StateAvailable, StateMaintenance, StateInUse}"
    and "states (NewCIResourceFSM :: 'w CIResourceFSM) (status_state cir) = Some st"
    and "run_handler lib now (onEntry st) (fsm_ctx cir pool p) (fresh_fsm (status_state cir)) w =
      Some (((d, e), ctx', f'), w')"
  shows "w' = w"
  using assms(2)
  by (rule fsm_known_cases)
    (use assms(1,3) in \<open>auto simp: handleStateNone_def handleStateAvailable_def handleStateMaintenance_def
      handleStateInUse_def Let_def split: handler_splits\<close>)

section \<open>Over a provider that keeps its contract\<close>

lemmas handleState_defs =
  handleStateNone_def handleStateProvisioning_def handleStateProvisioningWait_def
  handleStateAvailable_def handleStateMaintenance_def handleStateInUse_def handleStateCleaning_def
  handleStateCleaningWait_def handleStateDelete_def UpdateResourceOnly_def

context provider_keeps begin

lemma run_handler_inv:
  assumes "inv w" and "Ctx_Provider ctx = P"
    and "run_handler lib now h ctx f w = Some (r, w')"
  shows "inv w'"
  using assms(3)
  by (cases h)
    (use assms(1,2) in \<open>auto simp: handleState_defs Let_def split: handler_splits dest: inv_ops\<close>)

end

context provider begin

text \<open>A resource becomes available from waiting only under the identifier the provider reported
  ready.\<close>

lemma wait_ready_id:
  assumes "inv w" and "Ctx_Provider ctx = P" and "status_state (Ctx_CIResource ctx) = StateProvisioningWait"
    and "handleStateProvisioningWait ctx (fresh_fsm StateProvisioningWait) w = Some (((d, e), ctx', f'), w')"
    and "statusDirty f'"
  obtains r where "AcquireCompleted P (CStatus_ResourceId (C_Status (Ctx_CIResource ctx))) w =
      Some ((True, r, None), w')" "Id r = CStatus_ResourceId (C_Status (Ctx_CIResource ctx'))"
    "CStatus_Address (C_Status (Ctx_CIResource ctx')) = Address r"
    "CStatus_Extra (C_Status (Ctx_CIResource ctx')) = Metadata r" "e = None"
  using assms
  by (auto simp: handleStateProvisioningWait_def split: handler_splits dest: ready_id)

end

text \<open>The one dereference of the handlers that can be nil: the time of the last update, of a
  resource in use that stays in use.\<close>

definition lacks_LastUpdated :: "CIResource \<Rightarrow> CIPool \<Rightarrow> bool" where
  "lacks_LastUpdated cir pool \<longleftrightarrow>
     status_state cir = StateInUse \<and> spec_state cir = StateInUse \<and>
     CStatus_LastUpdated (C_Status cir) = None \<and>
     \<not> (IsFallbackPool pool \<and> CStatus_Address (C_Status cir) = '''' \<and>
        CStatus_ResourceId (C_Status cir) = fallbackResourceID)"

context total_provider begin

lemma no_panic_ex:
  assumes "inv w"
  shows "\<exists>r w'. Acquire P n pn pt w = Some (r, w')" "\<exists>r w'. AcquireCompleted P i w = Some (r, w')"
    "\<exists>r w'. Clean P i w = Some (r, w')" "\<exists>r w'. CleanCompleted P i w = Some (r, w')"
    "\<exists>r w'. Release P i w = Some (r, w')"
  using no_panic [OF assms] by auto

lemma run_handler_panics:
  fixes st :: "'a fsmState"
  assumes "inv w"
    and "states (NewCIResourceFSM :: 'a CIResourceFSM) (status_state cir) = Some st"
  shows "run_handler lib now (onEntry st) (fsm_ctx cir pool P) (fresh_fsm (status_state cir)) w = None \<longleftrightarrow>
    lacks_LastUpdated cir pool"
  using assms(2)
proof (rule fsm_known_cases)
  assume "status_state cir = StateProvisioning" "onEntry st = HandleStateProvisioning"
  with no_panic_ex(1) [OF assms(1), of "PSpec_Size (P_Spec pool)" "pool_name pool" "PSpec_Type (P_Spec pool)"]
  show ?thesis
    by (auto simp: handleStateProvisioning_def lacks_LastUpdated_def Let_def split: option.splits)
next
  assume "status_state cir = StateProvisioningWait" "onEntry st = HandleStateProvisioningWait"
  with no_panic_ex(2) [OF assms(1), of "CStatus_ResourceId (C_Status cir)"] show ?thesis
    by (auto simp: handleStateProvisioningWait_def lacks_LastUpdated_def Let_def
        split: option.splits prod.splits)
next
  assume "status_state cir = StateCleaning" "onEntry st = HandleStateCleaning"
  with no_panic_ex(3,5) [OF assms(1), of "CStatus_ResourceId (C_Status cir)"] show ?thesis
    by (auto simp: handleStateCleaning_def lacks_LastUpdated_def Let_def)
next
  assume "status_state cir = StateCleaningWait" "onEntry st = HandleStateCleaningWait"
  with no_panic_ex(4) [OF assms(1), of "CStatus_ResourceId (C_Status cir)"] show ?thesis
    by (auto simp: handleStateCleaningWait_def lacks_LastUpdated_def Let_def split: prod.splits)
next
  assume "status_state cir = StateDelete" "onEntry st = HandleStateDelete"
  with no_panic_ex(5) [OF assms(1), of "CStatus_ResourceId (C_Status cir)"] show ?thesis
    by (auto simp: handleStateDelete_def UpdateResourceOnly_def lacks_LastUpdated_def Let_def)
next
  assume "status_state cir = StateInUse" "onEntry st = HandleStateInUse"
  then show ?thesis
    by (auto simp: handleStateInUse_def UpdateResourceOnly_def lacks_LastUpdated_def Let_def split: bind_splits)
qed (auto simp: handleState_defs lacks_LastUpdated_def Let_def)

end

end
