(* ===== verification/Samples.thy ===== *)
theory Samples
  imports Api_Types
begin

text \<open>
  A pool of the in-memory provider and resources of it, on which the properties are run concretely.
\<close>

definition a_pool :: "CIPoolState \<Rightarrow> int \<Rightarrow> int \<Rightarrow> Time option \<Rightarrow> CIPool" where
  "a_pool s prio n del =
     \<lparr>P_Meta = \<lparr>Name = ''pool'', Namespace = ''ofcir'', Labels = None, Finalizers = [OfcirFinalizer],
        DeletionTimestamp = del, ResourceVersion = ''1''\<rparr>,
      P_Spec = \<lparr>PSpec_Provider = ''fake-provider'', PSpec_Priority = prio, PSpec_Size = n,
        PSpec_ProviderInfo = '''', PSpec_Timeout = Duration 100, PSpec_State = s, PSpec_Type = TypeCIHost\<rparr>,
      P_Status = \<lparr>PStatus_State = s, PStatus_Size = 1, PStatus_LastUpdated = None\<rparr>\<rparr>"

definition a_cir :: "string \<Rightarrow> CIResourceState \<Rightarrow> CIResourceState \<Rightarrow> CIResource" where
  "a_cir n sp st =
     \<lparr>C_Meta = \<lparr>Name = n, Namespace = ''ofcir'', Labels = None, Finalizers = [OfcirFinalizer],
        DeletionTimestamp = None, ResourceVersion = ''1''\<rparr>,
      C_Spec = \<lparr>CSpec_PoolRef = ''pool'', CSpec_State = sp, CSpec_Extra = '''', CSpec_Type = TypeCIHost\<rparr>,
      C_Status = \<lparr>CStatus_ResourceId = ''dummy-1'', CStatus_Address = ''1.1.1.1'', CStatus_ProviderInfo = '''',
        CStatus_Extra = '''', CStatus_State = st, CStatus_LastUpdated = Some 10\<rparr>\<rparr>"

lemma a_pool_sel [simp]:
  "PSpec_Provider (P_Spec (a_pool s prio n del)) = ''fake-provider''"
  "PSpec_Timeout (P_Spec (a_pool s prio n del)) = Duration 100"
  "PSpec_Priority (P_Spec (a_pool s prio n del)) = prio"
  "PSpec_Size (P_Spec (a_pool s prio n del)) = n" "PSpec_State (P_Spec (a_pool s prio n del)) = s"
  "PStatus_State (P_Status (a_pool s prio n del)) = s"
  "DeletionTimestamp (P_Meta (a_pool s prio n del)) = del"
  "pool_name (a_pool s prio n del) = ''pool''" "PSpec_Type (P_Spec (a_pool s prio n del)) = TypeCIHost"
  by (simp_all add: a_pool_def)

lemma a_cir_sel [simp]:
  "cir_name (a_cir n sp st) = n" "spec_state (a_cir n sp st) = sp" "status_state (a_cir n sp st) = st"
  "CStatus_LastUpdated (C_Status (a_cir n sp st)) = Some 10"
  "CStatus_ResourceId (C_Status (a_cir n sp st)) = ''dummy-1''"
  "Finalizers (C_Meta (a_cir n sp st)) = [OfcirFinalizer]"
  "DeletionTimestamp (C_Meta (a_cir n sp st)) = None" "Namespace (C_Meta (a_cir n sp st)) = ''ofcir''"
  "cir_pool (a_cir n sp st) = ''pool''"
  by (simp_all add: a_cir_def)

end
