(* ===== verification/Kube_Client.thy ===== *)
theory Kube_Client
  imports Fsm_Process Samples
begin

text \<open>
  The Kubernetes client of the two reconcilers (\<open>client.Client\<close> of controller-runtime) is code
  outside the repository: a record of functions over the world, one per kind of object and verb the
  reconcilers use. An object is fetched by namespace and name. \<open>Update\<close> and
  \<open>Status().Update\<close> decode the server's answer into the object they were given, so they return
  the object behind the pointer together with the error; a failed \<open>List\<close> may leave items in the
  list it was given, so it returns both.
\<close>

type_synonym NamespacedName = "string \<times> string"

record 'w Client =
  Get_CIResource :: "NamespacedName \<Rightarrow> ('w, error + CIResource) call"
  Get_CIPool :: "NamespacedName \<Rightarrow> ('w, error + CIPool) call"
  Get_Secret :: "NamespacedName \<Rightarrow> ('w, error + SecretData) call"
  List_CIResources :: "string \<Rightarrow> ('w, error option \<times> CIResource list) call"
  Create_CIResource :: "CIResource \<Rightarrow> ('w, error option) call"
  Update_CIResource :: "CIResource \<Rightarrow> ('w, error option \<times> CIResource) call"
  StatusUpdate_CIResource :: "CIResource \<Rightarrow> ('w, error option \<times> CIResource) call"
  DeleteAllOf_CIResources :: "string \<Rightarrow> (string \<times> string) list \<Rightarrow> ('w, error option) call"
  Update_CIPool :: "CIPool \<Rightarrow> ('w, error option \<times> CIPool) call"
  StatusUpdate_CIPool :: "CIPool \<Rightarrow> ('w, error option \<times> CIPool) call"

text \<open>The key of an object, and its version.\<close>

definition cir_key :: "CIResource \<Rightarrow> NamespacedName" where
  "cir_key c = (Namespace (C_Meta c), cir_name c)"

abbreviation cir_version :: "CIResource \<Rightarrow> string" where
  "cir_version c \<equiv> ResourceVersion (C_Meta c)"

text \<open>\<open>ctrl.Result\<close>: the delay of the next request, zero for none.\<close>

type_synonym ctrl_Result = "Duration \<times> error option"

text \<open>What a reconciler's call did: no write, or a write with the object it sent. A client that
  records its writes lets the properties say what reached the server.\<close>

datatype kube_write =
    W_Update_CIResource CIResource
  | W_StatusUpdate_CIResource CIResource
  | W_Create_CIResource CIResource
  | W_DeleteAllOf string "(string \<times> string) list"
  | W_Update_CIPool CIPool
  | W_StatusUpdate_CIPool CIPool

text \<open>The log of writes is kept in the world beside the rest; \<open>logged\<close> turns any client over
  \<open>'w\<close> into one that records what it is asked to write.\<close>

type_synonym 'w logged = "kube_write list \<times> 'w"

definition log_write :: "kube_write \<Rightarrow> ('w, 'a) call \<Rightarrow> ('w logged, 'a) call" where
  "log_write x c = (\<lambda>(ws, w). case c w of (r, w') \<Rightarrow> (r, ws @ [x], w'))"

definition log_read :: "('w, 'a) call \<Rightarrow> ('w logged, 'a) call" where
  "log_read c = (\<lambda>(ws, w). case c w of (r, w') \<Rightarrow> (r, ws, w'))"

definition logged :: "'w Client \<Rightarrow> 'w logged Client" where
  "logged cl =
     \<lparr>Get_CIResource = \<lambda>n. log_read (Get_CIResource cl n),
      Get_CIPool = \<lambda>n. log_read (Get_CIPool cl n),
      Get_Secret = \<lambda>n. log_read (Get_Secret cl n),
      List_CIResources = \<lambda>n. log_read (List_CIResources cl n),
      Create_CIResource = \<lambda>c. log_write (W_Create_CIResource c) (Create_CIResource cl c),
      Update_CIResource = \<lambda>c. log_write (W_Update_CIResource c) (Update_CIResource cl c),
      StatusUpdate_CIResource = \<lambda>c. log_write (W_StatusUpdate_CIResource c) (StatusUpdate_CIResource cl c),
      DeleteAllOf_CIResources = \<lambda>n l. log_write (W_DeleteAllOf n l) (DeleteAllOf_CIResources cl n l),
      Update_CIPool = \<lambda>p. log_write (W_Update_CIPool p) (Update_CIPool cl p),
      StatusUpdate_CIPool = \<lambda>p. log_write (W_StatusUpdate_CIPool p) (StatusUpdate_CIPool cl p)\<rparr>"

lemma logged_sel [simp]:
  "Get_CIResource (logged cl) n = log_read (Get_CIResource cl n)"
  "Get_CIPool (logged cl) n = log_read (Get_CIPool cl n)"
  "Get_Secret (logged cl) n = log_read (Get_Secret cl n)"
  "List_CIResources (logged cl) ns = log_read (List_CIResources cl ns)"
  "Create_CIResource (logged cl) c = log_write (W_Create_CIResource c) (Create_CIResource cl c)"
  "Update_CIResource (logged cl) c = log_write (W_Update_CIResource c) (Update_CIResource cl c)"
  "StatusUpdate_CIResource (logged cl) c = log_write (W_StatusUpdate_CIResource c) (StatusUpdate_CIResource cl c)"
  "DeleteAllOf_CIResources (logged cl) ns l = log_write (W_DeleteAllOf ns l) (DeleteAllOf_CIResources cl ns l)"
  "Update_CIPool (logged cl) p = log_write (W_Update_CIPool p) (Update_CIPool cl p)"
  "StatusUpdate_CIPool (logged cl) p = log_write (W_StatusUpdate_CIPool p) (StatusUpdate_CIPool cl p)"
  by (simp_all add: logged_def)

lemma log_read_apply [simp]: "log_read c (ws, w) = (fst (c w), ws, snd (c w))"
  by (simp add: log_read_def split: prod.split)

lemma log_write_apply [simp]: "log_write x c (ws, w) = (fst (c w), ws @ [x], snd (c w))"
  by (simp add: log_write_def split: prod.split)

section \<open>Providers beside the cluster\<close>

text \<open>A provider does not go through the client: in a world that has the cluster, or the log of its
  writes, as its first part, the provider keeps to the second.\<close>

definition snd_call :: "('w, 'a) go \<Rightarrow> ('l \<times> 'w, 'a) go" where
  "snd_call c = (\<lambda>(l, w). map_option (\<lambda>(r, w'). (r, l, w')) (c w))"

definition snd_provider :: "'w Provider \<Rightarrow> ('l \<times> 'w) Provider" where
  "snd_provider p =
     \<lparr>Acquire = \<lambda>n pn pt. snd_call (Acquire p n pn pt),
      AcquireCompleted = \<lambda>i. snd_call (AcquireCompleted p i), Clean = \<lambda>i. snd_call (Clean p i),
      CleanCompleted = \<lambda>i. snd_call (CleanCompleted p i), Release = \<lambda>i. snd_call (Release p i)\<rparr>"

definition snd_factory :: "'w factory \<Rightarrow> ('l \<times> 'w) factory" where
  "snd_factory mk info sec = (\<lambda>(l, w).
     map_option (\<lambda>(r, w'). (map_sum (\<lambda>e. e) snd_provider r, l, w')) (mk info sec w))"

definition snd_factories :: "'w ProviderFactories \<Rightarrow> ('l \<times> 'w) ProviderFactories" where
  "snd_factories fac =
     \<lparr>MakeDummy = \<lambda>info sec (l, w). (case MakeDummy fac info sec w of (p, w') \<Rightarrow> (snd_provider p, l, w')),
      MakeLibvirt = snd_factory (MakeLibvirt fac), MakeIronic = snd_factory (MakeIronic fac),
      MakeEquinix = snd_factory (MakeEquinix fac), MakeIbmcloud = snd_factory (MakeIbmcloud fac),
      MakeAWS = snd_factory (MakeAWS fac)\<rparr>"

lemma NewProvider_snd:
  "NewProvider (snd_factories fac) pool sec (l, w) =
     map_option (\<lambda>(r, w'). (map_sum (\<lambda>e. e) snd_provider r, l, w')) (NewProvider fac pool sec w)"
  by (simp add: NewProvider_def Let_def snd_factories_def snd_factory_def split: prod.split)

lemma map_sum_Inr: "map_sum f g x = Inr p \<Longrightarrow> (\<And>q. x = Inr q \<Longrightarrow> p = g q \<Longrightarrow> R) \<Longrightarrow> R"
  by (cases x) auto

lemma snd_call_Some:
  "snd_call c x = Some (r, y) \<longleftrightarrow> fst y = fst x \<and> c (snd x) = Some (r, snd y)"
  by (cases x; cases y) (auto simp: snd_call_def)

lemma snd_provider_sel [simp]:
  "Acquire (snd_provider p) n pn pt = snd_call (Acquire p n pn pt)"
  "AcquireCompleted (snd_provider p) i = snd_call (AcquireCompleted p i)"
  "Clean (snd_provider p) i = snd_call (Clean p i)"
  "CleanCompleted (snd_provider p) i = snd_call (CleanCompleted p i)"
  "Release (snd_provider p) i = snd_call (Release p i)"
  by (simp_all add: snd_provider_def)

interpretation beside: provider_keeps "snd_provider p" "\<lambda>w. fst w = l" for p l
  by unfold_locales (simp_all add: snd_call_Some)

lemma Process_snd:
  assumes "Process lib (snd_factories fac) now cir pool sec NewCIResourceFSM (l, w) = Some (r, w')"
  shows "fst w' = l"
proof -
  obtain rd sd d e cir' f' where r: "r = ((rd, sd, d, e), cir', f')" by (metis prod.exhaust)
  from assms show ?thesis unfolding r
  proof (cases rule: Process_cases)
    case failed
    then show ?thesis by (auto simp: NewProvider_snd)
  next
    case (ran p w1 st ctx')
    then obtain q where "p = snd_provider q" "fst w1 = l"
      by (auto simp: NewProvider_snd elim!: map_sum_Inr)
    with beside.run_handler_inv [OF this(2) _ ran(3), of q] show ?thesis by simp
  qed
qed

text \<open>Beside the log.\<close>

abbreviation beside_log :: "('w, 'a) go \<Rightarrow> ('w logged, 'a) go" where "beside_log \<equiv> snd_call"
abbreviation provider_beside :: "'w Provider \<Rightarrow> 'w logged Provider" where "provider_beside \<equiv> snd_provider"
abbreviation factories_beside :: "'w ProviderFactories \<Rightarrow> 'w logged ProviderFactories" where
  "factories_beside \<equiv> snd_factories"

section \<open>A client to run the reconcilers on\<close>

text \<open>A cluster that holds one pool and the given resources, and accepts every write: the
  instance the concrete runs use. The finalizer helpers act on the list of finalizers.\<close>

definition fixed_client :: "CIPool \<Rightarrow> CIResource list \<Rightarrow> 'w Client" where
  "fixed_client pool items =
     \<lparr>Get_CIResource = \<lambda>(ns, n) w. (case find (\<lambda>c. cir_name c = n) items of
         Some c \<Rightarrow> (Inr c, w) | None \<Rightarrow> (Inl (StatusNotFound n), w)),
      Get_CIPool = \<lambda>n w. (Inr pool, w),
      Get_Secret = \<lambda>(ns, n) w. (Inl (StatusNotFound n), w),
      List_CIResources = \<lambda>ns w. ((None, items), w),
      Create_CIResource = \<lambda>c w. (None, w),
      Update_CIResource = \<lambda>c w. ((None, c), w),
      StatusUpdate_CIResource = \<lambda>c w. ((None, c), w),
      DeleteAllOf_CIResources = \<lambda>ns l w. (None, w),
      Update_CIPool = \<lambda>p w. ((None, p), w),
      StatusUpdate_CIPool = \<lambda>p w. ((None, p), w)\<rparr>"

lemma fixed_client_sel [simp]:
  "Get_CIResource (fixed_client pool items) nn w = (case find (\<lambda>c. cir_name c = snd nn) items of
     Some c \<Rightarrow> (Inr c, w) | None \<Rightarrow> (Inl (StatusNotFound (snd nn)), w))"
  "Get_CIPool (fixed_client pool items) nn w = (Inr pool, w)"
  "Get_Secret (fixed_client pool items) nn w = (Inl (StatusNotFound (snd nn)), w)"
  "List_CIResources (fixed_client pool items) ns w = ((None, items), w)"
  "Create_CIResource (fixed_client pool items) c w = (None, w)"
  "Update_CIResource (fixed_client pool items) c w = ((None, c), w)"
  "StatusUpdate_CIResource (fixed_client pool items) c w = ((None, c), w)"
  "DeleteAllOf_CIResources (fixed_client pool items) ns l w = (None, w)"
  "Update_CIPool (fixed_client pool items) p w = ((None, p), w)"
  "StatusUpdate_CIPool (fixed_client pool items) p w = ((None, p), w)"
  by (simp_all add: fixed_client_def split: prod.split option.split)

definition list_finalizers :: Controllerutil where
  "list_finalizers =
     \<lparr>ContainsFinalizer = \<lambda>fs f. f \<in> set fs,
      AddFinalizer = \<lambda>fs f. if f \<in> set fs then fs else fs @ [f],
      RemoveFinalizer = \<lambda>fs f. removeAll f fs\<rparr>"

lemma list_finalizers_sel [simp]:
  "ContainsFinalizer list_finalizers fs f \<longleftrightarrow> f \<in> set fs"
  "AddFinalizer list_finalizers fs f = (if f \<in> set fs then fs else fs @ [f])"
  "RemoveFinalizer list_finalizers fs f = removeAll f fs"
  by (simp_all add: list_finalizers_def)

lemma list_finalizers_laws [simp]: "finalizer_laws list_finalizers"
  by (simp add: finalizer_laws_def)

end
