(* ===== verification/Cir_Controller.thy ===== *)
theory Cir_Controller
  imports Kube_Client
begin

text \<open>
  The reconciler of CIResources, \<open>controllers/ciresource_controller.go\<close>: fetch the resource, its
  pool and the pool's secret, run the state machine once, write back what it changed. The clock is
  read twice, by the state machine (\<open>now\<close>) and by \<open>updateStatus\<close> (\<open>now'\<close>).
\<close>

definition getPool ::
  "'w Client \<Rightarrow> CIResource \<Rightarrow> ('w, error + CIPool \<times> SecretData) call" where
  "getPool cl cir w =
     (case Get_CIPool cl (Namespace (C_Meta cir), cir_pool cir) w of
        (Inl err, w) \<Rightarrow> (Inl err, w)
      | (Inr pool, w) \<Rightarrow>
          (case Get_Secret cl (Namespace (P_Meta pool), pool_name pool @ ''-secret'') w of
             (Inl err, w) \<Rightarrow> (if \<not> IsNotFound err then (Inl err, w) else (Inr (pool, Map.empty), w))
           | (Inr secret, w) \<Rightarrow> (Inr (pool, secret), w)))"

definition updateResource :: "'w Client \<Rightarrow> CIResource \<Rightarrow> ('w, error option) call" where
  "updateResource cl cir w = (case Update_CIResource cl cir w of ((err, c), w) \<Rightarrow> (err, w))"

definition set_LastUpdated :: "Time \<Rightarrow> CIResource \<Rightarrow> CIResource" where
  "set_LastUpdated t = modify_status (\<lambda>s. s\<lparr>CStatus_LastUpdated := Some t\<rparr>)"

definition updateStatus :: "'w Client \<Rightarrow> Time \<Rightarrow> CIResource \<Rightarrow> ('w, error option) call" where
  "updateStatus cl now cir w =
     (case StatusUpdate_CIResource cl (set_LastUpdated now cir) w of ((err, c), w) \<Rightarrow> (err, w))"

definition CIResource_Reconcile ::
  "Controllerutil \<Rightarrow> 'w ProviderFactories \<Rightarrow> 'w Client \<Rightarrow> Time \<Rightarrow> Time \<Rightarrow> NamespacedName
   \<Rightarrow> ('w, ctrl_Result) go" where
  "CIResource_Reconcile lib fac cl now now' req w =
     (case Get_CIResource cl req w of
        (Inl err, w) \<Rightarrow> (if IsNotFound err then Some ((0, None), w) else Some ((0, None), w))
      | (Inr cir, w) \<Rightarrow>
          (case getPool cl cir w of
             (Inl err, w) \<Rightarrow> Some ((0, Some err), w)
           | (Inr (pool, poolSecret), w) \<Rightarrow>
               do {
                 (((isDirty, isStatusDirty, retryAfter, err), cir, fsm), w) \<leftarrow>
                   Process lib fac now cir pool poolSecret NewCIResourceFSM w;
                 let (err, w) =
                   (if err = None
                    then (if isDirty then updateResource cl cir w
                          else if isStatusDirty then updateStatus cl now' cir w
                          else (err, w))
                    else (err, w));
                 Some (case err of
                     Some e \<Rightarrow> ((0, Some e), w)
                   | None \<Rightarrow> ((retryAfter, None), w))
               }))"

lemma set_LastUpdated_sel [simp]:
  "C_Meta (set_LastUpdated t c) = C_Meta c" "C_Spec (set_LastUpdated t c) = C_Spec c"
  "status_state (set_LastUpdated t c) = status_state c"
  "CStatus_LastUpdated (C_Status (set_LastUpdated t c)) = Some t"
  "CStatus_ResourceId (C_Status (set_LastUpdated t c)) = CStatus_ResourceId (C_Status c)"
  "CStatus_Address (C_Status (set_LastUpdated t c)) = CStatus_Address (C_Status c)"
  by (simp_all add: set_LastUpdated_def)

section \<open>What a request does\<close>

lemma Reconcile_found:
  assumes "Get_CIResource cl req w = (Inr cir, w1)" and "getPool cl cir w1 = (Inr (pool, sec), w2)"
    and "Process lib fac now cir pool sec NewCIResourceFSM w2 = Some (((rd, sd, d, e), cir', f'), w3)"
  shows "CIResource_Reconcile lib fac cl now now' req w =
     Some (case e of
        Some x \<Rightarrow> ((0, Some x), w3)
      | None \<Rightarrow>
          (if rd then (case updateResource cl cir' w3 of (None, w4) \<Rightarrow> ((d, None), w4) | (Some x, w4) \<Rightarrow> ((0, Some x), w4))
           else if sd then (case updateStatus cl now' cir' w3 of (None, w4) \<Rightarrow> ((d, None), w4) | (Some x, w4) \<Rightarrow> ((0, Some x), w4))
           else ((d, None), w3)))"
  using assms
  by (simp add: CIResource_Reconcile_def split: option.split prod.split)

lemma Reconcile_panics:
  "CIResource_Reconcile lib fac cl now now' req w = None \<longleftrightarrow>
     (\<exists>cir w1 pool sec w2. Get_CIResource cl req w = (Inr cir, w1) \<and> getPool cl cir w1 = (Inr (pool, sec), w2) \<and>
        Process lib fac now cir pool sec NewCIResourceFSM w2 = None)"
  by (auto simp: CIResource_Reconcile_def Let_def bind_eq_None_conv
      split: sum.splits prod.splits option.splits if_splits)

section \<open>The request behind a write\<close>

lemma getPool_logged:
  "getPool (logged cl) cir (ws, w) = (fst (getPool cl cir w), ws, snd (getPool cl cir w))"
  by (auto simp: getPool_def split: sum.split prod.split)

text \<open>A request that wrote ran \<open>Process\<close> without an error on the resource and the pool it had read,
  and sent what \<open>Process\<close> left behind the pointer.\<close>

lemma Reconcile_write:
  assumes "CIResource_Reconcile lib (factories_beside fac) (logged cl) now now' req ([], w) = Some (r, ws, w')"
    and "ws \<noteq> []"
  obtains cir w1 pool sec w2 rd sd d cir' f' u where
    "Get_CIResource cl req w = (Inr cir, w1)" "getPool cl cir w1 = (Inr (pool, sec), w2)"
    "Process lib (factories_beside fac) now cir pool sec NewCIResourceFSM ([], w2) =
       Some (((rd, sd, d, None), cir', f'), u)"
    "rd \<and> \<not> sd \<and> ws = [W_Update_CIResource cir'] \<or>
     sd \<and> \<not> rd \<and> ws = [W_StatusUpdate_CIResource (set_LastUpdated now' cir')]"
proof -
  obtain g w1 where g: "Get_CIResource cl req w = (g, w1)" by (metis prod.exhaust)
  with assms obtain cir where cir: "g = Inr cir"
    by (cases g) (auto simp: CIResource_Reconcile_def split: if_split_asm)
  obtain x w2 where x: "getPool cl cir w1 = (x, w2)" by (metis prod.exhaust)
  with assms g cir obtain pool sec where ps: "x = Inr (pool, sec)"
    by (cases x) (auto simp: CIResource_Reconcile_def getPool_logged)
  show ?thesis
  proof (cases "Process lib (factories_beside fac) now cir pool sec NewCIResourceFSM ([], w2)")
    case None
    with assms g cir x ps show ?thesis by (simp add: CIResource_Reconcile_def getPool_logged)
  next
    case (Some y)
    obtain rd sd d e cir' f' u where y: "y = (((rd, sd, d, e), cir', f'), u)" by (metis prod.exhaust)
    note run = Some [unfolded y]
    have u: "fst u = []" by (rule Process_snd [OF run])
    have found: "(r, ws, w') = (case e of Some z \<Rightarrow> ((0, Some z), u) | None \<Rightarrow>
         (if rd then (case updateResource (logged cl) cir' u of (None, w4) \<Rightarrow> ((d, None), w4) | (Some x, w4) \<Rightarrow> ((0, Some x), w4))
          else if sd then (case updateStatus (logged cl) now' cir' u of (None, w4) \<Rightarrow> ((d, None), w4) | (Some x, w4) \<Rightarrow> ((0, Some x), w4))
          else ((d, None), u)))"
      using assms(1) Reconcile_found [of "logged cl" req "([], w)" cir "([], w1)", OF _ _ run] g cir x ps
      by (simp add: getPool_logged)
    with assms(2) u have e: "e = None" by (cases e) auto
    with found assms(2) u have "rd \<and> ws = [W_Update_CIResource cir'] \<or>
        \<not> rd \<and> sd \<and> ws = [W_StatusUpdate_CIResource (set_LastUpdated now' cir')]"
      by (cases u) (auto simp: updateResource_def updateStatus_def
        split: option.split_asm if_split_asm prod.split_asm)
    with process_writes_lemma(1) [OF run] g cir x ps run e show ?thesis by (intro that) auto
  qed
qed

end
