(* ===== verification/Dummy_Provider.thy ===== *)
theory Dummy_Provider
  imports Provider
begin

text \<open>
  The in-memory provider of \<open>pkg/providers/dummy.go\<close>. Its world holds the package variables
  \<open>dummy\<close> and \<open>once\<close> (\<^term>\<open>None\<close> until the factory first ran) and a counter of the map
  iterations done: Go visits a map in an unspecified order that may differ each time, so the
  order of the \<open>k\<close>-th iteration is an argument of \<open>Acquire\<close>.
\<close>

section \<open>State\<close>

definition maxAvailableResources :: nat where "maxAvailableResources = 10"

record dummyInstance =
  di_Resource :: Resource
  available :: bool

type_synonym instances = "string \<rightharpoonup> dummyInstance"

record dummy_world =
  dummy :: "instances option"
  ranges :: nat

type_synonym map_order = "nat \<Rightarrow> instances \<Rightarrow> string list"

text \<open>What the Go specification promises of a \<open>range\<close> over a map nobody changes: every key once.\<close>

definition visits_once :: "map_order \<Rightarrow> bool" where
  "visits_once ord \<longleftrightarrow>
     (\<forall>k m. finite (dom m) \<longrightarrow> set (ord k m) = dom m \<and> distinct (ord k m))"

section \<open>Factory\<close>

definition dummy_id :: "nat \<Rightarrow> string" where
  "dummy_id n = ''dummy-'' @ Itoa (int n)"

definition dummy_instance :: "nat \<Rightarrow> dummyInstance" where
  "dummy_instance n =
     \<lparr>di_Resource = \<lparr>Id = dummy_id n, Address = ''1.1.1.'' @ Itoa (int n), Metadata = ''{}''\<rparr>,
      available = True\<rparr>"

definition dummy_instances :: instances where
  "dummy_instances =
     foldl (\<lambda>m n. m(Id (di_Resource (dummy_instance n)) \<mapsto> dummy_instance n)) Map.empty
       [0..<maxAvailableResources]"

definition dummy_once :: "dummy_world \<Rightarrow> dummy_world" where
  "dummy_once w = (case dummy w of None \<Rightarrow> w\<lparr>dummy := Some dummy_instances\<rparr> | Some m \<Rightarrow> w)"

section \<open>Operations\<close>

text \<open>The methods run on the pointer the factory returned, so before \<open>once\<close> they would
  dereference nil. \<open>Acquire\<close> hands out the first available instance its iteration meets.\<close>

definition dummy_Acquire ::
  "map_order \<Rightarrow> int \<Rightarrow> string \<Rightarrow> string \<Rightarrow> (dummy_world, Resource \<times> error option) go" where
  "dummy_Acquire ord poolSize poolName poolType w =
     do {
       m \<leftarrow> dummy w;
       let w1 = w\<lparr>ranges := Suc (ranges w)\<rparr>;
       case List.find (\<lambda>k. \<exists>i \<in> set_option (m k). available i) (ord (ranges w) m) of
         Some k \<Rightarrow> do {
           i \<leftarrow> m k;
           let i = i\<lparr>available := False\<rparr>;
           Some ((di_Resource i, None), w1\<lparr>dummy := Some (m(Id (di_Resource i) \<mapsto> i))\<rparr>)
         }
       | None \<Rightarrow> Some ((Resource0, Some (ErrorString ''no available resources found'')), w1)
     }"

definition dummy_not_found :: "string \<Rightarrow> error" where
  "dummy_not_found i = ErrorString (''resource '' @ i @ '' not found'')"

definition dummy_AcquireCompleted ::
  "string \<Rightarrow> (dummy_world, bool \<times> Resource \<times> error option) go" where
  "dummy_AcquireCompleted i w =
     do {
       m \<leftarrow> dummy w;
       (case m i of
          None \<Rightarrow> Some ((False, Resource0, Some (dummy_not_found i)), w)
        | Some r \<Rightarrow> Some ((True, di_Resource r, None), w))
     }"

definition dummy_Clean :: "string \<Rightarrow> (dummy_world, error option) go" where
  "dummy_Clean i w =
     do {
       m \<leftarrow> dummy w;
       Some ((case m i of None \<Rightarrow> Some (dummy_not_found i) | Some r \<Rightarrow> None), w)
     }"

definition dummy_CleanCompleted :: "string \<Rightarrow> (dummy_world, bool \<times> error option) go" where
  "dummy_CleanCompleted i w =
     do {
       m \<leftarrow> dummy w;
       Some ((case m i of None \<Rightarrow> (False, Some (dummy_not_found i)) | Some r \<Rightarrow> (True, None)), w)
     }"

definition dummy_Release :: "string \<Rightarrow> (dummy_world, error option) go" where
  "dummy_Release i w =
     do {
       m \<leftarrow> dummy w;
       (case m i of
          None \<Rightarrow> Some (Some (dummy_not_found i), w)
        | Some r \<Rightarrow> Some (None, w\<lparr>dummy := Some (m(i \<mapsto> r\<lparr>available := True\<rparr>))\<rparr>))
     }"

definition dummyProvider :: "map_order \<Rightarrow> dummy_world Provider" where
  "dummyProvider ord =
     \<lparr>Acquire = dummy_Acquire ord, AcquireCompleted = dummy_AcquireCompleted, Clean = dummy_Clean,
      CleanCompleted = dummy_CleanCompleted, Release = dummy_Release\<rparr>"

definition DummyProviderFactory ::
  "map_order \<Rightarrow> string \<Rightarrow> (string \<rightharpoonup> string) \<Rightarrow> (dummy_world, dummy_world Provider) call" where
  "DummyProviderFactory ord providerInfo secretData w = (dummyProvider ord, dummy_once w)"

lemmas dummy_defs =
  dummy_Acquire_def dummy_AcquireCompleted_def dummy_Clean_def dummy_CleanCompleted_def
  dummy_Release_def

lemma dummyProvider_sel [simp]:
  "Acquire (dummyProvider ord) = dummy_Acquire ord"
  "AcquireCompleted (dummyProvider ord) = dummy_AcquireCompleted"
  "Clean (dummyProvider ord) = dummy_Clean"
  "CleanCompleted (dummyProvider ord) = dummy_CleanCompleted"
  "Release (dummyProvider ord) = dummy_Release"
  by (simp_all add: dummyProvider_def)

section \<open>Invariant\<close>

text \<open>After the factory ran: ten instances, each stored under its own identifier.\<close>

definition dummy_inv :: "dummy_world \<Rightarrow> bool" where
  "dummy_inv w \<longleftrightarrow>
     (\<exists>m. dummy w = Some m \<and> dom m = dummy_id ` {..<maxAvailableResources} \<and>
        (\<forall>k i. m k = Some i \<longrightarrow> Id (di_Resource i) = k))"

lemma dummy_invE:
  assumes "dummy_inv w"
  obtains m where "dummy w = Some m" "finite (dom m)" "dom m = dummy_id ` {..<maxAvailableResources}"
    "\<forall>k i. m k = Some i \<longrightarrow> Id (di_Resource i) = k"
proof -
  from assms obtain m where m: "dummy w = Some m" "dom m = dummy_id ` {..<maxAvailableResources}"
    "\<forall>k i. m k = Some i \<longrightarrow> Id (di_Resource i) = k" by (auto simp: dummy_inv_def)
  moreover from m(2) have "finite (dom m)" by simp
  ultimately show thesis by (intro that)
qed

lemma Itoa_inject [simp]: "Itoa (int a) = Itoa (int b) \<longleftrightarrow> a = b"
  by (metis Itoa_def dec_val_digits nat_int of_nat_less_0_iff)

lemma dummy_id_inject [simp]: "dummy_id a = dummy_id b \<longleftrightarrow> a = b"
  by (simp add: dummy_id_def)

lemma dummy_instances_upto:
  "foldl (\<lambda>m k. m(Id (di_Resource (dummy_instance k)) \<mapsto> dummy_instance k)) Map.empty [0..<n] x =
     (if \<exists>k<n. x = dummy_id k then Some (dummy_instance (THE k. x = dummy_id k)) else None)"
  by (induction n) (auto simp: dummy_instance_def less_Suc_eq)

lemma dummy_instances_Some:
  "dummy_instances x = Some i \<longleftrightarrow> (\<exists>k<maxAvailableResources. x = dummy_id k \<and> i = dummy_instance k)"
  by (auto simp: dummy_instances_def dummy_instances_upto)

lemma dom_dummy_instances: "dom dummy_instances = dummy_id ` {..<maxAvailableResources}"
  by (auto simp: dom_def dummy_instances_Some)

lemma dummy_once_inv: "dummy w = None \<or> dummy_inv w \<Longrightarrow> dummy_inv (dummy_once w)"
  using dom_dummy_instances
  by (cases "dummy w") (auto simp: dummy_once_def dummy_inv_def dummy_instances_Some
      dummy_instance_def simp del: domIff)

text \<open>The \<open>sync.Once\<close>: later calls of the factory leave the instances as they are.\<close>

lemma dummy_once_idem [simp]: "dummy_once (dummy_once w) = dummy_once w"
  by (auto simp: dummy_once_def split: option.splits)

section \<open>Specification: a set of free identifiers\<close>

definition dummy_free :: "dummy_world \<Rightarrow> string set" where
  "dummy_free w = {k. \<exists>m i. dummy w = Some m \<and> m k = Some i \<and> available i}"

lemma dummy_free_finite: "dummy_inv w \<Longrightarrow> finite (dummy_free w) \<and> card (dummy_free w) \<le> maxAvailableResources"
proof (elim dummy_invE)
  fix m assume m: "dummy w = Some m" "dom m = dummy_id ` {..<maxAvailableResources}"
  then have sub: "dummy_free w \<subseteq> dummy_id ` {..<maxAvailableResources}"
    by (auto simp: dummy_free_def)
  have "card (dummy_id ` {..<maxAvailableResources}) \<le> maxAvailableResources"
    using card_image_le [of "{..<maxAvailableResources}" dummy_id] by simp
  with sub show ?thesis
    by (meson card_mono finite_imageI finite_lessThan finite_subset le_trans)
qed

lemma dummy_Acquire_cases:
  assumes inv: "dummy_inv w" and ord: "visits_once ord"
  shows "(\<exists>r w'. dummy_Acquire ord n pn pt w = Some ((r, None), w') \<and> dummy_inv w' \<and>
            Id r \<in> dummy_free w \<and> dummy_free w' = dummy_free w - {Id r}) \<or>
         (\<exists>e w'. dummy_Acquire ord n pn pt w = Some ((Resource0, Some e), w') \<and> dummy_inv w' \<and>
            dummy_free w = {} \<and> dummy_free w' = {})"
proof -
  from inv obtain m where m: "dummy w = Some m" "finite (dom m)"
      "dom m = dummy_id ` {..<maxAvailableResources}" "\<forall>k i. m k = Some i \<longrightarrow> Id (di_Resource i) = k"
    by (elim dummy_invE)
  let ?P = "\<lambda>k. \<exists>i \<in> set_option (m k). available i"
  from ord m(2) have keys: "set (ord (ranges w) m) = dom m" by (auto simp: visits_once_def)
  show ?thesis
  proof (cases "List.find ?P (ord (ranges w) m)")
    case None
    with keys have "dummy_free w = {}"
      using m(1) by (fastforce simp: find_None_iff dummy_free_def)
    with None m show ?thesis
      by (auto simp: dummy_Acquire_def dummy_inv_def dummy_free_def)
  next
    case (Some k)
    then have "?P k" by (auto simp: find_Some_iff)
    then obtain i where i: "m k = Some i" "available i" by auto
    with m(4) have "Id (di_Resource i) = k" by blast
    with Some m(1) i have call: "dummy_Acquire ord n pn pt w =
        Some ((di_Resource i, None), w\<lparr>ranges := Suc (ranges w), dummy := Some (m(k \<mapsto> i\<lparr>available := False\<rparr>))\<rparr>)"
      by (simp add: dummy_Acquire_def Let_def)
    moreover have "dummy_inv (w\<lparr>ranges := Suc (ranges w), dummy := Some (m(k \<mapsto> i\<lparr>available := False\<rparr>))\<rparr>)"
      using m i by (auto simp: dummy_inv_def dom_def)
    ultimately show ?thesis
      using m(1) i \<open>Id (di_Resource i) = k\<close> by (auto simp: dummy_free_def split: if_splits)
  qed
qed

lemma dummy_Release_cases:
  assumes inv: "dummy_inv w"
  shows "\<exists>r w'. dummy_Release i w = Some (r, w') \<and> dummy_inv w' \<and>
           (if i \<in> dummy_id ` {..<maxAvailableResources}
            then r = None \<and> dummy_free w' = insert i (dummy_free w)
            else r = Some (dummy_not_found i) \<and> w' = w)"
proof -
  from inv obtain m where m: "dummy w = Some m" "dom m = dummy_id ` {..<maxAvailableResources}"
      "\<forall>k i. m k = Some i \<longrightarrow> Id (di_Resource i) = k"
    by (elim dummy_invE)
  show ?thesis
  proof (cases "m i")
    case None
    then have "i \<notin> dummy_id ` {..<maxAvailableResources}" using m(2) by (metis domIff)
    with None m(1) inv show ?thesis by (simp add: dummy_Release_def)
  next
    case (Some d)
    then have "i \<in> dummy_id ` {..<maxAvailableResources}" using m(2) by blast
    with Some m show ?thesis
      by (auto simp: dummy_Release_def dummy_inv_def dummy_free_def dom_def split: if_splits)
  qed
qed

section \<open>The contract\<close>

interpretation dummy: total_provider "dummyProvider ord" "\<lambda>w. dummy_inv w \<and> visits_once ord" for ord
proof (unfold_locales, goal_cases)
  case (1 w n pn pt w' r)
  then show ?case
    using dummy_Acquire_cases [of w ord n pn pt] by auto
next
  case (5 w i w' r)
  then show ?case
    using dummy_Release_cases [of w i] by auto
next
  case (8 w n pn pt)
  then show ?case
    using dummy_Acquire_cases [of w ord n pn pt] by auto
next
  case (12 w i)
  then show ?case
    using dummy_Release_cases [of w i] by auto
qed (auto simp: dummy_defs dummy_inv_def split: option.splits)

section \<open>Runs of the provider\<close>

text \<open>A run of acquisitions and releases, with the identifiers handed out and not given back.\<close>

datatype dummy_op = DAcquire | DRelease string

fun dummy_run ::
  "map_order \<Rightarrow> dummy_op list \<Rightarrow> string list \<Rightarrow> dummy_world \<Rightarrow> (string list \<times> dummy_world) option" where
  "dummy_run ord [] held w = Some (held, w)"
| "dummy_run ord (DAcquire # ops) held w =
     do {
       ((r, e), w) \<leftarrow> dummy_Acquire ord 0 [] [] w;
       dummy_run ord ops (if e = None then Id r # held else held) w
     }"
| "dummy_run ord (DRelease i # ops) held w =
     do {
       (e, w) \<leftarrow> dummy_Release i w;
       dummy_run ord ops (if e = None then removeAll i held else held) w
     }"

definition held_ok :: "string list \<Rightarrow> dummy_world \<Rightarrow> bool" where
  "held_ok held w \<longleftrightarrow>
     distinct held \<and> set held \<subseteq> dummy_id ` {..<maxAvailableResources} - dummy_free w"

lemma held_okD:
  assumes "held_ok held w"
  shows "distinct held" "length held \<le> maxAvailableResources"
proof -
  from assms have *: "distinct held" "set held \<subseteq> dummy_id ` {..<maxAvailableResources}"
    by (auto simp: held_ok_def)
  then show "distinct held" by simp
  have "length held = card (set held)" using * by (simp add: distinct_card)
  also have "\<dots> \<le> card (dummy_id ` {..<maxAvailableResources})"
    using * by (simp add: card_mono)
  also have "\<dots> \<le> maxAvailableResources"
    using card_image_le [of "{..<maxAvailableResources}" dummy_id] by simp
  finally show "length held \<le> maxAvailableResources" .
qed

lemma dummy_free_subset: "dummy_inv w \<Longrightarrow> dummy_free w \<subseteq> dummy_id ` {..<maxAvailableResources}"
  by (auto simp: dummy_free_def dummy_inv_def dom_def)

lemma dummy_run_held:
  assumes "dummy_inv w" and "visits_once ord" and "held_ok held w"
  shows "\<exists>held' w'. dummy_run ord ops held w = Some (held', w') \<and> dummy_inv w' \<and> held_ok held' w'"
  using assms
proof (induction ops arbitrary: held w)
  case Nil
  then show ?case by simp
next
  case (Cons op ops)
  show ?case
  proof (cases op)
    case DAcquire
    consider (ok) r w' where "dummy_Acquire ord 0 [] [] w = Some ((r, None), w')" "dummy_inv w'"
        "Id r \<in> dummy_free w" "dummy_free w' = dummy_free w - {Id r}"
      | (fail) e w' where "dummy_Acquire ord 0 [] [] w = Some ((Resource0, Some e), w')" "dummy_inv w'"
        "dummy_free w = {}" "dummy_free w' = {}"
      using dummy_Acquire_cases [OF Cons.prems(1,2), of 0 "[]" "[]"] by blast
    then show ?thesis
    proof cases
      case ok
      with Cons.prems(1,3) have "held_ok (Id r # held) w'"
        using dummy_free_subset by (auto simp: held_ok_def)
      with ok Cons.prems(2) Cons.IH DAcquire show ?thesis by simp
    next
      case fail
      with Cons.prems(3) have "held_ok held w'" by (simp add: held_ok_def)
      with fail Cons.prems(2) Cons.IH DAcquire show ?thesis by simp
    qed
  next
    case (DRelease i)
    from dummy_Release_cases [OF Cons.prems(1), of i] obtain r w' where
      rel: "dummy_Release i w = Some (r, w')" "dummy_inv w'"
      "if i \<in> dummy_id ` {..<maxAvailableResources}
       then r = None \<and> dummy_free w' = insert i (dummy_free w)
       else r = Some (dummy_not_found i) \<and> w' = w" by blast
    with Cons.prems(3) have "held_ok (if r = None then removeAll i held else held) w'"
      by (auto simp: held_ok_def distinct_removeAll split: if_splits)
    with rel(1,2) Cons.prems(2) Cons.IH DRelease show ?thesis by simp
  qed
qed

end
