(* ===== verification/Lifecycle.thy ===== *)
theory Lifecycle
  imports Cir_Controller Dummy_Provider
begin

text \<open>
  The life of one CIResource: runs of the reconciler whose writes reach the server or are lost,
  edits of the specification and deletion requests by others, in any order, over any provider. The
  invariant of the reachable states shows that the reconciler never dereferences a missing time
  and that no resource past its first state is without the finalizer; \<open>drive\<close> composes successful
  runs and gives the liveness properties.
\<close>

section \<open>Steps\<close>

definition request_deletion :: "Time \<Rightarrow> CIResource \<Rightarrow> CIResource" where
  "request_deletion t c = c\<lparr>C_Meta := (C_Meta c)\<lparr>DeletionTimestamp := Some t\<rparr>\<rparr>"

definition edit_spec :: "CIResourceState \<Rightarrow> string \<Rightarrow> CIResource \<Rightarrow> CIResource" where
  "edit_spec s x c = c\<lparr>C_Spec := (C_Spec c)\<lparr>CSpec_State := s, CSpec_Extra := x\<rparr>\<rparr>"

definition edit_labels :: "(string \<rightharpoonup> string) option \<Rightarrow> CIResource \<Rightarrow> CIResource" where
  "edit_labels l c = c\<lparr>C_Meta := (C_Meta c)\<lparr>Labels := l\<rparr>\<rparr>"

text \<open>\<open>env\<close> is what others do to the world meanwhile.\<close>

inductive life_step ::
  "Controllerutil \<Rightarrow> 'w ProviderFactories \<Rightarrow> ('w \<Rightarrow> 'w \<Rightarrow> bool) \<Rightarrow> CIResource \<times> 'w \<Rightarrow> CIResource \<times> 'w \<Rightarrow> bool"
  for lib fac env where
  run_resource: "Process lib fac now cir pool sec NewCIResourceFSM w = Some (((True, sd, d, None), cir', f'), w') \<Longrightarrow>
     life_step lib fac env (cir, w) (cir', w')"
| run_status: "Process lib fac now cir pool sec NewCIResourceFSM w = Some (((False, True, d, None), cir', f'), w') \<Longrightarrow>
     life_step lib fac env (cir, w) (set_LastUpdated now' cir', w')"
| run_lost: "Process lib fac now cir pool sec NewCIResourceFSM w = Some (r, w') \<Longrightarrow>
     life_step lib fac env (cir, w) (cir, w')"
| spec_edited: "life_step lib fac env (cir, w) (edit_spec s x cir, w)"
| labels_edited: "life_step lib fac env (cir, w) (edit_labels l cir, w)"
| deletion_requested: "t \<noteq> 0 \<Longrightarrow> life_step lib fac env (cir, w) (request_deletion t cir, w)"
| world_moved: "env w w' \<Longrightarrow> life_step lib fac env (cir, w) (cir, w')"

inductive_cases life_stepE: "life_step lib fac env x y"

inductive life_reach ::
  "Controllerutil \<Rightarrow> 'w ProviderFactories \<Rightarrow> ('w \<Rightarrow> 'w \<Rightarrow> bool) \<Rightarrow> 'w \<Rightarrow> CIResource \<times> 'w \<Rightarrow> bool"
  for lib fac env w0 where
  created: "status_state cir = StateNone \<Longrightarrow> life_reach lib fac env w0 (cir, w0)"
| step: "life_reach lib fac env w0 x \<Longrightarrow> life_step lib fac env x y \<Longrightarrow> life_reach lib fac env w0 y"

section \<open>The invariant\<close>

definition life_ok :: "Controllerutil \<Rightarrow> CIResource \<Rightarrow> bool" where
  "life_ok lib c \<longleftrightarrow>
     (status_state c \<noteq> StateNone \<longrightarrow> CStatus_LastUpdated (C_Status c) \<noteq> None) \<and>
     (status_state c \<notin> {StateNone, StateDelete} \<longrightarrow> IsZero (DeletionTimestamp (C_Meta c)) \<longrightarrow>
        ContainsFinalizer lib (Finalizers (C_Meta c)) OfcirFinalizer)"

lemma edits_sel [simp]:
  "C_Status (request_deletion t c) = C_Status c" "C_Status (edit_spec s x c) = C_Status c"
  "C_Status (edit_labels l c) = C_Status c"
  "C_Meta (edit_spec s x c) = C_Meta c"
  "C_Meta (request_deletion t c) = (C_Meta c)\<lparr>DeletionTimestamp := Some t\<rparr>"
  "C_Meta (edit_labels l c) = (C_Meta c)\<lparr>Labels := l\<rparr>"
  by (simp_all add: request_deletion_def edit_spec_def edit_labels_def)

text \<open>Leaving the first state by an event takes the finalizer or a deletion request.\<close>

lemma Process_leaves_None:
  fixes w :: 'w
  assumes "Process lib fac now cir pool sec NewCIResourceFSM w = Some (((rd, True, d, e), cir', f'), w')"
    and "status_state cir = StateNone" and "IsZero (DeletionTimestamp (C_Meta cir))"
  shows "ContainsFinalizer lib (Finalizers (C_Meta cir)) OfcirFinalizer"
  using assms(1)
proof (cases rule: Process_cases)
  case (ran p w1 st ctx')
  with assms(2) fsm_onEntry(1) [OF ran(2)] have
    "handleStateNone lib (fsm_ctx cir pool p) (fresh_fsm StateNone) w1 = Some (((d, e), ctx', f'), w')" by simp
  with ran(5) assms(3) show ?thesis
    by (auto simp: handleStateNone_def UpdateResourceOnly_def Let_def split: if_split_asm)
qed simp

lemma life_ok_run_resource:
  assumes "life_ok lib cir" and "finalizer_laws lib"
    and "Process lib fac now cir pool sec NewCIResourceFSM w = Some (((True, sd, d, None), cir', f'), w')"
  shows "life_ok lib cir'"
proof -
  note wr = process_writes_lemma [OF assms(3)]
  from wr(6,7) have st: "C_Status cir' = C_Status cir"
    and del: "DeletionTimestamp (C_Meta cir') = DeletionTimestamp (C_Meta cir)"
    by (auto dest: arg_cong [where f = DeletionTimestamp])
  show ?thesis
  proof (cases "ContainsFinalizer lib (Finalizers (C_Meta cir)) OfcirFinalizer \<and>
      \<not> ContainsFinalizer lib (Finalizers (C_Meta cir')) OfcirFinalizer")
    case True
    with Process_finalizer_removed [OF assms(2,3)] have "status_state cir = StateDelete" by blast
    with st assms(1) show ?thesis by (simp add: life_ok_def)
  next
    case False
    with st del assms(1) show ?thesis by (auto simp: life_ok_def)
  qed
qed

lemma life_ok_run_status:
  assumes "life_ok lib cir"
    and "Process lib fac now cir pool sec NewCIResourceFSM w = Some (((False, True, d, None), cir', f'), w')"
  shows "life_ok lib (set_LastUpdated now' cir')"
proof -
  have m: "C_Meta cir' = C_Meta cir" using process_writes_lemma(5) [OF assms(2)] by simp
  have "status_state cir \<noteq> StateDelete"
    using Process_step [OF assms(2)] fired_edge(1) [of "status_state cir" "status_state cir'"]
    by (auto simp: step_ok_def elim: edge_from_delete)
  with m assms(1) Process_leaves_None [OF assms(2)] show ?thesis
    by (auto simp: life_ok_def)
qed

lemma life_ok_step:
  assumes "life_step lib fac env (cir, w) (cir', w')" and "life_ok lib cir" and "finalizer_laws lib"
  shows "life_ok lib cir'"
  using assms(1)
proof (cases rule: life_step.cases)
  case (run_resource now pool sec sd d f')
  with assms show ?thesis by (blast intro: life_ok_run_resource)
next
  case (run_status now pool sec d cir'' f' now')
  with assms show ?thesis by (blast intro: life_ok_run_status)
qed (use assms(2) in \<open>auto simp: life_ok_def IsZero_def\<close>)

lemma life_reach_ok:
  assumes "life_reach lib fac env w0 x" and "finalizer_laws lib"
  shows "life_ok lib (fst x)"
  using assms
proof (induction rule: life_reach.induct)
  case (created cir)
  then show ?case by (simp add: life_ok_def)
next
  case (step x y)
  then show ?case using life_ok_step [of lib fac env "fst x" "snd x" "fst y" "snd y"] by simp
qed

section \<open>The world and panics\<close>

text \<open>Factories whose providers keep \<open>ok\<close> and never panic there; \<open>ok0\<close> is what holds before
  the first one ran.\<close>

definition total_factories ::
  "'w ProviderFactories \<Rightarrow> ('w \<Rightarrow> bool) \<Rightarrow> ('w \<Rightarrow> bool) \<Rightarrow> bool" where
  "total_factories fac ok0 ok \<longleftrightarrow>
     (\<forall>w. ok w \<longrightarrow> ok0 w) \<and>
     (\<forall>pool sec w. ok0 w \<longrightarrow> (\<exists>r w'. NewProvider fac pool sec w = Some (r, w') \<and> ok0 w' \<and>
        (\<forall>p. r = Inr p \<longrightarrow> ok w' \<and> total_provider p ok)))"

lemma total_factoriesD:
  assumes "total_factories fac ok0 ok" and "ok0 w"
  shows "\<exists>r w'. NewProvider fac pool sec w = Some (r, w') \<and> ok0 w' \<and>
    (\<forall>p. r = Inr p \<longrightarrow> ok w' \<and> total_provider p ok)"
  using assms by (simp add: total_factories_def)

lemma Process_inv:
  assumes "total_factories fac ok0 ok" and "ok0 w"
    and "Process lib fac now cir pool sec NewCIResourceFSM w = Some (r, w')"
  shows "ok0 w'"
proof -
  obtain rd sd d e cir' f' where r: "r = ((rd, sd, d, e), cir', f')" by (metis prod.exhaust)
  obtain x w1 where np: "NewProvider fac pool sec w = Some (x, w1)" "ok0 w1"
      "\<And>p. x = Inr p \<Longrightarrow> ok w1 \<and> total_provider p ok"
    using total_factoriesD [OF assms(1,2), of pool sec] by auto
  from assms(3) show ?thesis unfolding r
  proof (cases rule: Process_cases)
    case failed
    with np(1,2) show ?thesis by auto
  next
    case (ran p w2 st ctx')
    with np have "ok w2" "total_provider p ok" by auto
    then have "provider_keeps p ok" by (simp add: total_provider_def provider_def)
    from provider_keeps.run_handler_inv [OF this \<open>ok w2\<close> _ ran(3)] have "ok w'" by simp
    with assms(1) show ?thesis by (simp add: total_factories_def)
  qed
qed

lemma Process_panics:
  fixes w :: 'w
  assumes "total_factories fac ok0 ok" and "ok0 w"
    and "Process lib fac now cir pool sec NewCIResourceFSM w = None"
  shows "lacks_LastUpdated cir pool"
proof -
  obtain x w1 where np: "NewProvider fac pool sec w = Some (x, w1)" "ok0 w1"
      "\<And>p. x = Inr p \<Longrightarrow> ok w1 \<and> total_provider p ok"
    using total_factoriesD [OF assms(1,2), of pool sec] by auto
  show ?thesis
  proof (cases x)
    case (Inl err)
    with np(1) assms(3) show ?thesis by (simp add: Process_def)
  next
    case (Inr p)
    show ?thesis
    proof (cases "states (NewCIResourceFSM :: 'w CIResourceFSM) (status_state cir)")
      case None
      with np(1) Inr assms(3) show ?thesis by (simp add: Process_def Let_def)
    next
      case (Some st)
      with np(1) Inr assms(3) have
        "run_handler lib now (onEntry st) (fsm_ctx cir pool p) (fresh_fsm (status_state cir)) w1 = None"
        by (auto simp: Process_run run_state_def bind_eq_None_conv split: prod.split_asm)
      with total_provider.run_handler_panics [OF _ _ Some] np(3) [OF Inr] show ?thesis by blast
    qed
  qed
qed

lemma life_reach_inv:
  assumes "life_reach lib fac env w0 x" and "total_factories fac ok0 ok" and "ok0 w0"
    and "\<And>w w'. env w w' \<Longrightarrow> ok0 w \<Longrightarrow> ok0 w'"
  shows "ok0 (snd x)"
  using assms(1)
proof (induction rule: life_reach.induct)
  case (step x y)
  from step.hyps(2) step.IH show ?case
    by (cases rule: life_step.cases) (auto intro: Process_inv [OF assms(2)] assms(4))
qed (use assms(3) in simp)

lemma life_reach_no_panic:
  assumes "life_reach lib fac env w0 (cir, w)" and "finalizer_laws lib"
    and "total_factories fac ok0 ok" and "ok0 w0"
    and "\<And>w w'. env w w' \<Longrightarrow> ok0 w \<Longrightarrow> ok0 w'"
  shows "Process lib fac now cir pool sec NewCIResourceFSM w \<noteq> None"
proof
  assume "Process lib fac now cir pool sec NewCIResourceFSM w = None"
  from Process_panics [OF assms(3) _ this] life_reach_inv [OF assms(1,3,4,5)]
  have "lacks_LastUpdated cir pool" by simp
  with life_reach_ok [OF assms(1,2)] show False by (auto simp: lacks_LastUpdated_def life_ok_def)
qed

section \<open>Successful runs in a row\<close>

text \<open>One request whose write, if any, reaches the server; \<open>now\<close> is the clock of the run.\<close>

definition reconciled ::
  "Controllerutil \<Rightarrow> 'w ProviderFactories \<Rightarrow> CIPool \<Rightarrow> SecretData \<Rightarrow> Time \<Rightarrow> CIResource \<Rightarrow> ('w, CIResource) go" where
  "reconciled lib fac pool sec now cir w =
     do {
       (((rd, sd, d, e), cir', f'), w') \<leftarrow> Process lib fac now cir pool sec NewCIResourceFSM w;
       Some (if e \<noteq> None then cir else if rd then cir' else if sd then set_LastUpdated now cir' else cir, w')
     }"

fun drive ::
  "Controllerutil \<Rightarrow> 'w ProviderFactories \<Rightarrow> CIPool \<Rightarrow> SecretData \<Rightarrow> Time list \<Rightarrow> CIResource \<Rightarrow> ('w, CIResource) go" where
  "drive lib fac pool sec [] cir w = Some (cir, w)"
| "drive lib fac pool sec (now # nows) cir w =
     do {
       (cir', w') \<leftarrow> reconciled lib fac pool sec now cir w;
       drive lib fac pool sec nows cir' w'
     }"

lemma reconciled_run:
  fixes w :: 'w
  assumes "NewProvider fac pool sec w = Some (Inr p, w1)"
    and "states (NewCIResourceFSM :: 'w CIResourceFSM) (status_state cir) = Some st"
  shows "reconciled lib fac pool sec now cir w =
     do {
       (((d, e), ctx', f'), w') \<leftarrow>
         run_handler lib now (onEntry st) (fsm_ctx cir pool p) (fresh_fsm (status_state cir)) w1;
       Some (if e \<noteq> None then cir else if resourceDirty f' then Ctx_CIResource ctx'
             else if statusDirty f' then set_LastUpdated now (Ctx_CIResource ctx') else cir, w')
     }"
  by (cases "run_handler lib now (onEntry st) (fsm_ctx cir pool p) (fresh_fsm (status_state cir)) w1")
    (simp_all add: reconciled_def Process_run [OF assms] run_state_def split: prod.split)

lemma fsm_states_Some:
  assumes "s \<in> set fsm_known"
  obtains st where "states (NewCIResourceFSM :: 'w CIResourceFSM) s = Some st"
  using assms fsm_states_None_iff [where ?'a = 'w] by (metis option.exhaust)

text \<open>Each state's successful run, over any provider \<open>p\<close> the factory returns.\<close>

lemma reconciled_state:
  fixes w :: 'w
  assumes "NewProvider fac pool sec w = Some (Inr p, w1)" and "s \<in> set fsm_known"
    and "\<And>st :: 'w fsmState. states NewCIResourceFSM s = Some st \<Longrightarrow> onEntry st = h"
    and "status_state cir = s"
    and "run_handler lib now h (fsm_ctx cir pool p) (fresh_fsm s) w1 = Some (((d, None), ctx', f'), w')"
  shows "reconciled lib fac pool sec now cir w =
     Some (if resourceDirty f' then Ctx_CIResource ctx'
           else if statusDirty f' then set_LastUpdated now (Ctx_CIResource ctx') else cir, w')"
proof -
  obtain st :: "'w fsmState" where st: "states NewCIResourceFSM s = Some st"
    by (rule fsm_states_Some [OF assms(2)])
  with assms(4) have st': "states (NewCIResourceFSM :: 'w CIResourceFSM) (status_state cir) = Some st" by simp
  show ?thesis
    by (simp add: reconciled_run [OF assms(1) st'] assms(3) [OF st] assms(4,5))
qed

lemmas reconciled_None = reconciled_state [OF _ _ fsm_onEntry(1)]
lemmas reconciled_Provisioning = reconciled_state [OF _ _ fsm_onEntry(2)]
lemmas reconciled_ProvisioningWait = reconciled_state [OF _ _ fsm_onEntry(3)]
lemmas reconciled_Available = reconciled_state [OF _ _ fsm_onEntry(4)]
lemmas reconciled_InUse = reconciled_state [OF _ _ fsm_onEntry(6)]
lemmas reconciled_Cleaning = reconciled_state [OF _ _ fsm_onEntry(7)]
lemmas reconciled_CleaningWait = reconciled_state [OF _ _ fsm_onEntry(8)]
lemmas reconciled_Delete = reconciled_state [OF _ _ fsm_onEntry(9)]

lemma fsm_known_simps [simp]:
  "StateNone \<in> set fsm_known" "StateProvisioning \<in> set fsm_known" "StateProvisioningWait \<in> set fsm_known"
  "StateAvailable \<in> set fsm_known" "StateMaintenance \<in> set fsm_known" "StateInUse \<in> set fsm_known"
  "StateCleaning \<in> set fsm_known" "StateCleaningWait \<in> set fsm_known" "StateDelete \<in> set fsm_known"
  "StateError \<notin> set fsm_known"
  by (simp_all add: fsm_known_def)

text \<open>The hypotheses of a run that works: the factory returns \<open>p\<close> in the world at hand.\<close>

definition serves :: "'w ProviderFactories \<Rightarrow> CIPool \<Rightarrow> SecretData \<Rightarrow> 'w Provider \<Rightarrow> 'w set \<Rightarrow> bool" where
  "serves fac pool sec p W \<longleftrightarrow> (\<forall>w \<in> W. NewProvider fac pool sec w = Some (Inr p, w))"

lemma servesD: "serves fac pool sec p W \<Longrightarrow> w \<in> W \<Longrightarrow> NewProvider fac pool sec w = Some (Inr p, w)"
  by (simp add: serves_def)

lemma rec_add_finalizer:
  assumes "serves fac pool sec p W" and "w \<in> W" and "status_state cir = StateNone"
    and "IsZero (DeletionTimestamp (C_Meta cir))"
    and "\<not> ContainsFinalizer lib (Finalizers (C_Meta cir)) OfcirFinalizer"
  shows "reconciled lib fac pool sec now cir w =
     Some (set_finalizers (AddFinalizer lib (Finalizers (C_Meta cir)) OfcirFinalizer) cir, w)"
  using assms servesD [OF assms(1,2)]
  by (subst reconciled_None) (auto simp: handleStateNone_def UpdateResourceOnly_def)

lemma rec_init:
  assumes "serves fac pool sec p W" and "w \<in> W" and "status_state cir = StateNone"
    and "ContainsFinalizer lib (Finalizers (C_Meta cir)) OfcirFinalizer"
  shows "reconciled lib fac pool sec now cir w =
     Some (set_LastUpdated now (set_status_state StateProvisioning cir), w)"
  using assms servesD [OF assms(1,2)]
  by (subst reconciled_None) (auto simp: handleStateNone_def)

lemma rec_provision:
  assumes "serves fac pool sec p W" and "w \<in> W" and "status_state cir = StateProvisioning"
    and "\<not> IsFallbackPool pool \<or> spec_state cir = StateInUse"
    and "Acquire p (PSpec_Size (P_Spec pool)) (pool_name pool) (PSpec_Type (P_Spec pool)) w = Some ((r, None), w')"
  shows "reconciled lib fac pool sec now cir w =
     Some (set_LastUpdated now (set_status_state StateProvisioningWait
       (modify_status (\<lambda>s. s\<lparr>CStatus_ResourceId := Id r, CStatus_ProviderInfo := PSpec_ProviderInfo (P_Spec pool)\<rparr>) cir)), w')"
  using assms servesD [OF assms(1,2)]
  by (subst reconciled_Provisioning) (auto simp: handleStateProvisioning_def Let_def)

lemma rec_ready:
  assumes "serves fac pool sec p W" and "w \<in> W" and "status_state cir = StateProvisioningWait"
    and "AcquireCompleted p (CStatus_ResourceId (C_Status cir)) w = Some ((True, r, None), w')"
  shows "reconciled lib fac pool sec now cir w =
     Some (set_LastUpdated now (set_status_state StateAvailable
       (modify_status (\<lambda>s. s\<lparr>CStatus_Address := Address r, CStatus_Extra := Metadata r\<rparr>) cir)), w')"
  using assms servesD [OF assms(1,2)]
  by (subst reconciled_ProvisioningWait) (auto simp: handleStateProvisioningWait_def)

lemma rec_timeout:
  assumes "serves fac pool sec p W" and "w \<in> W" and "status_state cir = StateInUse"
    and "spec_state cir = StateInUse" and "\<not> IsFallbackPool pool"
    and "CStatus_LastUpdated (C_Status cir) = Some t" and "time_Sub now t > PSpec_Timeout (P_Spec pool)"
  shows "reconciled lib fac pool sec now cir w = Some (set_spec_state StateAvailable cir, w)"
  using assms servesD [OF assms(1,2)]
  by (subst reconciled_InUse) (auto simp: handleStateInUse_def UpdateResourceOnly_def Let_def)

lemma rec_released:
  assumes "serves fac pool sec p W" and "w \<in> W" and "status_state cir = StateInUse"
    and "spec_state cir = StateAvailable"
  shows "reconciled lib fac pool sec now cir w =
     Some (set_LastUpdated now (set_status_state StateCleaning cir), w)"
  using assms servesD [OF assms(1,2)]
  by (subst reconciled_InUse) (auto simp: handleStateInUse_def Let_def)

lemma rec_clean:
  assumes "serves fac pool sec p W" and "w \<in> W" and "status_state cir = StateCleaning"
    and "\<not> IsFallbackPool pool" and "Clean p (CStatus_ResourceId (C_Status cir)) w = Some (None, w')"
  shows "reconciled lib fac pool sec now cir w =
     Some (set_LastUpdated now (set_status_state StateCleaningWait cir), w')"
  using assms servesD [OF assms(1,2)]
  by (subst reconciled_Cleaning) (auto simp: handleStateCleaning_def)

lemma rec_cleaned:
  assumes "serves fac pool sec p W" and "w \<in> W" and "status_state cir = StateCleaningWait"
    and "\<not> IsFallbackPool pool"
    and "CleanCompleted p (CStatus_ResourceId (C_Status cir)) w = Some ((True, None), w')"
  shows "reconciled lib fac pool sec now cir w =
     Some (set_LastUpdated now (set_status_state StateAvailable cir), w')"
  using assms servesD [OF assms(1,2)]
  by (subst reconciled_CleaningWait) (auto simp: handleStateCleaningWait_def)

lemma rec_evicted:
  assumes "serves fac pool sec p W" and "w \<in> W" and "status_state cir = StateAvailable"
    and "\<not> IsZero (DeletionTimestamp (C_Meta cir))"
  shows "reconciled lib fac pool sec now cir w =
     Some (set_LastUpdated now (set_status_state StateDelete cir), w)"
  using assms servesD [OF assms(1,2)]
  by (subst reconciled_Available) (auto simp: handleStateAvailable_def)

lemma rec_delete:
  assumes "serves fac pool sec p W" and "w \<in> W" and "status_state cir = StateDelete"
    and "ContainsFinalizer lib (Finalizers (C_Meta cir)) OfcirFinalizer"
    and "\<not> IsFallbackPool pool"
    and "Release p (CStatus_ResourceId (C_Status cir)) w = Some (err, w')"
    and "err = None \<or> (\<exists>x. err = Some x \<and> errors_As_ResourceNotFound x)"
  shows "reconciled lib fac pool sec now cir w =
     Some (set_finalizers (RemoveFinalizer lib (Finalizers (C_Meta cir)) OfcirFinalizer) cir, w')"
  using assms servesD [OF assms(1,2)]
  by (subst reconciled_Delete) (auto simp: handleStateDelete_def UpdateResourceOnly_def)

lemma rec_acquired:
  assumes "serves fac pool sec p W" and "w \<in> W" and "status_state cir = StateAvailable"
    and "IsZero (DeletionTimestamp (C_Meta cir))" and "spec_state cir = StateInUse"
  shows "reconciled lib fac pool sec now cir w =
     Some (set_LastUpdated now (set_status_state StateInUse cir), w)"
  using assms servesD [OF assms(1,2)]
  by (subst reconciled_Available) (auto simp: handleStateAvailable_def)

lemma rec_fallback_requested:
  assumes "serves fac pool sec p W" and "w \<in> W" and "status_state cir = StateInUse"
    and "spec_state cir = StateInUse" and "IsFallbackPool pool"
    and "CStatus_Address (C_Status cir) = []" and "CStatus_ResourceId (C_Status cir) = fallbackResourceID"
  shows "reconciled lib fac pool sec now cir w =
     Some (set_LastUpdated now (set_status_state StateProvisioning cir), w)"
  using assms servesD [OF assms(1,2)]
  by (subst reconciled_InUse) (auto simp: handleStateInUse_def Let_def)

lemma rec_fallback_released:
  assumes "serves fac pool sec p W" and "w \<in> W" and "status_state cir = StateCleaning" and "IsFallbackPool pool"
    and "CStatus_ResourceId (C_Status cir) \<noteq> fallbackResourceID"
    and "Release p (CStatus_ResourceId (C_Status cir)) w = Some (err, w')"
    and "err = None \<or> (\<exists>x. err = Some x \<and> errors_As_ResourceNotFound x)"
  shows "reconciled lib fac pool sec now cir w =
     Some (set_LastUpdated now (set_status_state StateCleaningWait (modify_status reset_fallback cir)), w')"
  using assms servesD [OF assms(1,2)]
  by (subst reconciled_Cleaning) (auto simp: handleStateCleaning_def)

lemma rec_fallback_cleaned:
  assumes "serves fac pool sec p W" and "w \<in> W" and "status_state cir = StateCleaningWait" and "IsFallbackPool pool"
  shows "reconciled lib fac pool sec now cir w =
     Some (set_LastUpdated now (set_status_state StateAvailable cir), w)"
  using assms servesD [OF assms(1,2)]
  by (subst reconciled_CleaningWait) (auto simp: handleStateCleaningWait_def)

lemmas drive_steps =
  rec_add_finalizer rec_init rec_provision rec_ready rec_timeout rec_released rec_clean rec_cleaned
  rec_evicted rec_delete rec_acquired rec_fallback_requested

text \<open>The three paths: to availability, back to it after a lease, and out.\<close>

lemma drive_provision:
  assumes "serves fac pool sec p {w, w1}" and "finalizer_laws lib" and "\<not> IsFallbackPool pool"
    and "status_state cir = StateNone" and "IsZero (DeletionTimestamp (C_Meta cir))"
    and "\<not> ContainsFinalizer lib (Finalizers (C_Meta cir)) OfcirFinalizer"
    and "Acquire p (PSpec_Size (P_Spec pool)) (pool_name pool) (PSpec_Type (P_Spec pool)) w = Some ((r, None), w1)"
    and "AcquireCompleted p (Id r) w1 = Some ((True, r', None), w2)"
  shows "\<exists>cir'. drive lib fac pool sec [t1, t2, t3, t4] cir w = Some (cir', w2) \<and>
     status_state cir' = StateAvailable \<and> CStatus_ResourceId (C_Status cir') = Id r \<and>
     CStatus_Address (C_Status cir') = Address r' \<and> CStatus_LastUpdated (C_Status cir') = Some t4 \<and>
     C_Spec cir' = C_Spec cir \<and> ContainsFinalizer lib (Finalizers (C_Meta cir')) OfcirFinalizer"
  using assms by (simp add: drive_steps [OF assms(1)] finalizer_laws_def)

lemma drive_lease_ends:
  assumes "serves fac pool sec p {w, w1}" and "\<not> IsFallbackPool pool"
    and "status_state cir = StateInUse" and "spec_state cir = StateInUse"
    and "CStatus_LastUpdated (C_Status cir) = Some t" and "time_Sub t1 t > PSpec_Timeout (P_Spec pool)"
    and "Clean p (CStatus_ResourceId (C_Status cir)) w = Some (None, w1)"
    and "CleanCompleted p (CStatus_ResourceId (C_Status cir)) w1 = Some ((True, None), w2)"
  shows "\<exists>cir'. drive lib fac pool sec [t1, t2, t3, t4] cir w = Some (cir', w2) \<and>
     status_state cir' = StateAvailable \<and> spec_state cir' = StateAvailable \<and>
     CStatus_ResourceId (C_Status cir') = CStatus_ResourceId (C_Status cir) \<and> C_Meta cir' = C_Meta cir"
  using assms by (simp add: drive_steps [OF assms(1)])

lemma drive_delete:
  assumes "serves fac pool sec p {w}" and "finalizer_laws lib" and "\<not> IsFallbackPool pool"
    and "status_state cir = StateAvailable" and "\<not> IsZero (DeletionTimestamp (C_Meta cir))"
    and "ContainsFinalizer lib (Finalizers (C_Meta cir)) OfcirFinalizer"
    and "Release p (CStatus_ResourceId (C_Status cir)) w = Some (err, w')"
    and "err = None \<or> (\<exists>x. err = Some x \<and> errors_As_ResourceNotFound x)"
  shows "\<exists>cir'. drive lib fac pool sec [t1, t2] cir w = Some (cir', w') \<and>
     \<not> ContainsFinalizer lib (Finalizers (C_Meta cir')) OfcirFinalizer"
  using assms(2-) by (simp add: drive_steps [OF assms(1)] finalizer_laws_def)

text \<open>A fallback resource stands for none until it is leased, and again after.\<close>

lemma reset_fallback_sel [simp]:
  "CStatus_State (reset_fallback s) = CStatus_State s" "CStatus_ResourceId (reset_fallback s) = fallbackResourceID"
  "CStatus_Address (reset_fallback s) = []"
  by (simp_all add: reset_fallback_def)

lemma drive_fallback_lease:
  assumes "serves fac pool sec p {w, w1, w2}" and "IsFallbackPool pool"
    and "status_state cir = StateInUse" and "spec_state cir = StateInUse" and "IsZero (DeletionTimestamp (C_Meta cir))"
    and "CStatus_Address (C_Status cir) = []" and "CStatus_ResourceId (C_Status cir) = fallbackResourceID"
    and "Acquire p (PSpec_Size (P_Spec pool)) (pool_name pool) (PSpec_Type (P_Spec pool)) w = Some ((r, None), w1)"
    and "AcquireCompleted p (Id r) w1 = Some ((True, r', None), w2)"
  shows "\<exists>cir'. drive lib fac pool sec [t1, t2, t3, t4] cir w = Some (cir', w2) \<and>
     status_state cir' = StateInUse \<and> CStatus_ResourceId (C_Status cir') = Id r \<and>
     CStatus_Address (C_Status cir') = Address r' \<and> C_Spec cir' = C_Spec cir"
  using assms by (simp add: drive_steps [OF assms(1)])

lemma drive_fallback_return:
  assumes "serves fac pool sec p {w, w1}" and "IsFallbackPool pool"
    and "status_state cir = StateInUse" and "spec_state cir = StateAvailable"
    and "CStatus_ResourceId (C_Status cir) \<noteq> fallbackResourceID"
    and "Release p (CStatus_ResourceId (C_Status cir)) w = Some (err, w1)"
    and "err = None \<or> (\<exists>x. err = Some x \<and> errors_As_ResourceNotFound x)"
  shows "\<exists>cir'. drive lib fac pool sec [t1, t2, t3] cir w = Some (cir', w1) \<and>
     status_state cir' = StateAvailable \<and> CStatus_ResourceId (C_Status cir') = fallbackResourceID \<and>
     CStatus_Address (C_Status cir') = []"
proof -
  let ?c1 = "set_LastUpdated t1 (set_status_state StateCleaning cir)"
  from assms(5-7) have "Release p (CStatus_ResourceId (C_Status ?c1)) w = Some (err, w1)" by simp
  from rec_fallback_released [OF assms(1) _ _ assms(2) _ this assms(7)] assms show ?thesis
    by (simp add: rec_released [OF assms(1)] rec_fallback_cleaned [OF assms(1)])
qed

end
