(* ===== verification/Fsm_Properties.thy ===== *)
theory Fsm_Properties
  imports Lifecycle
begin

text \<open>
  The properties of the state machine and of its reconciler, over any provider, with concrete runs
  over the in-memory provider of \<open>pkg/providers/dummy.go\<close>.
\<close>

section \<open>Concrete runs\<close>

text \<open>The dispatch of \<open>NewProvider\<close> with only the in-memory provider linked in.\<close>

definition not_linked :: "'w factory" where
  "not_linked info sec w = Some (Inl (ErrorString ''provider not linked''), w)"

definition dummy_factories :: "map_order \<Rightarrow> dummy_world ProviderFactories" where
  "dummy_factories ord =
     \<lparr>MakeDummy = DummyProviderFactory ord, MakeLibvirt = not_linked, MakeIronic = not_linked,
      MakeEquinix = not_linked, MakeIbmcloud = not_linked, MakeAWS = not_linked\<rparr>"

definition name_order :: map_order where
  "name_order k m = sorted_list_of_set (dom m)"

lemma name_order_once [simp]: "visits_once name_order"
  by (simp add: visits_once_def name_order_def)

definition world0 :: dummy_world where
  "world0 = \<lparr>dummy = Some dummy_instances, ranges = 0\<rparr>"

lemma world0_inv [simp]: "dummy_inv world0"
  using dummy_once_inv [of "\<lparr>dummy = None, ranges = 0\<rparr>"] by (simp add: dummy_once_def world0_def)

lemma dummy_NewProvider:
  assumes "PSpec_Provider (P_Spec pool) = ProviderDummy"
  shows "NewProvider (dummy_factories ord) pool sec w = Some (Inr (dummyProvider ord), dummy_once w)"
  using assms by (simp add: NewProvider_def dummy_factories_def DummyProviderFactory_def)

lemma dummy_once_id [simp]: "dummy_inv w \<Longrightarrow> dummy_once w = w"
  by (auto simp: dummy_once_def dummy_inv_def)

lemma dummy_total_factories:
  assumes "visits_once ord"
  shows "total_factories (dummy_factories ord) (\<lambda>w. dummy w = None \<or> dummy_inv w)
     (\<lambda>w. dummy_inv w \<and> visits_once ord)"
  unfolding total_factories_def
proof (intro conjI allI impI)
  fix pool sec w assume w: "dummy w = None \<or> dummy_inv w"
  show "\<exists>r w'. NewProvider (dummy_factories ord) pool sec w = Some (r, w') \<and> (dummy w' = None \<or> dummy_inv w') \<and>
      (\<forall>p. r = Inr p \<longrightarrow> (dummy_inv w' \<and> visits_once ord) \<and>
        total_provider p (\<lambda>w. dummy_inv w \<and> visits_once ord))"
  proof (cases "PSpec_Provider (P_Spec pool) = ProviderDummy")
    case True
    with dummy_NewProvider [OF True, of ord sec w] dummy_once_inv [OF w] assms
      dummy.total_provider_axioms [of ord]
    show ?thesis by simp
  next
    case False
    then have "\<exists>e. NewProvider (dummy_factories ord) pool sec w = Some (Inl e, w)"
      by (simp add: NewProvider_def dummy_factories_def not_linked_def Let_def)
    with w show ?thesis by auto
  qed
qed simp

abbreviation demo_pool :: CIPool where "demo_pool \<equiv> a_pool StatePoolAvailable 0 1 None"

lemma demo_pool_regular [simp]: "IsFallbackPool (a_pool s prio n del) \<longleftrightarrow> prio = -1"
  by (simp add: IsFallbackPool_def)

lemma demo_serves:
  "(\<And>w. w \<in> W \<Longrightarrow> dummy_inv w) \<Longrightarrow> serves (dummy_factories ord) (a_pool s prio n del) sec (dummyProvider ord) W"
  by (simp add: serves_def dummy_NewProvider ProviderDummy_def)

lemma world0_Some [simp]: "dummy world0 = Some dummy_instances"
  by (simp add: world0_def)

lemma dummy_1: "''dummy-1'' = dummy_id 1"
  by (simp add: dummy_id_def Itoa_def digits.simps digit_def char_of_def bit_0)

lemma dummy_instances_1 [simp]: "dummy_instances ''dummy-1'' = Some (dummy_instance 1)"
  unfolding dummy_1 by (auto simp: dummy_instances_Some maxAvailableResources_def)

section \<open>Safety of one run\<close>

text \<open>C1 (safety). Whatever the provider, a run of \<open>Process\<close> that changes the state moves it along an
  edge of \<open>docs/cir-states.dot\<close>; it never enters the error state nor the first one, and never takes
  the two documented edges that would repeat a request (provisioning wait to provisioning, cleaning
  wait to cleaning).\<close>

theorem process_follows_diagram:
  assumes "Process lib fac now cir pool sec NewCIResourceFSM w = Some (((rd, sd, d, e), cir', f'), w')"
    and "status_state cir' \<noteq> status_state cir"
  shows "cir_edge (status_state cir) (status_state cir') \<and>
     status_state cir' \<notin> {StateNone, StateError} \<and>
     (status_state cir, status_state cir') \<notin>
       {(StateProvisioningWait, StateProvisioning), (StateCleaningWait, StateCleaning)}"
proof -
  from Process_step [OF assms(1)] assms(2) have "fired (status_state cir) (status_state cir')"
    by (auto simp: step_ok_def)
  from fired_edge [OF this] show ?thesis by auto
qed

text \<open>The two flags \<open>Process\<close> returns cover every change of the resource: at most one
  is set; with the status flag the state changed and metadata and specification did not; with the
  resource flag the status did not change; with neither, or with an error, nothing changed. So the
  reconciler's single write loses nothing.\<close>

theorem process_flags_cover_changes:
  assumes "Process lib fac now cir pool sec NewCIResourceFSM w = Some (((rd, sd, d, e), cir', f'), w')"
  shows "\<not> (rd \<and> sd) \<and> (sd \<longleftrightarrow> status_state cir' \<noteq> status_state cir) \<and>
     (sd \<longrightarrow> C_Meta cir' = C_Meta cir \<and> C_Spec cir' = C_Spec cir) \<and>
     (rd \<longrightarrow> C_Status cir' = C_Status cir) \<and>
     (\<not> rd \<and> \<not> sd \<or> e \<noteq> None \<longrightarrow> cir' = cir)"
  using process_writes_lemma(1-6) [OF assms] by blast

text \<open>C9 (safety). A run that removes the finalizer found the resource in the delete state and, unless
  it only stood for a fallback, had the provider release the resource behind it without error, or
  heard that there is none.\<close>

theorem finalizer_kept_until_released:
  assumes "Process lib fac now cir pool sec NewCIResourceFSM w = Some (((rd, sd, d, e), cir', f'), w')"
    and "finalizer_laws lib"
    and "ContainsFinalizer lib (Finalizers (C_Meta cir)) OfcirFinalizer"
    and "\<not> ContainsFinalizer lib (Finalizers (C_Meta cir')) OfcirFinalizer"
  shows "status_state cir = StateDelete \<and>
     (\<exists>p w1. NewProvider fac pool sec w = Some (Inr p, w1) \<and>
        (IsFallbackPool pool \<and> CStatus_ResourceId (C_Status cir) = fallbackResourceID \<or>
         (\<exists>err. Release p (CStatus_ResourceId (C_Status cir)) w1 = Some (err, w') \<and>
            (err = None \<or> (\<exists>x. err = Some x \<and> errors_As_ResourceNotFound x)))))"
  by (rule Process_finalizer_removed [OF assms(2,1,3,4)]) (metis option.set_intros not_None_eq)

text \<open>C25 (functional). A lease of a resource of a regular pool ends exactly when more than the pool's
  timeout has passed since the last update of its status: then the request sets the specification
  back to available, and before it nothing changes.\<close>

theorem lease_ends_exactly_after_timeout:
  fixes w :: 'w
  assumes "NewProvider fac pool sec w = Some (Inr p, w1)" and "\<not> IsFallbackPool pool"
    and "status_state cir = StateInUse" and "spec_state cir = StateInUse"
    and "CStatus_LastUpdated (C_Status cir) = Some t" and "in_int64 (now - t)"
  shows "\<exists>f'. Process lib fac now cir pool sec NewCIResourceFSM w =
     Some (((now - t > Nanoseconds (PSpec_Timeout (P_Spec pool)), False, Minute, None),
        if now - t > Nanoseconds (PSpec_Timeout (P_Spec pool)) then set_spec_state StateAvailable cir else cir, f'), w1)"
proof -
  obtain st :: "'w fsmState" where st: "states NewCIResourceFSM StateInUse = Some st"
    by (rule fsm_states_Some [OF fsm_known_simps(6)])
  with assms(3) have "states (NewCIResourceFSM :: 'w CIResourceFSM) (status_state cir) = Some st" by simp
  note run = Process_run [OF assms(1) this]
  from fsm_onEntry(6) [OF st] have "onEntry st = HandleStateInUse" by simp
  with assms(2-6) show ?thesis
    by (simp add: run run_state_def handleStateInUse_def UpdateResourceOnly_def Let_def time_Sub_exact
        less_Duration_def defaultCirRetryDelay_def)
qed

text \<open>A state the machine does not know, the error state among them, is an error of every
  request and changes nothing: such a resource stays as it is.\<close>

theorem unknown_state_stuck:
  fixes w :: 'w
  assumes "NewProvider fac pool sec w = Some (Inr p, w1)" and "status_state cir \<notin> set fsm_known"
  shows "\<exists>f'. Process lib fac now cir pool sec NewCIResourceFSM w =
     Some (((False, False, 0, Some (ErrorString (''state not found: '' @ status_state cir))), cir, f'), w1)"
  using assms fsm_states_None_iff [where ?'a = 'w, of "status_state cir"]
  by (simp add: Process_def Let_def)

text \<open>In the states that wait for somebody else (none, available, maintenance, in use) a run
  leaves the provider's world as the factory left it: no resource is acquired, cleaned or
  released.\<close>

theorem waiting_states_leave_provider_alone:
  assumes "Process lib fac now cir pool sec NewCIResourceFSM w = Some (r, w')"
    and "status_state cir \<in> {StateNone, StateAvailable, StateMaintenance, StateInUse}"
  shows "\<exists>made. NewProvider fac pool sec w = Some (made, w')"
proof -
  obtain rd sd d e cir' f' where "r = ((rd, sd, d, e), cir', f')" by (metis prod.exhaust)
  with assms(1) have "Process lib fac now cir pool sec NewCIResourceFSM w = Some (((rd, sd, d, e), cir', f'), w')"
    by simp
  then show ?thesis
  proof (cases rule: Process_cases)
    case failed
    then show ?thesis by auto
  next
    case (ran p w1 st ctx')
    from quiet_world [OF assms(2) ran(2,3)] ran(1) show ?thesis by auto
  qed
qed

section \<open>Safety over every history\<close>

text \<open>C10 (safety). Starting from a resource in the first state, over any history of requests, lost
  writes, edits, deletion requests and moves of the world, with providers that do not panic where
  the world's invariant holds, \<open>Process\<close> does not panic: in particular the time of the last update
  it dereferences is set whenever it is needed.\<close>

theorem reconciler_never_panics:
  assumes "life_reach lib fac env w0 (cir, w)" and "finalizer_laws lib"
    and "total_factories fac ok0 ok" and "ok0 w0"
    and "\<forall>w w'. env w w' \<longrightarrow> ok0 w \<longrightarrow> ok0 w'"
  shows "Process lib fac now cir pool sec NewCIResourceFSM w \<noteq> None"
  by (rule life_reach_no_panic [OF assms(1-4)]) (use assms(5) in blast)

text \<open>C31 (invariant). In every such history, a resource past its first state whose deletion was not
  requested carries the finalizer, unless it is in the delete state: the server cannot drop it
  while the provider's resource behind it is held.\<close>

theorem reachable_resources_carry_finalizer:
  assumes "life_reach lib fac env w0 (cir, w)" and "finalizer_laws lib"
    and "status_state cir \<notin> {StateNone, StateDelete}"
    and "IsZero (DeletionTimestamp (C_Meta cir))"
  shows "ContainsFinalizer lib (Finalizers (C_Meta cir)) OfcirFinalizer"
  using life_reach_ok [OF assms(1,2)] assms(3,4) by (simp add: life_ok_def)

section \<open>Liveness\<close>

text \<open>A new resource of a regular pool reaches the available state in four requests, when
  the provider acquires and reports ready: it then carries the finalizer, the provider's identifier
  and address, and its specification is as it was.\<close>

theorem new_resource_becomes_available:
  assumes "serves fac pool sec p {w, w1}" and "finalizer_laws lib" and "\<not> IsFallbackPool pool"
    and "status_state cir = StateNone" and "IsZero (DeletionTimestamp (C_Meta cir))"
    and "\<not> ContainsFinalizer lib (Finalizers (C_Meta cir)) OfcirFinalizer"
    and "Acquire p (PSpec_Size (P_Spec pool)) (pool_name pool) (PSpec_Type (P_Spec pool)) w = Some ((r, None), w1)"
    and "AcquireCompleted p (Id r) w1 = Some ((True, r', None), w2)"
  shows "\<exists>cir'. drive lib fac pool sec [t1, t2, t3, t4] cir w = Some (cir', w2) \<and>
     status_state cir' = StateAvailable \<and> CStatus_ResourceId (C_Status cir') = Id r \<and>
     CStatus_Address (C_Status cir') = Address r' \<and> C_Spec cir' = C_Spec cir \<and>
     ContainsFinalizer lib (Finalizers (C_Meta cir')) OfcirFinalizer"
  using drive_provision [OF assms] by blast

text \<open>C15 (liveness). A lease of a regular pool that nobody gives back ends: once the pool's timeout has
  passed, four requests clean the resource and return it to available, by its status and by its
  specification and with its machine, when its provider can be made, cleans it and reports it clean. (A resource
  of a fallback pool is released instead of cleaned.)\<close>

theorem expired_lease_returns:
  assumes "serves fac pool sec p {w, w1}" and "\<not> IsFallbackPool pool"
    and "status_state cir = StateInUse" and "spec_state cir = StateInUse"
    and "CStatus_LastUpdated (C_Status cir) = Some t" and "time_Sub t1 t > PSpec_Timeout (P_Spec pool)"
    and "Clean p (CStatus_ResourceId (C_Status cir)) w = Some (None, w1)"
    and "CleanCompleted p (CStatus_ResourceId (C_Status cir)) w1 = Some ((True, None), w2)"
  shows "\<exists>cir'. drive lib fac pool sec [t1, t2, t3, t4] cir w = Some (cir', w2) \<and>
     status_state cir' = StateAvailable \<and> spec_state cir' = StateAvailable \<and>
     CStatus_ResourceId (C_Status cir') = CStatus_ResourceId (C_Status cir)"
  using drive_lease_ends [OF assms] by blast

text \<open>C16 (liveness). An available resource of a regular pool whose deletion is requested loses its
  finalizer after two requests, when the provider releases what is behind it or no longer knows it.\<close>

theorem deleted_resource_goes:
  assumes "serves fac pool sec p {w}" and "finalizer_laws lib" and "\<not> IsFallbackPool pool"
    and "status_state cir = StateAvailable" and "\<not> IsZero (DeletionTimestamp (C_Meta cir))"
    and "ContainsFinalizer lib (Finalizers (C_Meta cir)) OfcirFinalizer"
    and "Release p (CStatus_ResourceId (C_Status cir)) w = Some (err, w')"
    and "err = None \<or> (\<exists>x. err = Some x \<and> errors_As_ResourceNotFound x)"
  shows "\<exists>cir'. drive lib fac pool sec [t1, t2] cir w = Some (cir', w') \<and>
     \<not> ContainsFinalizer lib (Finalizers (C_Meta cir')) OfcirFinalizer"
  using drive_delete [OF assms] .

section \<open>The reconciler's writes\<close>

text \<open>C14 (safety). A request on a CIResource sends at most one write to the server: either an update of
  the resource that leaves its status as it was read, or a status update that leaves its metadata and
  its specification as they were read, is stamped with the time, and moves its state along an edge
  of the diagram. So no request changes both halves of the resource at once.\<close>

theorem reconcile_writes_once:
  assumes "CIResource_Reconcile lib (factories_beside fac) (logged cl) now now' req ([], w) = Some (r, ws, w')"
  shows "ws = [] \<or>
     (\<exists>cir w1 c. Get_CIResource cl req w = (Inr cir, w1) \<and>
        (ws = [W_Update_CIResource c] \<and> C_Status c = C_Status cir \<or>
         ws = [W_StatusUpdate_CIResource c] \<and> C_Meta c = C_Meta cir \<and> C_Spec c = C_Spec cir \<and>
           CStatus_LastUpdated (C_Status c) = Some now' \<and> cir_edge (status_state cir) (status_state c)))"
proof (cases "ws = []")
  case False
  with assms show ?thesis
  proof (rule Reconcile_write)
    fix cir w1 pool sec w2 rd sd d cir' f' u
    assume g: "Get_CIResource cl req w = (Inr cir, w1)"
      and run: "Process lib (factories_beside fac) now cir pool sec NewCIResourceFSM ([], w2) =
        Some (((rd, sd, d, None), cir', f'), u)"
      and wr: "rd \<and> \<not> sd \<and> ws = [W_Update_CIResource cir'] \<or>
        sd \<and> \<not> rd \<and> ws = [W_StatusUpdate_CIResource (set_LastUpdated now' cir')]"
    from Process_step [OF run] g wr show ?thesis
      by (auto simp: step_ok_def dest: fired_edge(1))
  qed
qed simp

section \<open>Instances\<close>

lemma Process_state:
  fixes w :: 'w
  assumes "NewProvider fac pool sec w = Some (Inr p, w1)" and "s \<in> set fsm_known"
    and "\<And>st :: 'w fsmState. states NewCIResourceFSM s = Some st \<Longrightarrow> onEntry st = h"
    and "status_state cir = s"
    and "run_handler lib now h (fsm_ctx cir pool p) (fresh_fsm s) w1 = Some (((d, e), ctx', f'), w')"
  shows "Process lib fac now cir pool sec NewCIResourceFSM w =
     Some (((resourceDirty f', statusDirty f', d, e), Ctx_CIResource ctx', f'), w')"
proof -
  obtain st :: "'w fsmState" where st: "states NewCIResourceFSM s = Some st"
    by (rule fsm_states_Some [OF assms(2)])
  with assms(4) have "states (NewCIResourceFSM :: 'w CIResourceFSM) (status_state cir) = Some st" by simp
  from Process_run [OF assms(1) this] assms(3) [OF st] assms(4,5) show ?thesis
    by (simp add: run_state_def)
qed

abbreviation demo_fac :: "dummy_world ProviderFactories" where "demo_fac \<equiv> dummy_factories name_order"

lemma demo_NewProvider [simp]:
  "NewProvider demo_fac (a_pool s prio n del) sec world0 = Some (Inr (dummyProvider name_order), world0)"
  by (simp add: dummy_NewProvider ProviderDummy_def)

text \<open>An available resource somebody asked for.\<close>

lemma demo_acquired_run:
  "\<exists>f'. Process list_finalizers demo_fac 20 (a_cir ''cir-0001'' StateInUse StateAvailable) demo_pool sec
     NewCIResourceFSM world0 =
     Some (((False, True, Minute, None), set_status_state StateInUse (a_cir ''cir-0001'' StateInUse StateAvailable), f'), world0)"
  by (subst Process_state [OF demo_NewProvider fsm_known_simps(4) fsm_onEntry(4)])
    (auto simp: handleStateAvailable_def defaultCirRetryDelay_def IsZero_def)

text \<open>A resource in the delete state.\<close>

lemma demo_delete_run:
  "\<exists>f' w'. Process list_finalizers demo_fac 20 (a_cir ''cir-0001'' StateAvailable StateDelete) demo_pool sec
     NewCIResourceFSM world0 =
     Some (((True, False, Minute, None), set_finalizers [] (a_cir ''cir-0001'' StateAvailable StateDelete), f'), w')"
proof -
  obtain w' where "dummy_Release ''dummy-1'' world0 = Some (None, w')"
    by (simp add: dummy_Release_def)
  then show ?thesis
    by (subst Process_state [OF demo_NewProvider fsm_known_simps(9) fsm_onEntry(9)])
      (auto simp: handleStateDelete_def UpdateResourceOnly_def defaultCirRetryDelay_def Let_def)
qed

lemma follows_diagram_witness: "cir_edge StateAvailable StateInUse"
proof -
  from demo_acquired_run [of Map.empty] obtain f' where "Process list_finalizers demo_fac 20
      (a_cir ''cir-0001'' StateInUse StateAvailable) demo_pool Map.empty NewCIResourceFSM world0 =
      Some (((False, True, Minute, None), set_status_state StateInUse (a_cir ''cir-0001'' StateInUse StateAvailable), f'), world0)"
    by blast
  from process_follows_diagram [OF this] show ?thesis by simp
qed

lemma flags_cover_witness:
  "\<exists>rd sd. \<not> (rd \<and> sd) \<and> (sd \<longleftrightarrow> status_state (set_status_state StateInUse (a_cir ''cir-0001'' StateInUse StateAvailable)) \<noteq>
     status_state (a_cir ''cir-0001'' StateInUse StateAvailable))"
proof -
  from demo_acquired_run [of Map.empty] obtain f' where "Process list_finalizers demo_fac 20
      (a_cir ''cir-0001'' StateInUse StateAvailable) demo_pool Map.empty NewCIResourceFSM world0 =
      Some (((False, True, Minute, None), set_status_state StateInUse (a_cir ''cir-0001'' StateInUse StateAvailable), f'), world0)"
    by blast
  from process_flags_cover_changes [OF this] show ?thesis by blast
qed

lemma finalizer_kept_witness:
  "\<exists>p w1. NewProvider demo_fac demo_pool Map.empty world0 = Some (Inr p, w1) \<and>
     (\<exists>err w'. Release p ''dummy-1'' w1 = Some (err, w') \<and>
        (err = None \<or> (\<exists>x. err = Some x \<and> errors_As_ResourceNotFound x)))"
proof -
  from demo_delete_run [of Map.empty] obtain f' w' where run: "Process list_finalizers demo_fac 20
      (a_cir ''cir-0001'' StateAvailable StateDelete) demo_pool Map.empty NewCIResourceFSM world0 =
      Some (((True, False, Minute, None), set_finalizers [] (a_cir ''cir-0001'' StateAvailable StateDelete), f'), w')"
    by blast
  from finalizer_kept_until_released [OF run list_finalizers_laws] show ?thesis by auto
qed

lemma lease_ends_witness:
  "\<exists>f'. Process list_finalizers demo_fac 200 (a_cir ''cir-0001'' StateInUse StateInUse) demo_pool Map.empty
     NewCIResourceFSM world0 =
     Some (((True, False, Minute, None), set_spec_state StateAvailable (a_cir ''cir-0001'' StateInUse StateInUse), f'), world0)"
  using lease_ends_exactly_after_timeout [OF demo_NewProvider [of StatePoolAvailable 0 1 None Map.empty], where cir = "a_cir ''cir-0001'' StateInUse StateInUse"
      and t = 10 and now = 200 and lib = list_finalizers]
  by (simp add: int64_bounds)

lemma unknown_state_witness:
  "\<exists>f'. Process list_finalizers demo_fac 20 (a_cir ''cir-0001'' StateAvailable StateError) demo_pool Map.empty
     NewCIResourceFSM world0 =
     Some (((False, False, 0, Some (ErrorString (''state not found: '' @ StateError))),
        a_cir ''cir-0001'' StateAvailable StateError, f'), world0)"
  using unknown_state_stuck [OF demo_NewProvider [of StatePoolAvailable 0 1 None Map.empty], where cir = "a_cir ''cir-0001'' StateAvailable StateError"
      and now = 20 and lib = list_finalizers]
  by simp

lemma waiting_states_witness:
  "\<exists>made. NewProvider demo_fac demo_pool Map.empty world0 = Some (made, world0)"
proof -
  from demo_acquired_run [of Map.empty] obtain f' where "Process list_finalizers demo_fac 20
      (a_cir ''cir-0001'' StateInUse StateAvailable) demo_pool Map.empty NewCIResourceFSM world0 =
      Some (((False, True, Minute, None), set_status_state StateInUse (a_cir ''cir-0001'' StateInUse StateAvailable), f'), world0)"
    by blast
  from waiting_states_leave_provider_alone [OF this] show ?thesis by simp
qed

text \<open>A history: a new resource, then its first request.\<close>

definition new_cir :: CIResource where
  "new_cir = (a_cir ''cir-0001'' StateNone StateNone)\<lparr>C_Meta := (C_Meta (a_cir ''cir-0001'' StateNone StateNone))\<lparr>Finalizers := []\<rparr>\<rparr>"

lemma new_cir_sel [simp]:
  "status_state new_cir = StateNone" "Finalizers (C_Meta new_cir) = []" "spec_state new_cir = StateNone"
  "DeletionTimestamp (C_Meta new_cir) = None"
  by (simp_all add: new_cir_def)

lemma demo_first_steps:
  "\<exists>cir. life_reach list_finalizers demo_fac (=) world0 (cir, world0) \<and> status_state cir = StateProvisioning \<and>
     DeletionTimestamp (C_Meta cir) = None"
proof -
  let ?c1 = "set_finalizers [OfcirFinalizer] new_cir"
  have "\<exists>f'. Process list_finalizers demo_fac 1 new_cir demo_pool Map.empty NewCIResourceFSM world0 =
      Some (((True, False, Minute, None), ?c1, f'), world0)"
    by (subst Process_state [OF demo_NewProvider fsm_known_simps(1) fsm_onEntry(1)])
      (auto simp: handleStateNone_def UpdateResourceOnly_def defaultCirRetryDelay_def IsZero_def)
  then have r1: "life_reach list_finalizers demo_fac (=) world0 (?c1, world0)"
    by (metis life_reach.created life_reach.step life_step.run_resource new_cir_sel(1))
  have "\<exists>f'. Process list_finalizers demo_fac 2 ?c1 demo_pool Map.empty NewCIResourceFSM world0 =
      Some (((False, True, Minute, None), set_status_state StateProvisioning ?c1, f'), world0)"
    by (subst Process_state [OF demo_NewProvider fsm_known_simps(1) fsm_onEntry(1)])
      (auto simp: handleStateNone_def defaultCirRetryDelay_def IsZero_def)
  with r1 have "life_reach list_finalizers demo_fac (=) world0
      (set_LastUpdated 3 (set_status_state StateProvisioning ?c1), world0)"
    by (metis life_reach.step life_step.run_status)
  then show ?thesis by (intro exI) auto
qed

lemma never_panics_witness:
  "\<exists>cir. status_state cir = StateProvisioning \<and>
     Process list_finalizers demo_fac 3 cir demo_pool Map.empty NewCIResourceFSM world0 \<noteq> None"
proof -
  from demo_first_steps obtain cir where "life_reach list_finalizers demo_fac (=) world0 (cir, world0)"
    "status_state cir = StateProvisioning" by blast
  from reconciler_never_panics [OF this(1) list_finalizers_laws dummy_total_factories] this(2) show ?thesis
    by auto
qed

lemma carry_finalizer_witness:
  "\<exists>cir. status_state cir = StateProvisioning \<and> OfcirFinalizer \<in> set (Finalizers (C_Meta cir))"
proof -
  from demo_first_steps obtain cir where "life_reach list_finalizers demo_fac (=) world0 (cir, world0)"
    "status_state cir = StateProvisioning" "DeletionTimestamp (C_Meta cir) = None" by blast
  with reachable_resources_carry_finalizer [OF this(1) list_finalizers_laws] show ?thesis
    by (auto simp: IsZero_def)
qed

lemma demo_free: "dummy_free world0 = dummy_id ` {..<maxAvailableResources}"
  by (auto simp: dummy_free_def dummy_instances_Some dummy_instance_def)

lemma demo_acquire:
  obtains r w1 and i :: dummyInstance where "dummy_Acquire name_order 1 ''pool'' TypeCIHost world0 = Some ((r, None), w1)" "dummy_inv w1"
    "dummy_AcquireCompleted (Id r) w1 = Some ((True, di_Resource i, None), w1)"
proof -
  have "dummy_id 0 \<in> dummy_free world0" by (simp add: demo_free maxAvailableResources_def)
  then have "dummy_free world0 \<noteq> {}" by blast
  with dummy_Acquire_cases [OF world0_inv name_order_once, of 1 "''pool''" TypeCIHost] obtain r w1 where
    acq: "dummy_Acquire name_order 1 ''pool'' TypeCIHost world0 = Some ((r, None), w1)" "dummy_inv w1"
      "Id r \<in> dummy_free world0" by auto
  from acq(2) obtain m where m1: "dummy w1 = Some m" "dom m = dummy_id ` {..<maxAvailableResources}"
    by (elim dummy_invE)
  with acq(3) have "Id r \<in> dom m" by (simp add: demo_free)
  with m1(1) obtain i where "m (Id r) = Some i" by auto
  with m1(1) have "dummy_AcquireCompleted (Id r) w1 = Some ((True, di_Resource i, None), w1)"
    by (simp add: dummy_AcquireCompleted_def)
  with acq(1,2) show ?thesis by (rule that)
qed

lemma becomes_available_witness:
  "\<exists>(r :: Resource) cir' w2. drive list_finalizers demo_fac demo_pool Map.empty [1, 2, 3, 4] new_cir world0 = Some (cir', w2) \<and>
     status_state cir' = StateAvailable \<and> CStatus_ResourceId (C_Status cir') = Id r"
proof -
  obtain r w1 and i :: dummyInstance where acq: "dummy_Acquire name_order 1 ''pool'' TypeCIHost world0 = Some ((r, None), w1)" "dummy_inv w1"
    "dummy_AcquireCompleted (Id r) w1 = Some ((True, di_Resource i, None), w1)" by (rule demo_acquire)
  have srv: "serves demo_fac demo_pool Map.empty (dummyProvider name_order) {world0, w1}"
    using acq(2) by (intro demo_serves) auto
  have "\<exists>cir'. drive list_finalizers demo_fac demo_pool Map.empty [1, 2, 3, 4] new_cir world0 = Some (cir', w1) \<and>
     status_state cir' = StateAvailable \<and> CStatus_ResourceId (C_Status cir') = Id r \<and>
     CStatus_Address (C_Status cir') = Address (di_Resource i) \<and> C_Spec cir' = C_Spec new_cir \<and>
     ContainsFinalizer list_finalizers (Finalizers (C_Meta cir')) OfcirFinalizer"
    by (rule new_resource_becomes_available [OF srv list_finalizers_laws]) (simp_all add: acq IsZero_def)
  then show ?thesis by blast
qed

lemma expired_lease_witness:
  "\<exists>cir'. drive list_finalizers demo_fac demo_pool Map.empty [200, 201, 202, 203]
       (a_cir ''cir-0001'' StateInUse StateInUse) world0 = Some (cir', world0) \<and>
     status_state cir' = StateAvailable \<and> spec_state cir' = StateAvailable"
proof -
  have srv: "serves demo_fac demo_pool Map.empty (dummyProvider name_order) {world0, world0}"
    by (intro demo_serves) auto
  from expired_lease_returns [OF srv, of "a_cir ''cir-0001'' StateInUse StateInUse" 10 200 world0 list_finalizers 201 202 203]
  show ?thesis
    by (auto simp: time_Sub_exact int64_bounds less_Duration_def dummy_Clean_def dummy_CleanCompleted_def)
qed

lemma deleted_goes_witness:
  "\<exists>cir' w'. drive list_finalizers demo_fac demo_pool Map.empty [20, 21]
       (request_deletion 5 (a_cir ''cir-0001'' StateAvailable StateAvailable)) world0 = Some (cir', w') \<and>
     OfcirFinalizer \<notin> set (Finalizers (C_Meta cir'))"
proof -
  have srv: "serves demo_fac demo_pool Map.empty (dummyProvider name_order) {world0}"
    by (intro demo_serves) auto
  obtain w' where "dummy_Release ''dummy-1'' world0 = Some (None, w')" by (simp add: dummy_Release_def)
  with deleted_resource_goes [OF srv list_finalizers_laws, of "request_deletion 5 (a_cir ''cir-0001'' StateAvailable StateAvailable)"
      None w' 20 21]
  show ?thesis by (auto simp: IsZero_def)
qed

text \<open>One request that records its writes.\<close>

lemma demo_NewProvider_snd:
  "NewProvider (factories_beside demo_fac) (a_pool s prio n del) sec ([], world0) =
     Some (Inr (provider_beside (dummyProvider name_order)), ([], world0))"
  by (simp add: NewProvider_snd)

lemma demo_reconcile_run:
  "CIResource_Reconcile list_finalizers (factories_beside demo_fac) (logged (fixed_client demo_pool
       [a_cir ''cir-0001'' StateInUse StateAvailable])) 20 21 (''ofcir'', ''cir-0001'') ([], world0) =
     Some ((Minute, None),
       [W_StatusUpdate_CIResource (set_LastUpdated 21 (set_status_state StateInUse (a_cir ''cir-0001'' StateInUse StateAvailable)))],
       world0)"
proof -
  let ?cl = "logged (fixed_client demo_pool [a_cir ''cir-0001'' StateInUse StateAvailable])"
  have pool: "getPool ?cl (a_cir ''cir-0001'' StateInUse StateAvailable) ([], world0) = (Inr (demo_pool, Map.empty), [], world0)"
    by (simp add: getPool_def)
  have "\<exists>f'. Process list_finalizers (factories_beside demo_fac) 20 (a_cir ''cir-0001'' StateInUse StateAvailable)
      demo_pool Map.empty NewCIResourceFSM ([], world0) =
      Some (((False, True, Minute, None), set_status_state StateInUse (a_cir ''cir-0001'' StateInUse StateAvailable), f'),
        ([], world0))"
    by (subst Process_state [OF demo_NewProvider_snd fsm_known_simps(4) fsm_onEntry(4)])
      (auto simp: handleStateAvailable_def defaultCirRetryDelay_def IsZero_def)
  then obtain f' where run: "Process list_finalizers (factories_beside demo_fac) 20
      (a_cir ''cir-0001'' StateInUse StateAvailable) demo_pool Map.empty NewCIResourceFSM ([], world0) =
      Some (((False, True, Minute, None), set_status_state StateInUse (a_cir ''cir-0001'' StateInUse StateAvailable), f'),
        ([], world0))" by blast
  show ?thesis
    by (subst Reconcile_found [OF _ pool run]) (simp_all add: updateStatus_def)
qed

lemma writes_once_witness:
  "cir_edge (status_state (a_cir ''cir-0001'' StateInUse StateAvailable))
     (status_state (set_LastUpdated 21 (set_status_state StateInUse (a_cir ''cir-0001'' StateInUse StateAvailable))))"
  using reconcile_writes_once [OF demo_reconcile_run] by auto

section \<open>Fallback pools\<close>

text \<open>A fallback resource that is leased while it stands for nothing gets a real one in
  four requests, when the provider acquires and reports ready, and is in use again with the
  provider's identifier and address.\<close>

theorem fallback_lease_gets_a_resource:
  assumes "serves fac pool sec p {w, w1, w2}" and "IsFallbackPool pool"
    and "status_state cir = StateInUse" and "spec_state cir = StateInUse" and "IsZero (DeletionTimestamp (C_Meta cir))"
    and "CStatus_Address (C_Status cir) = []" and "CStatus_ResourceId (C_Status cir) = fallbackResourceID"
    and "Acquire p (PSpec_Size (P_Spec pool)) (pool_name pool) (PSpec_Type (P_Spec pool)) w = Some ((r, None), w1)"
    and "AcquireCompleted p (Id r) w1 = Some ((True, r', None), w2)"
  shows "\<exists>cir'. drive lib fac pool sec [t1, t2, t3, t4] cir w = Some (cir', w2) \<and>
     status_state cir' = StateInUse \<and> CStatus_ResourceId (C_Status cir') = Id r \<and>
     CStatus_Address (C_Status cir') = Address r' \<and> C_Spec cir' = C_Spec cir"
  using drive_fallback_lease [OF assms] .

text \<open>A leased fallback resource that is given back releases the real resource and stands
  for nothing again after three requests.\<close>

theorem fallback_return_releases_the_resource:
  assumes "serves fac pool sec p {w, w1}" and "IsFallbackPool pool"
    and "status_state cir = StateInUse" and "spec_state cir = StateAvailable"
    and "CStatus_ResourceId (C_Status cir) \<noteq> fallbackResourceID"
    and "Release p (CStatus_ResourceId (C_Status cir)) w = Some (err, w1)"
    and "err = None \<or> (\<exists>x. err = Some x \<and> errors_As_ResourceNotFound x)"
  shows "\<exists>cir'. drive lib fac pool sec [t1, t2, t3] cir w = Some (cir', w1) \<and>
     status_state cir' = StateAvailable \<and> CStatus_ResourceId (C_Status cir') = fallbackResourceID \<and>
     CStatus_Address (C_Status cir') = []"
  using drive_fallback_return [OF assms] .

section \<open>A lost write\<close>

text \<open>When the status update after an acquisition fails, the request ends with the error and
  the provider's world as the acquisition left it: the identifier is recorded nowhere, the stored
  resource is still in the provisioning state, and the next request acquires again.\<close>

theorem failed_write_loses_acquired_resource:
  fixes w :: 'w
  assumes "Get_CIResource cl req w = (Inr cir, w1)" and "getPool cl cir w1 = (Inr (pool, sec), w2)"
    and "NewProvider fac pool sec w2 = Some (Inr p, w3)"
    and "status_state cir = StateProvisioning" and "\<not> IsFallbackPool pool"
    and "Acquire p (PSpec_Size (P_Spec pool)) (pool_name pool) (PSpec_Type (P_Spec pool)) w3 = Some ((r, None), w4)"
    and "\<forall>c. StatusUpdate_CIResource cl c w4 = ((Some err, c), w5)"
  shows "CIResource_Reconcile lib fac cl now now' req w = Some ((0, Some err), w5)"
proof -
  let ?c = "set_status_state StateProvisioningWait (modify_status (\<lambda>s. s\<lparr>CStatus_ResourceId := Id r,
      CStatus_ProviderInfo := PSpec_ProviderInfo (P_Spec pool)\<rparr>) cir)"
  have "\<exists>f'. Process lib fac now cir pool sec NewCIResourceFSM w2 = Some (((False, True, Minute, None), ?c, f'), w4)"
    using assms(4-6)
    by (subst Process_state [OF assms(3) fsm_known_simps(2) fsm_onEntry(2)])
      (auto simp: handleStateProvisioning_def defaultCirRetryDelay_def Let_def)
  then obtain f' where "Process lib fac now cir pool sec NewCIResourceFSM w2 =
      Some (((False, True, Minute, None), ?c, f'), w4)" by blast
  from Reconcile_found [OF assms(1,2) this] assms(7) show ?thesis by (simp add: updateStatus_def)
qed

text \<open>Instances.\<close>

abbreviation fallback_pool :: CIPool where "fallback_pool \<equiv> a_pool StatePoolAvailable (-1) 1 None"

definition fallback_cir :: CIResource where
  "fallback_cir = modify_status reset_fallback (a_cir ''cir-0001'' StateInUse StateInUse)"

lemma fallback_cir_sel [simp]:
  "status_state fallback_cir = StateInUse" "spec_state fallback_cir = StateInUse"
  "DeletionTimestamp (C_Meta fallback_cir) = None" "CStatus_Address (C_Status fallback_cir) = []"
  "CStatus_ResourceId (C_Status fallback_cir) = fallbackResourceID"
  by (simp_all add: fallback_cir_def)

lemma fallback_lease_witness:
  "\<exists>cir' w1. drive list_finalizers demo_fac fallback_pool Map.empty [1, 2, 3, 4] fallback_cir world0 = Some (cir', w1) \<and>
     status_state cir' = StateInUse \<and> C_Spec cir' = C_Spec fallback_cir"
proof -
  obtain r w1 and i :: dummyInstance where acq: "dummy_Acquire name_order 1 ''pool'' TypeCIHost world0 = Some ((r, None), w1)" "dummy_inv w1"
    "dummy_AcquireCompleted (Id r) w1 = Some ((True, di_Resource i, None), w1)" by (rule demo_acquire)
  have srv: "serves demo_fac fallback_pool Map.empty (dummyProvider name_order) {world0, w1, w1}"
    using acq(2) by (intro demo_serves) auto
  have "\<exists>cir'. drive list_finalizers demo_fac fallback_pool Map.empty [1, 2, 3, 4] fallback_cir world0 = Some (cir', w1) \<and>
     status_state cir' = StateInUse \<and> CStatus_ResourceId (C_Status cir') = Id r \<and>
     CStatus_Address (C_Status cir') = Address (di_Resource i) \<and> C_Spec cir' = C_Spec fallback_cir"
    by (rule fallback_lease_gets_a_resource [OF srv]) (simp_all add: acq IsZero_def)
  then show ?thesis by blast
qed

lemma fallback_return_witness:
  "\<exists>cir' w1. drive list_finalizers demo_fac fallback_pool Map.empty [1, 2, 3]
       (a_cir ''cir-0001'' StateAvailable StateInUse) world0 = Some (cir', w1) \<and>
     status_state cir' = StateAvailable \<and> CStatus_ResourceId (C_Status cir') = fallbackResourceID"
proof -
  from dummy_Release_cases [OF world0_inv, of "''dummy-1''"] obtain w1 where
    rel: "dummy_Release ''dummy-1'' world0 = Some (None, w1)" "dummy_inv w1"
    by (auto simp: dummy_1 maxAvailableResources_def)
  have srv: "serves demo_fac fallback_pool Map.empty (dummyProvider name_order) {world0, w1}"
    using rel(2) by (intro demo_serves) auto
  have "\<exists>cir'. drive list_finalizers demo_fac fallback_pool Map.empty [1, 2, 3]
       (a_cir ''cir-0001'' StateAvailable StateInUse) world0 = Some (cir', w1) \<and>
     status_state cir' = StateAvailable \<and> CStatus_ResourceId (C_Status cir') = fallbackResourceID \<and>
     CStatus_Address (C_Status cir') = []"
    by (rule fallback_return_releases_the_resource [OF srv, where err = None])
      (simp_all add: rel fallbackResourceID_def)
  then show ?thesis by blast
qed

lemma lost_write_witness:
  "\<exists>w5. CIResource_Reconcile list_finalizers demo_fac
       ((fixed_client demo_pool [a_cir ''cir-0001'' StateNone StateProvisioning])
          \<lparr>StatusUpdate_CIResource := \<lambda>c w. ((Some (StatusConflict ''conflict''), c), w)\<rparr>)
       20 21 (''ofcir'', ''cir-0001'') world0 = Some ((0, Some (StatusConflict ''conflict'')), w5)"
proof -
  obtain r w1 and i :: dummyInstance where acq: "dummy_Acquire name_order 1 ''pool'' TypeCIHost world0 = Some ((r, None), w1)" "dummy_inv w1"
    "dummy_AcquireCompleted (Id r) w1 = Some ((True, di_Resource i, None), w1)" by (rule demo_acquire)
  let ?cl = "(fixed_client demo_pool [a_cir ''cir-0001'' StateNone StateProvisioning])
      \<lparr>StatusUpdate_CIResource := \<lambda>c w. ((Some (StatusConflict ''conflict''), c), w)\<rparr>"
  have "CIResource_Reconcile list_finalizers demo_fac ?cl 20 21 (''ofcir'', ''cir-0001'') world0 =
      Some ((0, Some (StatusConflict ''conflict'')), w1)"
    by (rule failed_write_loses_acquired_resource [where cir = "a_cir ''cir-0001'' StateNone StateProvisioning"
          and pool = demo_pool and sec = Map.empty and r = r and ?w1.0 = world0 and ?w2.0 = world0 and ?w3.0 = world0
          and ?w4.0 = w1 and p = "dummyProvider name_order"])
      (simp_all add: acq getPool_def)
  then show ?thesis by blast
qed

end
