(* ===== verification/Provider_Properties.thy ===== *)
theory Provider_Properties
  imports Aws_Log Fsm_Properties
begin

text \<open>
  Properties of the two providers modelled, in terms of what is behind them (the in-memory
  instances, the answers of EC2), and of the state machine running over them.
\<close>

section \<open>The in-memory provider\<close>

text \<open>Over any sequence of acquisitions and releases, whatever the order in which Go visits
  the map, no instance is handed out twice before it is given back, and at most ten are out; no
  call panics.\<close>

theorem dummy_never_double_books:
  assumes "visits_once ord"
  shows "\<exists>held w'. dummy_run ord ops [] (dummy_once \<lparr>dummy = None, ranges = 0\<rparr>) = Some (held, w') \<and>
     distinct held \<and> length held \<le> maxAvailableResources"
proof -
  have "dummy_inv (dummy_once \<lparr>dummy = None, ranges = 0\<rparr>)" by (intro dummy_once_inv) simp
  from dummy_run_held [OF this assms, of "[]" ops] held_okD show ?thesis
    by (fastforce simp: held_ok_def)
qed

lemma no_double_booking_witness:
  "\<exists>held w'. dummy_run name_order [DAcquire, DAcquire, DRelease ''dummy-1'', DAcquire] []
       (dummy_once \<lparr>dummy = None, ranges = 0\<rparr>) = Some (held, w') \<and>
     distinct held \<and> length held \<le> maxAvailableResources"
  by (rule dummy_never_double_books [OF name_order_once])

section \<open>The AWS provider\<close>

lemma describe_one_Inr_raw:
  "describe_one h ii w = (Inr inst, w') \<Longrightarrow>
     \<exists>client w1 out. clientsBuilder h (II_Region ii) (staticCredentials h) w = (Inr client, w1) \<and>
       DescribeInstances client (by_instance_id (II_InstanceID ii)) w1 = ((out, None), w') \<and>
       some_instance out = Some inst"
  by (auto simp: describe_one_def split: prod.split_asm sum.split_asm option.split_asm)

text \<open>\<open>described h region i inst w w'\<close>: in the world \<open>w\<close> a client for the region is made, EC2 answers its
  request for a description of instance \<open>i\<close> with \<open>inst\<close>, and \<open>w'\<close> is the world after that.\<close>

definition described :: "'w awsHandler \<Rightarrow> string \<Rightarrow> string \<Rightarrow> Ec2Instance \<Rightarrow> 'w \<Rightarrow> 'w \<Rightarrow> bool" where
  "described h region i inst w w' \<longleftrightarrow>
     (\<exists>client w1 out. clientsBuilder h region (staticCredentials h) w = (Inr client, w1) \<and>
        DescribeInstances client (by_instance_id i) w1 = ((out, None), w') \<and> some_instance out = Some inst)"

lemma describe_one_Inr:
  assumes "describe_one h \<lparr>II_Region = region, II_InstanceID = i\<rparr> w = (Inr inst, w')"
  shows "described h region i inst w w'"
  using describe_one_Inr_raw [OF assms] unfolding described_def InstanceIdentifier.simps by blast

lemma aws_ready_run:
  assumes "aws_AcquireCompleted (awsHandlerImpl h) cfg i w = Some ((True, res, err), w')"
  shows "err = None \<and> Id res = i \<and>
     (\<exists>ms region inst inst' w1 w2. MachineSpec_ptr cfg = Some ms \<and> region \<in> Region_Name ` set (Regions ms) \<and>
        aws_find_region h i (map Region_Name (Regions ms)) w = ((Some region, None), w1) \<and>
        described h region i inst w1 w2 \<and> InstanceStateName inst = Some ''running'' \<and>
        described h region i inst' w2 w' \<and> PublicIpAddress inst' = Some (Address res))"
proof -
  from awsImpl.completed_ready [OF assms] obtain ms region ip w1 w2 where c:
    "MachineSpec_ptr cfg = Some ms" "region \<in> Region_Name ` set (Regions ms)"
    "aws_FindInstanceRegion h \<lparr>Find_InstanceID = i, Find_PossibleRegions = map Region_Name (Regions ms)\<rparr> w = ((Some region, None), w1)"
    "aws_IsInstanceInRegionActive h \<lparr>II_Region = region, II_InstanceID = i\<rparr> w1 = ((Some True, None), w2)"
    "aws_GetInstanceInRegionPublicIP h \<lparr>II_Region = region, II_InstanceID = i\<rparr> w2 = ((Some ip, None), w')"
    "err = None" "Id res = i" "Address res = ip" unfolding awsHandlerImpl_sel by blast
  from c(4) obtain inst where "describe_one h \<lparr>II_Region = region, II_InstanceID = i\<rparr> w1 = (Inr inst, w2)"
      "InstanceStateName inst = Some ''running''"
    by (auto simp: aws_IsInstanceInRegionActive_def RunningState_def split: prod.split_asm sum.split_asm option.split_asm)
  moreover from c(5) obtain inst' where "describe_one h \<lparr>II_Region = region, II_InstanceID = i\<rparr> w2 = (Inr inst', w')"
      "PublicIpAddress inst' = Some ip"
    by (auto simp: aws_GetInstanceInRegionPublicIP_def split: prod.split_asm sum.split_asm option.split_asm)
  ultimately have "described h region i inst w1 w2" "described h region i inst' w2 w'"
      "InstanceStateName inst = Some ''running''" "PublicIpAddress inst' = Some (Address res)"
    using c(8) by (auto dest: describe_one_Inr)
  moreover have "aws_find_region h i (map Region_Name (Regions ms)) w = ((Some region, None), w1)"
    using c(3) by (simp add: aws_FindInstanceRegion_def)
  ultimately show ?thesis using c(1,2,6,7) by blast
qed

text \<open>C27 (functional). The AWS provider reports a resource ready only when, in this very run, EC2 described
  the instance as running in the configured region where it was found, and the address it gives is
  the public address EC2 answered there right after.\<close>

theorem aws_ready_means_running:
  assumes "aws_AcquireCompleted (awsHandlerImpl h) cfg i w = Some ((True, res, err), w')"
  shows "err = None \<and> Id res = i \<and>
     (\<exists>ms region inst inst' w1 w2. MachineSpec_ptr cfg = Some ms \<and> region \<in> Region_Name ` set (Regions ms) \<and>
        aws_find_region h i (map Region_Name (Regions ms)) w = ((Some region, None), w1) \<and>
        described h region i inst w1 w2 \<and> InstanceStateName inst = Some ''running'' \<and>
        described h region i inst' w2 w' \<and> PublicIpAddress inst' = Some (Address res))"
  by (rule aws_ready_run [OF assms])

text \<open>C28 (functional). An acquisition from AWS that succeeds starts one instance, and that is its result. With a
  log of the requests beside the world of any handler, what the run sent is: one count of the pool's
  running instances in each configured region, in order, which together are fewer than the pool's
  size; then requests to run an instance, a subsequence of those the configuration gives (region by region,
  instance type by instance type, subnet by subnet, each for exactly one instance that carries the
  pool's name as its tag). None but the last of these started an instance, and the resource is the
  instance the last one started. What is left out of the subsequence are instance types for which no
  client could be made or a request was answered without an instance.\<close>

theorem aws_acquire_starts_one_instance:
  assumes "aws_Acquire (awsHandlerImpl (log_handler h)) cfg poolSize poolName poolType ([], w) = Some ((res, None), log, w')"
  shows "\<exists>ms counts tries. MachineSpec_ptr cfg = Some ms \<and> log = counts @ tries \<and>
     list_all2 (\<lambda>r e. \<exists>out. e = Described (Region_Name r) (running_of_pool poolName) (out, None)) (Regions ms) counts \<and>
     (\<Sum>e\<leftarrow>counts. listed e) < poolSize \<and>
     subseq (map run_request tries) (map Some (wanted_requests cfg ms poolName)) \<and>
     tries \<noteq> [] \<and> (\<forall>e\<in>set (butlast tries). started_instance e = None) \<and> started_instance (last tries) = Some (Id res)"
  using aws_Acquire_log [OF assms] by (simp add: tried_def)

text \<open>A region does not know an instance: whenever it is asked for a description, it answers with an
  error whose code says so (\<open>InvalidInstanceID.NotFound\<close>, as EC2 does for an identifier it does not
  have) or with no instance.\<close>

definition unknown_in :: "'w awsHandler \<Rightarrow> string \<Rightarrow> string \<Rightarrow> bool" where
  "unknown_in h i region \<longleftrightarrow>
     (\<forall>w client w1 out e w2. clientsBuilder h region (staticCredentials h) w = (Inr client, w1) \<longrightarrow>
        DescribeInstances client (by_instance_id i) w1 = ((out, e), w2) \<longrightarrow>
        (case e of None \<Rightarrow> some_instance out = None | Some err \<Rightarrow> is_notfound_code err))"

lemma unknown_not_found:
  assumes "\<forall>region\<in>set regions. unknown_in h i region"
  shows "\<exists>w'. aws_find_region h i regions w =
    ((None, Some (ErrorString (''instance '' @ i @ '' not found in any region''))), w')"
  using assms
proof (induction regions arbitrary: w)
  case (Cons r rs)
  obtain b w1 where b: "clientsBuilder h r (staticCredentials h) w = (b, w1)" by (metis prod.exhaust)
  show ?case
  proof (cases b)
    case (Inl err)
    with b Cons show ?thesis by simp
  next
    case (Inr client)
    obtain out e w2 where d: "DescribeInstances client (by_instance_id i) w1 = ((out, e), w2)" by (metis prod.exhaust)
    from Cons.prems have "unknown_in h i r" by simp
    with b Inr d have "case e of None \<Rightarrow> some_instance out = None | Some err \<Rightarrow> is_notfound_code err"
      unfolding unknown_in_def by blast
    with b Inr d Cons show ?thesis by (cases e) simp_all
  qed
qed simp

text \<open>C40 (error). When EC2 no longer knows the instance behind a resource of a regular pool that is in the
  delete state, the finalizer stays: every configured region that is asked answers that there is no such
  instance, by a NotFound error or by an empty description, and the AWS provider turns that into an error
  which is not the not-found error the state machine looks for. The request fails, the resource is as it was,
  and the next look is a minute later.\<close>

theorem aws_vanished_instance_blocks_deletion:
  assumes "NewProvider fac pool sec w = Some (Inr (awsProvider (awsHandlerImpl h) cfg), w1)"
    and "getSupportedRegions cfg = Some regions"
    and "status_state cir = StateDelete" and "\<not> IsFallbackPool pool"
    and "ContainsFinalizer lib (Finalizers (C_Meta cir)) OfcirFinalizer"
    and "\<forall>region\<in>set regions. unknown_in h (CStatus_ResourceId (C_Status cir)) region"
  shows "\<exists>e f' w2. Process lib fac now cir pool sec NewCIResourceFSM w =
     Some (((False, False, Minute, Some e), cir, f'), w2) \<and> \<not> errors_As_ResourceNotFound e"
proof -
  let ?i = "CStatus_ResourceId (C_Status cir)"
  from unknown_not_found [OF assms(6)] obtain w2 where find: "aws_find_region h ?i regions w1 =
      ((None, Some (ErrorString (''instance '' @ ?i @ '' not found in any region''))), w2)" by blast
  let ?e = "WrapError ''error finding instance for release: '' (ErrorString (''instance '' @ ?i @ '' not found in any region''))"
  have "aws_Release (awsHandlerImpl h) cfg ?i w1 = Some (Some ?e, w2)"
    using find assms(2) by (simp add: aws_Release_def aws_FindInstanceRegion_def)
  then have "run_handler lib now HandleStateDelete (fsm_ctx cir pool (awsProvider (awsHandlerImpl h) cfg))
      (fresh_fsm StateDelete) w1 = Some (((Minute, Some ?e), fsm_ctx cir pool (awsProvider (awsHandlerImpl h) cfg),
        fresh_fsm StateDelete), w2)"
    using assms(4,5) by (simp add: handleStateDelete_def defaultCIPoolRetryDelay_def Let_def)
  from Process_state [OF assms(1) fsm_known_simps(9) fsm_onEntry(9) assms(3) this] show ?thesis
    by (intro exI [of _ ?e] exI [of _ "fresh_fsm StateDelete"]) simp
qed

text \<open>A resource of an AWS pool leaves the provisioning wait only to become available,
  when EC2 described its instance as running in a configured region, and the address its status
  then shows is the public one EC2 gave for it.\<close>

theorem aws_resource_available_only_when_running:
  assumes "Process lib fac now cir pool sec NewCIResourceFSM w = Some (((rd, True, d, e), cir', f'), w')"
    and "status_state cir = StateProvisioningWait"
    and "NewProvider fac pool sec w = Some (Inr (awsProvider (awsHandlerImpl h) cfg), w1)"
  shows "status_state cir' = StateAvailable \<and> CStatus_ResourceId (C_Status cir') = CStatus_ResourceId (C_Status cir) \<and>
     (\<exists>ms region inst inst' u v. MachineSpec_ptr cfg = Some ms \<and> region \<in> Region_Name ` set (Regions ms) \<and>
        described h region (CStatus_ResourceId (C_Status cir)) inst u v \<and> InstanceStateName inst = Some ''running'' \<and>
        described h region (CStatus_ResourceId (C_Status cir)) inst' v w' \<and>
        PublicIpAddress inst' = Some (CStatus_Address (C_Status cir')))"
  using assms(1)
proof (cases rule: Process_cases)
  case (ran p w2 st ctx')
  let ?p = "awsProvider (awsHandlerImpl h) cfg" and ?i = "CStatus_ResourceId (C_Status cir)"
  from ran(1) assms(3) have p: "p = ?p" "w2 = w1" by auto
  from fsm_onEntry(3) [OF ran(2)] assms(2) ran(3) p have
    run: "handleStateProvisioningWait (fsm_ctx cir pool ?p) (fresh_fsm StateProvisioningWait) w1 =
      Some (((d, e), ctx', f'), w')" by simp
  from provider.wait_ready_id [OF aws.provider_axioms [of "awsHandlerImpl h" cfg] TrueI _ _ run] assms(2) ran(5) obtain r where
    r: "aws_AcquireCompleted (awsHandlerImpl h) cfg ?i w1 = Some ((True, r, None), w')"
      "Id r = CStatus_ResourceId (C_Status (Ctx_CIResource ctx'))"
      "CStatus_Address (C_Status (Ctx_CIResource ctx')) = Address r" by auto
  have "fired StateProvisioningWait (status_state cir')"
    using Process_step [OF assms(1)] assms(2) by (simp add: step_ok_def)
  then have "status_state cir' = StateAvailable"
    unfolding fired_def fires_def by auto
  with aws_ready_run [OF r(1)] r(2,3) ran(6) show ?thesis by (metis (no_types, lifting))
qed simp

section \<open>Instances\<close>

text \<open>An EC2 that runs one instance, and one that knows none.\<close>

definition an_instance :: Ec2Instance where
  "an_instance = \<lparr>InstanceId = Some ''dummy-1'', InstanceStateName = Some ''running'', PublicIpAddress = Some ''5.6.7.8''\<rparr>"

definition ec2_with :: "Ec2Instance list list \<Rightarrow> 'w EC2Client" where
  "ec2_with out =
     \<lparr>RunInstances = \<lambda>i w. (([an_instance], None), w), TerminateInstances = \<lambda>is w. (None, w),
      DescribeInstances = \<lambda>i w. ((out, None), w)\<rparr>"

definition handler_with :: "Ec2Instance list list \<Rightarrow> 'w awsHandler" where
  "handler_with out = \<lparr>staticCredentials = (''key'', ''secret''), clientsBuilder = \<lambda>r c w. (Inr (ec2_with out), w)\<rparr>"

definition demo_ms :: MachineSpec where
  "demo_ms = \<lparr>Regions = [\<lparr>Region_Name = ''us-east-1'', Region_KeyPairName = '''', Region_SecurityGroupID = '''',
       Region_SubnetID = '''', Region_SubnetIDs = [''subnet-a'', ''subnet-b''],
       Region_Instances = [\<lparr>Inst_Type = ''c5n.metal'', Inst_AMIID = ''ami''\<rparr>]\<rparr>],
     Device = \<lparr>DeviceName = ''/dev/xvda'', DeviceSize = 1024, DeviceType = ''gp2''\<rparr>\<rparr>"

definition demo_cfg :: awsProviderConfig where
  "demo_cfg = aws_default_config\<lparr>MachineSpec_ptr := Some demo_ms\<rparr>"

lemma demo_cfg_sel [simp]: "MachineSpec_ptr demo_cfg = Some demo_ms" "getSupportedRegions demo_cfg = Some [''us-east-1'']"
  by (simp_all add: demo_cfg_def getSupportedRegions_def demo_ms_def)

lemmas aws_run_defs =
  aws_Acquire_def aws_AcquireCompleted_def aws_FindInstanceRegion_def aws_IsInstanceInRegionActive_def
  aws_GetInstanceInRegionPublicIP_def aws_RunInstanceInRegion_def aws_GetTotalAmountOfPoolInstancesInRegion_def
  describe_one_def some_instance_def handler_with_def ec2_with_def an_instance_def RunningState_def
  region_instances_def region_subnets_def run_params_def Resource0_def

lemma demo_aws_ready:
  "aws_AcquireCompleted (awsHandlerImpl (handler_with [[an_instance]])) demo_cfg ''dummy-1'' w =
     Some ((True, \<lparr>Id = ''dummy-1'', Address = ''5.6.7.8'', Metadata = ''''\<rparr>, None), w)"
  by (simp add: aws_run_defs)

lemma aws_ready_witness:
  "\<exists>region inst v v'. described (handler_with [[an_instance]] :: unit awsHandler) region ''dummy-1'' inst v v' \<and>
     region = ''us-east-1'' \<and> InstanceStateName inst = Some ''running''"
  using aws_ready_means_running [OF demo_aws_ready [of "()"]] by (auto simp: demo_ms_def)

text \<open>An EC2 whose first subnet is full, and one that does not know an instance it is asked about.\<close>

definition ec2_full_subnet :: "'w EC2Client" where
  "ec2_full_subnet =
     \<lparr>RunInstances = \<lambda>i w. (if RI_SubnetId i = Some ''subnet-a'' then (([], Some (ErrorString ''no capacity'')), w)
        else (([an_instance], None), w)),
      TerminateInstances = \<lambda>is w. (None, w), DescribeInstances = \<lambda>i w. (([[an_instance]], None), w)\<rparr>"

definition handler_for :: "'w EC2Client \<Rightarrow> 'w awsHandler" where
  "handler_for c = \<lparr>staticCredentials = (''key'', ''secret''), clientsBuilder = \<lambda>r cred w. (Inr c, w)\<rparr>"

lemma full_subnet_run:
  "\<exists>log. aws_Acquire (awsHandlerImpl (log_handler (handler_for ec2_full_subnet))) demo_cfg 2 ''pool'' ''host'' ([], ()) =
     Some ((Resource0\<lparr>Id := ''dummy-1''\<rparr>, None), log, ()) \<and> length log = 3"
  by (simp add: aws_run_defs demo_ms_def handler_for_def ec2_full_subnet_def run_base_input_def)

lemma aws_acquire_witness:
  "\<exists>counts tries. aws_Acquire (awsHandlerImpl (log_handler (handler_for ec2_full_subnet))) demo_cfg 2 ''pool'' ''host'' ([], ()) =
       Some ((Resource0\<lparr>Id := ''dummy-1''\<rparr>, None), counts @ tries, ()) \<and>
     length counts = 1 \<and> length tries = 2 \<and> (\<Sum>e\<leftarrow>counts. listed e) < 2 \<and>
     started_instance (hd tries) = None \<and> started_instance (last tries) = Some ''dummy-1''"
proof -
  obtain log where run: "aws_Acquire (awsHandlerImpl (log_handler (handler_for ec2_full_subnet))) demo_cfg 2 ''pool'' ''host'' ([], ()) =
      Some ((Resource0\<lparr>Id := ''dummy-1''\<rparr>, None), log, ())" "length log = 3" using full_subnet_run by blast
  from aws_acquire_starts_one_instance [OF run(1)] obtain counts tries where c:
    "log = counts @ tries"
    "list_all2 (\<lambda>r e. \<exists>out. e = Described (Region_Name r) (running_of_pool ''pool'') (out, None)) (Regions demo_ms) counts"
    "(\<Sum>e\<leftarrow>counts. listed e) < 2" "\<forall>e\<in>set (butlast tries). started_instance e = None"
    "started_instance (last tries) = Some (Id (Resource0\<lparr>Id := ''dummy-1''\<rparr>))" by auto
  have "length counts = 1" using list_all2_lengthD [OF c(2)] by (simp add: demo_ms_def)
  with run(2) c(1) have "length tries = 2" by simp
  then obtain x y where "tries = [x, y]" by (auto simp: length_Suc_conv numeral_2_eq_2)
  with run(1) c \<open>length counts = 1\<close> show ?thesis by (intro exI [of _ counts] exI [of _ tries]) simp
qed

definition aws_factories :: "'w awsHandler \<Rightarrow> 'w ProviderFactories" where
  "aws_factories h =
     \<lparr>MakeDummy = \<lambda>info sec w. (awsProvider (awsHandlerImpl h) demo_cfg, w), MakeLibvirt = not_linked,
      MakeIronic = not_linked, MakeEquinix = not_linked, MakeIbmcloud = not_linked,
      MakeAWS = \<lambda>info sec w. Some (Inr (awsProvider (awsHandlerImpl h) demo_cfg), w)\<rparr>"

definition aws_pool :: CIPool where
  "aws_pool = demo_pool\<lparr>P_Spec := (P_Spec demo_pool)\<lparr>PSpec_Provider := ProviderAWS\<rparr>\<rparr>"

lemma aws_NewProvider:
  "NewProvider (aws_factories h) aws_pool sec w = Some (Inr (awsProvider (awsHandlerImpl h) demo_cfg), w)"
  by (simp add: NewProvider_def aws_factories_def aws_pool_def provider_types Let_def)

lemma aws_pool_regular [simp]: "\<not> IsFallbackPool aws_pool"
  by (simp add: IsFallbackPool_def aws_pool_def)

definition ec2_not_found :: "'w EC2Client" where
  "ec2_not_found = ec2_full_subnet
     \<lparr>DescribeInstances := \<lambda>i w. (([], Some (SmithyAPIError ''InvalidInstanceID.NotFound'' ''no such instance'')), w)\<rparr>"

lemma unknown_in_ec2: "unknown_in (handler_for ec2_not_found) i region"
proof -
  have "strings_Contains ''InvalidInstanceID.NotFound'' ''NotFound''" by code_simp
  then show ?thesis by (simp add: unknown_in_def handler_for_def ec2_not_found_def is_notfound_code_def)
qed

lemma aws_vanished_witness:
  "\<exists>e f' w'. Process list_finalizers (aws_factories (handler_for ec2_not_found)) 20 (a_cir ''cir-0001'' StateAvailable StateDelete)
       aws_pool Map.empty NewCIResourceFSM () =
     Some (((False, False, Minute, Some e), a_cir ''cir-0001'' StateAvailable StateDelete, f'), w') \<and>
     \<not> errors_As_ResourceNotFound e"
  by (rule aws_vanished_instance_blocks_deletion [OF aws_NewProvider, where regions = "[''us-east-1'']"])
    (simp_all add: unknown_in_ec2)

lemma aws_available_witness:
  "\<exists>region inst v v'. described (handler_with [[an_instance]] :: unit awsHandler) region ''dummy-1'' inst v v' \<and>
     InstanceStateName inst = Some ''running''"
proof -
  let ?fac = "aws_factories (handler_with [[an_instance]]) :: unit ProviderFactories"
  let ?cir = "a_cir ''cir-0001'' StateAvailable StateProvisioningWait"
  have "\<exists>cir' f'. Process list_finalizers ?fac 20 ?cir aws_pool Map.empty NewCIResourceFSM () =
      Some (((False, True, 0, None), cir', f'), ())"
    by (subst Process_state [OF aws_NewProvider fsm_known_simps(3) fsm_onEntry(3)])
      (auto simp: handleStateProvisioningWait_def demo_aws_ready)
  then obtain cir' f' where "Process list_finalizers ?fac 20 ?cir aws_pool Map.empty NewCIResourceFSM () =
      Some (((False, True, 0, None), cir', f'), ())" by blast
  from aws_resource_available_only_when_running [OF this _ aws_NewProvider] show ?thesis by auto
qed

end
