(* ===== verification/Pool_Controller.thy ===== *)
theory Pool_Controller
  imports Kube_Client
begin

text \<open>
  The reconciler of CIPools, \<open>controllers/cipool_controller.go\<close>: the pool's finalizer, its
  deletion, its state, and the CIResources it creates and evicts until their number is the
  requested one. Sizes and resource numbers are Go integers, so the arithmetic wraps at 64 bits.
\<close>

section \<open>Numbers in names\<close>

fun getHighestResourceNumeral :: "CIResource list \<Rightarrow> int \<Rightarrow> int" where
  "getHighestResourceNumeral [] highest = highest"
| "getHighestResourceNumeral (cir # cirs) highest =
     (let lastIndex = LastIndex (cir_name cir) CHR ''-'' in
      if lastIndex = -1 then getHighestResourceNumeral cirs highest
      else (case Atoi (drop (nat (lastIndex + 1)) (cir_name cir)) of
              None \<Rightarrow> getHighestResourceNumeral cirs highest
            | Some currentNumeral \<Rightarrow>
                getHighestResourceNumeral cirs (if highest < currentNumeral then currentNumeral else highest)))"

definition cirName :: "int \<Rightarrow> string" where
  "cirName cirNo = ''cir-'' @ Sprintf_04d cirNo"

definition newCIResource :: "CIPool \<Rightarrow> int \<Rightarrow> CIResource" where
  "newCIResource pool cirNo =
     \<lparr>C_Meta = \<lparr>Name = cirName cirNo, Namespace = Namespace (P_Meta pool), Labels = None,
        Finalizers = [], DeletionTimestamp = None, ResourceVersion = ''''\<rparr>,
      C_Spec = \<lparr>CSpec_PoolRef = pool_name pool, CSpec_State = StateNone, CSpec_Extra = '''',
        CSpec_Type = PSpec_Type (P_Spec pool)\<rparr>,
      C_Status = \<lparr>CStatus_ResourceId = '''', CStatus_Address = '''', CStatus_ProviderInfo = '''',
        CStatus_Extra = '''', CStatus_State = '''', CStatus_LastUpdated = None\<rparr>\<rparr>"

definition createCIResource :: "'w Client \<Rightarrow> CIPool \<Rightarrow> int \<Rightarrow> ('w, error option) call" where
  "createCIResource cl pool cirNo w = Create_CIResource cl (newCIResource pool cirNo) w"

text \<open>The loop from \<open>i\<close> up to \<open>bound\<close>; \<open>err\<close> is the variable every call of \<open>createCIResource\<close>
  assigns, so it holds the outcome of the last one.\<close>

function create_loop ::
  "'w Client \<Rightarrow> CIPool \<Rightarrow> int \<Rightarrow> int \<Rightarrow> int \<Rightarrow> error option \<Rightarrow> ('w, int \<times> error option) call" where
  "create_loop cl pool bound i numCirSelected err w =
     (if i < bound
      then (case createCIResource cl pool i w of
              (Some e, w) \<Rightarrow> create_loop cl pool bound (i + 1) numCirSelected (Some e) w
            | (None, w) \<Rightarrow> create_loop cl pool bound (i + 1) (numCirSelected + 1) None w)
      else ((numCirSelected, err), w))"
  by pat_completeness auto
termination
  by (relation "measure (\<lambda>(cl, pool, bound, i, n, e, w). nat (bound - i))") auto

declare create_loop.simps [simp del]

section \<open>Eviction\<close>

definition evictable :: "CIResource \<Rightarrow> bool" where
  "evictable cir \<longleftrightarrow> status_state cir \<in> {StateAvailable, StateMaintenance, StateError}"

definition evict_labels :: "CIResource \<Rightarrow> (string \<rightharpoonup> string)" where
  "evict_labels cir = (case Labels (C_Meta cir) of None \<Rightarrow> Map.empty | Some l \<Rightarrow> l)"

definition select_for_eviction :: "CIResource \<Rightarrow> CIResource" where
  "select_for_eviction cir =
     cir\<lparr>C_Meta := (C_Meta cir)\<lparr>Labels := Some ((evict_labels cir)(EvictionLabel \<mapsto> ''true''))\<rparr>\<rparr>"

text \<open>The loop over the resources from the last one, with \<open>needed = len(poolCirs)-targetSize\<close>.\<close>

fun evict_loop :: "'w Client \<Rightarrow> int \<Rightarrow> CIResource list \<Rightarrow> int \<Rightarrow> ('w, int) call" where
  "evict_loop cl needed [] numCirSelected w = (numCirSelected, w)"
| "evict_loop cl needed (cir # cirs) numCirSelected w =
     (if evictable cir
      then (if EvictionLabel \<in> dom (evict_labels cir) then evict_loop cl needed cirs numCirSelected w
            else (case Update_CIResource cl (select_for_eviction cir) w of
                    ((Some err, c), w) \<Rightarrow> evict_loop cl needed cirs numCirSelected w
                  | ((None, c), w) \<Rightarrow>
                      (if numCirSelected + 1 \<ge> needed then (numCirSelected + 1, w)
                       else evict_loop cl needed cirs (numCirSelected + 1) w)))
      else if numCirSelected \<ge> needed then (numCirSelected, w)
      else evict_loop cl needed cirs numCirSelected w)"

definition deleteCIResources ::
  "'w Client \<Rightarrow> int \<Rightarrow> CIResource list \<Rightarrow> string \<Rightarrow> ('w, int \<times> error option) call" where
  "deleteCIResources cl targetSize poolCirs poolNamespace w =
     (let (numCirSelected, w) =
            evict_loop cl (int64 (int (length poolCirs) - targetSize)) (rev poolCirs) 0 w in
      case DeleteAllOf_CIResources cl poolNamespace [(EvictionLabel, ''true'')] w of
        (Some err, w) \<Rightarrow> ((numCirSelected, Some err), w)
      | (None, w) \<Rightarrow> ((numCirSelected, None), w))"

section \<open>The pool's resources\<close>

definition savePoolStatus :: "'w Client \<Rightarrow> Time \<Rightarrow> CIPool \<Rightarrow> ('w, error option \<times> CIPool) call" where
  "savePoolStatus cl now pool w =
     StatusUpdate_CIPool cl (pool\<lparr>P_Status := (P_Status pool)\<lparr>PStatus_LastUpdated := Some now\<rparr>\<rparr>) w"

definition of_pool :: "CIPool \<Rightarrow> CIResource \<Rightarrow> bool" where
  "of_pool pool c \<longleftrightarrow> cir_pool c = pool_name pool"

definition set_status_size :: "int \<Rightarrow> CIPool \<Rightarrow> CIPool" where
  "set_status_size n pool = pool\<lparr>P_Status := (P_Status pool)\<lparr>PStatus_Size := n\<rparr>\<rparr>"

definition resize ::
  "'w Client \<Rightarrow> CIPool \<Rightarrow> CIResource list \<Rightarrow> CIResource list \<Rightarrow> ('w, bool \<times> error option) call" where
  "resize cl pool allCirs poolCirs w =
     (let size = PSpec_Size (P_Spec pool); found = int (length poolCirs) in
      if size = found then ((False, None), w)
      else if size > found
      then (let baseCirNo = int64 (getHighestResourceNumeral allCirs 0 + 1) in
            case create_loop cl pool (int64 (baseCirNo + (size - found))) baseCirNo 0 None w of
              ((numCirSelected, err), w) \<Rightarrow> ((numCirSelected > 0, err), w))
      else (case deleteCIResources cl size poolCirs (Namespace (P_Meta pool)) w of
              ((numCirSelected, Some err), w) \<Rightarrow> ((False, Some err), w)
            | ((numCirSelected, None), w) \<Rightarrow> ((numCirSelected > 0, None), w)))"

definition manageCIResourcesFor :: "'w Client \<Rightarrow> Time \<Rightarrow> CIPool \<Rightarrow> ('w, bool \<times> error option) call" where
  "manageCIResourcesFor cl now pool w =
     (case List_CIResources cl (Namespace (P_Meta pool)) w of
        ((Some err, items), w) \<Rightarrow> ((False, Some err), w)
      | ((None, items), w) \<Rightarrow>
          (let allCirs = sort_key cir_name items; poolCirs = filter (of_pool pool) allCirs in
           if PStatus_Size (P_Status pool) \<noteq> int (length poolCirs)
           then (case savePoolStatus cl now (set_status_size (int (length poolCirs)) pool) w of
                   ((Some err, pool), w) \<Rightarrow> ((False, Some err), w)
                 | ((None, pool), w) \<Rightarrow> resize cl pool allCirs poolCirs w)
           else resize cl pool allCirs poolCirs w))"

section \<open>Reconcile\<close>

definition set_pool_finalizers :: "string list \<Rightarrow> CIPool \<Rightarrow> CIPool" where
  "set_pool_finalizers fs pool = pool\<lparr>P_Meta := (P_Meta pool)\<lparr>Finalizers := fs\<rparr>\<rparr>"

definition delete_pool :: "Controllerutil \<Rightarrow> 'w Client \<Rightarrow> CIPool \<Rightarrow> ('w, ctrl_Result) call" where
  "delete_pool lib cl pool w =
     (case List_CIResources cl (Namespace (P_Meta pool)) w of
        ((ignored, items), w) \<Rightarrow>
          (let poolCirs = filter (of_pool pool) items; fs = Finalizers (P_Meta pool) in
           if length poolCirs > 0
           then (case deleteCIResources cl 0 poolCirs (Namespace (P_Meta pool)) w of
                   ((n, Some err), w) \<Rightarrow> ((0, Some err), w)
                 | ((n, None), w) \<Rightarrow> ((Duration (10 * Nanoseconds Second), None), w))
           else if ContainsFinalizer lib fs OfcirFinalizer
           then (case Update_CIPool cl (set_pool_finalizers (RemoveFinalizer lib fs OfcirFinalizer) pool) w of
                   ((Some err, p), w) \<Rightarrow> ((0, Some err), w)
                 | ((None, p), w) \<Rightarrow> ((0, None), w))
           else ((0, None), w)))"

text \<open>The rest of \<open>Reconcile\<close> for an available pool.\<close>

definition reconcile_resources :: "'w Client \<Rightarrow> Time \<Rightarrow> CIPool \<Rightarrow> ('w, ctrl_Result) call" where
  "reconcile_resources cl now pool w =
     (case manageCIResourcesFor cl now pool w of
        ((isDirty, Some err), w) \<Rightarrow> ((0, Some err), w)
      | ((isDirty, None), w) \<Rightarrow> ((if isDirty then Second else defaultCIPoolRetryDelay, None), w))"

definition reconcile_available :: "'w Client \<Rightarrow> Time \<Rightarrow> CIPool \<Rightarrow> ('w, ctrl_Result) call" where
  "reconcile_available cl now pool w =
     (case Get_Secret cl (Namespace (P_Meta pool), pool_name pool @ ''-secret'') w of
        (Inl err, w) \<Rightarrow>
          (if \<not> IsNotFound err then ((0, Some err), w) else reconcile_resources cl now pool w)
      | (Inr poolSecret, w) \<Rightarrow> reconcile_resources cl now pool w)"

definition CIPool_Reconcile ::
  "Controllerutil \<Rightarrow> 'w Client \<Rightarrow> Time \<Rightarrow> NamespacedName \<Rightarrow> ('w, ctrl_Result) call" where
  "CIPool_Reconcile lib cl now req w =
     (case Get_CIPool cl req w of
        (Inl err, w) \<Rightarrow>
          (if IsNotFound err then ((0, None), w) else ((defaultCIPoolRetryDelay, None), w))
      | (Inr pool, w) \<Rightarrow>
          (let fs = Finalizers (P_Meta pool); s = PSpec_State (P_Spec pool) in
           if \<not> IsZero (DeletionTimestamp (P_Meta pool)) then delete_pool lib cl pool w
           else if \<not> ContainsFinalizer lib fs OfcirFinalizer
           then (case Update_CIPool cl (set_pool_finalizers (AddFinalizer lib fs OfcirFinalizer) pool) w of
                   ((Some err, p), w) \<Rightarrow> ((0, Some err), w)
                 | ((None, p), w) \<Rightarrow> ((0, None), w))
           else if PStatus_State (P_Status pool) \<noteq> s
           then (if s = StatePoolAvailable \<or> s = StatePoolOffline
                 then (case savePoolStatus cl now
                          (pool\<lparr>P_Status := (P_Status pool)\<lparr>PStatus_State := s\<rparr>\<rparr>) w of
                         ((err, p), w) \<Rightarrow> ((0, err), w))
                 else ((0, Some (ErrorString (''invalid state: '' @ s))), w))
           else if PStatus_State (P_Status pool) = StatePoolOffline
           then ((defaultCIPoolRetryDelay, None), w)
           else reconcile_available cl now pool w))"

section \<open>Fresh names\<close>

lemma highest_mono: "h \<le> getHighestResourceNumeral cirs h"
proof (induction cirs arbitrary: h)
  case (Cons c cirs)
  show ?case
    using Cons [of h] Cons [of "if h < k then k else h" for k]
    by (auto simp: Let_def split: option.split intro: order_trans [OF _ Cons])
qed simp

lemma highest_in_int64: "in_int64 h \<Longrightarrow> in_int64 (getHighestResourceNumeral cirs h)"
  by (induction cirs arbitrary: h) (auto simp: Let_def split: option.split dest: Atoi_Some_in_int64)

lemma highest_ge:
  assumes "c \<in> set cirs" and "LastIndex (cir_name c) CHR ''-'' \<noteq> -1"
    and "Atoi (drop (nat (LastIndex (cir_name c) CHR ''-'' + 1)) (cir_name c)) = Some k"
  shows "k \<le> getHighestResourceNumeral cirs h"
  using assms(1)
proof (induction cirs arbitrary: h)
  case (Cons d cirs)
  show ?case
  proof (cases "c = d")
    case True
    with assms(2,3) show ?thesis
      using highest_mono [of "if h < k then k else h" cirs] by (auto simp: Let_def split: if_splits)
  next
    case False
    with Cons show ?thesis by (auto simp: Let_def split: option.split)
  qed
qed simp

lemma cirName_numeral:
  assumes "0 \<le> i" and "i \<le> max_int64"
  shows "LastIndex (cirName i) CHR ''-'' = 3"
    and "Atoi (drop 4 (cirName i)) = Some i"
proof -
  have "cirName i = ''cir'' @ CHR ''-'' # Sprintf_04d i" by (simp add: cirName_def)
  moreover have "CHR ''-'' \<notin> set (Sprintf_04d i)"
    using digits_no_sign(1) [OF Sprintf_04d_digits [OF assms(1)]] .
  ultimately show "LastIndex (cirName i) CHR ''-'' = 3"
    using LastIndex_append [of "CHR ''-''" "Sprintf_04d i" "''cir''"] by simp
  show "Atoi (drop 4 (cirName i)) = Some i"
    using Atoi_Sprintf_04d [OF assms] by (simp add: cirName_def)
qed

lemma cirName_fresh:
  assumes "getHighestResourceNumeral cirs 0 < i" and "i \<le> max_int64"
  shows "cirName i \<notin> cir_name ` set cirs"
proof
  assume "cirName i \<in> cir_name ` set cirs"
  then obtain c where c: "c \<in> set cirs" "cir_name c = cirName i" by auto
  from assms(1) highest_mono [of 0 cirs] have "0 \<le> i" by simp
  from cirName_numeral [OF this assms(2)] c(2) have "i \<le> getHighestResourceNumeral cirs 0"
    by (intro highest_ge [OF c(1)]) simp_all
  with assms(1) show False by simp
qed

lemma cirName_inj: "0 \<le> i \<Longrightarrow> 0 \<le> j \<Longrightarrow> cirName i = cirName j \<longleftrightarrow> i = j"
  by (metis append_same_eq cirName_def dec_val_Sprintf_04d nat_eq_iff2 same_append_eq)

section \<open>What the loops write\<close>

lemma create_loop_log:
  assumes "create_loop (logged cl) pool bound i n e (ws, w) = ((n', e'), ws', w')"
  shows "ws' = ws @ map (\<lambda>j. W_Create_CIResource (newCIResource pool j)) [i..bound - 1]"
    and "n \<le> n'" and "n' \<le> n + max 0 (bound - i)"
  using assms
proof (induction "nat (bound - i)" arbitrary: i n e ws w)
  case 0
  { case 1 with 0 show ?case by (simp add: create_loop.simps [of _ _ _ i]) }
  { case 2 with 0 show ?case by (simp add: create_loop.simps [of _ _ _ i]) }
  { case 3 with 0 show ?case by (simp add: create_loop.simps [of _ _ _ i]) }
next
  case (Suc k)
  then have lt: "i < bound" and k: "k = nat (bound - (i + 1))" by auto
  from lt have up: "[i..bound - 1] = i # [i + 1..bound - 1]" by (simp add: upto.simps)
  { case 1 with lt Suc(1) [OF k] show ?case
      by (fastforce simp: create_loop.simps [of _ _ _ i] createCIResource_def up split: option.split_asm) }
  { case 2 with lt Suc(2) [OF k] show ?case
      by (fastforce simp: create_loop.simps [of _ _ _ i] createCIResource_def split: option.split_asm) }
  { case 3 with lt Suc(3) [OF k] show ?case
      by (fastforce simp: create_loop.simps [of _ _ _ i] createCIResource_def split: option.split_asm) }
qed

definition eviction_candidate :: "CIResource \<Rightarrow> bool" where
  "eviction_candidate c \<longleftrightarrow> evictable c \<and> EvictionLabel \<notin> dom (evict_labels c)"

lemma evict_loop_log:
  assumes "evict_loop (logged cl) needed cirs n (ws, w) = (n', ws', w')" and "n < needed"
  shows "\<exists>vs. ws' = ws @ map (\<lambda>c. W_Update_CIResource (select_for_eviction c)) vs \<and>
     prefix vs (filter eviction_candidate cirs) \<and> n \<le> n' \<and> n' \<le> needed \<and>
     n' \<le> n + int (length vs) \<and>
     ((\<forall>c w. fst (fst (Update_CIResource cl c w)) = None) \<longrightarrow>
        vs = take (nat (needed - n)) (filter eviction_candidate cirs) \<and> n' = n + int (length vs))"
  using assms
proof (induction cirs arbitrary: n ws w)
  case Nil
  then show ?case by (intro exI [of _ "[]"]) auto
next
  case (Cons c cirs)
  show ?case
  proof (cases "eviction_candidate c")
    case False
    with Cons.prems have "evict_loop (logged cl) needed cirs n (ws, w) = (n', ws', w')"
      by (auto simp: eviction_candidate_def split: if_split_asm)
    with Cons.IH [OF this Cons.prems(2)] False show ?thesis by simp
  next
    case True
    let ?x = "W_Update_CIResource (select_for_eviction c)"
    obtain e d w1 where upd: "Update_CIResource cl (select_for_eviction c) w = ((e, d), w1)"
      by (metis prod.exhaust)
    have rest: "\<exists>vs. ws' = (ws @ [?x]) @ map (\<lambda>c. W_Update_CIResource (select_for_eviction c)) vs \<and>
        prefix vs (filter eviction_candidate cirs) \<and> m \<le> n' \<and> n' \<le> needed \<and>
        n' \<le> m + int (length vs) \<and>
        ((\<forall>c w. fst (fst (Update_CIResource cl c w)) = None) \<longrightarrow>
           vs = take (nat (needed - m)) (filter eviction_candidate cirs) \<and> n' = m + int (length vs))"
      if "evict_loop (logged cl) needed cirs m (ws @ [?x], w1) = (n', ws', w')" "m < needed" for m
      using Cons.IH [OF that] .
    show ?thesis
    proof (cases e)
      case (Some err)
      with upd Cons.prems True have "evict_loop (logged cl) needed cirs n (ws @ [?x], w1) = (n', ws', w')"
        by (simp add: eviction_candidate_def)
      from rest [OF this Cons.prems(2)] obtain vs where vs:
        "ws' = (ws @ [?x]) @ map (\<lambda>c. W_Update_CIResource (select_for_eviction c)) vs"
        "prefix vs (filter eviction_candidate cirs)" "n \<le> n'" "n' \<le> needed" "n' \<le> n + int (length vs)"
        by auto
      from upd Some have "\<exists>c w. fst (fst (Update_CIResource cl c w)) \<noteq> None"
        by (metis fst_conv option.distinct(1))
      with vs True show ?thesis by (intro exI [of _ "c # vs"]) auto
    next
      case None
      show ?thesis
      proof (cases "n + 1 \<ge> needed")
        case full: True
        with upd None Cons.prems True have "n' = n + 1" "ws' = ws @ [?x]"
          by (auto simp: eviction_candidate_def)
        moreover from full Cons.prems(2) have "nat (needed - n) = 1" by simp
        ultimately show ?thesis using full True Cons.prems(2)
          by (intro exI [of _ "[c]"]) simp
      next
        case False
        with upd None Cons.prems True have "evict_loop (logged cl) needed cirs (n + 1) (ws @ [?x], w1) = (n', ws', w')"
          by (simp add: eviction_candidate_def)
        from rest [OF this] False obtain vs where vs:
          "ws' = (ws @ [?x]) @ map (\<lambda>c. W_Update_CIResource (select_for_eviction c)) vs"
          "prefix vs (filter eviction_candidate cirs)" "n + 1 \<le> n'" "n' \<le> needed" "n' \<le> n + 1 + int (length vs)"
          "(\<forall>c w. fst (fst (Update_CIResource cl c w)) = None) \<longrightarrow>
             vs = take (nat (needed - (n + 1))) (filter eviction_candidate cirs) \<and> n' = n + 1 + int (length vs)"
          by auto
        moreover have "nat (needed - n) = Suc (nat (needed - (n + 1)))" using False by simp
        ultimately show ?thesis using True by (intro exI [of _ "c # vs"]) auto
      qed
    qed
  qed
qed

section \<open>What a request writes\<close>

text \<open>The documented behaviour of a status update: the object it decodes keeps its name and
  specification.\<close>

definition status_keeps_spec :: "'w Client \<Rightarrow> bool" where
  "status_keeps_spec cl \<longleftrightarrow>
     (\<forall>p w e p' w'. StatusUpdate_CIPool cl p w = ((e, p'), w') \<longrightarrow>
        P_Spec p' = P_Spec p \<and> pool_name p' = pool_name p \<and> Namespace (P_Meta p') = Namespace (P_Meta p))"

lemma status_keepsD:
  assumes "status_keeps_spec cl" and "StatusUpdate_CIPool cl p w = ((e, p'), w')"
  shows "P_Spec p' = P_Spec p" "pool_name p' = pool_name p" "Namespace (P_Meta p') = Namespace (P_Meta p)"
  using assms unfolding status_keeps_spec_def by blast+

definition created :: "kube_write list \<Rightarrow> CIResource list" where
  "created ws = List.map_filter (\<lambda>x. case x of W_Create_CIResource c \<Rightarrow> Some c | _ \<Rightarrow> None) ws"

definition updated :: "kube_write list \<Rightarrow> CIResource list" where
  "updated ws = List.map_filter (\<lambda>x. case x of W_Update_CIResource c \<Rightarrow> Some c | _ \<Rightarrow> None) ws"

definition pools_updated :: "kube_write list \<Rightarrow> CIPool list" where
  "pools_updated ws = List.map_filter (\<lambda>x. case x of W_Update_CIPool p \<Rightarrow> Some p | _ \<Rightarrow> None) ws"

lemma map_filter_append: "List.map_filter f (xs @ ys) = List.map_filter f xs @ List.map_filter f ys"
  by (simp add: List.map_filter_def)

lemma created_simps [simp]:
  "created [] = []" "created (xs @ ys) = created xs @ created ys"
  "created (W_Create_CIResource c # ws) = c # created ws"
  "created (W_Update_CIResource c # ws) = created ws"
  "created (W_StatusUpdate_CIResource c # ws) = created ws"
  "created (W_DeleteAllOf ns l # ws) = created ws"
  "created (W_Update_CIPool p # ws) = created ws" "created (W_StatusUpdate_CIPool p # ws) = created ws"
  by (simp_all add: created_def List.map_filter_def)

lemma updated_simps [simp]:
  "updated [] = []" "updated (xs @ ys) = updated xs @ updated ys"
  "updated (W_Create_CIResource c # ws) = updated ws"
  "updated (W_Update_CIResource c # ws) = c # updated ws"
  "updated (W_StatusUpdate_CIResource c # ws) = updated ws"
  "updated (W_DeleteAllOf ns l # ws) = updated ws"
  "updated (W_Update_CIPool p # ws) = updated ws" "updated (W_StatusUpdate_CIPool p # ws) = updated ws"
  by (simp_all add: updated_def List.map_filter_def)

lemma pools_updated_simps [simp]:
  "pools_updated [] = []" "pools_updated (xs @ ys) = pools_updated xs @ pools_updated ys"
  "pools_updated (W_Create_CIResource c # ws) = pools_updated ws"
  "pools_updated (W_Update_CIResource c # ws) = pools_updated ws"
  "pools_updated (W_StatusUpdate_CIResource c # ws) = pools_updated ws"
  "pools_updated (W_DeleteAllOf ns l # ws) = pools_updated ws"
  "pools_updated (W_Update_CIPool p # ws) = p # pools_updated ws"
  "pools_updated (W_StatusUpdate_CIPool p # ws) = pools_updated ws"
  by (simp_all add: pools_updated_def List.map_filter_def)

lemma logs_map [simp]:
  "created (map (\<lambda>j. W_Create_CIResource (f j)) js) = map f js"
  "updated (map (\<lambda>j. W_Create_CIResource (f j)) js) = []"
  "pools_updated (map (\<lambda>j. W_Create_CIResource (f j)) js) = []"
  "created (map (\<lambda>c. W_Update_CIResource (g c)) cs) = []"
  "updated (map (\<lambda>c. W_Update_CIResource (g c)) cs) = map g cs"
  "pools_updated (map (\<lambda>c. W_Update_CIResource (g c)) cs) = []"
  by (induction js, simp_all) (induction cs, simp_all)+

text \<open>Eviction: a number of labelled members, then one deletion of what carries the label.\<close>

lemma deleteCIResources_log:
  assumes "deleteCIResources (logged cl) target cirs ns (ws, w) = (r, ws', w')"
    and "0 < int64 (int (length cirs) - target)"
  shows "\<exists>vs. ws' = ws @ map (\<lambda>c. W_Update_CIResource (select_for_eviction c)) vs @
         [W_DeleteAllOf ns [(EvictionLabel, ''true'')]] \<and>
     prefix vs (filter eviction_candidate (rev cirs)) \<and>
     fst r \<le> int64 (int (length cirs) - target) \<and>
     ((\<forall>c w. fst (fst (Update_CIResource cl c w)) = None) \<longrightarrow>
        vs = take (nat (int64 (int (length cirs) - target))) (filter eviction_candidate (rev cirs)))"
proof -
  let ?needed = "int64 (int (length cirs) - target)"
  obtain n ws1 w1 where ev: "evict_loop (logged cl) ?needed (rev cirs) 0 (ws, w) = (n, ws1, w1)"
    by (metis prod.exhaust)
  from evict_loop_log [OF this assms(2)] obtain vs where vs:
    "ws1 = ws @ map (\<lambda>c. W_Update_CIResource (select_for_eviction c)) vs"
    "prefix vs (filter eviction_candidate (rev cirs))" "n \<le> ?needed"
    "(\<forall>c w. fst (fst (Update_CIResource cl c w)) = None) \<longrightarrow>
        vs = take (nat ?needed) (filter eviction_candidate (rev cirs))" by auto
  from assms(1) ev vs(1) have
    "ws' = ws @ map (\<lambda>c. W_Update_CIResource (select_for_eviction c)) vs @ [W_DeleteAllOf ns [(EvictionLabel, ''true'')]]"
    "fst r = n"
    by (auto simp: deleteCIResources_def Let_def split: option.split_asm)
  with vs(2,3,4) show ?thesis by (intro exI [of _ vs]) simp
qed

lemma evict_loop_updates:
  assumes "evict_loop (logged cl) needed cirs n (ws, w) = (n', ws', w')"
  shows "\<exists>vs. ws' = ws @ map (\<lambda>c. W_Update_CIResource (select_for_eviction c)) vs \<and>
     set vs \<subseteq> {c \<in> set cirs. eviction_candidate c}"
  using assms
proof (induction cirs arbitrary: n ws w)
  case (Cons c cirs)
  show ?case
  proof (cases "eviction_candidate c")
    case False
    with Cons.prems have "evict_loop (logged cl) needed cirs n (ws, w) = (n', ws', w') \<or> ws' = ws"
      by (auto simp: eviction_candidate_def split: if_split_asm)
    with Cons.IH [of n ws w] show ?thesis by (elim disjE) (fastforce, auto intro: exI [of _ "[]"])
  next
    case True
    let ?x = "W_Update_CIResource (select_for_eviction c)"
    obtain e d w1 where upd: "Update_CIResource cl (select_for_eviction c) w = ((e, d), w1)"
      by (metis prod.exhaust)
    have "ws' = ws @ [?x] \<or> (\<exists>m. evict_loop (logged cl) needed cirs m (ws @ [?x], w1) = (n', ws', w'))"
      using upd Cons.prems True
      by (cases e) (auto simp: eviction_candidate_def split: if_split_asm)
    then show ?thesis
    proof (elim disjE exE)
      assume "ws' = ws @ [?x]"
      with True show ?thesis by (intro exI [of _ "[c]"]) simp
    next
      fix m assume "evict_loop (logged cl) needed cirs m (ws @ [?x], w1) = (n', ws', w')"
      from Cons.IH [OF this] obtain vs where
        "ws' = (ws @ [?x]) @ map (\<lambda>c. W_Update_CIResource (select_for_eviction c)) vs"
        "set vs \<subseteq> {c \<in> set cirs. eviction_candidate c}" by auto
      with True show ?thesis by (intro exI [of _ "c # vs"]) auto
    qed
  qed
qed simp

lemma deleteCIResources_updates:
  assumes "deleteCIResources (logged cl) target cirs ns (ws, w) = (r, ws', w')"
  shows "created ws' = created ws \<and> pools_updated ws' = pools_updated ws \<and>
     (\<exists>vs. updated ws' = updated ws @ map select_for_eviction vs \<and> set vs \<subseteq> {c \<in> set cirs. eviction_candidate c})"
proof -
  let ?needed = "int64 (int (length cirs) - target)"
  obtain n ws1 w1 where ev: "evict_loop (logged cl) ?needed (rev cirs) 0 (ws, w) = (n, ws1, w1)"
    by (metis prod.exhaust)
  from evict_loop_updates [OF this] obtain vs where vs:
    "ws1 = ws @ map (\<lambda>c. W_Update_CIResource (select_for_eviction c)) vs"
    "set vs \<subseteq> {c \<in> set cirs. eviction_candidate c}" by auto
  from assms ev vs(1) have "ws' = ws @ map (\<lambda>c. W_Update_CIResource (select_for_eviction c)) vs @
      [W_DeleteAllOf ns [(EvictionLabel, ''true'')]]"
    by (auto simp: deleteCIResources_def Let_def split: option.split_asm)
  with vs(2) show ?thesis by auto
qed

lemma resize_log:
  assumes "resize (logged cl) pool allCirs poolCirs (ws, w) = (r, ws', w')"
  shows "created ws' = created ws @
       (if PSpec_Size (P_Spec pool) > int (length poolCirs)
        then let base = int64 (getHighestResourceNumeral allCirs 0 + 1) in
             map (newCIResource pool)
               [base..int64 (base + (PSpec_Size (P_Spec pool) - int (length poolCirs))) - 1]
        else []) \<and>
     pools_updated ws' = pools_updated ws \<and>
     (\<exists>vs. updated ws' = updated ws @ map select_for_eviction vs \<and>
        set vs \<subseteq> {c \<in> set poolCirs. eviction_candidate c} \<and>
        (PSpec_Size (P_Spec pool) \<ge> int (length poolCirs) \<longrightarrow> vs = []))"
proof -
  let ?size = "PSpec_Size (P_Spec pool)" and ?found = "int (length poolCirs)"
  let ?base = "int64 (getHighestResourceNumeral allCirs 0 + 1)"
  consider (same) "?size = ?found" | (more) "?size > ?found" | (fewer) "?size < ?found" by linarith
  then show ?thesis
  proof cases
    case same
    with assms show ?thesis by (simp add: resize_def)
  next
    case more
    obtain n e ws1 w1 where "create_loop (logged cl) pool (int64 (?base + (?size - ?found))) ?base 0 None (ws, w)
        = ((n, e), ws1, w1)" by (metis prod.exhaust)
    with create_loop_log(1) [OF this] assms more show ?thesis
      by (auto simp: resize_def Let_def)
  next
    case fewer
    obtain n e ws1 w1 where del: "deleteCIResources (logged cl) ?size poolCirs (Namespace (P_Meta pool)) (ws, w)
        = ((n, e), ws1, w1)" by (metis prod.exhaust)
    with assms fewer have "ws1 = ws'" by (auto simp: resize_def Let_def split: option.split_asm)
    with deleteCIResources_updates [OF del] fewer show ?thesis by auto
  qed
qed

text \<open>The listing \<open>manageCIResourcesFor\<close> works on.\<close>

definition members :: "CIPool \<Rightarrow> CIResource list \<Rightarrow> CIResource list" where
  "members pool items = filter (of_pool pool) (sort_key cir_name items)"

lemma set_members [simp]: "set (members pool items) = {c \<in> set items. cir_pool c = pool_name pool}"
  by (auto simp: members_def of_pool_def)

lemma manage_cases:
  assumes "manageCIResourcesFor (logged cl) now pool (ws, w) = (r, ws', w')"
    and "List_CIResources cl (Namespace (P_Meta pool)) w = ((le, items), w1)"
  obtains (no_list) "le \<noteq> None" "snd r \<noteq> None" "ws' = ws"
  | (no_status) p w2 where "le = None" "snd r \<noteq> None" "ws' = ws @ [W_StatusUpdate_CIPool p]"
      "fst (fst (StatusUpdate_CIPool cl p w2)) \<noteq> None"
  | (resized) ws1 pool' w2 where "le = None" "resize (logged cl) pool' (sort_key cir_name items) (members pool items) (ws1, w2) = (r, ws', w')"
      "ws1 = ws \<and> pool' = pool \<or>
       (\<exists>p w3. ws1 = ws @ [W_StatusUpdate_CIPool p] \<and> StatusUpdate_CIPool cl p w3 = ((None, pool'), w2) \<and>
          P_Spec p = P_Spec pool \<and> P_Meta p = P_Meta pool)"
proof (cases le)
  case (Some e)
  with assms show ?thesis by (intro no_list) (auto simp: manageCIResourcesFor_def)
next
  case None
  show ?thesis
  proof (cases "PStatus_Size (P_Status pool) \<noteq> int (length (members pool items))")
    case False
    with None assms show ?thesis
      by (intro resized [of pool ws w1]) (auto simp: manageCIResourcesFor_def members_def Let_def)
  next
    case True
    let ?p = "(set_status_size (int (length (members pool items))) pool)"
    let ?q = "?p\<lparr>P_Status := (P_Status ?p)\<lparr>PStatus_LastUpdated := Some now\<rparr>\<rparr>"
    obtain e pool' w2 where up: "StatusUpdate_CIPool cl ?q w1 = ((e, pool'), w2)" by (metis prod.exhaust)
    show ?thesis
    proof (cases e)
      case (Some x)
      with None True up assms show ?thesis
        by (intro no_status [of ?q w1]) (auto simp: manageCIResourcesFor_def members_def Let_def savePoolStatus_def)
    next
      case ok: None
      with None True up assms show ?thesis
        by (intro resized [of pool' "ws @ [W_StatusUpdate_CIPool ?q]" w2])
          (auto simp: manageCIResourcesFor_def members_def Let_def savePoolStatus_def set_status_size_def)
    qed
  qed
qed

lemma manage_updates:
  assumes "manageCIResourcesFor (logged cl) now pool (ws, w) = (r, ws', w')"
    and "List_CIResources cl (Namespace (P_Meta pool)) w = ((le, items), w1)"
  shows "pools_updated ws' = pools_updated ws \<and>
     (\<exists>vs. updated ws' = updated ws @ map select_for_eviction vs \<and>
        set vs \<subseteq> {c \<in> set items. cir_pool c = pool_name pool \<and> eviction_candidate c})"
  using assms
proof (cases rule: manage_cases)
  case (resized ws1 pool' w2)
  from resize_log [OF resized(2)] resized(3) show ?thesis by auto
qed auto

text \<open>Where the updates of a request come from.\<close>

lemma delete_pool_log:
  assumes "delete_pool lib (logged cl) pool (ws, w) = (r, ws', w')"
    and "List_CIResources cl (Namespace (P_Meta pool)) w = ((le, items), w1)"
  shows "created ws' = created ws \<and>
     (\<exists>vs. updated ws' = updated ws @ map select_for_eviction vs \<and>
       set vs \<subseteq> {c \<in> set items. cir_pool c = pool_name pool \<and> eviction_candidate c}) \<and>
     (pools_updated ws' = pools_updated ws \<or>
      filter (of_pool pool) items = [] \<and>
      pools_updated ws' = pools_updated ws @
        [set_pool_finalizers (RemoveFinalizer lib (Finalizers (P_Meta pool)) OfcirFinalizer) pool])"
proof (cases "filter (of_pool pool) items = []")
  case True
  with assms show ?thesis
    by (auto simp: delete_pool_def Let_def split: if_split_asm option.split_asm prod.split_asm)
next
  case False
  obtain n e ws1 w2 where del: "deleteCIResources (logged cl) 0 (filter (of_pool pool) items)
      (Namespace (P_Meta pool)) (ws, w1) = ((n, e), ws1, w2)" by (metis prod.exhaust)
  with False assms have "ws1 = ws'"
    by (auto simp: delete_pool_def Let_def split: option.split_asm)
  with deleteCIResources_updates [OF del] show ?thesis by (auto simp: of_pool_def)
qed

text \<open>The ways through \<open>Reconcile\<close>.\<close>

lemma Reconcile_cases:
  assumes "CIPool_Reconcile lib (logged cl) now req ([], w) = (r, ws, w')"
  obtains (no_write) "ws = []"
  | (pool_only) p where "ws = [W_StatusUpdate_CIPool p]"
  | (finalizer) pool w1 where "Get_CIPool cl req w = (Inr pool, w1)" "IsZero (DeletionTimestamp (P_Meta pool))"
      "ws = [W_Update_CIPool (set_pool_finalizers (AddFinalizer lib (Finalizers (P_Meta pool)) OfcirFinalizer) pool)]"
  | (delete) pool w1 where "Get_CIPool cl req w = (Inr pool, w1)" "\<not> IsZero (DeletionTimestamp (P_Meta pool))"
      "delete_pool lib (logged cl) pool ([], w1) = (r, ws, w')"
  | (manage) pool w1 w2 r' where "Get_CIPool cl req w = (Inr pool, w1)" "IsZero (DeletionTimestamp (P_Meta pool))"
      "PStatus_State (P_Status pool) = PSpec_State (P_Spec pool)" "PSpec_State (P_Spec pool) \<noteq> StatePoolOffline"
      "manageCIResourcesFor (logged cl) now pool ([], w2) = (r', ws, w')"
proof -
  obtain g w1 where g: "Get_CIPool cl req w = (g, w1)" by (metis prod.exhaust)
  show ?thesis
  proof (cases g)
    case (Inl err)
    with g assms have "ws = []" by (auto simp: CIPool_Reconcile_def Let_def split: if_split_asm)
    then show ?thesis by (rule no_write)
  next
    case (Inr pool)
    let ?fs = "Finalizers (P_Meta pool)" and ?s = "PSpec_State (P_Spec pool)"
    consider "\<not> IsZero (DeletionTimestamp (P_Meta pool))"
      | "IsZero (DeletionTimestamp (P_Meta pool))" "\<not> ContainsFinalizer lib ?fs OfcirFinalizer"
      | "IsZero (DeletionTimestamp (P_Meta pool))" "ContainsFinalizer lib ?fs OfcirFinalizer"
        "PStatus_State (P_Status pool) \<noteq> ?s"
      | "IsZero (DeletionTimestamp (P_Meta pool))" "ContainsFinalizer lib ?fs OfcirFinalizer"
        "PStatus_State (P_Status pool) = ?s" "?s = StatePoolOffline"
      | "IsZero (DeletionTimestamp (P_Meta pool))" "ContainsFinalizer lib ?fs OfcirFinalizer"
        "PStatus_State (P_Status pool) = ?s" "?s \<noteq> StatePoolOffline"
      by blast
    then show ?thesis
    proof cases
      case 1
      with g Inr assms show ?thesis by (intro delete) (auto simp: CIPool_Reconcile_def Let_def)
    next
      case 2
      with g Inr assms show ?thesis
        by (intro finalizer) (auto simp: CIPool_Reconcile_def Let_def split: option.split_asm prod.split_asm)
    next
      case 3
      with g Inr assms have "ws = [] \<or> (\<exists>p. ws = [W_StatusUpdate_CIPool p])"
        by (auto simp: CIPool_Reconcile_def savePoolStatus_def Let_def split: prod.split_asm if_split_asm)
      then show ?thesis using no_write pool_only by blast
    next
      case 4
      with g Inr assms have "ws = []" by (auto simp: CIPool_Reconcile_def Let_def)
      then show ?thesis by (rule no_write)
    next
      case 5
      with g Inr assms have av: "reconcile_available (logged cl) now pool ([], w1) = (r, ws, w')"
        by (simp add: CIPool_Reconcile_def Let_def)
      obtain x w2 where sec: "Get_Secret cl (Namespace (P_Meta pool), pool_name pool @ ''-secret'') w1 = (x, w2)"
        by (metis prod.exhaust)
      obtain r' v where m: "manageCIResourcesFor (logged cl) now pool ([], w2) = (r', v)"
        by (metis prod.exhaust)
      from av sec m have "ws = [] \<or> v = (ws, w')"
        by (cases x) (auto simp: reconcile_available_def reconcile_resources_def
            split: if_split_asm option.split_asm prod.split_asm)
      with g Inr 5 m show ?thesis using no_write manage by blast
    qed
  qed
qed

lemma range_wrap:
  assumes "0 \<le> h" and "h + k \<le> max_int64" and "0 < k"
  shows "int64 (h + 1) = h + 1" and "int64 (h + 1 + k) - 1 = (if h + k = max_int64 then min_int64 - 1 else h + k)"
  using assms by (auto simp: int64_def int64_bounds)

lemma newCIResource_sel [simp]:
  "cir_name (newCIResource pool i) = cirName i" "cir_pool (newCIResource pool i) = pool_name pool"
  "Namespace (C_Meta (newCIResource pool i)) = Namespace (P_Meta pool)"
  "CSpec_Type (C_Spec (newCIResource pool i)) = PSpec_Type (P_Spec pool)"
  "status_state (newCIResource pool i) = StateNone"
  "spec_state (newCIResource pool i) = StateNone"
  by (simp_all add: newCIResource_def StateNone_def)

lemma resize_creates:
  assumes "resize (logged cl) pool allCirs poolCirs (ws, w) = (r, ws', w')" and "created ws = []"
    and "in_int64 (PSpec_Size (P_Spec pool))"
    and "getHighestResourceNumeral allCirs 0 + (PSpec_Size (P_Spec pool) - int (length poolCirs)) < max_int64"
  shows "created ws' = map (newCIResource pool)
     [getHighestResourceNumeral allCirs 0 + 1..getHighestResourceNumeral allCirs 0 +
        (PSpec_Size (P_Spec pool) - int (length poolCirs))]"
proof -
  let ?h = "getHighestResourceNumeral allCirs 0" and ?k = "PSpec_Size (P_Spec pool) - int (length poolCirs)"
  have "0 \<le> ?h" by (rule highest_mono)
  show ?thesis
  proof (cases "0 < ?k")
    case True
    with range_wrap [OF \<open>0 \<le> ?h\<close>, of ?k] assms(4) have
      "int64 (?h + 1) = ?h + 1" "int64 (?h + 1 + ?k) - 1 = ?h + ?k" by auto
    with resize_log [OF assms(1)] assms(2) True show ?thesis by (simp add: Let_def)
  next
    case False
    with resize_log [OF assms(1)] assms(2) show ?thesis by simp
  qed
qed

lemma highest_set: "getHighestResourceNumeral (sort_key f cirs) 0 < i \<Longrightarrow> i \<le> max_int64 \<Longrightarrow>
    cirName i \<notin> cir_name ` set cirs"
  using cirName_fresh [of "sort_key f cirs" i] by simp

section \<open>Properties\<close>

text \<open>C5 (functional). When a request finds fewer members than the pool asks for, what it creates is
  exactly the missing number of resources, each of the pool, its namespace and its type, in the
  first state, under pairwise different names none of the listed resources has; it evicts nothing.
  (The numbers must fit 64 bits.) The only other outcome is that the write of the pool's size
  failed: then nothing is created and the error is returned.\<close>

theorem pool_grows_by_fresh_resources:
  assumes "manageCIResourcesFor (logged cl) now pool ([], w) = (r, ws, w')"
    and "List_CIResources cl (Namespace (P_Meta pool)) w = ((None, items), w1)"
    and "status_keeps_spec cl"
    and "in_int64 (PSpec_Size (P_Spec pool))"
    and "int (length (members pool items)) < PSpec_Size (P_Spec pool)"
    and "getHighestResourceNumeral (sort_key cir_name items) 0 + PSpec_Size (P_Spec pool) < max_int64"
  shows "created ws = [] \<and> snd r \<noteq> None \<or>
     int (length (created ws)) = PSpec_Size (P_Spec pool) - int (length (members pool items)) \<and>
     distinct (map cir_name (created ws)) \<and>
     cir_name ` set (created ws) \<inter> cir_name ` set items = {} \<and>
     (\<forall>c \<in> set (created ws). cir_pool c = pool_name pool \<and> Namespace (C_Meta c) = Namespace (P_Meta pool) \<and>
        CSpec_Type (C_Spec c) = PSpec_Type (P_Spec pool) \<and> status_state c = StateNone) \<and>
     updated ws = []"
  using assms(1,2)
proof (cases rule: manage_cases)
  case (resized ws1 pool' w2)
  let ?h = "getHighestResourceNumeral (sort_key cir_name items) 0"
  let ?k = "PSpec_Size (P_Spec pool) - int (length (members pool items))"
  from resized(3) assms(3) have p: "P_Spec pool' = P_Spec pool" "pool_name pool' = pool_name pool"
      "Namespace (P_Meta pool') = Namespace (P_Meta pool)" "created ws1 = []" "updated ws1 = []"
    by (auto dest: status_keepsD)
  have cr: "created ws = map (newCIResource pool') [?h + 1..?h + ?k]"
    using resize_creates [OF resized(2) p(4)] assms(4,6) p(1) by simp
  have "0 \<le> ?h" by (rule highest_mono)
  then have "inj_on cirName {?h + 1..?h + ?k}" by (auto simp: inj_on_def cirName_inj)
  then have "distinct (map cir_name (created ws))" by (simp add: cr comp_def distinct_map)
  moreover have "cirName i \<notin> cir_name ` set items" if "i \<in> {?h + 1..?h + ?k}" for i
    using highest_set [of cir_name items i] that assms(6) by simp
  then have "cirName ` {?h + 1..?h + ?k} \<inter> cir_name ` set items = {}" by blast
  then have "cir_name ` set (created ws) \<inter> cir_name ` set items = {}"
    by (simp add: cr image_image)
  moreover have "updated ws = []" using resize_log [OF resized(2)] p(1,5) assms(5) by simp
  ultimately show ?thesis using p assms(5) by (auto simp: cr)
qed auto

lemma fixed_client_keeps [simp]: "status_keeps_spec (fixed_client pool items)"
  by (auto simp: status_keeps_spec_def)

lemma pool_grows_witness:
  "\<exists>r ws w'. manageCIResourcesFor (logged (fixed_client (a_pool StatePoolAvailable 0 3 None)
        [a_cir ''cir-0007'' StateAvailable StateAvailable])) 0 (a_pool StatePoolAvailable 0 3 None) ([], ()) = (r, ws, w') \<and>
     (created ws = [] \<and> snd r \<noteq> None \<or> int (length (created ws)) = 2 \<and> distinct (map cir_name (created ws)))"
proof -
  let ?pool = "a_pool StatePoolAvailable 0 3 None" and ?items = "[a_cir ''cir-0007'' StateAvailable StateAvailable]"
  obtain r ws w' where run: "manageCIResourcesFor (logged (fixed_client ?pool ?items)) 0 ?pool ([], ()) = (r, ws, w')"
    by (metis prod.exhaust)
  have m: "length (members ?pool ?items) = 1" by (simp add: members_def of_pool_def a_pool_def a_cir_def)
  have h: "getHighestResourceNumeral (sort_key cir_name ?items) 0 = 7"
    by (simp add: a_cir_def Atoi_def dec_val_def digit_val_def is_digit_def int64_bounds Let_def)
  have "created ws = [] \<and> snd r \<noteq> None \<or>
     int (length (created ws)) = PSpec_Size (P_Spec ?pool) - int (length (members ?pool ?items)) \<and>
     distinct (map cir_name (created ws)) \<and>
     cir_name ` set (created ws) \<inter> cir_name ` set ?items = {} \<and>
     (\<forall>c \<in> set (created ws). cir_pool c = pool_name ?pool \<and> Namespace (C_Meta c) = Namespace (P_Meta ?pool) \<and>
        CSpec_Type (C_Spec c) = PSpec_Type (P_Spec ?pool) \<and> status_state c = StateNone) \<and>
     updated ws = []"
    by (rule pool_grows_by_fresh_resources [OF run, where ?w1.0 = "()"])
      (simp_all only: m h, simp_all add: a_pool_def int64_bounds)
  then show ?thesis using run m by (auto simp: a_pool_def)
qed

lemma evicted_was_listed:
  assumes "CIPool_Reconcile lib (logged cl) now req ([], w) = (r, ws, w')"
    and "c \<in> set (updated ws)"
  shows "\<exists>pool w1 w2 le items w3 c0.
     Get_CIPool cl req w = (Inr pool, w1) \<and>
     List_CIResources cl (Namespace (P_Meta pool)) w2 = ((le, items), w3) \<and> c0 \<in> set items \<and>
     cir_pool c0 = pool_name pool \<and>
     status_state c0 \<in> {StateAvailable, StateMaintenance, StateError} \<and>
     EvictionLabel \<notin> dom (evict_labels c0) \<and> c = select_for_eviction c0"
  using assms(1)
proof (cases rule: Reconcile_cases)
  case (delete pool w1)
  obtain le items w3 where l: "List_CIResources cl (Namespace (P_Meta pool)) w1 = ((le, items), w3)"
    by (metis prod.exhaust)
  from delete_pool_log [OF delete(3) l] obtain vs where "updated ws = map select_for_eviction vs"
    "set vs \<subseteq> {c \<in> set items. cir_pool c = pool_name pool \<and> eviction_candidate c}" by auto
  with assms(2) obtain c0 where
    "c0 \<in> set items" "cir_pool c0 = pool_name pool" "eviction_candidate c0" "c = select_for_eviction c0" by auto
  with delete(1) l show ?thesis by (auto simp: eviction_candidate_def evictable_def) blast+
next
  case (manage pool w1 w2 r')
  obtain le items w3 where l: "List_CIResources cl (Namespace (P_Meta pool)) w2 = ((le, items), w3)"
    by (metis prod.exhaust)
  from manage_updates [OF manage(5) l] obtain vs where "updated ws = map select_for_eviction vs"
    "set vs \<subseteq> {c \<in> set items. cir_pool c = pool_name pool \<and> eviction_candidate c}" by auto
  with assms(2) obtain c0 where
    "c0 \<in> set items" "cir_pool c0 = pool_name pool" "eviction_candidate c0" "c = select_for_eviction c0" by auto
  with manage(1) l show ?thesis by (auto simp: eviction_candidate_def evictable_def) blast+
qed (use assms(2) in auto)

text \<open>C8 (safety). Whatever a request finds, a CIResource it updates is one of the listed members of
  the pool, idle (available, in maintenance or in error) and not yet selected, changed by the
  eviction label alone: a resource in use is never selected.\<close>

theorem pool_evicts_only_idle_members:
  assumes "CIPool_Reconcile lib (logged cl) now req ([], w) = (r, ws, w')"
    and "c \<in> set (updated ws)"
  shows "\<exists>pool w1 w2 le items w3 c0.
     Get_CIPool cl req w = (Inr pool, w1) \<and>
     List_CIResources cl (Namespace (P_Meta pool)) w2 = ((le, items), w3) \<and> c0 \<in> set items \<and>
     cir_pool c0 = pool_name pool \<and>
     status_state c0 \<in> {StateAvailable, StateMaintenance, StateError} \<and>
     EvictionLabel \<notin> dom (evict_labels c0) \<and> c = select_for_eviction c0"
  by (rule evicted_was_listed [OF assms])

lemma deleteCIResources_takes_last:
  assumes "deleteCIResources (logged cl) n cirs ns (ws0, w) = (r, ws, w')"
    and "\<forall>c w. fst (fst (Update_CIResource cl c w)) = None"
    and "0 \<le> n" and "n < int (length cirs)" and "int (length cirs) \<le> max_int64"
  shows "ws = ws0 @ map (\<lambda>c. W_Update_CIResource (select_for_eviction c))
       (take (length cirs - nat n) (filter eviction_candidate (rev cirs))) @
     [W_DeleteAllOf ns [(EvictionLabel, ''true'')]]"
proof -
  have needed: "int64 (int (length cirs) - n) = int (length cirs) - n"
    using assms(3-5) by (intro int64_id) (simp add: int64_bounds)
  then have "0 < int64 (int (length cirs) - n)" using assms(4) by simp
  from deleteCIResources_log [OF assms(1) this] assms(2) have "ws = ws0 @
      map (\<lambda>c. W_Update_CIResource (select_for_eviction c))
        (take (nat (int (length cirs) - n)) (filter eviction_candidate (rev cirs))) @
      [W_DeleteAllOf ns [(EvictionLabel, ''true'')]]" by (auto simp: needed)
  moreover have "nat (int (length cirs) - n) = length cirs - nat n" using assms(3) by simp
  ultimately show ?thesis by simp
qed

lemma resize_shrinks:
  assumes "resize (logged cl) pool allCirs poolCirs (ws0, w) = (r, ws, w')"
    and "\<forall>c w. fst (fst (Update_CIResource cl c w)) = None"
    and "0 \<le> PSpec_Size (P_Spec pool)" and "PSpec_Size (P_Spec pool) < int (length poolCirs)"
    and "int (length poolCirs) \<le> max_int64"
  shows "ws = ws0 @ map (\<lambda>c. W_Update_CIResource (select_for_eviction c))
       (take (length poolCirs - nat (PSpec_Size (P_Spec pool))) (filter eviction_candidate (rev poolCirs))) @
     [W_DeleteAllOf (Namespace (P_Meta pool)) [(EvictionLabel, ''true'')]]"
proof -
  obtain n e ws1 w1 where del: "deleteCIResources (logged cl) (PSpec_Size (P_Spec pool)) poolCirs
      (Namespace (P_Meta pool)) (ws0, w) = ((n, e), ws1, w1)" by (metis prod.exhaust)
  with assms(1,4) have "ws1 = ws" by (auto simp: resize_def Let_def split: option.split_asm)
  with deleteCIResources_takes_last [OF del assms(2-5)] show ?thesis by simp
qed

text \<open>A request that shrinks a pool: its server accepts updates, and more members are listed than the
  pool asks for.\<close>

definition accepts_updates :: "'w Client \<Rightarrow> bool" where
  "accepts_updates cl \<longleftrightarrow> status_keeps_spec cl \<and>
     (\<forall>p w. fst (fst (StatusUpdate_CIPool cl p w)) = None) \<and>
     (\<forall>c w. fst (fst (Update_CIResource cl c w)) = None)"

lemma shrink_log:
  assumes "manageCIResourcesFor (logged cl) now pool ([], w) = (r, ws, w')"
    and "List_CIResources cl (Namespace (P_Meta pool)) w = ((None, items), w1)"
    and "accepts_updates cl"
    and "ms = filter (\<lambda>c. cir_pool c = pool_name pool) (sort_key cir_name items)"
    and "0 \<le> PSpec_Size (P_Spec pool)" and "PSpec_Size (P_Spec pool) < int (length ms)"
    and "int (length ms) \<le> max_int64"
  shows "\<exists>pre. set pre \<subseteq> range W_StatusUpdate_CIPool \<and> ws = pre @
     map (\<lambda>c. W_Update_CIResource (select_for_eviction c))
       (take (length ms - nat (PSpec_Size (P_Spec pool)))
          (filter (\<lambda>c. status_state c \<in> {StateAvailable, StateMaintenance, StateError} \<and>
             EvictionLabel \<notin> dom (evict_labels c)) (rev ms))) @
     [W_DeleteAllOf (Namespace (P_Meta pool)) [(EvictionLabel, ''true'')]]"
proof -
  have ms: "ms = members pool items" using assms(4) by (simp add: members_def of_pool_def [abs_def])
  have cand: "(\<lambda>c. status_state c \<in> {StateAvailable, StateMaintenance, StateError} \<and>
      EvictionLabel \<notin> dom (evict_labels c)) = eviction_candidate"
    by (simp add: fun_eq_iff eviction_candidate_def evictable_def)
  from assms(1,2) show ?thesis
  proof (cases rule: manage_cases)
    case (no_status p w2)
    with assms(3) show ?thesis by (simp add: accepts_updates_def)
  next
    case (resized ws1 pool' w2)
    from resized(3) assms(3) have p: "P_Spec pool' = P_Spec pool"
        "Namespace (P_Meta pool') = Namespace (P_Meta pool)" "set ws1 \<subseteq> range W_StatusUpdate_CIPool"
      by (auto simp: accepts_updates_def dest: status_keepsD)
    from resize_shrinks [OF resized(2)] assms(3,5-7) p(1,2) ms have "ws = ws1 @
      map (\<lambda>c. W_Update_CIResource (select_for_eviction c))
        (take (length (members pool items) - nat (PSpec_Size (P_Spec pool))) (filter eviction_candidate (rev (members pool items)))) @
      [W_DeleteAllOf (Namespace (P_Meta pool)) [(EvictionLabel, ''true'')]]"
      by (simp add: accepts_updates_def)
    with p(3) show ?thesis unfolding ms cand by blast
  qed simp
qed

text \<open>C32 (functional). With a server that accepts the updates, a request that finds more members than
  the pool asks for first updates the status of the pool, if at all, then labels exactly the last
  members in the order of their names that are idle (available, in maintenance or in error) and not
  labelled yet, as many as there are members too many, and last asks for the deletion of all that
  carry the label in the namespace. (Members labelled before and still terminating count as members
  too many, so a repeated request labels further ones.)\<close>

theorem eviction_takes_the_last_idle:
  assumes "manageCIResourcesFor (logged cl) now pool ([], w) = (r, ws, w')"
    and "List_CIResources cl (Namespace (P_Meta pool)) w = ((None, items), w1)"
    and "accepts_updates cl"
    and "ms = filter (\<lambda>c. cir_pool c = pool_name pool) (sort_key cir_name items)"
    and "0 \<le> PSpec_Size (P_Spec pool)" and "PSpec_Size (P_Spec pool) < int (length ms)"
    and "int (length ms) \<le> max_int64"
  shows "\<exists>pre. set pre \<subseteq> range W_StatusUpdate_CIPool \<and> ws = pre @
     map (\<lambda>c. W_Update_CIResource (select_for_eviction c))
       (take (length ms - nat (PSpec_Size (P_Spec pool)))
          (filter (\<lambda>c. status_state c \<in> {StateAvailable, StateMaintenance, StateError} \<and>
             EvictionLabel \<notin> dom (evict_labels c)) (rev ms))) @
     [W_DeleteAllOf (Namespace (P_Meta pool)) [(EvictionLabel, ''true'')]]"
  by (rule shrink_log [OF assms])

text \<open>C33 (safety). The pool's own finalizer is only removed by a request that found the pool under
  deletion and no member in its listing.\<close>

theorem pool_kept_while_members_listed:
  assumes "CIPool_Reconcile lib (logged cl) now req ([], w) = (r, ws, w')"
    and "finalizer_laws lib" and "p \<in> set (pools_updated ws)"
    and "\<not> ContainsFinalizer lib (Finalizers (P_Meta p)) OfcirFinalizer"
  shows "\<exists>pool w1 le items w2. Get_CIPool cl req w = (Inr pool, w1) \<and>
     \<not> IsZero (DeletionTimestamp (P_Meta pool)) \<and>
     List_CIResources cl (Namespace (P_Meta pool)) w1 = ((le, items), w2) \<and>
     (\<forall>c \<in> set items. cir_pool c \<noteq> pool_name pool)"
  using assms(1)
proof (cases rule: Reconcile_cases)
  case (finalizer pool w1)
  with assms(2-4) show ?thesis by (auto simp: finalizer_laws_def set_pool_finalizers_def)
next
  case (delete pool w1)
  obtain le items w3 where l: "List_CIResources cl (Namespace (P_Meta pool)) w1 = ((le, items), w3)"
    by (metis prod.exhaust)
  from delete_pool_log [OF delete(3) l] assms(3) have "filter (of_pool pool) items = []" by auto
  then have "\<forall>c \<in> set items. cir_pool c \<noteq> pool_name pool" by (simp add: filter_empty_conv of_pool_def)
  with delete(1,2) l show ?thesis by blast
next
  case (manage pool w1 w2 r')
  obtain le items w3 where "List_CIResources cl (Namespace (P_Meta pool)) w2 = ((le, items), w3)"
    by (metis prod.exhaust)
  from manage_updates [OF manage(5) this] assms(3) show ?thesis by simp
qed (use assms(3) in auto)

text \<open>C39 (error). The error of that listing is not looked at: when it fails with no items, the
  finalizer goes although members may exist.\<close>

theorem pool_finalizer_lost_on_list_error:
  assumes "Get_CIPool cl req w = (Inr pool, w1)" and "\<not> IsZero (DeletionTimestamp (P_Meta pool))"
    and "List_CIResources cl (Namespace (P_Meta pool)) w1 = ((Some e, []), w2)"
    and "ContainsFinalizer lib (Finalizers (P_Meta pool)) OfcirFinalizer"
  shows "\<exists>r w'. CIPool_Reconcile lib (logged cl) now req ([], w) =
     (r, [W_Update_CIPool (set_pool_finalizers (RemoveFinalizer lib (Finalizers (P_Meta pool)) OfcirFinalizer) pool)], w')"
  using assms
  by (auto simp: CIPool_Reconcile_def delete_pool_def Let_def split: option.split prod.split)

text \<open>An offline pool is left alone: no write reaches the server and the next look is a
  minute later.\<close>

theorem offline_pool_untouched:
  assumes "Get_CIPool cl req w = (Inr pool, w1)" and "IsZero (DeletionTimestamp (P_Meta pool))"
    and "ContainsFinalizer lib (Finalizers (P_Meta pool)) OfcirFinalizer"
    and "PSpec_State (P_Spec pool) = StatePoolOffline" and "PStatus_State (P_Status pool) = StatePoolOffline"
  shows "CIPool_Reconcile lib (logged cl) now req (ws, w) = ((Minute, None), ws, w1)"
  using assms by (simp add: CIPool_Reconcile_def defaultCIPoolRetryDelay_def Let_def)

text \<open>Concrete runs: a pool of one resource shrunk to none, the same pool under deletion with a
  resource in use, and under deletion with nothing left.\<close>

abbreviation shrinking_pool :: CIPool where "shrinking_pool \<equiv> a_pool StatePoolAvailable 0 0 None"
abbreviation deleted_pool :: CIPool where "deleted_pool \<equiv> a_pool StatePoolAvailable 0 1 (Some 5)"
abbreviation idle_cir :: CIResource where "idle_cir \<equiv> a_cir ''cir-0001'' StateAvailable StateAvailable"
abbreviation busy_cir :: CIResource where "busy_cir \<equiv> a_cir ''cir-0002'' StateInUse StateInUse"
abbreviation third_cir :: CIResource where "third_cir \<equiv> a_cir ''cir-0003'' StateNone StateAvailable"

lemmas run_defs =
  CIPool_Reconcile_def delete_pool_def reconcile_available_def reconcile_resources_def
  manageCIResourcesFor_def resize_def deleteCIResources_def savePoolStatus_def set_status_size_def
  of_pool_def evictable_def evict_labels_def set_pool_finalizers_def a_pool_def a_cir_def IsZero_def
  Let_def StatePoolAvailable_def StatePoolOffline_def

lemma shrinking_run:
  "updated (fst (snd (CIPool_Reconcile list_finalizers (logged (fixed_client shrinking_pool [idle_cir])) 0
     (''ofcir'', ''pool'') ([], ())))) = [select_for_eviction idle_cir]"
  by (simp add: run_defs int64_def)

lemma evicts_only_idle_witness:
  "\<exists>pool w1 (w2 :: unit) le items w3 c0.
     Get_CIPool (fixed_client shrinking_pool [idle_cir]) (''ofcir'', ''pool'') () = (Inr pool, w1) \<and>
     List_CIResources (fixed_client shrinking_pool [idle_cir]) (Namespace (P_Meta pool)) w2 = ((le, items), w3) \<and>
     c0 \<in> set items \<and> cir_pool c0 = pool_name pool \<and>
     status_state c0 \<in> {StateAvailable, StateMaintenance, StateError} \<and>
     EvictionLabel \<notin> dom (evict_labels c0) \<and> select_for_eviction idle_cir = select_for_eviction c0"
proof -
  obtain r ws w' where run: "CIPool_Reconcile list_finalizers (logged (fixed_client shrinking_pool [idle_cir])) 0
      (''ofcir'', ''pool'') ([], ()) = (r, ws, w')" by (metis prod.exhaust)
  with shrinking_run have "select_for_eviction idle_cir \<in> set (updated ws)" by simp
  from pool_evicts_only_idle_members [OF run this] show ?thesis .
qed

lemma eviction_takes_the_last_witness:
  "\<exists>r w' pre. manageCIResourcesFor (logged (fixed_client (a_pool StatePoolAvailable 0 1 None) [third_cir, busy_cir, idle_cir])) 0
      (a_pool StatePoolAvailable 0 1 None) ([], ()) =
     (r, pre @ [W_Update_CIResource (select_for_eviction third_cir), W_Update_CIResource (select_for_eviction idle_cir),
       W_DeleteAllOf ''ofcir'' [(EvictionLabel, ''true'')]], w') \<and> set pre \<subseteq> range W_StatusUpdate_CIPool"
proof -
  let ?pool = "a_pool StatePoolAvailable 0 1 None" and ?items = "[third_cir, busy_cir, idle_cir]"
  obtain r ws w' where run: "manageCIResourcesFor (logged (fixed_client ?pool ?items)) 0 ?pool ([], ()) = (r, ws, w')"
    by (metis prod.exhaust)
  have ms: "filter (\<lambda>c. cir_pool c = pool_name ?pool) (sort_key cir_name ?items) = [idle_cir, busy_cir, third_cir]"
    by (simp add: a_cir_def a_pool_def)
  have sz: "PSpec_Size (P_Spec ?pool) = 1" "Namespace (P_Meta ?pool) = ''ofcir''" by (simp_all add: a_pool_def)
  have "\<exists>pre. set pre \<subseteq> range W_StatusUpdate_CIPool \<and> ws = pre @
     map (\<lambda>c. W_Update_CIResource (select_for_eviction c))
       (take (length [idle_cir, busy_cir, third_cir] - nat (PSpec_Size (P_Spec ?pool)))
          (filter (\<lambda>c. status_state c \<in> {StateAvailable, StateMaintenance, StateError} \<and>
             EvictionLabel \<notin> dom (evict_labels c)) (rev [idle_cir, busy_cir, third_cir]))) @
     [W_DeleteAllOf (Namespace (P_Meta ?pool)) [(EvictionLabel, ''true'')]]"
    by (rule eviction_takes_the_last_idle [OF run, where items = ?items and ?w1.0 = "()"])
      (simp_all add: ms sz accepts_updates_def int64_bounds)
  moreover have "filter (\<lambda>c. status_state c \<in> {StateAvailable, StateMaintenance, StateError} \<and>
      EvictionLabel \<notin> dom (evict_labels c)) (rev [idle_cir, busy_cir, third_cir]) = [third_cir, idle_cir]"
    by (simp add: evict_labels_def a_cir_def)
  ultimately show ?thesis using run by (auto simp: sz)
qed

lemma deleted_run:
  "pools_updated (fst (snd (CIPool_Reconcile list_finalizers (logged (fixed_client deleted_pool [])) 0
     (''ofcir'', ''pool'') ([], ())))) = [set_pool_finalizers [] deleted_pool]"
  by (simp add: run_defs)

lemma pool_kept_witness:
  "\<exists>pool w1 le items w2. Get_CIPool (fixed_client deleted_pool []) (''ofcir'', ''pool'') () = (Inr pool, w1) \<and>
     \<not> IsZero (DeletionTimestamp (P_Meta pool)) \<and>
     List_CIResources (fixed_client deleted_pool []) (Namespace (P_Meta pool)) w1 = ((le, items), w2) \<and>
     (\<forall>c \<in> set items. cir_pool c \<noteq> pool_name pool)"
proof -
  obtain r ws w' where run: "CIPool_Reconcile list_finalizers (logged (fixed_client deleted_pool [])) 0
      (''ofcir'', ''pool'') ([], ()) = (r, ws, w')" by (metis prod.exhaust)
  with deleted_run have "set_pool_finalizers [] deleted_pool \<in> set (pools_updated ws)" by simp
  from pool_kept_while_members_listed [OF run list_finalizers_laws this] show ?thesis
    by (simp add: set_pool_finalizers_def)
qed

lemma finalizer_lost_witness:
  "\<exists>r w'. CIPool_Reconcile list_finalizers
     (logged ((fixed_client deleted_pool [busy_cir])\<lparr>List_CIResources := \<lambda>ns w. ((Some ContextCanceled, []), w)\<rparr>))
     0 (''ofcir'', ''pool'') ([], ()) =
     (r, [W_Update_CIPool (set_pool_finalizers (RemoveFinalizer list_finalizers (Finalizers (P_Meta deleted_pool))
        OfcirFinalizer) deleted_pool)], w')"
  by (rule pool_finalizer_lost_on_list_error [where ?w1.0 = "()" and ?w2.0 = "()" and e = ContextCanceled])
    (simp_all add: fixed_client_def a_pool_def IsZero_def)

lemma offline_witness:
  "CIPool_Reconcile list_finalizers (logged (fixed_client (a_pool StatePoolOffline 0 3 None) [])) 0
     (''ofcir'', ''pool'') ([], ()) = ((Minute, None), [], ())"
  by (rule offline_pool_untouched [where pool = "a_pool StatePoolOffline 0 3 None"])
    (simp_all add: a_pool_def IsZero_def)

end
