(* ===== verification/Clientset.thy ===== *)
theory Clientset
  imports Api_Types
begin

text \<open>
  The typed client the HTTP server uses, \<open>pkg/server/clientset/v1\<close>: one REST request per method.
  The REST client itself (\<open>rest.Interface\<close> of client-go) is outside the repository, a record of
  functions that send a request and decode the answer into an object of the asked type; they return
  what was decoded with the error. The locale \<open>clientset\<close> is what the commands of the server rely
  on, stated over the writes that were sent; it is interpreted on this client over a REST client
  that records its requests.
\<close>

section \<open>Contexts\<close>

text \<open>A \<open>context.Context\<close> is read as its \<open>Err()\<close> in a world. A derived context expires with its
  parent, or when the clock passes its own deadline. The cancel functions run when the calls the
  context was made for are over, so they are not seen.\<close>

type_synonym 'w Context = "'w \<Rightarrow> error option"

definition WithTimeout :: "('w \<Rightarrow> Time) \<Rightarrow> 'w Context \<Rightarrow> Duration \<Rightarrow> 'w \<Rightarrow> 'w Context" where
  "WithTimeout clock parent d w =
     (\<lambda>w'. case parent w' of
        Some e \<Rightarrow> Some e
      | None \<Rightarrow> if clock w' \<ge> clock w + Nanoseconds d then Some ContextDeadlineExceeded else None)"

lemma WithTimeout_parent: "WithTimeout clock parent d w w' = None \<Longrightarrow> parent w' = None"
  by (simp add: WithTimeout_def split: option.splits)

section \<open>Requests\<close>

datatype Verb = VGet | VPut

record Request =
  Req_Verb :: Verb
  Req_Namespace :: string
  Req_Resource :: string
  Req_Name :: string
  Req_Body :: "CIResource option"

record 'w RestClient =
  Do_CIPoolList :: "'w Context \<Rightarrow> Request \<Rightarrow> ('w, CIPool list \<times> error option) call"
  Do_CIPool :: "'w Context \<Rightarrow> Request \<Rightarrow> ('w, CIPool \<times> error option) call"
  Do_CIResourceList :: "'w Context \<Rightarrow> Request \<Rightarrow> ('w, CIResource list \<times> error option) call"
  Do_CIResource :: "'w Context \<Rightarrow> Request \<Rightarrow> ('w, CIResource \<times> error option) call"

section \<open>The interface and its implementation\<close>

record 'w OfcirV1Interface =
  CIPools_List :: "string \<Rightarrow> 'w Context \<Rightarrow> ('w, CIPool list \<times> error option) call"
  CIPools_Get :: "string \<Rightarrow> 'w Context \<Rightarrow> string \<Rightarrow> ('w, CIPool \<times> error option) call"
  CIResources_List :: "string \<Rightarrow> 'w Context \<Rightarrow> ('w, CIResource list \<times> error option) call"
  CIResources_Get :: "string \<Rightarrow> 'w Context \<Rightarrow> string \<Rightarrow> ('w, CIResource \<times> error option) call"
  CIResources_Update :: "string \<Rightarrow> 'w Context \<Rightarrow> CIResource \<Rightarrow> ('w, CIResource \<times> error option) call"

definition resourceName :: string where "resourceName = ''ciresources''"

definition cipoolClient_List ::
  "'w RestClient \<Rightarrow> string \<Rightarrow> 'w Context \<Rightarrow> ('w, CIPool list \<times> error option) call" where
  "cipoolClient_List rc ns ctx = Do_CIPoolList rc ctx
     \<lparr>Req_Verb = VGet, Req_Namespace = ns, Req_Resource = ''cipools'', Req_Name = '''', Req_Body = None\<rparr>"

definition cipoolClient_Get ::
  "'w RestClient \<Rightarrow> string \<Rightarrow> 'w Context \<Rightarrow> string \<Rightarrow> ('w, CIPool \<times> error option) call" where
  "cipoolClient_Get rc ns ctx name = Do_CIPool rc ctx
     \<lparr>Req_Verb = VGet, Req_Namespace = ns, Req_Resource = ''cipools'', Req_Name = name, Req_Body = None\<rparr>"

definition cirClient_List ::
  "'w RestClient \<Rightarrow> string \<Rightarrow> 'w Context \<Rightarrow> ('w, CIResource list \<times> error option) call" where
  "cirClient_List rc ns ctx = Do_CIResourceList rc ctx
     \<lparr>Req_Verb = VGet, Req_Namespace = ns, Req_Resource = resourceName, Req_Name = '''', Req_Body = None\<rparr>"

definition cirClient_Get ::
  "'w RestClient \<Rightarrow> string \<Rightarrow> 'w Context \<Rightarrow> string \<Rightarrow> ('w, CIResource \<times> error option) call" where
  "cirClient_Get rc ns ctx name = Do_CIResource rc ctx
     \<lparr>Req_Verb = VGet, Req_Namespace = ns, Req_Resource = resourceName, Req_Name = name, Req_Body = None\<rparr>"

definition cirClient_Update ::
  "'w RestClient \<Rightarrow> string \<Rightarrow> 'w Context \<Rightarrow> CIResource \<Rightarrow> ('w, CIResource \<times> error option) call" where
  "cirClient_Update rc ns ctx cir = Do_CIResource rc ctx
     \<lparr>Req_Verb = VPut, Req_Namespace = ns, Req_Resource = resourceName, Req_Name = cir_name cir,
      Req_Body = Some cir\<rparr>"

definition OfcirV1Client :: "'w RestClient \<Rightarrow> 'w OfcirV1Interface" where
  "OfcirV1Client rc =
     \<lparr>CIPools_List = cipoolClient_List rc, CIPools_Get = cipoolClient_Get rc,
      CIResources_List = cirClient_List rc, CIResources_Get = cirClient_Get rc,
      CIResources_Update = cirClient_Update rc\<rparr>"

lemma OfcirV1Client_sel [simp]:
  "CIPools_List (OfcirV1Client rc) = cipoolClient_List rc"
  "CIPools_Get (OfcirV1Client rc) = cipoolClient_Get rc"
  "CIResources_List (OfcirV1Client rc) = cirClient_List rc"
  "CIResources_Get (OfcirV1Client rc) = cirClient_Get rc"
  "CIResources_Update (OfcirV1Client rc) = cirClient_Update rc"
  by (simp_all add: OfcirV1Client_def)

section \<open>The contract\<close>

text \<open>What was written: for every update sent, the namespace, the object and whether the server
  accepted it.\<close>

type_synonym put = "string \<times> CIResource \<times> bool"

locale clientset =
  fixes cs :: "'w OfcirV1Interface" and puts :: "'w \<Rightarrow> put list"
  assumes pools_list_reads: "CIPools_List cs ns ctx w = (ps, w') \<Longrightarrow> puts w' = puts w"
    and pools_get_reads: "CIPools_Get cs ns ctx n w = (p, w') \<Longrightarrow> puts w' = puts w"
    and cirs_list_reads: "CIResources_List cs ns ctx w = (rs, w') \<Longrightarrow> puts w' = puts w"
    and cirs_get_reads: "CIResources_Get cs ns ctx n w = (r, w') \<Longrightarrow> puts w' = puts w"
    and update_puts: "CIResources_Update cs ns ctx c w = ((d, e), w') \<Longrightarrow>
      puts w' = puts w @ [(ns, c, e = None)]"
begin

lemmas reads = pools_list_reads pools_get_reads cirs_list_reads cirs_get_reads

end

text \<open>A REST client that records its requests with their outcome.\<close>

type_synonym 'w recorded = "(Request \<times> error option) list \<times> 'w"

definition rest_record ::
  "('w Context \<Rightarrow> Request \<Rightarrow> ('w, 'a \<times> error option) call)
   \<Rightarrow> 'w recorded Context \<Rightarrow> Request \<Rightarrow> ('w recorded, 'a \<times> error option) call" where
  "rest_record send ctx req = (\<lambda>(l, w). case send (\<lambda>w. ctx (l, w)) req w of
     ((v, e), w') \<Rightarrow> ((v, e), l @ [(req, e)], w'))"

definition recording :: "'w RestClient \<Rightarrow> 'w recorded RestClient" where
  "recording rc =
     \<lparr>Do_CIPoolList = rest_record (Do_CIPoolList rc), Do_CIPool = rest_record (Do_CIPool rc),
      Do_CIResourceList = rest_record (Do_CIResourceList rc), Do_CIResource = rest_record (Do_CIResource rc)\<rparr>"

definition put_of :: "Request \<times> error option \<Rightarrow> put option" where
  "put_of x = (case x of (req, e) \<Rightarrow>
     if Req_Verb req = VPut then map_option (\<lambda>c. (Req_Namespace req, c, e = None)) (Req_Body req) else None)"

definition puts_of :: "'w recorded \<Rightarrow> put list" where
  "puts_of w = List.map_filter put_of (fst w)"

lemma rest_record_puts:
  "rest_record d ctx req w = ((v, e), w') \<Longrightarrow>
     puts_of w' = puts_of w @ (case put_of (req, e) of None \<Rightarrow> [] | Some p \<Rightarrow> [p])"
  by (cases w) (auto simp: rest_record_def puts_of_def List.map_filter_def split: prod.split_asm option.split)

lemmas client_defs =
  cipoolClient_List_def cipoolClient_Get_def cirClient_List_def cirClient_Get_def cirClient_Update_def

interpretation rest: clientset "OfcirV1Client (recording rc)" puts_of for rc
  by unfold_locales
    (auto simp: client_defs recording_def put_of_def dest!: rest_record_puts)

text \<open>Every update goes to the object's own path of the collection, with the object as its body.\<close>

lemma cirClient_Update_request:
  "cirClient_Update (recording rc) ns ctx c (l, w) = ((d, e), l', w') \<Longrightarrow>
     \<exists>req. l' = l @ [(req, e)] \<and> Req_Verb req = VPut \<and> Req_Namespace req = ns \<and>
       Req_Resource req = ''ciresources'' \<and> Req_Name req = cir_name c \<and> Req_Body req = Some c"
  by (auto simp: cirClient_Update_def recording_def rest_record_def resourceName_def split: prod.split_asm)

end
