(* ===== verification/Server_Commands.thy ===== *)
theory Server_Commands
  imports Clientset "HOL-Library.AList" "HOL-Library.Multiset"
begin

text \<open>
  The commands of the HTTP server, \<open>pkg/server/commands\<close>, and the check of the pools a token may
  use, \<open>pkg/utils/utils.go\<close>. A gin context is the part of it the code uses: the request's headers,
  the keys the middleware sets, the responses written so far and the abort flag. The environment of
  a request is the clock, the request's own context and the random numbers of the shuffle.
\<close>

section \<open>Gin\<close>

type_synonym gin_H = "(string \<times> string) list"

datatype Response = JSON int gin_H | String int string

record gin_Context =
  Gin_Header :: "string \<rightharpoonup> string list"
  Gin_Keys :: "string \<rightharpoonup> string"
  Gin_Responses :: "Response list"
  Gin_Aborted :: bool

definition StatusOK :: int where "StatusOK = 200"
definition StatusBadRequest :: int where "StatusBadRequest = 400"
definition StatusUnauthorized :: int where "StatusUnauthorized = 401"
definition StatusNotFoundCode :: int where "StatusNotFoundCode = 404"
definition StatusInternalServerError :: int where "StatusInternalServerError = 500"
definition StatusServiceUnavailable :: int where "StatusServiceUnavailable = 503"

lemmas http_codes =
  StatusOK_def StatusBadRequest_def StatusUnauthorized_def StatusNotFoundCode_def
  StatusInternalServerError_def StatusServiceUnavailable_def

definition respond :: "Response \<Rightarrow> gin_Context \<Rightarrow> gin_Context" where
  "respond r c = c\<lparr>Gin_Responses := Gin_Responses c @ [r]\<rparr>"

definition AbortWithStatusJSON :: "int \<Rightarrow> gin_H \<Rightarrow> gin_Context \<Rightarrow> gin_Context" where
  "AbortWithStatusJSON code h c = (respond (JSON code h) c)\<lparr>Gin_Aborted := True\<rparr>"

definition unauthorized :: "gin_Context \<Rightarrow> gin_Context" where
  "unauthorized = AbortWithStatusJSON StatusUnauthorized [(''msg'', ''401 Unauthorized'')]"

lemma respond_sel [simp]:
  "Gin_Header (respond r c) = Gin_Header c" "Gin_Keys (respond r c) = Gin_Keys c"
  "Gin_Responses (respond r c) = Gin_Responses c @ [r]" "Gin_Aborted (respond r c) = Gin_Aborted c"
  by (simp_all add: respond_def)

lemma unauthorized_sel [simp]:
  "Gin_Header (unauthorized c) = Gin_Header c" "Gin_Keys (unauthorized c) = Gin_Keys c"
  "Gin_Responses (unauthorized c) = Gin_Responses c @ [JSON StatusUnauthorized [(''msg'', ''401 Unauthorized'')]]"
  "Gin_Aborted (unauthorized c)"
  by (simp_all add: unauthorized_def AbortWithStatusJSON_def)

section \<open>The pools of a token\<close>

definition utils_contains :: "string list \<Rightarrow> string \<Rightarrow> bool" where
  "utils_contains elems v \<longleftrightarrow> list_ex (\<lambda>s. v = s) elems"

definition CanUsePool :: "gin_Context \<Rightarrow> string \<Rightarrow> bool" where
  "CanUsePool c pool \<longleftrightarrow>
     (case Gin_Keys c ''validpools'' of
        None \<Rightarrow> False
      | Some v \<Rightarrow> if v = ''*'' then True else utils_contains (Split v CHR '','') pool)"

lemma utils_contains_iff [simp]: "utils_contains xs v \<longleftrightarrow> v \<in> set xs"
  by (auto simp: utils_contains_def list_ex_iff)

section \<open>The environment of a request\<close>

record 'w Env =
  Env_Clock :: "'w \<Rightarrow> Time"
  Env_Context :: "'w Context"
  Env_Rand :: "nat \<Rightarrow> nat"

definition overallTimeout :: Duration where "overallTimeout = Duration (50 * Nanoseconds Second)"
definition apiCallTimeout :: Duration where "apiCallTimeout = Duration (15 * Nanoseconds Second)"

definition overall_ctx :: "'w Env \<Rightarrow> 'w \<Rightarrow> 'w Context" where
  "overall_ctx env w = WithTimeout (Env_Clock env) (Env_Context env) overallTimeout w"

definition call_ctx :: "'w Env \<Rightarrow> 'w Context \<Rightarrow> 'w \<Rightarrow> 'w Context" where
  "call_ctx env overall w = WithTimeout (Env_Clock env) overall apiCallTimeout w"

section \<open>Status\<close>

definition does_not_exist :: "string \<Rightarrow> string \<Rightarrow> gin_H" where
  "does_not_exist cirName ns = [(''msg'', cirName @ '' does not exist in namespace '' @ ns)]"

definition statusCmd_Run ::
  "'w Env \<Rightarrow> 'w OfcirV1Interface \<Rightarrow> string \<Rightarrow> string \<Rightarrow> gin_Context \<Rightarrow> ('w, error option \<times> gin_Context) call" where
  "statusCmd_Run env cs ns cirName c w =
     (let overall = overall_ctx env w in
      case CIResources_Get cs ns (call_ctx env overall w) cirName w of
        ((r, Some err), w) \<Rightarrow>
          (if IsNotFound err then ((None, respond (JSON StatusBadRequest (does_not_exist cirName ns)) c), w)
           else ((Some err, c), w))
      | ((r, None), w) \<Rightarrow>
          (if \<not> CanUsePool c (cir_pool r) then ((None, unauthorized c), w)
           else (case CIPools_Get cs ns (call_ctx env overall w) (cir_pool r) w of
                   ((pool, Some err), w) \<Rightarrow>
                     (if IsNotFound err
                      then ((None, respond (JSON StatusBadRequest
                              [(''msg'', ''Cannot find cipool '' @ cir_pool r @ '' for '' @ cirName @
                                 '' in namespace '' @ ns)]) c), w)
                      else ((Some err, c), w))
                 | ((pool, None), w) \<Rightarrow>
                     ((None, respond (JSON StatusOK
                         [(''name'', cir_name r), (''pool'', pool_name pool),
                          (''provider'', PSpec_Provider (P_Spec pool)),
                          (''providerInfo'', CStatus_ProviderInfo (C_Status r)),
                          (''type'', CSpec_Type (C_Spec r)), (''ip'', CStatus_Address (C_Status r)),
                          (''extra'', CStatus_Extra (C_Status r)), (''status'', status_state r)]) c), w))))"

section \<open>Release\<close>

definition releaseCmd_Run ::
  "'w Env \<Rightarrow> 'w OfcirV1Interface \<Rightarrow> string \<Rightarrow> string \<Rightarrow> gin_Context \<Rightarrow> ('w, error option \<times> gin_Context) call" where
  "releaseCmd_Run env cs ns cirName c w =
     (let overall = overall_ctx env w in
      case CIResources_Get cs ns (call_ctx env overall w) cirName w of
        ((r, Some err), w) \<Rightarrow>
          (if IsNotFound err then ((None, respond (JSON StatusBadRequest (does_not_exist cirName ns)) c), w)
           else ((Some err, c), w))
      | ((r, None), w) \<Rightarrow>
          (if \<not> CanUsePool c (cir_pool r) then ((None, unauthorized c), w)
           else if status_state r = StateInUse
           then (case CIResources_Update cs (Namespace (C_Meta r)) (call_ctx env overall w)
                        (set_spec_state StateAvailable r) w of
                   ((d, Some err), w) \<Rightarrow> ((Some err, c), w)
                 | ((d, None), w) \<Rightarrow> ((None, respond (String StatusOK (cir_name r)) c), w))
           else ((None, respond (JSON StatusBadRequest
                   [(''msg'', cirName @ '' state must be `'' @ StateInUse @ ''`, but it is `'' @
                      status_state r @ ''`'')]) c), w)))"

section \<open>Acquire\<close>

definition acquire_contains :: "CIResourceType list \<Rightarrow> CIResourceType \<Rightarrow> bool" where
  "acquire_contains rtypes rtype \<longleftrightarrow> list_ex (\<lambda>t. t = rtype) rtypes"

definition NewAcquireCmd_types :: "string \<Rightarrow> CIResourceType list" where
  "NewAcquireCmd_types resourceType_str = Split resourceType_str CHR '',''"

text \<open>\<open>poolsByName\<close>, a Go map, as the list of its entries: one per name.\<close>

type_synonym poolMap = "(string \<times> CIPool) list"

fun collect_pools :: "CIResourceType list \<Rightarrow> gin_Context \<Rightarrow> CIPool list \<Rightarrow> poolMap \<Rightarrow> poolMap" where
  "collect_pools types c [] m = m"
| "collect_pools types c (p # ps) m =
     collect_pools types c ps
       (if acquire_contains types (PSpec_Type (P_Spec p)) \<and> CanUsePool c (pool_name p)
        then AList.update (pool_name p) p m else m)"

text \<open>The split of the listed resources into those of the default pools and the fallbacks.\<close>

fun split_cirs :: "poolMap \<Rightarrow> CIResource list \<Rightarrow> CIResource list \<times> CIResource list" where
  "split_cirs m [] = ([], [])"
| "split_cirs m (r # rs) =
     (let (cirs, fallbacks) = split_cirs m rs in
      case map_of m (cir_pool r) of
        None \<Rightarrow> (cirs, fallbacks)
      | Some pool \<Rightarrow>
          (if PSpec_Priority (P_Spec pool) < 0 then (cirs, r # fallbacks) else (r # cirs, fallbacks)))"

text \<open>\<open>rand.Shuffle\<close>: from the last index down, swap with a random index not above it.\<close>

fun Shuffle :: "(nat \<Rightarrow> nat) \<Rightarrow> nat \<Rightarrow> 'a list \<Rightarrow> 'a list" where
  "Shuffle rnd 0 xs = xs"
| "Shuffle rnd (Suc i) xs =
     (let j = rnd (Suc i) mod Suc (Suc i) in
      Shuffle rnd i (xs[Suc i := xs ! j, j := xs ! Suc i]))"

definition rand_Shuffle :: "(nat \<Rightarrow> nat) \<Rightarrow> 'a list \<Rightarrow> 'a list" where
  "rand_Shuffle rnd xs = Shuffle rnd (length xs - 1) xs"

text \<open>The comparison looks the pool up again; a missing one would read as the zero value.\<close>

definition cir_priority :: "poolMap \<Rightarrow> CIResource \<Rightarrow> int" where
  "cir_priority m r = (case map_of m (cir_pool r) of None \<Rightarrow> 0 | Some pool \<Rightarrow> PSpec_Priority (P_Spec pool))"

definition acquired_response :: "poolMap \<Rightarrow> CIResource \<Rightarrow> Response" where
  "acquired_response m r =
     JSON StatusOK
       [(''name'', cir_name r),
        (''pool'', case map_of m (cir_pool r) of None \<Rightarrow> '''' | Some pool \<Rightarrow> pool_name pool),
        (''provider'', case map_of m (cir_pool r) of None \<Rightarrow> '''' | Some pool \<Rightarrow> PSpec_Provider (P_Spec pool)),
        (''providerInfo'', CStatus_ProviderInfo (C_Status r)), (''type'', CSpec_Type (C_Spec r))]"

definition eligible :: "CIResource \<Rightarrow> bool" where
  "eligible r \<longleftrightarrow> status_state r = StateAvailable \<and> spec_state r \<noteq> StateInUse \<and> spec_state r \<noteq> StateMaintenance"

fun lookForAvailableResource ::
  "'w Env \<Rightarrow> 'w OfcirV1Interface \<Rightarrow> 'w Context \<Rightarrow> CIResource list \<Rightarrow> poolMap \<Rightarrow> gin_Context
   \<Rightarrow> ('w, bool \<times> gin_Context) call" where
  "lookForAvailableResource env cs ctx [] m c w = ((False, c), w)"
| "lookForAvailableResource env cs ctx (r # rs) m c w =
     (if ctx w \<noteq> None then ((False, c), w)
      else if status_state r \<noteq> StateAvailable then lookForAvailableResource env cs ctx rs m c w
      else if spec_state r \<noteq> StateInUse \<and> spec_state r \<noteq> StateMaintenance
      then (let r' = set_spec_state StateInUse r in
            case CIResources_Update cs (Namespace (C_Meta r')) (call_ctx env ctx w) r' w of
              ((d, Some err), w) \<Rightarrow> lookForAvailableResource env cs ctx rs m c w
            | ((d, None), w) \<Rightarrow> ((True, respond (acquired_response m r') c), w))
      else lookForAvailableResource env cs ctx rs m c w)"

text \<open>\<open>%v\<close> of a list of strings.\<close>

fun spaced :: "string list \<Rightarrow> string" where
  "spaced [] = ''''"
| "spaced [s] = s"
| "spaced (s # t # ts) = s @ '' '' @ spaced (t # ts)"

definition print_types :: "CIResourceType list \<Rightarrow> string" where
  "print_types ts = ''['' @ spaced ts @ '']''"

definition acquireCmd_Run ::
  "'w Env \<Rightarrow> 'w OfcirV1Interface \<Rightarrow> string \<Rightarrow> CIResourceType list \<Rightarrow> gin_Context
   \<Rightarrow> ('w, error option \<times> gin_Context) call" where
  "acquireCmd_Run env cs ns resourceTypes c w =
     (let overall = overall_ctx env w in
      case CIPools_List cs ns (call_ctx env overall w) w of
        ((pools, Some err), w) \<Rightarrow> ((Some err, c), w)
      | ((pools, None), w) \<Rightarrow>
          (let m = collect_pools resourceTypes c pools [] in
           if m = []
           then ((None, respond (String StatusNotFoundCode
                    (''No available pool found of type '' @ print_types resourceTypes)) c), w)
           else (case CIResources_List cs ns (call_ctx env overall w) w of
                   ((allCirs, Some err), w) \<Rightarrow> ((Some err, c), w)
                 | ((allCirs, None), w) \<Rightarrow>
                     (let (cirs, fallbacks) = split_cirs m allCirs;
                          cirs = sort_key (cir_priority m) (rand_Shuffle (Env_Rand env) cirs) in
                      case lookForAvailableResource env cs overall cirs m c w of
                        ((True, c), w) \<Rightarrow> ((None, c), w)
                      | ((False, c), w) \<Rightarrow>
                          (case lookForAvailableResource env cs overall fallbacks m c w of
                             ((True, c), w) \<Rightarrow> ((None, c), w)
                           | ((False, c), w) \<Rightarrow>
                               (if overall w \<noteq> None
                                then ((None, respond (String StatusServiceUnavailable
                                         ''Timed out while searching for available resource'') c), w)
                                else ((None, respond (String StatusNotFoundCode
                                         (''No available resource found of type '' @ print_types resourceTypes)) c), w)))))))"

section \<open>What the helpers compute\<close>

lemma mset_exchange:
  "i < length xs \<Longrightarrow> j < length xs \<Longrightarrow> mset (xs[i := xs ! j, j := xs ! i]) = mset xs"
  by (rule Multiset.mset_swap)

lemma Shuffle_mset: "i < length xs \<or> i = 0 \<Longrightarrow> mset (Shuffle rnd i xs) = mset xs"
proof (induction i arbitrary: xs)
  case (Suc i)
  let ?j = "rnd (Suc i) mod Suc (Suc i)"
  have "?j < Suc (Suc i)" by simp
  with Suc.prems have "?j < length xs" by linarith
  with Suc show ?case by (simp add: Let_def mset_exchange)
qed simp

lemma rand_Shuffle_mset [simp]: "mset (rand_Shuffle rnd xs) = mset xs"
  unfolding rand_Shuffle_def by (rule Shuffle_mset) (cases xs, auto)

lemma rand_Shuffle_set [simp]: "set (rand_Shuffle rnd xs) = set xs"
  by (metis rand_Shuffle_mset mset_eq_setD)

text \<open>A pool is in the map under its own name, when its type is asked for and the token may use it.\<close>

definition usable :: "CIResourceType list \<Rightarrow> gin_Context \<Rightarrow> CIPool \<Rightarrow> bool" where
  "usable types c p \<longleftrightarrow> PSpec_Type (P_Spec p) \<in> set types \<and> CanUsePool c (pool_name p)"

lemma acquire_contains_iff [simp]: "acquire_contains ts t \<longleftrightarrow> t \<in> set ts"
  by (auto simp: acquire_contains_def list_ex_iff)

lemma collect_pools_Some:
  "map_of (collect_pools types c ps m) n = Some p \<Longrightarrow>
     map_of m n = Some p \<or> p \<in> set ps \<and> pool_name p = n \<and> usable types c p"
  by (induction types c ps m rule: collect_pools.induct)
    (auto simp: usable_def update_conv' split: if_split_asm)

lemma collect_pools_keep: "m \<noteq> [] \<Longrightarrow> collect_pools types c ps m \<noteq> []"
proof (induction types c ps m rule: collect_pools.induct)
  case (2 types c p ps m)
  have "AList.update k v m \<noteq> []" for k v using 2(2) by (cases m) auto
  with 2 show ?case by simp
qed simp

lemma collect_pools_empty:
  "collect_pools types c ps [] = [] \<longleftrightarrow> filter (usable types c) ps = []"
proof (induction ps)
  case (Cons p ps)
  show ?case
  proof (cases "usable types c p")
    case True
    then have "collect_pools types c (p # ps) [] = collect_pools types c ps [(pool_name p, p)]"
      by (simp add: usable_def)
    with True collect_pools_keep [of "[(pool_name p, p)]" types c ps] show ?thesis by simp
  next
    case False
    then have "collect_pools types c (p # ps) [] = collect_pools types c ps []"
      by (auto simp: usable_def)
    with Cons False show ?thesis by simp
  qed
qed simp

lemma collect_pools_mono:
  "map_of m n \<noteq> None \<Longrightarrow> map_of (collect_pools types c ps m) n \<noteq> None"
  by (induction types c ps m rule: collect_pools.induct) (auto simp: update_conv')

lemma collect_pools_dom:
  "p \<in> set ps \<Longrightarrow> usable types c p \<Longrightarrow> map_of (collect_pools types c ps m) (pool_name p) \<noteq> None"
proof (induction ps arbitrary: m)
  case (Cons q ps)
  show ?case
  proof (cases "p = q")
    case True
    with Cons.prems(2) show ?thesis
      using collect_pools_mono [of "AList.update (pool_name p) p m" "pool_name p" types c ps]
      by (simp add: usable_def update_conv')
  next
    case False
    with Cons show ?thesis by simp
  qed
qed simp

lemma split_cirs_eq:
  "split_cirs m rs =
     (filter (\<lambda>r. \<exists>p. map_of m (cir_pool r) = Some p \<and> PSpec_Priority (P_Spec p) \<ge> 0) rs,
      filter (\<lambda>r. \<exists>p. map_of m (cir_pool r) = Some p \<and> PSpec_Priority (P_Spec p) < 0) rs)"
  by (induction rs) (auto split: option.splits)

section \<open>What the commands write\<close>

definition attempt :: "bool \<Rightarrow> CIResource \<Rightarrow> put" where
  "attempt ok r = (Namespace (C_Meta r), set_spec_state StateInUse r, ok)"

lemma attempt_sel [simp]: "snd (snd (attempt ok r)) = ok" "fst (snd (attempt ok r)) = set_spec_state StateInUse r"
  by (simp_all add: attempt_def)

context clientset begin

lemma look_attempts:
  assumes "lookForAvailableResource env cs ctx cirs m c w = ((found, c'), w')"
  shows "if found
     then \<exists>fs r rest. filter eligible cirs = fs @ r # rest \<and>
       puts w' = puts w @ map (attempt False) fs @ [attempt True r] \<and>
       c' = respond (acquired_response m (set_spec_state StateInUse r)) c
     else \<exists>fs. prefix fs (filter eligible cirs) \<and> puts w' = puts w @ map (attempt False) fs \<and> c' = c \<and>
       (fs = filter eligible cirs \<or> ctx w' \<noteq> None)"
  using assms
proof (induction cirs arbitrary: w)
  case Nil
  then show ?case by simp
next
  case (Cons r rs)
  show ?case
  proof (cases "ctx w = None \<and> eligible r")
    case False
    then consider "ctx w \<noteq> None" | "ctx w = None" "\<not> eligible r" by (cases "ctx w = None") auto
    then show ?thesis
    proof cases
      case 1
      with Cons.prems show ?thesis by auto
    next
      case 2
      with Cons.prems have "lookForAvailableResource env cs ctx rs m c w = ((found, c'), w')"
        by (auto simp: eligible_def split: if_split_asm)
      moreover from 2 have "filter eligible (r # rs) = filter eligible rs" by simp
      ultimately show ?thesis using Cons.IH by (simp only:)
    qed
  next
    case True
    obtain d e w1 where up: "CIResources_Update cs (Namespace (C_Meta r)) (call_ctx env ctx w)
        (set_spec_state StateInUse r) w = ((d, e), w1)" by (metis prod.exhaust)
    from update_puts [OF up] have puts: "puts w1 = puts w @ [attempt (e = None) r]" by (simp add: attempt_def)
    show ?thesis
    proof (cases e)
      case None
      with True up Cons.prems have "found" "w' = w1" "c' = respond (acquired_response m (set_spec_state StateInUse r)) c"
        by (auto simp: eligible_def)
      with puts None True show ?thesis by (auto intro: exI [of _ "[]"])
    next
      case (Some err)
      with True up Cons.prems have "lookForAvailableResource env cs ctx rs m c w1 = ((found, c'), w')"
        by (auto simp: eligible_def)
      from Cons.IH [OF this] have ih: "if found
        then \<exists>fs x rest. filter eligible rs = fs @ x # rest \<and>
          puts w' = puts w1 @ map (attempt False) fs @ [attempt True x] \<and>
          c' = respond (acquired_response m (set_spec_state StateInUse x)) c
        else \<exists>fs. prefix fs (filter eligible rs) \<and> puts w' = puts w1 @ map (attempt False) fs \<and> c' = c \<and>
          (fs = filter eligible rs \<or> ctx w' \<noteq> None)" .
      show ?thesis
      proof (cases found)
        case f: True
        with ih obtain fs x rest where "filter eligible rs = fs @ x # rest"
          "puts w' = puts w1 @ map (attempt False) fs @ [attempt True x]"
          "c' = respond (acquired_response m (set_spec_state StateInUse x)) c" by auto
        with f True puts Some have "filter eligible (r # rs) = (r # fs) @ x # rest"
          "puts w' = puts w @ map (attempt False) (r # fs) @ [attempt True x]" by auto
        with f \<open>c' = _\<close> show ?thesis by metis
      next
        case f: False
        with ih obtain fs where "prefix fs (filter eligible rs)" "puts w' = puts w1 @ map (attempt False) fs"
          "c' = c" "fs = filter eligible rs \<or> ctx w' \<noteq> None" by auto
        with f True puts Some have "prefix (r # fs) (filter eligible (r # rs))"
          "puts w' = puts w @ map (attempt False) (r # fs)"
          "r # fs = filter eligible (r # rs) \<or> ctx w' \<noteq> None" by auto
        with f \<open>c' = c\<close> show ?thesis by (metis (full_types))
      qed
    qed
  qed
qed

lemma look_found:
  assumes "lookForAvailableResource env cs ctx cirs m c w = ((found, c'), w')" and found
  obtains fs r rest where "filter eligible cirs = fs @ r # rest"
    "puts w' = puts w @ map (attempt False) fs @ [attempt True r]"
    "c' = respond (acquired_response m (set_spec_state StateInUse r)) c"
  using look_attempts [OF assms(1)] assms(2) by auto

lemma look_missed:
  assumes "lookForAvailableResource env cs ctx cirs m c w = ((found, c'), w')" and "\<not> found"
  obtains fs where "prefix fs (filter eligible cirs)" "puts w' = puts w @ map (attempt False) fs" "c' = c"
    "fs = filter eligible cirs \<or> ctx w' \<noteq> None"
  using look_attempts [OF assms(1)] assms(2) by auto

lemma status_writes_nothing:
  assumes "statusCmd_Run env cs ns n c w = (r, w')"
  shows "puts w' = puts w"
  using assms
  by (auto simp: statusCmd_Run_def Let_def split: prod.split_asm option.split_asm if_split_asm dest!: reads)

lemma release_writes:
  assumes "releaseCmd_Run env cs ns n c w = (x, w')"
  shows "puts w' = puts w \<or>
     (\<exists>r w1 e. CIResources_Get cs ns (call_ctx env (overall_ctx env w) w) n w = ((r, None), w1) \<and>
        CanUsePool c (cir_pool r) \<and> status_state r = StateInUse \<and>
        puts w' = puts w @ [(Namespace (C_Meta r), set_spec_state StateAvailable r, e = None)] \<and>
        (e = None \<longrightarrow> snd x = respond (String StatusOK (cir_name r)) c) \<and> fst x = e)"
proof -
  obtain r e1 w1 where g: "CIResources_Get cs ns (call_ctx env (overall_ctx env w) w) n w = ((r, e1), w1)"
    by (metis prod.exhaust)
  from reads(4) [OF g] have p1: "puts w1 = puts w" .
  show ?thesis
  proof (cases "e1 = None \<and> CanUsePool c (cir_pool r) \<and> status_state r = StateInUse")
    case False
    with assms g have "w' = w1"
      by (auto simp: releaseCmd_Run_def Let_def split: option.split_asm if_split_asm)
    with p1 show ?thesis by simp
  next
    case True
    obtain d e w2 where up: "CIResources_Update cs (Namespace (C_Meta r)) (call_ctx env (overall_ctx env w) w1)
        (set_spec_state StateAvailable r) w1 = ((d, e), w2)" by (metis prod.exhaust)
    from True assms g up have "w' = w2" "fst x = e" "e = None \<longrightarrow> snd x = respond (String StatusOK (cir_name r)) c"
      by (auto simp: releaseCmd_Run_def Let_def split: option.split_asm)
    with update_puts [OF up] p1 True g show ?thesis by auto
  qed
qed

end

lemma look_expired:
  "ctx w \<noteq> None \<Longrightarrow> lookForAvailableResource env cs ctx cirs m c w = ((False, c), w)"
  by (cases cirs) auto

text \<open>The order in which \<open>acquire\<close> considers the listed resources: those of the default pools by
  priority, shuffled within one, then the fallbacks.\<close>

definition acquire_order :: "(nat \<Rightarrow> nat) \<Rightarrow> poolMap \<Rightarrow> CIResource list \<Rightarrow> CIResource list" where
  "acquire_order rnd m items =
     sort_key (cir_priority m) (rand_Shuffle rnd (fst (split_cirs m items))) @ snd (split_cirs m items)"

definition acquire_ctx_pools :: "'w Env \<Rightarrow> 'w \<Rightarrow> 'w Context" where
  "acquire_ctx_pools env w = call_ctx env (overall_ctx env w) w"

context clientset begin

lemma acquire_cases:
  assumes "acquireCmd_Run env cs ns types c w = ((e, c'), w')"
  obtains (no_search) "puts w' = puts w" "e \<noteq> None \<and> c' = c \<or>
        e = None \<and> c' = respond (String StatusNotFoundCode (''No available pool found of type '' @ print_types types)) c"
  | (searched) pools w1 items w2 m cands fs where
      "CIPools_List cs ns (acquire_ctx_pools env w) w = ((pools, None), w1)"
      "CIResources_List cs ns (call_ctx env (overall_ctx env w) w1) w1 = ((items, None), w2)"
      "m = collect_pools types c pools []" "m \<noteq> []" "e = None"
      "cands = filter eligible (acquire_order (Env_Rand env) m items)"
      "(\<exists>r rest. cands = fs @ r # rest \<and> puts w' = puts w @ map (attempt False) fs @ [attempt True r] \<and>
          c' = respond (acquired_response m (set_spec_state StateInUse r)) c) \<or>
       prefix fs cands \<and> puts w' = puts w @ map (attempt False) fs \<and>
         (if overall_ctx env w w' = None
          then fs = cands \<and> c' = respond (String StatusNotFoundCode
                 (''No available resource found of type '' @ print_types types)) c
          else c' = respond (String StatusServiceUnavailable ''Timed out while searching for available resource'') c)"
proof -
  let ?ov = "overall_ctx env w"
  obtain pools e1 w1 where l1: "CIPools_List cs ns (call_ctx env ?ov w) w = ((pools, e1), w1)"
    by (metis prod.exhaust)
  note p1 = reads(1) [OF l1]
  let ?m = "collect_pools types c pools []"
  show ?thesis
  proof (cases "e1 \<noteq> None \<or> ?m = []")
    case True
    with assms l1 p1 show ?thesis
      by (intro no_search; cases e1) (auto simp: acquireCmd_Run_def Let_def split: if_split_asm)
  next
    case False
    then have e1: "e1 = None" and m: "?m \<noteq> []" by auto
    obtain items e2 w2 where l2: "CIResources_List cs ns (call_ctx env ?ov w1) w1 = ((items, e2), w2)"
      by (metis prod.exhaust)
    have p2: "puts w2 = puts w" using reads(3) [OF l2] p1 by simp
    show ?thesis
    proof (cases e2)
      case (Some err)
      with assms l1 l2 e1 m p2 show ?thesis
        by (intro no_search) (auto simp: acquireCmd_Run_def Let_def)
    next
      case None
      let ?cirs = "sort_key (cir_priority ?m) (rand_Shuffle (Env_Rand env) (fst (split_cirs ?m items)))"
      let ?fb = "snd (split_cirs ?m items)"
      let ?cands = "filter eligible (acquire_order (Env_Rand env) ?m items)"
      have cands: "?cands = filter eligible ?cirs @ filter eligible ?fb" by (simp add: acquire_order_def)
      note found = searched [OF l1 [folded acquire_ctx_pools_def, unfolded e1] l2 [unfolded None] refl m _ refl]
      obtain f1 c1 w3 where look1: "lookForAvailableResource env cs ?ov ?cirs ?m c w2 = ((f1, c1), w3)"
        by (metis prod.exhaust)
      show ?thesis
      proof (cases f1)
        case True
        with assms l1 l2 e1 m None look1 have r: "e = None" "c' = c1" "w' = w3"
          by (auto simp: acquireCmd_Run_def Let_def split: prod.split_asm)
        from look_found [OF look1 True] obtain fs r rest where
          "filter eligible ?cirs = fs @ r # rest" "puts w3 = puts w2 @ map (attempt False) fs @ [attempt True r]"
          "c1 = respond (acquired_response ?m (set_spec_state StateInUse r)) c" .
        with r p2 cands show ?thesis by (intro found [of fs]) auto
      next
        case missed: False
        from look_missed [OF look1 missed] obtain fs where fs: "prefix fs (filter eligible ?cirs)"
          "puts w3 = puts w2 @ map (attempt False) fs" "c1 = c" "fs = filter eligible ?cirs \<or> ?ov w3 \<noteq> None" .
        obtain f2 c2 w4 where look2: "lookForAvailableResource env cs ?ov ?fb ?m c w3 = ((f2, c2), w4)"
          by (metis prod.exhaust)
        from assms l1 l2 e1 m None look1 look2 missed fs(3) have r: "e = None" "w' = w4"
          "c' = (if f2 then c2 else if ?ov w4 \<noteq> None
             then respond (String StatusServiceUnavailable ''Timed out while searching for available resource'') c2
             else respond (String StatusNotFoundCode (''No available resource found of type '' @ print_types types)) c2)"
          by (cases f2; auto simp: acquireCmd_Run_def Let_def split: prod.split_asm if_split_asm)+
        show ?thesis
        proof (cases "?ov w3 = None")
          case False
          with look_expired [of ?ov w3 env cs ?fb ?m c] look2 have "\<not> f2" "c2 = c" "w4 = w3" by auto
          with r fs(1,2) p2 cands False show ?thesis by (intro found [of fs]) (auto simp: prefix_append)
        next
          case True
          with fs(4) have all: "fs = filter eligible ?cirs" by simp
          show ?thesis
          proof (cases f2)
            case t: True
            from look_found [OF look2 t] obtain gs x rest where
              "filter eligible ?fb = gs @ x # rest" "puts w4 = puts w3 @ map (attempt False) gs @ [attempt True x]"
              "c2 = respond (acquired_response ?m (set_spec_state StateInUse x)) c" .
            with r t fs(2) p2 cands all show ?thesis by (intro found [of "fs @ gs"]) auto
          next
            case f: False
            from look_missed [OF look2 f] obtain gs where "prefix gs (filter eligible ?fb)"
              "puts w4 = puts w3 @ map (attempt False) gs" "c2 = c" "gs = filter eligible ?fb \<or> ?ov w4 \<noteq> None" .
            with r f fs(2) p2 cands all show ?thesis by (intro found [of "fs @ gs"]) auto
          qed
        qed
      qed
    qed
  qed
qed

end

end
