(* ===== verification/Server.thy ===== *)
theory Server
  imports Server_Commands
begin

text \<open>
  The HTTP server, \<open>pkg/server/server.go\<close>: the middleware that maps the token of a request to the
  pools it may use, the three handlers, and the chain gin runs for the routes \<open>Init\<close> registers. The
  secrets client of client-go is a function of the environment; the locale \<open>server_clients\<close> adds to
  \<open>clientset\<close> that reading the secret writes no resource.
\<close>

section \<open>Middleware and handlers\<close>

type_synonym 'w Secrets = "'w Context \<Rightarrow> string \<Rightarrow> string \<Rightarrow> ('w, (string \<rightharpoonup> string) \<times> error option) call"

text \<open>\<open>string(tokens.Data[k])\<close>: the empty string for a missing key.\<close>

definition token_pools :: "(string \<rightharpoonup> string) \<Rightarrow> string \<Rightarrow> string" where
  "token_pools tokens k = (case tokens k of None \<Rightarrow> '''' | Some v \<Rightarrow> v)"

definition AuthRequired :: "'w Env \<Rightarrow> 'w Secrets \<Rightarrow> gin_Context \<Rightarrow> ('w, gin_Context) call" where
  "AuthRequired env secrets c w =
     (let authCtx = WithTimeout (Env_Clock env) (Env_Context env) (Duration (5 * Nanoseconds Second)) w in
      case secrets authCtx ''ofcir-system'' ''ofcir-tokens'' w of
        ((tokens, err), w) \<Rightarrow>
          (case Gin_Header c ''X-Ofcirtoken'' of
             None \<Rightarrow> (unauthorized c, w)
           | Some [] \<Rightarrow> (unauthorized c, w)
           | Some (t # ts) \<Rightarrow>
               (if err \<noteq> None then (unauthorized c, w)
                else if token_pools tokens t = '''' then (unauthorized c, w)
                else (c\<lparr>Gin_Keys := (Gin_Keys c)(''validpools'' \<mapsto> TrimSpace (token_pools tokens t))\<rparr>, w))))"

text \<open>The routes, with the parameter or the query value the handler reads.\<close>

datatype Route = GetCir string | PostCir "string option" | DeleteCir string

definition reply_error :: "error option \<times> gin_Context \<Rightarrow> gin_Context" where
  "reply_error r =
     (case r of
        (Some err, c) \<Rightarrow> respond (JSON StatusInternalServerError [(''msg'', error_text err)]) c
      | (None, c) \<Rightarrow> c)"

definition handleGetCirStatus ::
  "'w Env \<Rightarrow> 'w OfcirV1Interface \<Rightarrow> string \<Rightarrow> string \<Rightarrow> gin_Context \<Rightarrow> ('w, gin_Context) call" where
  "handleGetCirStatus env cs ns cirName c w =
     (case statusCmd_Run env cs ns cirName c w of (r, w) \<Rightarrow> (reply_error r, w))"

definition handleAcquireCir ::
  "'w Env \<Rightarrow> 'w OfcirV1Interface \<Rightarrow> string \<Rightarrow> string option \<Rightarrow> gin_Context \<Rightarrow> ('w, gin_Context) call" where
  "handleAcquireCir env cs ns query c w =
     (let resourceType = (case query of None \<Rightarrow> TypeCIHost | Some q \<Rightarrow> q) in
      case acquireCmd_Run env cs ns (NewAcquireCmd_types resourceType) c w of (r, w) \<Rightarrow> (reply_error r, w))"

definition handleReleaseCir ::
  "'w Env \<Rightarrow> 'w OfcirV1Interface \<Rightarrow> string \<Rightarrow> string \<Rightarrow> gin_Context \<Rightarrow> ('w, gin_Context) call" where
  "handleReleaseCir env cs ns cirName c w =
     (case releaseCmd_Run env cs ns cirName c w of (r, w) \<Rightarrow> (reply_error r, w))"

text \<open>The chain of a request: the middleware, then the handler unless it aborted.\<close>

fun handle_route ::
  "'w Env \<Rightarrow> 'w OfcirV1Interface \<Rightarrow> string \<Rightarrow> Route \<Rightarrow> gin_Context \<Rightarrow> ('w, gin_Context) call" where
  "handle_route env cs ns (GetCir n) = handleGetCirStatus env cs ns n"
| "handle_route env cs ns (PostCir q) = handleAcquireCir env cs ns q"
| "handle_route env cs ns (DeleteCir n) = handleReleaseCir env cs ns n"

definition fresh_context :: "(string \<rightharpoonup> string list) \<Rightarrow> gin_Context" where
  "fresh_context headers =
     \<lparr>Gin_Header = headers, Gin_Keys = Map.empty, Gin_Responses = [], Gin_Aborted = False\<rparr>"

definition serve ::
  "'w Env \<Rightarrow> 'w OfcirV1Interface \<Rightarrow> 'w Secrets \<Rightarrow> string \<Rightarrow> Route \<Rightarrow> (string \<rightharpoonup> string list)
   \<Rightarrow> ('w, gin_Context) call" where
  "serve env cs secrets ns route headers w =
     (case AuthRequired env secrets (fresh_context headers) w of
        (c, w) \<Rightarrow> if Gin_Aborted c then (c, w) else handle_route env cs ns route c w)"

lemma fresh_context_sel [simp]:
  "Gin_Header (fresh_context h) = h" "Gin_Keys (fresh_context h) = Map.empty"
  "Gin_Responses (fresh_context h) = []" "\<not> Gin_Aborted (fresh_context h)"
  by (simp_all add: fresh_context_def)

section \<open>What a token allows\<close>

text \<open>The specification of the authorisation: the first value of the header names a key of the secret
  whose pools are \<open>*\<close> or list the pool.\<close>

definition allowed_pools :: "(string \<rightharpoonup> string) \<Rightarrow> (string \<rightharpoonup> string list) \<Rightarrow> string option" where
  "allowed_pools tokens headers =
     (case headers ''X-Ofcirtoken'' of
        Some (t # ts) \<Rightarrow> (if token_pools tokens t = '''' then None else Some (TrimSpace (token_pools tokens t)))
      | _ \<Rightarrow> None)"

definition may_use :: "(string \<rightharpoonup> string) \<Rightarrow> (string \<rightharpoonup> string list) \<Rightarrow> string \<Rightarrow> bool" where
  "may_use tokens headers pool \<longleftrightarrow>
     (\<exists>v. allowed_pools tokens headers = Some v \<and> (v = ''*'' \<or> pool \<in> set (Split v CHR '','')))"

lemma AuthRequired_cases:
  assumes "AuthRequired env secrets (fresh_context headers) w = (c, w')"
  obtains (denied) "c = unauthorized (fresh_context headers)"
      "\<exists>ctx tokens err. secrets ctx ''ofcir-system'' ''ofcir-tokens'' w = ((tokens, err), w') \<and>
         (err \<noteq> None \<or> allowed_pools tokens headers = None)"
  | (granted) ctx tokens v where
      "secrets ctx ''ofcir-system'' ''ofcir-tokens'' w = ((tokens, None), w')"
      "allowed_pools tokens headers = Some v" "\<not> Gin_Aborted c" "Gin_Responses c = []"
      "\<And>pool. CanUsePool c pool \<longleftrightarrow> may_use tokens headers pool"
proof -
  let ?ctx = "WithTimeout (Env_Clock env) (Env_Context env) (Duration (5 * Nanoseconds Second)) w"
  obtain tokens err w1 where s: "secrets ?ctx ''ofcir-system'' ''ofcir-tokens'' w = ((tokens, err), w1)"
    by (metis prod.exhaust)
  with assms have "w1 = w'"
    by (auto simp: AuthRequired_def Let_def split: option.split_asm list.split_asm if_split_asm)
  show ?thesis
  proof (cases "err = None \<and> allowed_pools tokens headers \<noteq> None")
    case False
    with assms s have "c = unauthorized (fresh_context headers)"
      by (auto simp: AuthRequired_def allowed_pools_def Let_def split: option.splits list.splits if_splits)
    moreover from False s \<open>w1 = w'\<close> have "\<exists>ctx tokens err. secrets ctx ''ofcir-system'' ''ofcir-tokens'' w = ((tokens, err), w') \<and>
         (err \<noteq> None \<or> allowed_pools tokens headers = None)" by auto
    ultimately show ?thesis by (rule denied)
  next
    case True
    then obtain v where v: "err = None" "allowed_pools tokens headers = Some v" by auto
    with assms s have "c = (fresh_context headers)\<lparr>Gin_Keys := [''validpools'' \<mapsto> v]\<rparr>"
      by (auto simp: AuthRequired_def allowed_pools_def Let_def split: option.split_asm list.split_asm if_split_asm)
    with v s \<open>w1 = w'\<close> show ?thesis
      by (intro granted [of ?ctx tokens v]) (auto simp: CanUsePool_def may_use_def)
  qed
qed

section \<open>The contract of the server's clients\<close>

locale server_clients = clientset +
  fixes secrets :: "'a Secrets"
  assumes secrets_read: "secrets ctx n k w = (t, w') \<Longrightarrow> puts w' = puts w"

text \<open>The secrets client goes to another resource: over the recording world it leaves the requests of
  the clientset alone.\<close>

definition beside_requests :: "'w Secrets \<Rightarrow> 'w recorded Secrets" where
  "beside_requests secrets ctx n k = (\<lambda>(l, w). case secrets (\<lambda>w. ctx (l, w)) n k w of (r, w') \<Rightarrow> (r, l, w'))"

interpretation api: server_clients "OfcirV1Client (recording rc)" puts_of "beside_requests secrets" for rc secrets
  by unfold_locales (auto simp: beside_requests_def puts_of_def split: prod.split_asm)

end
