(* ===== verification/Server_Properties.thy ===== *)
theory Server_Properties
  imports Server Samples
begin

text \<open>
  The properties of the HTTP server over the clientset of \<open>pkg/server/clientset/v1\<close> on a recording
  REST client: who may write what, which resource an acquisition takes, and what is answered. The
  lemmas are proved over the locales \<open>clientset\<close> and \<open>server_clients\<close>.
\<close>

section \<open>The order of candidates\<close>

definition better :: "poolMap \<Rightarrow> CIResource \<Rightarrow> CIResource \<Rightarrow> bool" where
  "better m x r \<longleftrightarrow>
     (\<exists>px. map_of m (cir_pool x) = Some px \<and> 0 \<le> PSpec_Priority (P_Spec px) \<and>
        (\<forall>pr. map_of m (cir_pool r) = Some pr \<longrightarrow>
           PSpec_Priority (P_Spec pr) < 0 \<or> PSpec_Priority (P_Spec px) < PSpec_Priority (P_Spec pr)))"

lemma set_acquire_order:
  "set (acquire_order rnd m items) = {r \<in> set items. map_of m (cir_pool r) \<noteq> None}"
  by (auto simp: acquire_order_def split_cirs_eq)

lemma acquire_order_sorted: "sorted_wrt (\<lambda>a b. \<not> better m b a) (acquire_order rnd m items)"
proof -
  let ?d = "sort_key (cir_priority m) (rand_Shuffle rnd (fst (split_cirs m items)))"
  have pools: "\<exists>p. map_of m (cir_pool r) = Some p \<and> PSpec_Priority (P_Spec p) \<ge> 0" if "r \<in> set ?d" for r
    using that by (auto simp: split_cirs_eq)
  have "sorted_wrt (\<lambda>a b. cir_priority m a \<le> cir_priority m b) ?d"
    using sorted_sort_key [of "cir_priority m"] by (simp add: sorted_map)
  then have "sorted_wrt (\<lambda>a b. \<not> better m b a) ?d"
    by (rule sorted_wrt_mono_rel [rotated]) (use pools in \<open>force simp: better_def cir_priority_def\<close>)
  moreover have "\<not> better m b a" if "b \<in> set (snd (split_cirs m items))" for a b
    using that by (auto simp: split_cirs_eq better_def)
  moreover have "sorted_wrt (\<lambda>a b. \<not> better m b a) (snd (split_cirs m items))"
    using calculation(2) by (auto simp: sorted_wrt_iff_nth_less)
  ultimately show ?thesis by (auto simp: acquire_order_def sorted_wrt_append)
qed

lemma better_irrefl: "\<not> better m r r \<or> map_of m (cir_pool r) = None"
  by (auto simp: better_def)

lemma better_first:
  assumes "filter eligible (acquire_order rnd m items) = fs @ r # rest"
    and "x \<in> set items" and "eligible x" and "better m x r"
  shows "x \<in> set fs"
proof -
  have "sorted_wrt (\<lambda>a b. \<not> better m b a) (fs @ r # rest)"
    using sorted_wrt_filter [OF acquire_order_sorted [of m rnd items], of eligible] assms(1) by simp
  then have "\<not> better m y r" if "y \<in> set rest" for y using that by (auto simp: sorted_wrt_append)
  moreover have "x \<in> set (fs @ r # rest)"
    using assms(2-4) unfolding assms(1) [symmetric] by (auto simp: set_acquire_order better_def)
  moreover have "r \<in> set (acquire_order rnd m items)"
    using assms(1) by (metis filter_is_subset in_set_conv_decomp subsetD)
  then have "x \<noteq> r" using assms(4) better_irrefl by (auto simp: set_acquire_order)
  ultimately show ?thesis using assms(4) by auto
qed

section \<open>Who writes what\<close>

definition authorized_put :: "(string \<rightharpoonup> string) \<Rightarrow> (string \<rightharpoonup> string list) \<Rightarrow> Route \<Rightarrow> put \<Rightarrow> bool" where
  "authorized_put tokens headers route x =
     (case x of (n, b, ok) \<Rightarrow> may_use tokens headers (cir_pool b) \<and> n = Namespace (C_Meta b) \<and>
        (case route of
           GetCir k \<Rightarrow> False
         | PostCir q \<Rightarrow> status_state b = StateAvailable \<and> spec_state b = StateInUse
         | DeleteCir k \<Rightarrow> status_state b = StateInUse \<and> spec_state b = StateAvailable))"

lemma attempt_authorized:
  assumes "r \<in> set (filter eligible (acquire_order rnd (collect_pools types c pools []) items))"
    and "\<And>pool. CanUsePool c pool \<longleftrightarrow> may_use tokens headers pool"
  shows "authorized_put tokens headers (PostCir q) (attempt ok r)"
proof -
  from assms(1) obtain p where p: "map_of (collect_pools types c pools []) (cir_pool r) = Some p"
    and el: "eligible r" by (auto simp: set_acquire_order)
  from collect_pools_Some [OF p] have "CanUsePool c (cir_pool r)" by (auto simp: usable_def)
  with el assms(2) show ?thesis by (simp add: authorized_put_def attempt_def eligible_def)
qed

context server_clients begin

lemma serve_puts:
  assumes "serve env cs secrets ns route headers w = (c, w')"
  shows "\<exists>new ctx tokens w1 err. puts w' = puts w @ new \<and>
     secrets ctx ''ofcir-system'' ''ofcir-tokens'' w = ((tokens, err), w1) \<and>
     (\<forall>x \<in> set new. err = None \<and> authorized_put tokens headers route x)"
proof -
  obtain c1 w1 where auth: "AuthRequired env secrets (fresh_context headers) w = (c1, w1)"
    by (metis prod.exhaust)
  from auth show ?thesis
  proof (cases rule: AuthRequired_cases)
    case denied
    then obtain ctx tokens err where s: "secrets ctx ''ofcir-system'' ''ofcir-tokens'' w = ((tokens, err), w1)" by blast
    from assms auth denied(1) have "w' = w1" by (simp add: serve_def)
    with secrets_read [OF s] s show ?thesis by (intro exI [of _ "[]"]) auto
  next
    case (granted ctx tokens v)
    from secrets_read [OF granted(1)] have p1: "puts w1 = puts w" .
    from assms auth granted(3) have run: "handle_route env cs ns route c1 w1 = (c, w')"
      by (simp add: serve_def)
    have "\<exists>new. puts w' = puts w1 @ new \<and> (\<forall>x \<in> set new. authorized_put tokens headers route x)"
    proof (cases route)
      case (GetCir n)
      obtain r w2 where "statusCmd_Run env cs ns n c1 w1 = (r, w2)" by (metis prod.exhaust)
      with status_writes_nothing [OF this] run GetCir show ?thesis by (simp add: handleGetCirStatus_def)
    next
      case (DeleteCir n)
      obtain r w2 where r: "releaseCmd_Run env cs ns n c1 w1 = (r, w2)" by (metis prod.exhaust)
      with run DeleteCir have "w2 = w'" by (simp add: handleReleaseCir_def)
      with release_writes [OF r] DeleteCir granted(5) show ?thesis
        by (auto simp: authorized_put_def)
    next
      case (PostCir q)
      let ?types = "NewAcquireCmd_types (case q of None \<Rightarrow> TypeCIHost | Some q \<Rightarrow> q)"
      obtain e c2 w2 where r: "acquireCmd_Run env cs ns ?types c1 w1 = ((e, c2), w2)" by (metis prod.exhaust)
      with run PostCir have w2: "w2 = w'" by (simp add: handleAcquireCir_def)
      from r show ?thesis
      proof (cases rule: acquire_cases)
        case no_search
        with w2 show ?thesis by simp
      next
        case (searched pools w3 items w4 m cands fs)
        have ok: "authorized_put tokens headers (PostCir q) (attempt ok r)" if "r \<in> set cands" for r ok
          using attempt_authorized [OF _ granted(5)] that searched(3,6) by simp
        from searched(7) show ?thesis
        proof (elim disjE exE conjE)
          fix r rest
          assume "cands = fs @ r # rest" "puts w2 = puts w1 @ map (attempt False) fs @ [attempt True r]"
          with ok w2 PostCir show ?thesis by auto
        next
          assume "prefix fs cands" "puts w2 = puts w1 @ map (attempt False) fs"
          with ok w2 PostCir show ?thesis by (auto dest: set_mono_prefix)
        qed
      qed
    qed
    with p1 granted(1) show ?thesis by metis
  qed
qed

end

section \<open>Every request is answered once\<close>

lemma status_replies:
  "length (Gin_Responses (reply_error (fst (statusCmd_Run env cs ns n c w)))) = length (Gin_Responses c) + 1"
  by (auto simp: statusCmd_Run_def reply_error_def Let_def split: prod.split option.split)

lemma release_replies:
  "length (Gin_Responses (reply_error (fst (releaseCmd_Run env cs ns n c w)))) = length (Gin_Responses c) + 1"
  by (auto simp: releaseCmd_Run_def reply_error_def Let_def split: prod.split option.split)

lemma look_replies:
  "lookForAvailableResource env cs ctx cirs m c w = ((found, c'), w') \<Longrightarrow>
     length (Gin_Responses c') = length (Gin_Responses c) + (if found then 1 else 0)"
proof (induction cirs arbitrary: w)
  case (Cons r rs)
  then show ?case
    by (auto simp: Let_def split: if_split_asm prod.split_asm option.split_asm)
qed simp

lemma acquire_replies:
  "length (Gin_Responses (reply_error (fst (acquireCmd_Run env cs ns types c w)))) = length (Gin_Responses c) + 1"
  by (auto simp: acquireCmd_Run_def reply_error_def Let_def split: prod.split option.split bool.split
      dest!: look_replies)

text \<open>C29 (functional). Whatever the cluster answers, every request to the server gets exactly one
  response body: no path falls through without one, and none writes a second after an error.\<close>

theorem one_response_per_request:
  "length (Gin_Responses (fst (serve env cs secrets ns route headers w))) = 1"
proof -
  obtain c w1 where auth: "AuthRequired env secrets (fresh_context headers) w = (c, w1)" by (metis prod.exhaust)
  from auth show ?thesis
  proof (cases rule: AuthRequired_cases)
    case denied
    with auth show ?thesis by (simp add: serve_def)
  next
    case (granted ctx tokens v)
    with auth show ?thesis
      using status_replies [of env cs ns _ c w1] release_replies [of env cs ns _ c w1]
        acquire_replies [of env cs ns _ c w1]
      by (cases route) (simp_all add: serve_def handleGetCirStatus_def handleReleaseCir_def handleAcquireCir_def
          Let_def split_beta)
  qed
qed

section \<open>Properties over the REST client\<close>

text \<open>C6 (safety). Every update a request sends was preceded by a successful reading of the tokens under
  which the request's token may use the resource's pool; a GET sends none, a POST only asks for
  available resources, a DELETE only gives back resources in use; and each goes to the resource's
  own namespace.\<close>

theorem writes_need_an_allowed_pool:
  assumes "serve env (OfcirV1Client (recording rc)) (beside_requests secrets) ns route headers w = (c, w')"
  shows "\<exists>new ctx tokens w1 err. puts_of w' = puts_of w @ new \<and>
     beside_requests secrets ctx ''ofcir-system'' ''ofcir-tokens'' w = ((tokens, err), w1) \<and>
     (\<forall>x \<in> set new. err = None \<and> authorized_put tokens headers route x)"
  by (rule api.serve_puts [OF assms])

text \<open>A request whose token is missing, unknown or has no pools, or that comes when the
  tokens cannot be read, is answered 401 and reaches no handler: the world is the one after the
  reading of the secret.\<close>

theorem unknown_token_rejected:
  assumes "\<And>ctx. secrets ctx ''ofcir-system'' ''ofcir-tokens'' w = ((tokens, err), w1)"
    and "err \<noteq> None \<or> allowed_pools tokens headers = None"
  shows "serve env cs secrets ns route headers w = (unauthorized (fresh_context headers), w1)"
proof -
  obtain c w' where auth: "AuthRequired env secrets (fresh_context headers) w = (c, w')" by (metis prod.exhaust)
  from auth have "c = unauthorized (fresh_context headers) \<and> w' = w1"
    by (cases rule: AuthRequired_cases) (use assms in auto)
  with auth show ?thesis by (simp add: serve_def)
qed

text \<open>What an acquisition has accepted was eligible when it was read.\<close>

lemma leased_was_eligible:
  assumes "acquireCmd_Run env (OfcirV1Client (recording rc)) ns types c w = (r, w')"
    and "puts_of w' = puts_of w @ new" and "(n, b, True) \<in> set new"
  shows "\<exists>x. eligible x \<and> b = set_spec_state StateInUse x"
proof -
  obtain e c' where "r = (e, c')" by (cases r)
  with assms(1) have "acquireCmd_Run env (OfcirV1Client (recording rc)) ns types c w = ((e, c'), w')" by simp
  then show ?thesis
  proof (cases rule: rest.acquire_cases)
    case no_search
    with assms(2,3) show ?thesis by simp
  next
    case (searched pools w1 items w2 m cands fs)
    from searched(7) show ?thesis
    proof (elim disjE exE conjE)
      fix x rest
      assume x: "cands = fs @ x # rest" "puts_of w' = puts_of w @ map (attempt False) fs @ [attempt True x]"
      with assms(2,3) have "b = set_spec_state StateInUse x" by (auto simp: attempt_def)
      moreover have "x \<in> set cands" using x(1) by simp
      then have "eligible x" unfolding searched(6) by simp
      ultimately show ?thesis by blast
    next
      assume "puts_of w' = puts_of w @ map (attempt False) fs"
      with assms(2,3) show ?thesis by (auto simp: attempt_def)
    qed
  qed
qed

text \<open>C7 (functional). When an acquisition succeeds, the accepted update is the only one accepted and the
  last one sent; it asks for a listed resource that was available and neither in use nor in
  maintenance by its specification, of a pool of an asked type the token may use; and every
  eligible resource of a default pool with a smaller priority, or of any default pool when it
  comes from a fallback pool, was asked for before and refused.\<close>

theorem acquire_takes_the_best_pool:
  assumes "acquireCmd_Run env (OfcirV1Client (recording rc)) ns types c w = ((e, c'), w')"
    and "puts_of w' = puts_of w @ new" and "(n, b, True) \<in> set new"
  shows "\<exists>pools w1 w1' items w2 w2' m r p.
     CIPools_List (OfcirV1Client (recording rc)) ns w1' w = ((pools, None), w1) \<and>
     CIResources_List (OfcirV1Client (recording rc)) ns w2' w1 = ((items, None), w2) \<and>
     m = collect_pools types c pools [] \<and> r \<in> set items \<and> b = set_spec_state StateInUse r \<and>
     eligible r \<and> p \<in> set pools \<and> pool_name p = cir_pool r \<and> PSpec_Type (P_Spec p) \<in> set types \<and>
     CanUsePool c (pool_name p) \<and>
     (\<forall>x \<in> set items. eligible x \<and> better m x r \<longrightarrow> attempt False x \<in> set new) \<and>
     (\<forall>y \<in> set (butlast new). \<not> snd (snd y)) \<and> last new = attempt True r"
  using assms(1)
proof (cases rule: rest.acquire_cases)
  case no_search
  with assms(2,3) show ?thesis by simp
next
  case (searched pools w1 items w2 m cands fs)
  from searched(7) show ?thesis
  proof (elim disjE exE conjE)
    fix r rest
    assume r: "cands = fs @ r # rest"
      "puts_of w' = puts_of w @ map (attempt False) fs @ [attempt True r]"
    with assms(2) have new: "new = map (attempt False) fs @ [attempt True r]" by simp
    with assms(3) have b: "b = set_spec_state StateInUse r" by (auto simp: attempt_def)
    have "r \<in> set cands" using r(1) by simp
    then have "eligible r" "r \<in> set items" "map_of m (cir_pool r) \<noteq> None"
      unfolding searched(6) by (auto simp: set_acquire_order)
    then obtain p where "map_of m (cir_pool r) = Some p" by blast
    with searched(3) have "p \<in> set pools" "pool_name p = cir_pool r" "usable types c p"
      by (auto dest!: collect_pools_Some)
    moreover have "attempt False x \<in> set new" if "x \<in> set items" "eligible x" "better m x r" for x
      using better_first [OF _ that] r(1) searched(6) new by auto
    moreover have "\<forall>y \<in> set (butlast new). \<not> snd (snd y)" "last new = attempt True r" by (auto simp: new)
    ultimately show ?thesis
      using searched(1-3) b \<open>eligible r\<close> \<open>r \<in> set items\<close> unfolding usable_def
      by (intro exI conjI) auto
  next
    assume "puts_of w' = puts_of w @ map (attempt False) fs"
    with assms(2,3) show ?thesis by (auto simp: attempt_def)
  qed
qed

lemma look_accepts:
  assumes "\<forall>ns ctx c w. snd (fst (CIResources_Update cs ns ctx c w)) = None" and "\<forall>v. ctx v = None"
  shows "\<exists>w'. lookForAvailableResource env cs ctx cirs m c w =
     ((filter eligible cirs \<noteq> [],
       case filter eligible cirs of [] \<Rightarrow> c | r # rest \<Rightarrow> respond (acquired_response m (set_spec_state StateInUse r)) c), w')"
proof (induction cirs arbitrary: w)
  case (Cons r rs)
  obtain d e w1 where up: "CIResources_Update cs (Namespace (C_Meta r)) (call_ctx env ctx w) (set_spec_state StateInUse r) w
      = ((d, e), w1)" by (metis prod.exhaust)
  with assms(1) have "e = None" by (metis fst_conv snd_conv)
  moreover have "ctx w = None" using assms(2) by simp
  ultimately show ?case using up Cons by (simp add: eligible_def Let_def)
qed simp

text \<open>C30 (liveness). As long as the request does not time out and the lists can be read, an acquisition
  is answered 200 when some eligible resource of a usable pool (of an asked type, allowed to the
  token) is listed and the server accepts updates. The state of the pool is not looked at: this holds of
  pools that are offline too, although \<open>cipool_types.go\<close> says that such a pool cannot be selected when
  looking for an eligible resource (\<open>offline_pool_leases\<close> is a run that leases from one).\<close>

theorem eligible_resource_is_acquired:
  assumes "CIPools_List (OfcirV1Client rc) ns (call_ctx env (overall_ctx env w) w) w = ((pools, None), w1)"
    and "CIResources_List (OfcirV1Client rc) ns (call_ctx env (overall_ctx env w) w1) w1 = ((items, None), w2)"
    and "p \<in> set pools" and "usable types c p"
    and "r \<in> set items" and "cir_pool r = pool_name p" and "eligible r"
    and "\<forall>v. overall_ctx env w v = None"
    and "\<forall>ctx req v. snd (fst (Do_CIResource rc ctx req v)) = None"
  shows "\<exists>h w'. acquireCmd_Run env (OfcirV1Client rc) ns types c w = ((None, respond (JSON StatusOK h) c), w')"
proof -
  let ?cs = "OfcirV1Client rc" and ?ov = "overall_ctx env w" and ?m = "collect_pools types c pools []"
  let ?cirs = "sort_key (cir_priority ?m) (rand_Shuffle (Env_Rand env) (fst (split_cirs ?m items)))"
  let ?fb = "snd (split_cirs ?m items)"
  have acc: "\<forall>ns ctx c w. snd (fst (CIResources_Update ?cs ns ctx c w)) = None"
    using assms(9) by (simp add: cirClient_Update_def)
  have m: "?m \<noteq> []" using assms(3,4) by (auto simp: collect_pools_empty filter_empty_conv)
  have "map_of ?m (cir_pool r) \<noteq> None"
    using collect_pools_dom [OF assms(3,4)] assms(6) by simp
  then have cand: "r \<in> set (filter eligible ?cirs @ filter eligible ?fb)"
    using assms(5,7) by (auto simp: split_cirs_eq not_le)
  obtain w3 where l1: "lookForAvailableResource env ?cs ?ov ?cirs ?m c w2 =
     ((filter eligible ?cirs \<noteq> [], case filter eligible ?cirs of [] \<Rightarrow> c
        | r # rest \<Rightarrow> respond (acquired_response ?m (set_spec_state StateInUse r)) c), w3)"
    using look_accepts [OF acc assms(8)] by metis
  obtain w4 where l2: "lookForAvailableResource env ?cs ?ov ?fb ?m c w3 =
     ((filter eligible ?fb \<noteq> [], case filter eligible ?fb of [] \<Rightarrow> c
        | r # rest \<Rightarrow> respond (acquired_response ?m (set_spec_state StateInUse r)) c), w4)"
    using look_accepts [OF acc assms(8)] by metis
  show ?thesis
  proof (cases "filter eligible ?cirs")
    case (Cons x xs)
    with assms(1,2) m l1 show ?thesis
      by (auto simp: acquireCmd_Run_def Let_def acquired_response_def split_beta)
  next
    case Nil
    with cand obtain x xs where "filter eligible ?fb = x # xs" by (cases "filter eligible ?fb") auto
    with assms(1,2) m l1 l2 Nil show ?thesis
      by (auto simp: acquireCmd_Run_def Let_def acquired_response_def split_beta)
  qed
qed

text \<open>C35 (safety). The state, address and data of a resource are only shown to a token that may use its
  pool: a GET answered 200 read the resource, and the token read before it allows the pool.\<close>

theorem status_shown_to_allowed_pools:
  assumes "serve env cs secrets ns (GetCir n) headers w = (c, w')"
    and "JSON StatusOK h \<in> set (Gin_Responses c)"
  shows "\<exists>ctx tokens w1 ctx2 r w2.
     secrets ctx ''ofcir-system'' ''ofcir-tokens'' w = ((tokens, None), w1) \<and>
     CIResources_Get cs ns ctx2 n w1 = ((r, None), w2) \<and> may_use tokens headers (cir_pool r)"
proof -
  obtain c1 w1 where auth: "AuthRequired env secrets (fresh_context headers) w = (c1, w1)" by (metis prod.exhaust)
  from auth show ?thesis
  proof (cases rule: AuthRequired_cases)
    case denied
    with auth assms show ?thesis by (auto simp: serve_def http_codes)
  next
    case (granted ctx tokens v)
    let ?ctx2 = "call_ctx env (overall_ctx env w1) w1"
    obtain r e w2 where g: "CIResources_Get cs ns ?ctx2 n w1 = ((r, e), w2)" by (metis prod.exhaust)
    from auth assms(1) granted(3) have "c = reply_error (fst (statusCmd_Run env cs ns n c1 w1))"
      by (auto simp: serve_def handleGetCirStatus_def split: prod.split_asm)
    with assms(2) g granted(4) have "e = None \<and> CanUsePool c1 (cir_pool r)"
      by (auto simp: statusCmd_Run_def reply_error_def http_codes Let_def split: option.split_asm if_split_asm)
    with g granted(1,5) show ?thesis by blast
  qed
qed

text \<open>C26 (functional). A release of a listed resource the token may use is decided by its state: in use,
  exactly one update asks for it to become available, and the answer is 200 with its name when the
  server accepts it; in any other state nothing is sent and the answer is 400.\<close>

theorem release_only_from_in_use:
  assumes "CIResources_Get (OfcirV1Client (recording rc)) ns (call_ctx env (overall_ctx env w) w) n w = ((r, None), w1)"
    and "CanUsePool c (cir_pool r)"
  shows "\<exists>e c' w'. releaseCmd_Run env (OfcirV1Client (recording rc)) ns n c w = ((e, c'), w') \<and>
     (if status_state r = StateInUse
      then puts_of w' = puts_of w @ [(Namespace (C_Meta r), set_spec_state StateAvailable r, e = None)] \<and>
        (e = None \<longrightarrow> c' = respond (String StatusOK (cir_name r)) c)
      else puts_of w' = puts_of w \<and> e = None \<and> (\<exists>h. c' = respond (JSON StatusBadRequest h) c))"
proof (cases "status_state r = StateInUse")
  case True
  let ?cs = "OfcirV1Client (recording rc)"
  obtain d e w2 where up: "CIResources_Update ?cs (Namespace (C_Meta r)) (call_ctx env (overall_ctx env w) w1)
      (set_spec_state StateAvailable r) w1 = ((d, e), w2)" by (metis prod.exhaust)
  from rest.update_puts [OF up] rest.cirs_get_reads [OF assms(1)] have
    "puts_of w2 = puts_of w @ [(Namespace (C_Meta r), set_spec_state StateAvailable r, e = None)]" by simp
  with assms up True show ?thesis
    by (cases e) (simp_all add: releaseCmd_Run_def Let_def)
next
  case False
  with assms rest.cirs_get_reads [OF assms(1)] show ?thesis
    by (simp add: releaseCmd_Run_def Let_def) (rule exI, rule refl)
qed

section \<open>Instances\<close>

text \<open>A cluster with one pool and one resource, which accepts updates; a secret with one token.\<close>

definition fixed_rest :: "CIPool \<Rightarrow> CIResource \<Rightarrow> 'w RestClient" where
  "fixed_rest pool cir =
     \<lparr>Do_CIPoolList = \<lambda>ctx req w. (([pool], None), w), Do_CIPool = \<lambda>ctx req w. ((pool, None), w),
      Do_CIResourceList = \<lambda>ctx req w. (([cir], None), w), Do_CIResource = \<lambda>ctx req w. ((cir, None), w)\<rparr>"

definition fixed_secrets :: "'w Secrets" where
  "fixed_secrets ctx n k w = (([''token'' \<mapsto> ''pool''], None), w)"

definition calm :: "'w Env" where
  "calm = \<lparr>Env_Clock = \<lambda>w. 0, Env_Context = \<lambda>w. None, Env_Rand = \<lambda>n. 0\<rparr>"

lemma calm_ctx [simp]: "overall_ctx calm w v = None" "call_ctx calm (overall_ctx calm w) w2 v = None"
  by (simp_all add: overall_ctx_def call_ctx_def calm_def WithTimeout_def overallTimeout_def apiCallTimeout_def
      Second_def)

abbreviation token_header :: "string \<rightharpoonup> string list" where
  "token_header \<equiv> [''X-Ofcirtoken'' \<mapsto> [''token'']]"

abbreviation demo_client :: "unit recorded OfcirV1Interface" where
  "demo_client \<equiv> OfcirV1Client (recording (fixed_rest (a_pool StatePoolAvailable 0 1 None)
     (a_cir ''cir-0001'' StateAvailable StateAvailable)))"

lemma TrimSpace_pool: "TrimSpace ''pool'' = ''pool''"
  by (simp add: TrimSpace_def trim_front.simps space_runes_def char_of_def bit_0)

abbreviation demo_cir :: CIResource where "demo_cir \<equiv> a_cir ''cir-0001'' StateAvailable StateAvailable"
abbreviation demo_secrets :: "unit recorded Secrets" where "demo_secrets \<equiv> beside_requests fixed_secrets"

definition token_context :: gin_Context where
  "token_context = (fresh_context token_header)\<lparr>Gin_Keys := [''validpools'' \<mapsto> ''pool'']\<rparr>"

lemma token_context_CanUse [simp]: "CanUsePool token_context p \<longleftrightarrow> p = ''pool''"
  by (simp add: CanUsePool_def token_context_def)

lemmas fixed_defs =
  client_defs recording_def rest_record_def fixed_rest_def

lemma fixed_rest_calls [simp]:
  "cipoolClient_List (recording (fixed_rest pool cir)) ns ctx (l, w) =
     (([pool], None),
      (l @ [(\<lparr>Req_Verb = VGet, Req_Namespace = ns, Req_Resource = ''cipools'', Req_Name = '''', Req_Body = None\<rparr>, None)], w))"
  "cipoolClient_Get (recording (fixed_rest pool cir)) ns ctx n (l, w) =
     ((pool, None),
      (l @ [(\<lparr>Req_Verb = VGet, Req_Namespace = ns, Req_Resource = ''cipools'', Req_Name = n, Req_Body = None\<rparr>, None)], w))"
  "cirClient_List (recording (fixed_rest pool cir)) ns ctx (l, w) =
     (([cir], None),
      (l @ [(\<lparr>Req_Verb = VGet, Req_Namespace = ns, Req_Resource = resourceName, Req_Name = '''', Req_Body = None\<rparr>, None)], w))"
  "cirClient_Get (recording (fixed_rest pool cir)) ns ctx n (l, w) =
     ((cir, None),
      (l @ [(\<lparr>Req_Verb = VGet, Req_Namespace = ns, Req_Resource = resourceName, Req_Name = n, Req_Body = None\<rparr>, None)], w))"
  "cirClient_Update (recording (fixed_rest pool cir)) ns ctx c (l, w) =
     ((cir, None),
      (l @ [(\<lparr>Req_Verb = VPut, Req_Namespace = ns, Req_Resource = resourceName, Req_Name = cir_name c, Req_Body = Some c\<rparr>, None)], w))"
  by (simp_all add: fixed_defs)

lemma demo_AuthRequired:
  "AuthRequired calm demo_secrets (fresh_context token_header) (l, w) = (token_context, (l, w))"
  by (simp add: AuthRequired_def beside_requests_def fixed_secrets_def token_pools_def TrimSpace_pool
      token_context_def Let_def)

lemma token_context_sel [simp]: "Gin_Responses token_context = []" "\<not> Gin_Aborted token_context"
  by (simp_all add: token_context_def)

lemma demo_usable: "usable [TypeCIHost] token_context (a_pool StatePoolAvailable 0 1 None)"
  by (simp add: usable_def)

lemma writes_need_pool_witness:
  "\<exists>c w' new ctx tokens w1 err. serve calm demo_client demo_secrets ''ofcir'' (PostCir None) token_header ([], ()) = (c, w') \<and>
     puts_of w' = new \<and>
     demo_secrets ctx ''ofcir-system'' ''ofcir-tokens'' ([], ()) = ((tokens, err), w1) \<and>
     (\<forall>x \<in> set new. err = None \<and> authorized_put tokens token_header (PostCir None) x)"
proof -
  obtain c w' where run: "serve calm demo_client demo_secrets ''ofcir'' (PostCir None) token_header ([], ()) = (c, w')"
    by (metis prod.exhaust)
  from writes_need_an_allowed_pool [OF this] run show ?thesis
    by (auto simp: puts_of_def List.map_filter_def)
qed

lemma unknown_token_witness:
  "serve calm demo_client demo_secrets ''ofcir'' (PostCir None) Map.empty ([], ()) =
     (unauthorized (fresh_context Map.empty), ([], ()))"
  by (rule unknown_token_rejected [where tokens = "[''token'' \<mapsto> ''pool'']" and err = None])
    (simp_all add: beside_requests_def fixed_secrets_def allowed_pools_def)

lemma eligible_acquired_witness:
  "\<exists>h w'. acquireCmd_Run calm demo_client ''ofcir'' [TypeCIHost] token_context ([], ()) =
     ((None, respond (JSON StatusOK h) token_context), w')"
proof -
  have acc: "snd (fst (Do_CIResource (recording (fixed_rest pool cir)) ctx req v)) = None" for pool cir ctx req
    and v :: "unit recorded"
    by (cases v) (simp add: recording_def rest_record_def fixed_rest_def)
  let ?w0 = "([], ()) :: unit recorded"
  obtain w1 where l1: "CIPools_List demo_client ''ofcir'' (call_ctx calm (overall_ctx calm ?w0) ?w0) ?w0 =
      (([a_pool StatePoolAvailable 0 1 None], None), w1)" by simp
  obtain w2 where l2: "CIResources_List demo_client ''ofcir'' (call_ctx calm (overall_ctx calm ?w0) w1) w1 =
      (([demo_cir], None), w2)" by (cases w1) simp
  show ?thesis
    by (rule eligible_resource_is_acquired [OF l1 l2, where p = "a_pool StatePoolAvailable 0 1 None" and r = demo_cir])
      (simp_all add: demo_usable eligible_def acc)
qed

text \<open>The same from a pool that is offline: the acquisition never reads the state of a pool.\<close>

lemma offline_pool_leases:
  "\<exists>h w'. acquireCmd_Run calm (OfcirV1Client (recording (fixed_rest (a_pool StatePoolOffline 0 1 None) demo_cir)))
     ''ofcir'' [TypeCIHost] token_context ([], ()) = ((None, respond (JSON StatusOK h) token_context), w')"
  by (auto simp: acquireCmd_Run_def rand_Shuffle_def acquired_response_def Let_def)

lemma acquire_best_witness:
  "\<exists>c' w' n b. acquireCmd_Run calm demo_client ''ofcir'' [TypeCIHost] token_context ([], ()) = ((None, c'), w') \<and>
     (n, b, True) \<in> set (puts_of w') \<and> b = set_spec_state StateInUse demo_cir"
proof -
  obtain e c' w' where run: "acquireCmd_Run calm demo_client ''ofcir'' [TypeCIHost] token_context ([], ()) = ((e, c'), w')"
    by (metis prod.exhaust)
  have ok: "e = None" "puts_of w' = [(''ofcir'', set_spec_state StateInUse demo_cir, True)]"
    using run by (auto simp: acquireCmd_Run_def rand_Shuffle_def puts_of_def put_of_def List.map_filter_def Let_def)
  from acquire_takes_the_best_pool [OF run, of "puts_of w'" "''ofcir''" "set_spec_state StateInUse demo_cir"] ok
  have "\<exists>r. eligible r \<and> set_spec_state StateInUse demo_cir = set_spec_state StateInUse r"
    by (simp add: puts_of_def [of "([], ())"] List.map_filter_def) blast
  with run ok show ?thesis by auto
qed

lemma status_shown_witness:
  "\<exists>ctx tokens w1 ctx2 r w2.
     demo_secrets ctx ''ofcir-system'' ''ofcir-tokens'' ([], ()) = ((tokens, None), w1) \<and>
     CIResources_Get demo_client ''ofcir'' ctx2 ''cir-0001'' w1 = ((r, None), w2) \<and>
     may_use tokens token_header (cir_pool r)"
proof -
  obtain c w' where run: "serve calm demo_client demo_secrets ''ofcir'' (GetCir ''cir-0001'') token_header ([], ()) = (c, w')"
    by (metis prod.exhaust)
  then have "\<exists>h. JSON StatusOK h \<in> set (Gin_Responses c)"
    by (auto simp: serve_def demo_AuthRequired handleGetCirStatus_def statusCmd_Run_def reply_error_def Let_def)
  then obtain h where "JSON StatusOK h \<in> set (Gin_Responses c)" ..
  from status_shown_to_allowed_pools [OF run this] show ?thesis .
qed

lemma release_witness:
  "\<exists>e c' w'. releaseCmd_Run calm demo_client ''ofcir'' ''cir-0001'' token_context ([], ()) = ((e, c'), w') \<and>
     puts_of w' = [] \<and> e = None \<and> (\<exists>h. c' = respond (JSON StatusBadRequest h) token_context)"
proof -
  let ?w1 = "([(\<lparr>Req_Verb = VGet, Req_Namespace = ''ofcir'', Req_Resource = resourceName, Req_Name = ''cir-0001'',
      Req_Body = None\<rparr>, None)], ()) :: unit recorded"
  have g: "CIResources_Get demo_client ''ofcir'' (call_ctx calm (overall_ctx calm ([], ())) ([], ())) ''cir-0001'' ([], ()) =
      ((demo_cir, None), ?w1)" by simp
  from release_only_from_in_use [OF g, of token_context] show ?thesis
    by (simp add: puts_of_def [of "([], ())"] List.map_filter_def)
qed

end
