(* ===== verification/Lease_Cycle.thy ===== *)
theory Lease_Cycle
  imports Fsm_Properties Server_Properties Pool_Controller
begin

text \<open>
  The two programs of the repository on one stored CIResource. The operator and the HTTP server
  never talk to each other: they read and write the object of the API server, each from a copy that
  may be out of date, and the API server refuses an update made from an old version. The theory
  composes the acquisition, the release and the two reconcilers over such a store, whose documented
  behaviour is the hypothesis \<open>optimistic\<close>, and shows what the lessees rely on: a resource is not
  leased again before its provider has cleaned it.
\<close>

section \<open>The store\<close>

text \<open>An update is accepted, with the store after it, or refused. The versions are those the server
  has given to the object so far.\<close>

record 's Store =
  St_Object :: "'s \<Rightarrow> CIResource"
  St_Versions :: "'s \<Rightarrow> string set"
  St_Update :: "CIResource \<Rightarrow> 's \<Rightarrow> 's option"
  St_UpdateStatus :: "CIResource \<Rightarrow> 's \<Rightarrow> 's option"

definition versioned :: "'s Store \<Rightarrow> 's \<Rightarrow> 's \<Rightarrow> bool" where
  "versioned st s s' \<longleftrightarrow>
     cir_key (St_Object st s') = cir_key (St_Object st s) \<and>
     (St_Object st s' = St_Object st s \<or> cir_version (St_Object st s') \<notin> St_Versions st s) \<and>
     St_Versions st s' = insert (cir_version (St_Object st s')) (St_Versions st s)"

text \<open>Optimistic concurrency, and the status subresource: an update is accepted only from the current
  version; an update of the resource leaves the status, one of the status leaves the
  specification; what changes the object gives it a version it never had.\<close>

definition optimistic :: "'s Store \<Rightarrow> bool" where
  "optimistic st \<longleftrightarrow>
     (\<forall>s. cir_version (St_Object st s) \<in> St_Versions st s) \<and>
     (\<forall>b s s'. St_Update st b s = Some s' \<longrightarrow>
        cir_version b = cir_version (St_Object st s) \<and> versioned st s s' \<and>
        C_Spec (St_Object st s') = C_Spec b \<and> C_Status (St_Object st s') = C_Status (St_Object st s)) \<and>
     (\<forall>b s s'. St_UpdateStatus st b s = Some s' \<longrightarrow>
        cir_version b = cir_version (St_Object st s) \<and> versioned st s s' \<and>
        C_Spec (St_Object st s') = C_Spec (St_Object st s) \<and> C_Status (St_Object st s') = C_Status b)"

section \<open>The steps of the two programs\<close>

text \<open>What a client may be shown of the object: any version it had.\<close>

definition server_sees :: "NamespacedName \<Rightarrow> CIResource set \<Rightarrow> 'w OfcirV1Interface \<Rightarrow> bool" where
  "server_sees k seen cs \<longleftrightarrow>
     (\<forall>ns ctx v rs v'. CIResources_List cs ns ctx v = ((rs, None), v') \<longrightarrow>
        (\<forall>r \<in> set rs. cir_key r = k \<longrightarrow> r \<in> seen)) \<and>
     (\<forall>ns ctx n v r v'. CIResources_Get cs ns ctx n v = ((r, None), v') \<longrightarrow> cir_key r = k \<longrightarrow> r \<in> seen)"

definition operator_sees :: "NamespacedName \<Rightarrow> CIResource set \<Rightarrow> 'w Client \<Rightarrow> bool" where
  "operator_sees k seen cl \<longleftrightarrow>
     (\<forall>n v c v'. Get_CIResource cl n v = (Inr c, v') \<longrightarrow> cir_key c = k \<longrightarrow> c \<in> seen) \<and>
     (\<forall>ns v le rs v'. List_CIResources cl ns v = ((le, rs), v') \<longrightarrow>
        (\<forall>r \<in> set rs. cir_key r = k \<longrightarrow> r \<in> seen))"

text \<open>A request of the reconciler: everything it depends on.\<close>

record 'w request_run =
  Run_Factories :: "'w ProviderFactories"
  Run_Client :: "'w Client"
  Run_Now :: Time
  Run_Stamp :: Time
  Run_Request :: NamespacedName
  Run_World :: 'w

definition run_writes :: "Controllerutil \<Rightarrow> 'w request_run \<Rightarrow> kube_write list" where
  "run_writes lib run =
     (case CIResource_Reconcile lib (factories_beside (Run_Factories run)) (logged (Run_Client run))
             (Run_Now run) (Run_Stamp run) (Run_Request run) ([], Run_World run) of
        None \<Rightarrow> []
      | Some (r, ws, w) \<Rightarrow> ws)"

text \<open>Every accepted write is an event; refused ones change nothing. Others, administrators of the
  cluster, may ask for the object's deletion and edit its metadata and its specification, but do not
  withdraw a request for use that has not become a use.\<close>

datatype 'w cluster_event =
    Ev_Lease CIResource
  | Ev_Return CIResource
  | Ev_Update "'w request_run" CIResource
  | Ev_Status "'w request_run" CIResource
  | Ev_Evict CIResource
  | Ev_Edit CIResource

definition others_edit :: "CIResource \<Rightarrow> CIResource \<Rightarrow> bool" where
  "others_edit c c' \<longleftrightarrow> C_Status c' = C_Status c \<and>
     (spec_state c = StateInUse \<and> status_state c \<noteq> StateInUse \<longrightarrow> spec_state c' = StateInUse)"

text \<open>The accepted write of an acquisition, of a release and of a request of either reconciler, sent
  from what the run had read: a version of the object, the current one or an older one.\<close>

inductive cluster_step ::
  "'s Store \<Rightarrow> Controllerutil \<Rightarrow> 's \<times> CIResource set \<Rightarrow> 'w cluster_event \<Rightarrow> 's \<times> CIResource set \<Rightarrow> bool"
  for st :: "'s Store" and lib :: Controllerutil where
  lease: "cluster_step st lib (s, seen) (Ev_Lease b) (s', insert (St_Object st s') seen)"
    if "acquireCmd_Run env (OfcirV1Client (recording (rc :: 'w RestClient))) ns types c w = (r, w')"
      "server_sees (cir_key (St_Object st s)) seen (OfcirV1Client (recording rc))"
      "puts_of w' = puts_of w @ new" "(n, b, True) \<in> set new"
      "cir_key b = cir_key (St_Object st s)" "St_Update st b s = Some s'"
| return: "cluster_step st lib (s, seen) (Ev_Return b) (s', insert (St_Object st s') seen)"
    if "releaseCmd_Run env (OfcirV1Client (recording (rc :: 'w RestClient))) ns cn c w = (r, w')"
      "server_sees (cir_key (St_Object st s)) seen (OfcirV1Client (recording rc))"
      "puts_of w' = puts_of w @ new" "(n, b, True) \<in> set new"
      "cir_key b = cir_key (St_Object st s)" "St_Update st b s = Some s'"
| update: "cluster_step st lib (s, seen) (Ev_Update run b) (s', insert (St_Object st s') seen)"
    if "operator_sees (cir_key (St_Object st s)) seen (Run_Client run)"
      "W_Update_CIResource b \<in> set (run_writes lib run)"
      "cir_key b = cir_key (St_Object st s)" "St_Update st b s = Some s'"
| status: "cluster_step st lib (s, seen) (Ev_Status run b) (s', insert (St_Object st s') seen)"
    if "operator_sees (cir_key (St_Object st s)) seen (Run_Client run)"
      "W_StatusUpdate_CIResource b \<in> set (run_writes lib run)"
      "cir_key b = cir_key (St_Object st s)" "St_UpdateStatus st b s = Some s'"
| evict: "cluster_step st lib (s, seen) (Ev_Evict b) (s', insert (St_Object st s') seen)"
    if "CIPool_Reconcile lib (logged cl) now req ([], w :: 'w) = (r, ws, w')"
      "operator_sees (cir_key (St_Object st s)) seen cl" "b \<in> set (updated ws)"
      "cir_key b = cir_key (St_Object st s)" "St_Update st b s = Some s'"
| edit: "cluster_step st lib (s, seen) (Ev_Edit (St_Object st s')) (s', insert (St_Object st s') seen)"
    if "versioned st s s'" "others_edit (St_Object st s) (St_Object st s')"

inductive cluster_trace ::
  "'s Store \<Rightarrow> Controllerutil \<Rightarrow> 's \<times> CIResource set \<Rightarrow> 'w cluster_event list \<Rightarrow> 's \<times> CIResource set \<Rightarrow> bool"
  for st :: "'s Store" and lib :: Controllerutil where
  nil: "cluster_trace st lib x [] x"
| cons: "cluster_step st lib x e y \<Longrightarrow> cluster_trace st lib y es z \<Longrightarrow> cluster_trace st lib x (e # es) z"

inductive_simps cluster_trace_simps [simp]:
  "cluster_trace st lib x [] z"
  "cluster_trace st lib x (e # es) z"

lemma cluster_trace_append:
  "cluster_trace st lib x (es @ fs) z \<longleftrightarrow> (\<exists>y. cluster_trace st lib x es y \<and> cluster_trace st lib y fs z)"
  by (induction es arbitrary: x) auto

section \<open>What was written was current\<close>

definition store_ok :: "'s Store \<Rightarrow> 's \<times> CIResource set \<Rightarrow> bool" where
  "store_ok st x \<longleftrightarrow>
     St_Object st (fst x) \<in> snd x \<and> inj_on cir_version (snd x) \<and>
     cir_version ` snd x \<subseteq> St_Versions st (fst x)"

lemma store_ok_versioned:
  assumes "store_ok st (s, seen)" and "versioned st s s'"
  shows "store_ok st (s', insert (St_Object st s') seen)"
proof (cases "St_Object st s' = St_Object st s")
  case True
  with assms have "insert (St_Object st s') seen = seen" by (auto simp: store_ok_def)
  with True assms show ?thesis by (auto simp: store_ok_def versioned_def)
next
  case False
  with assms(2) have new: "cir_version (St_Object st s') \<notin> St_Versions st s"
    and vers: "St_Versions st s' = insert (cir_version (St_Object st s')) (St_Versions st s)"
    by (simp_all add: versioned_def)
  from assms(1) have old: "cir_version ` seen \<subseteq> St_Versions st s"
    and inj: "inj_on cir_version seen" by (simp_all add: store_ok_def)
  from old new have "cir_version (St_Object st s') \<notin> cir_version ` (seen - {St_Object st s'})"
    by blast
  with inj have "inj_on cir_version (insert (St_Object st s') seen)"
    by (simp only: inj_on_insert) simp
  with old vers show ?thesis unfolding store_ok_def by (simp add: image_subset_iff)
qed

lemma store_ok_current:
  assumes "store_ok st (s, seen)" and "c \<in> seen"
    and "cir_version c = cir_version (St_Object st s)"
  shows "c = St_Object st s"
proof -
  from assms(1) have "St_Object st s \<in> seen" "inj_on cir_version seen"
    by (simp_all add: store_ok_def)
  from inj_onD [OF this(2) assms(3,2) this(1)] show ?thesis .
qed

lemma optimistic_Update:
  assumes "optimistic st" and "St_Update st b s = Some s'"
  shows "cir_version b = cir_version (St_Object st s)" "versioned st s s'"
    "C_Spec (St_Object st s') = C_Spec b" "C_Status (St_Object st s') = C_Status (St_Object st s)"
  using assms by (auto simp: optimistic_def)

lemma optimistic_UpdateStatus:
  assumes "optimistic st" and "St_UpdateStatus st b s = Some s'"
  shows "cir_version b = cir_version (St_Object st s)" "versioned st s s'"
    "C_Spec (St_Object st s') = C_Spec (St_Object st s)" "C_Status (St_Object st s') = C_Status b"
  using assms by (auto simp: optimistic_def)

lemma cluster_step_ok:
  assumes "cluster_step st lib x e y" and "optimistic st" and "store_ok st x"
  shows "store_ok st y"
proof -
  have "versioned st (fst x) (fst y) \<and> snd y = insert (St_Object st (fst y)) (snd x)"
    using assms(1)
    by cases (simp_all add: optimistic_Update(2) [OF assms(2)] optimistic_UpdateStatus(2) [OF assms(2)])
  with store_ok_versioned [of st "fst x" "snd x" "fst y"] assms(3) show ?thesis by (metis prod.collapse)
qed

lemma cluster_trace_ok:
  assumes "cluster_trace st lib x es y" and "optimistic st" and "store_ok st x"
  shows "store_ok st y"
  using assms by (induction rule: cluster_trace.induct) (auto dest: cluster_step_ok)

text \<open>So a program's write was computed from the stored object itself.\<close>

lemma lease_of_current:
  assumes "cluster_step st lib (s, seen) (Ev_Lease b) y" and "optimistic st" and "store_ok st (s, seen)"
  shows "eligible (St_Object st s)" "b = set_spec_state StateInUse (St_Object st s)"
    "C_Spec (St_Object st (fst y)) = C_Spec b" "C_Status (St_Object st (fst y)) = C_Status b"
proof -
  from assms(1) obtain env rc ns types c w r w' new n s' where
    run: "acquireCmd_Run env (OfcirV1Client (recording (rc :: 'b RestClient))) ns types c w = (r, w')"
    and sees: "server_sees (cir_key (St_Object st s)) seen (OfcirV1Client (recording rc))"
    and puts: "puts_of w' = puts_of w @ new" "(n, b, True) \<in> set new"
    and key: "cir_key b = cir_key (St_Object st s)" and up: "St_Update st b s = Some s'"
    and y: "y = (s', insert (St_Object st s') seen)" by cases auto
  obtain e c' where "r = (e, c')" by (cases r)
  with run have "acquireCmd_Run env (OfcirV1Client (recording rc)) ns types c w = ((e, c'), w')" by simp
  then have "\<exists>x \<in> seen. eligible x \<and> b = set_spec_state StateInUse x"
  proof (cases rule: rest.acquire_cases)
    case no_search
    with puts show ?thesis by simp
  next
    case (searched pools w1 items w2 m cands fs)
    have "\<exists>x \<in> set cands. b = set_spec_state StateInUse x"
      using searched(7) puts by (auto simp: attempt_def)
    then obtain x where x: "x \<in> set cands" "b = set_spec_state StateInUse x" ..
    then have "x \<in> set items" "eligible x" by (auto simp: searched(6) set_acquire_order)
    moreover from x(2) key have "cir_key x = cir_key (St_Object st s)" by (simp add: cir_key_def)
    ultimately show ?thesis using sees searched(2) x(2) unfolding server_sees_def by blast
  qed
  then obtain x where x: "x \<in> seen" "eligible x" "b = set_spec_state StateInUse x" by auto
  with optimistic_Update(1) [OF assms(2) up] have "x = St_Object st s"
    by (intro store_ok_current [OF assms(3)]) auto
  with x optimistic_Update(3,4) [OF assms(2) up] y show
    "eligible (St_Object st s)" "b = set_spec_state StateInUse (St_Object st s)"
    "C_Spec (St_Object st (fst y)) = C_Spec b" "C_Status (St_Object st (fst y)) = C_Status b" by auto
qed

lemma return_of_current:
  assumes "cluster_step st lib (s, seen) (Ev_Return b) y" and "optimistic st" and "store_ok st (s, seen)"
  shows "status_state (St_Object st s) = StateInUse" "C_Status (St_Object st (fst y)) = C_Status (St_Object st s)"
    "spec_state (St_Object st (fst y)) = StateAvailable"
proof -
  from assms(1) obtain env rc ns cn c w r w' new n s' where
    run: "releaseCmd_Run env (OfcirV1Client (recording (rc :: 'b RestClient))) ns cn c w = (r, w')"
    and sees: "server_sees (cir_key (St_Object st s)) seen (OfcirV1Client (recording rc))"
    and puts: "puts_of w' = puts_of w @ new" "(n, b, True) \<in> set new"
    and key: "cir_key b = cir_key (St_Object st s)" and up: "St_Update st b s = Some s'"
    and y: "y = (s', insert (St_Object st s') seen)" by cases auto
  from rest.release_writes [OF run] puts obtain x v1 where
    x: "CIResources_Get (OfcirV1Client (recording rc)) ns (call_ctx env (overall_ctx env w) w) cn w = ((x, None), v1)"
      "status_state x = StateInUse" "b = set_spec_state StateAvailable x" by auto
  from x(3) key have "cir_key x = cir_key (St_Object st s)" by (simp add: cir_key_def)
  with x(1) sees have "x \<in> seen" unfolding server_sees_def by blast
  with x(3) optimistic_Update(1) [OF assms(2) up] have "x = St_Object st s"
    by (intro store_ok_current [OF assms(3)]) auto
  with x optimistic_Update(3,4) [OF assms(2) up] y show
    "status_state (St_Object st s) = StateInUse" "C_Status (St_Object st (fst y)) = C_Status (St_Object st s)"
    "spec_state (St_Object st (fst y)) = StateAvailable" by auto
qed

lemma evict_of_current:
  assumes "cluster_step st lib (s, seen) (Ev_Evict b) y" and "optimistic st" and "store_ok st (s, seen)"
  shows "evictable (St_Object st s)" "C_Spec (St_Object st (fst y)) = C_Spec (St_Object st s)"
    "C_Status (St_Object st (fst y)) = C_Status (St_Object st s)"
proof -
  from assms(1) obtain cl now req w r ws w' s' where
    run: "CIPool_Reconcile lib (logged cl) now req ([], w :: 'b) = (r, ws, w')"
    and sees: "operator_sees (cir_key (St_Object st s)) seen cl" and ws: "b \<in> set (updated ws)"
    and key: "cir_key b = cir_key (St_Object st s)" and up: "St_Update st b s = Some s'"
    and y: "y = (s', insert (St_Object st s') seen)" by cases auto
  from evicted_was_listed [OF run ws] obtain pool :: CIPool and w2 le items w3 x where
    x: "List_CIResources cl (Namespace (P_Meta pool)) w2 = ((le, items), w3)" "x \<in> set items"
      "evictable x" "b = select_for_eviction x" unfolding evictable_def by blast
  note new = optimistic_Update [OF assms(2) up]
  from x(4) key new(1) have "cir_key x = cir_key (St_Object st s)" "cir_version x = cir_version (St_Object st s)"
    by (simp_all add: cir_key_def select_for_eviction_def)
  with x(1,2) sees have "x = St_Object st s"
    unfolding operator_sees_def by (intro store_ok_current [OF assms(3)]) blast+
  with x(3,4) new(3,4) y show "evictable (St_Object st s)"
    "C_Spec (St_Object st (fst y)) = C_Spec (St_Object st s)"
    "C_Status (St_Object st (fst y)) = C_Status (St_Object st s)" by (auto simp: select_for_eviction_def)
qed

section \<open>A leased resource\<close>

text \<open>From the acquisition to the cleaning: asked for and not yet in use, in use, being cleaned or
  deleted. Only a fallback resource, leased while it stands for nothing, is provisioned meanwhile;
  any other keeps the identifier it was leased under.\<close>

definition under_lease :: "string \<Rightarrow> CIResource \<Rightarrow> bool" where
  "under_lease i c \<longleftrightarrow>
     (status_state c \<in> {StateInUse, StateCleaning, StateDelete} \<or>
      status_state c \<in> {StateAvailable, StateProvisioning, StateProvisioningWait} \<and> spec_state c = StateInUse) \<and>
     (i = fallbackResourceID \<or>
      CStatus_ResourceId (C_Status c) = i \<and> status_state c \<notin> {StateProvisioning, StateProvisioningWait})"

lemma under_lease_cong:
  "under_lease i c \<Longrightarrow> C_Status c' = C_Status c \<Longrightarrow>
     spec_state c' = spec_state c \<or> status_state c \<in> {StateInUse, StateCleaning, StateDelete} \<Longrightarrow> under_lease i c'"
  by (auto simp: under_lease_def)

lemma under_lease_not_eligible: "under_lease i c \<Longrightarrow> \<not> eligible c"
  by (auto simp: under_lease_def eligible_def)

text \<open>What the provider is asked before a resource can be leased again: to clean it; for the resource
  of a fallback pool, to take it back, unless there is none.\<close>

definition recycled :: "'w Provider \<Rightarrow> CIPool \<Rightarrow> string \<Rightarrow> 'w \<Rightarrow> bool" where
  "recycled p pool i w \<longleftrightarrow>
     (if IsFallbackPool pool
      then i = fallbackResourceID \<or>
        (\<exists>err w'. Release p i w = Some (err, w') \<and> (\<forall>x \<in> set_option err. errors_As_ResourceNotFound x))
      else \<exists>w'. Clean p i w = Some (None, w'))"

lemma handler_under_lease:
  fixes w :: 'w
  assumes "states (NewCIResourceFSM :: 'w CIResourceFSM) (status_state cir) = Some st"
    and "run_handler lib now (onEntry st) (fsm_ctx cir pool p) (fresh_fsm (status_state cir)) w =
      Some (((d, None), ctx', f'), w')"
    and "under_lease i cir"
  shows "under_lease i (Ctx_CIResource ctx') \<or>
    status_state cir = StateCleaning \<and> recycled p pool (CStatus_ResourceId (C_Status cir)) w"
  using assms(1)
proof (rule fsm_known_cases)
  assume s: "status_state cir = StateCleaning" "onEntry st = HandleStateCleaning"
  with assms(2,3) show ?thesis
    by (auto simp: handleStateCleaning_def recycled_def under_lease_def Let_def split: handler_splits)
next
  assume s: "status_state cir = StateInUse" "onEntry st = HandleStateInUse"
  with assms(2,3) show ?thesis
    by (auto simp: handleStateInUse_def UpdateResourceOnly_def under_lease_def Let_def split: handler_splits)
next
  assume s: "status_state cir = StateProvisioning" "onEntry st = HandleStateProvisioning"
  with assms(2,3) show ?thesis
    by (auto simp: handleStateProvisioning_def under_lease_def Let_def split: handler_splits)
next
  assume s: "status_state cir = StateProvisioningWait" "onEntry st = HandleStateProvisioningWait"
  with assms(2,3) show ?thesis
    by (auto simp: handleStateProvisioningWait_def under_lease_def Let_def split: handler_splits)
next
  assume s: "status_state cir = StateAvailable" "onEntry st = HandleStateAvailable"
  with assms(2,3) show ?thesis
    by (auto simp: handleStateAvailable_def under_lease_def Let_def split: handler_splits)
next
  assume s: "status_state cir = StateDelete" "onEntry st = HandleStateDelete"
  with assms(2,3) show ?thesis
    by (auto simp: handleStateDelete_def UpdateResourceOnly_def under_lease_def Let_def split: handler_splits)
qed (use assms(3) in \<open>simp_all add: under_lease_def\<close>)

text \<open>A request of the reconciler that has the provider of the resource's pool recycle it.\<close>

definition recycles :: "'w request_run \<Rightarrow> string \<Rightarrow> bool" where
  "recycles run i \<longleftrightarrow>
     (\<exists>cir w1 pool sec w2 p w3.
        Get_CIResource (Run_Client run) (Run_Request run) (Run_World run) = (Inr cir, w1) \<and>
        getPool (Run_Client run) cir w1 = (Inr (pool, sec), w2) \<and>
        NewProvider (Run_Factories run) pool sec w2 = Some (Inr p, w3) \<and>
        status_state cir = StateCleaning \<and> (i = fallbackResourceID \<or> CStatus_ResourceId (C_Status cir) = i) \<and>
        recycled p pool (CStatus_ResourceId (C_Status cir)) w3)"

lemma recycled_beside: "recycled (provider_beside p) pool i x \<longleftrightarrow> recycled p pool i (snd x)"
  by (cases x) (auto simp: recycled_def snd_call_Some)

lemma run_under_lease:
  assumes "x \<in> set (run_writes lib run)"
  obtains cir cir' w1 where "Get_CIResource (Run_Client run) (Run_Request run) (Run_World run) = (Inr cir, w1)"
    "x = W_Update_CIResource cir' \<and> C_Status cir' = C_Status cir \<or>
     x = W_StatusUpdate_CIResource (set_LastUpdated (Run_Stamp run) cir') \<and> C_Spec cir' = C_Spec cir"
    "cir_version cir' = cir_version cir" "cir_key cir' = cir_key cir"
    "under_lease i cir \<Longrightarrow> under_lease i cir' \<or> x \<noteq> W_Update_CIResource cir' \<and> recycles run i"
proof -
  let ?fac = "factories_beside (Run_Factories run)" and ?cl = "Run_Client run"
  from assms obtain r ws w' where run: "CIResource_Reconcile lib ?fac (logged ?cl) (Run_Now run) (Run_Stamp run)
      (Run_Request run) ([], Run_World run) = Some (r, ws, w')" and x: "x \<in> set ws"
    by (cases "CIResource_Reconcile lib ?fac (logged ?cl) (Run_Now run) (Run_Stamp run)
      (Run_Request run) ([], Run_World run)") (auto simp: run_writes_def)
  from x have "ws \<noteq> []" by auto
  from run this show ?thesis
  proof (rule Reconcile_write)
    fix cir w1 pool sec w2 rd sd d cir' f' u
    assume g: "Get_CIResource ?cl (Run_Request run) (Run_World run) = (Inr cir, w1)"
      and pool: "getPool ?cl cir w1 = (Inr (pool, sec), w2)"
      and proc: "Process lib ?fac (Run_Now run) cir pool sec NewCIResourceFSM ([], w2) =
        Some (((rd, sd, d, None), cir', f'), u)"
      and wr: "rd \<and> \<not> sd \<and> ws = [W_Update_CIResource cir'] \<or>
        sd \<and> \<not> rd \<and> ws = [W_StatusUpdate_CIResource (set_LastUpdated (Run_Stamp run) cir')]"
    note same = process_writes_lemma [OF proc]
    have keep: "under_lease i cir' \<or> x \<noteq> W_Update_CIResource cir' \<and> recycles run i" if "under_lease i cir"
      using proc
    proof (cases rule: Process_cases)
      case failed
      with wr show ?thesis by simp
    next
      case (ran p v st ctx')
      from ran(1) obtain q v' where q: "NewProvider (Run_Factories run) pool sec w2 = Some (Inr q, v')"
        "p = provider_beside q" "snd v = v'" by (auto simp: NewProvider_snd elim!: map_sum_Inr)
      from handler_under_lease [OF ran(2,3) that, folded ran(6)] show ?thesis
      proof
        assume rec: "status_state cir = StateCleaning \<and> recycled p pool (CStatus_ResourceId (C_Status cir)) v"
        then have "recycled q pool (CStatus_ResourceId (C_Status cir)) v'"
          using q(2,3) by (simp add: recycled_beside)
        moreover have "i = fallbackResourceID \<or> CStatus_ResourceId (C_Status cir) = i"
          using that by (auto simp: under_lease_def)
        ultimately have "recycles run i" using g pool q(1) rec unfolding recycles_def by blast
        moreover have "under_lease i cir'" if "rd"
          using under_lease_cong [OF \<open>under_lease i cir\<close>, of cir'] same(6) [OF that] rec by simp
        ultimately show ?thesis using wr x by auto
      qed simp
    qed
    show ?thesis
    proof (rule that [OF g _ _ _ keep])
      show "x = W_Update_CIResource cir' \<and> C_Status cir' = C_Status cir \<or>
          x = W_StatusUpdate_CIResource (set_LastUpdated (Run_Stamp run) cir') \<and> C_Spec cir' = C_Spec cir"
        using wr x same(5,6) by auto
      show "cir_version cir' = cir_version cir" "cir_key cir' = cir_key cir"
        unfolding cir_key_def by (subst same(7); simp)+
    qed
  qed
qed

section \<open>The lease lasts until the resource is recycled\<close>

lemma under_lease_set_LastUpdated:
  "under_lease i c \<Longrightarrow> C_Status c' = C_Status (set_LastUpdated t c) \<Longrightarrow> C_Spec c' = C_Spec c \<Longrightarrow> under_lease i c'"
  by (simp add: under_lease_def)

lemma read_current:
  assumes "x \<in> set (run_writes lib run)" and "operator_sees (cir_key (St_Object st s)) seen (Run_Client run)"
    and "store_ok st (s, seen)" and "x = W_Update_CIResource b \<or> x = W_StatusUpdate_CIResource b"
    and "cir_key b = cir_key (St_Object st s)" and "cir_version b = cir_version (St_Object st s)"
    and "under_lease i (St_Object st s)"
  obtains cir' where "x = W_Update_CIResource b \<and> b = cir' \<and> C_Status cir' = C_Status (St_Object st s) \<or>
      x = W_StatusUpdate_CIResource b \<and> b = set_LastUpdated (Run_Stamp run) cir' \<and> C_Spec cir' = C_Spec (St_Object st s)"
    "under_lease i cir' \<or> x \<noteq> W_Update_CIResource cir' \<and> recycles run i"
  using assms(1)
proof (rule run_under_lease)
  fix cir cir' w1
  assume g: "Get_CIResource (Run_Client run) (Run_Request run) (Run_World run) = (Inr cir, w1)"
    and x: "x = W_Update_CIResource cir' \<and> C_Status cir' = C_Status cir \<or>
      x = W_StatusUpdate_CIResource (set_LastUpdated (Run_Stamp run) cir') \<and> C_Spec cir' = C_Spec cir"
    and id: "cir_version cir' = cir_version cir" "cir_key cir' = cir_key cir"
    and keep: "under_lease i cir \<Longrightarrow> under_lease i cir' \<or> x \<noteq> W_Update_CIResource cir' \<and> recycles run i"
  have b: "C_Meta b = C_Meta cir'" using x assms(4) by auto
  then have k: "cir_key cir = cir_key (St_Object st s)" and v: "cir_version cir = cir_version (St_Object st s)"
    using id assms(5,6) by (simp_all add: cir_key_def)
  from g k assms(2) have "cir \<in> seen" unfolding operator_sees_def by blast
  then have "cir = St_Object st s" by (rule store_ok_current [OF assms(3) _ v])
  with x keep assms(4,7) show ?thesis by (intro that [of cir']) auto
qed

lemma cluster_step_under_lease:
  assumes "cluster_step st lib (s, seen) e y" and "optimistic st" and "store_ok st (s, seen)"
    and "under_lease i (St_Object st s)"
  shows "(\<forall>b. e \<noteq> Ev_Lease b) \<and>
     (under_lease i (St_Object st (fst y)) \<or> (\<exists>run b. e = Ev_Status run b \<and> recycles run i))"
proof (cases e)
  case (Ev_Lease b)
  from lease_of_current(1) [OF assms(1) [unfolded Ev_Lease] assms(2,3)] under_lease_not_eligible [OF assms(4)]
  show ?thesis by simp
next
  case (Ev_Return b)
  note old = return_of_current [OF assms(1) [unfolded Ev_Return] assms(2,3)]
  have "under_lease i (St_Object st (fst y))" by (rule under_lease_cong [OF assms(4) old(2)]) (simp add: old(1))
  with Ev_Return show ?thesis by simp
next
  case (Ev_Update run b)
  with assms(1) obtain s' where up: "operator_sees (cir_key (St_Object st s)) seen (Run_Client run)"
    "W_Update_CIResource b \<in> set (run_writes lib run)" "cir_key b = cir_key (St_Object st s)"
    "St_Update st b s = Some s'" "y = (s', insert (St_Object st s') seen)" by cases auto
  note new = optimistic_Update [OF assms(2) up(4)]
  obtain c where c: "b = c" "C_Status c = C_Status (St_Object st s)" "under_lease i c"
    by (rule read_current [OF up(2,1) assms(3) _ up(3) new(1) assms(4)]) auto
  with new(3,4) up(5) have "under_lease i (St_Object st (fst y))" by (simp add: under_lease_cong [OF c(3)])
  with Ev_Update show ?thesis by simp
next
  case (Ev_Status run b)
  with assms(1) obtain s' where up: "operator_sees (cir_key (St_Object st s)) seen (Run_Client run)"
    "W_StatusUpdate_CIResource b \<in> set (run_writes lib run)" "cir_key b = cir_key (St_Object st s)"
    "St_UpdateStatus st b s = Some s'" "y = (s', insert (St_Object st s') seen)" by cases auto
  note new = optimistic_UpdateStatus [OF assms(2) up(4)]
  obtain c where c: "b = set_LastUpdated (Run_Stamp run) c" "C_Spec c = C_Spec (St_Object st s)"
    "under_lease i c \<or> recycles run i"
    by (rule read_current [OF up(2,1) assms(3) _ up(3) new(1) assms(4)]) auto
  with new(3,4) up(5) Ev_Status show ?thesis by (auto intro: under_lease_set_LastUpdated)
next
  case (Ev_Evict b)
  note old = evict_of_current [OF assms(1) [unfolded Ev_Evict] assms(2,3)]
  have "under_lease i (St_Object st (fst y))" by (rule under_lease_cong [OF assms(4) old(3)]) (simp add: old(2))
  with Ev_Evict show ?thesis by simp
next
  case (Ev_Edit b)
  with assms(1) have "others_edit (St_Object st s) (St_Object st (fst y))" by cases auto
  with Ev_Edit assms(4) show ?thesis by (auto simp: others_edit_def under_lease_def)
qed

lemma trace_under_lease:
  assumes "cluster_trace st lib x es y" and "optimistic st" and "store_ok st x"
    and "under_lease i (St_Object st (fst x))" and "es = fs @ Ev_Lease b # gs"
  shows "\<exists>run c. Ev_Status run c \<in> set fs \<and> recycles run i"
  using assms
proof (induction arbitrary: fs rule: cluster_trace.induct)
  case (cons x e y es z)
  note step = cluster_step_under_lease [of st lib "fst x" "snd x" e y i, simplified, OF cons.hyps(1) cons.prems(1-3)]
  show ?case
  proof (cases fs)
    case Nil
    with step cons.prems(4) show ?thesis by simp
  next
    case (Cons f fs')
    with cons.prems(4) have f: "f = e" "es = fs' @ Ev_Lease b # gs" by simp_all
    from step show ?thesis
    proof (elim conjE disjE)
      assume "under_lease i (St_Object st (fst y))"
      from cons.IH [OF cons.prems(1) cluster_step_ok [OF cons.hyps(1) cons.prems(1,2)] this f(2)] Cons
      show ?thesis by auto
    qed (use f Cons in auto)
  qed
qed simp

lemma lease_begins:
  assumes "cluster_step st lib (s, seen) (Ev_Lease a) y" and "optimistic st" and "store_ok st (s, seen)"
  shows "under_lease (CStatus_ResourceId (C_Status a)) (St_Object st (fst y))"
  using lease_of_current [OF assms] by (simp add: under_lease_def eligible_def)

lemma between_leases:
  fixes ys :: "'w cluster_event list"
  assumes "cluster_trace st lib (s, {St_Object st s}) (xs @ Ev_Lease a # ys @ Ev_Lease b # zs) x" and "optimistic st"
  shows "\<exists>run c. Ev_Status run c \<in> set ys \<and> recycles run (CStatus_ResourceId (C_Status a))"
proof -
  from assms(1) obtain x1 where before: "cluster_trace st lib (s, {St_Object st s}) xs x1"
    and rest: "cluster_trace st lib x1 (Ev_Lease a # ys @ Ev_Lease b # zs) x"
    unfolding cluster_trace_append by (elim exE conjE)
  from rest obtain x2 where lease: "cluster_step st lib (fst x1, snd x1) (Ev_Lease a :: 'w cluster_event) x2"
    and after: "cluster_trace st lib x2 (ys @ Ev_Lease b # zs) x" by (cases x1) auto
  have "store_ok st (s, {St_Object st s})" using assms(2) by (simp add: store_ok_def optimistic_def)
  with before assms(2) have ok: "store_ok st (fst x1, snd x1)" by (simp add: cluster_trace_ok)
  show ?thesis
    by (rule trace_under_lease [OF after assms(2) cluster_step_ok [OF lease assms(2) ok]
        lease_begins [OF lease assms(2) ok] refl])
qed

text \<open>C2 (safety). Whatever the server and the two reconcilers read of a stored resource, in whatever
  order their requests run and their writes arrive, and whatever others do to it that does not
  withdraw a request for use: after an acquisition of the resource was accepted, no other one is
  before a request of the reconciler had the provider clean it successfully or, for a fallback pool,
  take back what was provisioned, under the identifier it was leased with (unless it was leased while
  standing for nothing, and provisioned after). In particular two concurrent acquisitions never get
  the same resource.\<close>

theorem leased_again_only_after_cleaning:
  assumes "optimistic st"
    and "cluster_trace st lib (s, {St_Object st s}) (xs @ Ev_Lease a # ys @ Ev_Lease b # zs) x"
  shows "\<exists>run c. Ev_Status run c \<in> set ys \<and> recycles run (CStatus_ResourceId (C_Status a))"
  by (rule between_leases [OF assms(2,1)])

end
