(* ===== verification/Lease_Samples.thy ===== *)
theory Lease_Samples
  imports Lease_Cycle
begin

text \<open>
  A store that counts its versions, and one resource of it through a whole cycle of the two programs:
  leased, taken over, given back, cleaned and leased again.
\<close>

section \<open>The store\<close>

definition stamp :: "nat \<Rightarrow> CIResource \<Rightarrow> CIResource" where
  "stamp n c = c\<lparr>C_Meta := (C_Meta c)\<lparr>ResourceVersion := replicate n CHR ''1''\<rparr>\<rparr>"

lemma stamp_sel [simp]:
  "cir_version (stamp n c) = replicate n CHR ''1''" "C_Spec (stamp n c) = C_Spec c" "C_Status (stamp n c) = C_Status c"
  "cir_key (stamp n c) = cir_key c"
  by (simp_all add: stamp_def cir_key_def)

definition counting :: "(CIResource \<times> nat) Store" where
  "counting =
     \<lparr>St_Object = \<lambda>(c, n). stamp n c, St_Versions = \<lambda>(c, n). (\<lambda>k. replicate k CHR ''1'') ` {..n},
      St_Update = \<lambda>b (c, n). if cir_version b = replicate n CHR ''1'' \<and> cir_key b = cir_key c
        then Some (b\<lparr>C_Status := C_Status c\<rparr>, Suc n) else None,
      St_UpdateStatus = \<lambda>b (c, n). if cir_version b = replicate n CHR ''1''
        then Some (c\<lparr>C_Status := C_Status b\<rparr>, Suc n) else None\<rparr>"

lemma counting_sel [simp]:
  "St_Object counting (c, n) = stamp n c" "St_Versions counting (c, n) = (\<lambda>k. replicate k CHR ''1'') ` {..n}"
  "St_Update counting b (c, n) = (if cir_version b = replicate n CHR ''1'' \<and> cir_key b = cir_key c
     then Some (b\<lparr>C_Status := C_Status c\<rparr>, Suc n) else None)"
  "St_UpdateStatus counting b (c, n) = (if cir_version b = replicate n CHR ''1''
     then Some (c\<lparr>C_Status := C_Status b\<rparr>, Suc n) else None)"
  by (simp_all add: counting_def)

lemma counting_versioned: "cir_key c' = cir_key c \<Longrightarrow> versioned counting (c, n) (c', Suc n)"
  by (auto simp: versioned_def image_iff atMost_Suc dest!: arg_cong [where f = length])

lemma counting_optimistic: "optimistic counting"
  unfolding optimistic_def
  by (auto simp: counting_versioned cir_key_def split: if_split_asm)

definition demo_at :: "CIResourceState \<Rightarrow> CIResourceState \<Rightarrow> (CIResource \<times> nat) \<times> CIResource set \<Rightarrow> bool" where
  "demo_at sp st x \<longleftrightarrow> store_ok counting x \<and>
     (case fst x of (c, n) \<Rightarrow> cir_key c = (''ofcir'', ''cir-0001'') \<and> cir_pool c = ''pool'' \<and>
        IsZero (DeletionTimestamp (C_Meta c)) \<and> EvictionLabel \<notin> dom (evict_labels c) \<and> CStatus_ResourceId (C_Status c) = ''dummy-1'' \<and>
        spec_state c = sp \<and> status_state c = st)"

lemma demo_server_sees: "c \<in> seen \<Longrightarrow> server_sees k seen (OfcirV1Client (recording (fixed_rest pool c)))"
  by (auto simp: server_sees_def)

lemma demo_acquire_run:
  assumes "eligible c" and "cir_pool c = ''pool''"
  shows "\<exists>r w'. acquireCmd_Run calm (OfcirV1Client (recording (fixed_rest (a_pool StatePoolAvailable 0 1 None) c)))
      ''ofcir'' [TypeCIHost] token_context ([], w) = (r, w') \<and>
      puts_of w' = [(Namespace (C_Meta c), set_spec_state StateInUse c, True)]"
proof -
  let ?cs = "OfcirV1Client (recording (fixed_rest (a_pool StatePoolAvailable 0 1 None) c))"
  obtain r w' where "acquireCmd_Run calm ?cs ''ofcir'' [TypeCIHost] token_context ([], w) = (r, w')"
    by (metis prod.exhaust)
  with assms show ?thesis
    by (auto simp: acquireCmd_Run_def rand_Shuffle_def eligible_def puts_of_def put_of_def List.map_filter_def Let_def)
qed

lemma demo_release_run:
  assumes "status_state c = StateInUse" and "cir_pool c = ''pool''"
  shows "\<exists>r w'. releaseCmd_Run calm (OfcirV1Client (recording (fixed_rest (a_pool StatePoolAvailable 0 1 None) c)))
      ''ofcir'' n token_context ([], w) = (r, w') \<and>
      puts_of w' = [(Namespace (C_Meta c), set_spec_state StateAvailable c, True)]"
  using assms by (auto simp: releaseCmd_Run_def puts_of_def put_of_def List.map_filter_def Let_def)

text \<open>A request of the reconciler on the resource, over the in-memory provider.\<close>

definition demo_run :: "CIResource \<Rightarrow> dummy_world request_run" where
  "demo_run c = \<lparr>Run_Factories = demo_fac, Run_Client = fixed_client demo_pool [c], Run_Now = 20, Run_Stamp = 21,
     Run_Request = (''ofcir'', ''cir-0001''), Run_World = world0\<rparr>"

lemma demo_operator_sees: "c \<in> seen \<Longrightarrow> operator_sees k seen (Run_Client (demo_run c))"
  by (auto simp: operator_sees_def demo_run_def split: if_split_asm)

lemma demo_run_writes:
  assumes "cir_name c = ''cir-0001''" and "s \<in> set fsm_known"
    and "\<And>st :: dummy_world logged fsmState. states NewCIResourceFSM s = Some st \<Longrightarrow> onEntry st = h"
    and "status_state c = s"
    and "run_handler list_finalizers 20 h (fsm_ctx c demo_pool (provider_beside (dummyProvider name_order)))
      (fresh_fsm s) ([], world0) = Some (((d, None), ctx', f'), ([], world0))"
    and "statusDirty f'" and "\<not> resourceDirty f'"
  shows "run_writes list_finalizers (demo_run c) = [W_StatusUpdate_CIResource (set_LastUpdated 21 (Ctx_CIResource ctx'))]"
proof -
  have pool: "getPool (logged (fixed_client demo_pool [c])) c ([], world0) = (Inr (demo_pool, Map.empty), [], world0)"
    by (simp add: getPool_def)
  note run = Process_state [OF demo_NewProvider_snd assms(2-5), of Map.empty]
  show ?thesis
    by (simp add: run_writes_def demo_run_def)
      (subst Reconcile_found [OF _ pool run]; simp add: assms updateStatus_def)
qed

definition demo_moves :: "CIResourceState \<Rightarrow> CIResourceState \<Rightarrow> CIResourceState \<Rightarrow> bool" where
  "demo_moves sp st st' \<longleftrightarrow>
     (\<forall>c. cir_name c = ''cir-0001'' \<longrightarrow> IsZero (DeletionTimestamp (C_Meta c)) \<longrightarrow>
        CStatus_ResourceId (C_Status c) = ''dummy-1'' \<longrightarrow> spec_state c = sp \<longrightarrow> status_state c = st \<longrightarrow>
        run_writes list_finalizers (demo_run c) =
          [W_StatusUpdate_CIResource (set_LastUpdated 21 (set_status_state st' c))])"

lemma demo_movesI:
  assumes "s \<in> set fsm_known"
    and "\<And>st :: dummy_world logged fsmState. states NewCIResourceFSM s = Some st \<Longrightarrow> onEntry st = h"
    and "\<And>c. IsZero (DeletionTimestamp (C_Meta c)) \<Longrightarrow> CStatus_ResourceId (C_Status c) = ''dummy-1'' \<Longrightarrow>
      spec_state c = sp \<Longrightarrow> status_state c = s \<Longrightarrow>
      \<exists>d f'. run_handler list_finalizers 20 h (fsm_ctx c demo_pool (provider_beside (dummyProvider name_order)))
          (fresh_fsm s) ([], world0) =
        Some (((d, None), modify_cir (set_status_state st') (fsm_ctx c demo_pool (provider_beside (dummyProvider name_order))), f'),
          ([], world0)) \<and> statusDirty f' \<and> \<not> resourceDirty f'"
  shows "demo_moves sp s st'"
  unfolding demo_moves_def
proof (intro allI impI)
  fix c assume c: "cir_name c = ''cir-0001''" "IsZero (DeletionTimestamp (C_Meta c))"
    "CStatus_ResourceId (C_Status c) = ''dummy-1''" "spec_state c = sp" "status_state c = s"
  from assms(3) [OF c(2-5)] obtain d f' where
    "run_handler list_finalizers 20 h (fsm_ctx c demo_pool (provider_beside (dummyProvider name_order)))
        (fresh_fsm s) ([], world0) =
      Some (((d, None), modify_cir (set_status_state st') (fsm_ctx c demo_pool (provider_beside (dummyProvider name_order))), f'),
        ([], world0))" "statusDirty f'" "\<not> resourceDirty f'" by blast
  from demo_run_writes [OF c(1) assms(1,2) c(5) this] show
    "run_writes list_finalizers (demo_run c) = [W_StatusUpdate_CIResource (set_LastUpdated 21 (set_status_state st' c))]"
    by (simp add: modify_cir_def)
qed

lemma demo_moves_cycle:
  "demo_moves StateInUse StateAvailable StateInUse" "demo_moves StateAvailable StateInUse StateCleaning"
  "demo_moves StateAvailable StateCleaning StateCleaningWait" "demo_moves StateAvailable StateCleaningWait StateAvailable"
  by (rule demo_movesI [OF _ fsm_onEntry(4)] demo_movesI [OF _ fsm_onEntry(6)]
      demo_movesI [OF _ fsm_onEntry(7)] demo_movesI [OF _ fsm_onEntry(8)];
    simp add: handleStateAvailable_def handleStateInUse_def handleStateCleaning_def handleStateCleaningWait_def
      snd_call_def dummy_Clean_def dummy_CleanCompleted_def Let_def; fail)+

lemma demo_step_lease:
  assumes "demo_at StateAvailable StateAvailable x"
  shows "\<exists>a y. cluster_step counting list_finalizers x (Ev_Lease a :: dummy_world cluster_event) y \<and>
     demo_at StateInUse StateAvailable y"
proof -
  obtain c n seen where x: "x = ((c, n), seen)" by (metis prod.exhaust)
  let ?b = "set_spec_state StateInUse (stamp n c)"
  from assms x have el: "eligible (stamp n c)" "cir_pool (stamp n c) = ''pool''" and seen: "stamp n c \<in> seen"
    by (auto simp: demo_at_def eligible_def store_ok_def)
  from demo_acquire_run [OF el, of world0] obtain r w' where run:
    "acquireCmd_Run calm (OfcirV1Client (recording (fixed_rest (a_pool StatePoolAvailable 0 1 None) (stamp n c))))
      ''ofcir'' [TypeCIHost] token_context ([], world0) = (r, w')"
    "puts_of w' = [(Namespace (C_Meta (stamp n c)), ?b, True)]" by auto
  have up: "St_Update counting ?b (c, n) = Some (?b\<lparr>C_Status := C_Status c\<rparr>, Suc n)"
    by (simp add: cir_key_def stamp_def)
  have "cluster_step counting list_finalizers ((c, n), seen) (Ev_Lease ?b :: dummy_world cluster_event)
      ((?b\<lparr>C_Status := C_Status c\<rparr>, Suc n), insert (St_Object counting (?b\<lparr>C_Status := C_Status c\<rparr>, Suc n)) seen)"
    by (rule cluster_step.lease [OF run(1) _ _ _ _ up, where new = "puts_of w'"])
      (use run(2) seen in \<open>simp_all add: demo_server_sees puts_of_def List.map_filter_def cir_key_def\<close>)
  moreover from cluster_step_ok [OF this counting_optimistic] assms x
  have "demo_at StateInUse StateAvailable
      ((?b\<lparr>C_Status := C_Status c\<rparr>, Suc n), insert (St_Object counting (?b\<lparr>C_Status := C_Status c\<rparr>, Suc n)) seen)"
    by (simp add: demo_at_def cir_key_def stamp_def evict_labels_def)
  ultimately show ?thesis using x by blast
qed

lemma demo_step_return:
  assumes "demo_at StateInUse StateInUse x"
  shows "\<exists>a y. cluster_step counting list_finalizers x (Ev_Return a :: dummy_world cluster_event) y \<and>
     demo_at StateAvailable StateInUse y"
proof -
  obtain c n seen where x: "x = ((c, n), seen)" by (metis prod.exhaust)
  let ?b = "set_spec_state StateAvailable (stamp n c)"
  from assms x have el: "status_state (stamp n c) = StateInUse" "cir_pool (stamp n c) = ''pool''" and seen: "stamp n c \<in> seen"
    by (auto simp: demo_at_def store_ok_def)
  from demo_release_run [OF el, of "''cir-0001''" world0] obtain r w' where run:
    "releaseCmd_Run calm (OfcirV1Client (recording (fixed_rest (a_pool StatePoolAvailable 0 1 None) (stamp n c))))
      ''ofcir'' ''cir-0001'' token_context ([], world0) = (r, w')"
    "puts_of w' = [(Namespace (C_Meta (stamp n c)), ?b, True)]" by auto
  have up: "St_Update counting ?b (c, n) = Some (?b\<lparr>C_Status := C_Status c\<rparr>, Suc n)"
    by (simp add: cir_key_def stamp_def)
  have "cluster_step counting list_finalizers ((c, n), seen) (Ev_Return ?b :: dummy_world cluster_event)
      ((?b\<lparr>C_Status := C_Status c\<rparr>, Suc n), insert (St_Object counting (?b\<lparr>C_Status := C_Status c\<rparr>, Suc n)) seen)"
    by (rule cluster_step.return [OF run(1) _ _ _ _ up, where new = "puts_of w'"])
      (use run(2) seen in \<open>simp_all add: demo_server_sees puts_of_def List.map_filter_def cir_key_def\<close>)
  moreover from cluster_step_ok [OF this counting_optimistic] assms x
  have "demo_at StateAvailable StateInUse
      ((?b\<lparr>C_Status := C_Status c\<rparr>, Suc n), insert (St_Object counting (?b\<lparr>C_Status := C_Status c\<rparr>, Suc n)) seen)"
    by (simp add: demo_at_def cir_key_def stamp_def evict_labels_def)
  ultimately show ?thesis using x by blast
qed

lemma demo_step_status:
  assumes "demo_at sp st x" and "demo_moves sp st st'"
  shows "\<exists>run a y. cluster_step counting list_finalizers x (Ev_Status run a :: dummy_world cluster_event) y \<and>
     demo_at sp st' y"
proof -
  obtain c n seen where x: "x = ((c, n), seen)" by (metis prod.exhaust)
  let ?b = "set_LastUpdated 21 (set_status_state st' (stamp n c))" and ?run = "demo_run (stamp n c)"
  from assms(1) x have seen: "stamp n c \<in> seen" by (simp add: demo_at_def store_ok_def)
  from assms x have writes: "run_writes list_finalizers ?run = [W_StatusUpdate_CIResource ?b]"
    unfolding demo_moves_def demo_at_def by (simp add: cir_key_def stamp_def)
  have up: "St_UpdateStatus counting ?b (c, n) = Some (c\<lparr>C_Status := C_Status ?b\<rparr>, Suc n)"
    by (simp add: stamp_def)
  have "cluster_step counting list_finalizers ((c, n), seen) (Ev_Status ?run ?b)
      ((c\<lparr>C_Status := C_Status ?b\<rparr>, Suc n), insert (St_Object counting (c\<lparr>C_Status := C_Status ?b\<rparr>, Suc n)) seen)"
    by (rule cluster_step.status [OF demo_operator_sees [OF seen] _ _ up])
      (simp_all add: writes cir_key_def)
  moreover from cluster_step_ok [OF this counting_optimistic] assms(1) x
  have "demo_at sp st' ((c\<lparr>C_Status := C_Status ?b\<rparr>, Suc n), insert (St_Object counting (c\<lparr>C_Status := C_Status ?b\<rparr>, Suc n)) seen)"
    by (simp add: demo_at_def cir_key_def evict_labels_def)
  ultimately show ?thesis using x by blast
qed

abbreviation demo_start :: "CIResource \<times> nat" where
  "demo_start \<equiv> (a_cir ''cir-0001'' StateAvailable StateAvailable, 1)"

lemma demo_at_start: "demo_at StateAvailable StateAvailable (demo_start, {St_Object counting demo_start})"
  by (simp add: demo_at_def store_ok_def cir_key_def IsZero_def)
    (rule conjI, rule image_eqI [of _ _ "Suc 0"], simp_all add: evict_labels_def a_cir_def)

text \<open>Leased, taken over, given back, cleaned in three requests, leased again.\<close>

lemma demo_cycle:
  "\<exists>a ys b x. cluster_trace counting list_finalizers (demo_start, {St_Object counting demo_start})
     (Ev_Lease a # ys @ Ev_Lease b # [] :: dummy_world cluster_event list) x"
proof -
  obtain a x1 where 1: "cluster_step counting list_finalizers (demo_start, {St_Object counting demo_start})
      (Ev_Lease a :: dummy_world cluster_event) x1" "demo_at StateInUse StateAvailable x1"
    using demo_step_lease [OF demo_at_start] by blast
  obtain r2 c2 x2 where 2: "cluster_step counting list_finalizers x1 (Ev_Status r2 c2 :: dummy_world cluster_event) x2"
    "demo_at StateInUse StateInUse x2" using demo_step_status [OF 1(2) demo_moves_cycle(1)] by blast
  obtain c3 x3 where 3: "cluster_step counting list_finalizers x2 (Ev_Return c3 :: dummy_world cluster_event) x3"
    "demo_at StateAvailable StateInUse x3" using demo_step_return [OF 2(2)] by blast
  obtain r4 c4 x4 where 4: "cluster_step counting list_finalizers x3 (Ev_Status r4 c4 :: dummy_world cluster_event) x4"
    "demo_at StateAvailable StateCleaning x4" using demo_step_status [OF 3(2) demo_moves_cycle(2)] by blast
  obtain r5 c5 x5 where 5: "cluster_step counting list_finalizers x4 (Ev_Status r5 c5 :: dummy_world cluster_event) x5"
    "demo_at StateAvailable StateCleaningWait x5" using demo_step_status [OF 4(2) demo_moves_cycle(3)] by blast
  obtain r6 c6 x6 where 6: "cluster_step counting list_finalizers x5 (Ev_Status r6 c6 :: dummy_world cluster_event) x6"
    "demo_at StateAvailable StateAvailable x6" using demo_step_status [OF 5(2) demo_moves_cycle(4)] by blast
  obtain b x7 where 7: "cluster_step counting list_finalizers x6 (Ev_Lease b :: dummy_world cluster_event) x7"
    using demo_step_lease [OF 6(2)] by blast
  have "cluster_trace counting list_finalizers (demo_start, {St_Object counting demo_start})
      (Ev_Lease a # [Ev_Status r2 c2, Ev_Return c3, Ev_Status r4 c4, Ev_Status r5 c5, Ev_Status r6 c6] @ Ev_Lease b # []) x7"
    unfolding append.simps
    by (intro cluster_trace.cons [OF 1(1)] cluster_trace.cons [OF 2(1)] cluster_trace.cons [OF 3(1)]
        cluster_trace.cons [OF 4(1)] cluster_trace.cons [OF 5(1)] cluster_trace.cons [OF 6(1)]
        cluster_trace.cons [OF 7] cluster_trace.nil)
  then show ?thesis by blast
qed

lemma leased_again_witness:
  "\<exists>a ys b x run c. cluster_trace counting list_finalizers (demo_start, {St_Object counting demo_start})
      (Ev_Lease a # ys @ [Ev_Lease b]) x \<and>
     Ev_Status run c \<in> set ys \<and> recycles (run :: dummy_world request_run) (CStatus_ResourceId (C_Status a))"
proof -
  from demo_cycle obtain a ys b x where run: "cluster_trace counting list_finalizers
      (demo_start, {St_Object counting demo_start}) (Ev_Lease a # ys @ [Ev_Lease b] :: dummy_world cluster_event list) x" by blast
  from leased_again_only_after_cleaning [OF counting_optimistic, of list_finalizers demo_start "[]" a ys b "[]" x] run
  have "\<exists>run c. Ev_Status run c \<in> set ys \<and> recycles run (CStatus_ResourceId (C_Status a))" by (simp only: append_Nil)
  with run show ?thesis by blast
qed

end
