(* ===== verification/Abstractions.thy ===== *)
theory Abstractions
  imports Fsm_Properties Pool_Controller
begin

text \<open>
  Components against their abstract specifications: the in-memory provider as an allocator of
  identifiers, the search for the highest number as a maximum of a set, the names of created
  resources as an encoding of their numbers, and the created resources as well-formed objects.
\<close>

section \<open>The in-memory provider as an allocator\<close>

text \<open>The calls of the interface and what their caller learns.\<close>

datatype provider_call = CallAcquire | CallAcquireCompleted string | CallClean string | CallCleanCompleted string
  | CallRelease string

datatype provider_reply = Granted string | Exhausted | Confirmed string | Unknown string

text \<open>The specification: a set of free identifiers out of a universe \<open>U\<close>.\<close>

inductive alloc_step :: "string set \<Rightarrow> string set \<Rightarrow> provider_call \<Rightarrow> provider_reply \<Rightarrow> string set \<Rightarrow> bool" for U where
  grant: "i \<in> F \<Longrightarrow> alloc_step U F CallAcquire (Granted i) (F - {i})"
| exhausted: "alloc_step U {} CallAcquire Exhausted {}"
| free_again: "i \<in> U \<Longrightarrow> alloc_step U F (CallRelease i) (Confirmed i) (insert i F)"
| confirm: "i \<in> U \<Longrightarrow> c \<in> {CallAcquireCompleted i, CallClean i, CallCleanCompleted i} \<Longrightarrow>
    alloc_step U F c (Confirmed i) F"
| unknown: "i \<notin> U \<Longrightarrow> c \<in> {CallAcquireCompleted i, CallClean i, CallCleanCompleted i, CallRelease i} \<Longrightarrow>
    alloc_step U F c (Unknown i) F"

inductive alloc_run :: "string set \<Rightarrow> string set \<Rightarrow> provider_call list \<Rightarrow> provider_reply list \<Rightarrow> string set \<Rightarrow> bool" for U where
  no_call: "alloc_run U F [] [] F"
| a_call: "alloc_step U F c r F' \<Longrightarrow> alloc_run U F' cs rs F'' \<Longrightarrow> alloc_run U F (c # cs) (r # rs) F''"

text \<open>The implementation, through its interface.\<close>

definition confirmed :: "string \<Rightarrow> error option \<Rightarrow> provider_reply" where
  "confirmed i e = (case e of None \<Rightarrow> Confirmed i | Some x \<Rightarrow> Unknown i)"

fun call_provider :: "'w Provider \<Rightarrow> provider_call \<Rightarrow> ('w, provider_reply) go" where
  "call_provider p CallAcquire w =
     do { ((r, e), w) \<leftarrow> Acquire p 0 [] [] w; Some (if e = None then Granted (Id r) else Exhausted, w) }"
| "call_provider p (CallAcquireCompleted i) w =
     do { ((ready, r, e), w) \<leftarrow> AcquireCompleted p i w; Some (confirmed i e, w) }"
| "call_provider p (CallClean i) w = do { (e, w) \<leftarrow> Clean p i w; Some (confirmed i e, w) }"
| "call_provider p (CallCleanCompleted i) w =
     do { ((cleaned, e), w) \<leftarrow> CleanCompleted p i w; Some (confirmed i e, w) }"
| "call_provider p (CallRelease i) w = do { (e, w) \<leftarrow> Release p i w; Some (confirmed i e, w) }"

fun run_provider :: "'w Provider \<Rightarrow> provider_call list \<Rightarrow> ('w, provider_reply list) go" where
  "run_provider p [] w = Some ([], w)"
| "run_provider p (c # cs) w =
     do { (r, w) \<leftarrow> call_provider p c w; (rs, w) \<leftarrow> run_provider p cs w; Some (r # rs, w) }"

abbreviation dummy_universe :: "string set" where "dummy_universe \<equiv> dummy_id ` {..<maxAvailableResources}"

lemma dummy_known: "dummy w = Some m \<Longrightarrow> dom m = dummy_universe \<Longrightarrow> m i = None \<longleftrightarrow> i \<notin> dummy_universe"
  by (metis domIff)

lemma dummy_call_refines:
  assumes "dummy_inv w" and "visits_once ord"
  shows "\<exists>r w'. call_provider (dummyProvider ord) c w = Some (r, w') \<and> dummy_inv w' \<and>
    alloc_step dummy_universe (dummy_free w) c r (dummy_free w')"
proof -
  from assms(1) obtain m where m: "dummy w = Some m" "dom m = dummy_universe" by (elim dummy_invE)
  note known = dummy_known [OF m]
  show ?thesis
  proof (cases c)
    case CallAcquire
    from dummy_Acquire_cases [OF assms, of 0 "[]" "[]"] CallAcquire show ?thesis
      by (auto intro: alloc_step.intros)
  next
    case (CallRelease i)
    from dummy_Release_cases [OF assms(1), of i] obtain r w' where rel: "dummy_Release i w = Some (r, w')" "dummy_inv w'"
      "if i \<in> dummy_universe then r = None \<and> dummy_free w' = insert i (dummy_free w)
       else r = Some (dummy_not_found i) \<and> w' = w" by blast
    then have "alloc_step dummy_universe (dummy_free w) c (confirmed i r) (dummy_free w')"
      using CallRelease alloc_step.free_again [of i dummy_universe] alloc_step.unknown [of i dummy_universe c]
      by (simp add: confirmed_def split: if_split_asm)
    with rel(1,2) CallRelease show ?thesis by simp
  next
    case (CallAcquireCompleted i)
    with m assms(1) known [of i] show ?thesis
      by (cases "m i") (auto simp: dummy_AcquireCompleted_def confirmed_def intro: alloc_step.confirm alloc_step.unknown)
  next
    case (CallClean i)
    with m assms(1) known [of i] show ?thesis
      by (cases "m i") (auto simp: dummy_Clean_def confirmed_def intro: alloc_step.confirm alloc_step.unknown)
  next
    case (CallCleanCompleted i)
    with m assms(1) known [of i] show ?thesis
      by (cases "m i") (auto simp: dummy_CleanCompleted_def confirmed_def intro: alloc_step.confirm alloc_step.unknown)
  qed
qed

text \<open>C12 (refinement). The in-memory provider refines an allocator of ten identifiers: every run of calls
  returns, and is a run of the allocator on the set of its available instances, which grants only
  free identifiers, refuses only when none is free, and tells known identifiers from unknown ones.\<close>

theorem dummy_refines_allocator:
  assumes "dummy_inv w" and "visits_once ord"
  shows "\<exists>rs w'. run_provider (dummyProvider ord) cs w = Some (rs, w') \<and> dummy_inv w' \<and>
     alloc_run (dummy_id ` {..<maxAvailableResources}) (dummy_free w) cs rs (dummy_free w')"
  using assms(1)
proof (induction cs arbitrary: w)
  case Nil
  then show ?case by (auto intro: alloc_run.no_call)
next
  case (Cons c cs)
  from dummy_call_refines [OF Cons.prems assms(2), of c] obtain r w1 where
    c: "call_provider (dummyProvider ord) c w = Some (r, w1)" "dummy_inv w1"
    "alloc_step dummy_universe (dummy_free w) c r (dummy_free w1)" by blast
  from Cons.IH [OF c(2)] obtain rs w2 where
    "run_provider (dummyProvider ord) cs w1 = Some (rs, w2)" "dummy_inv w2"
    "alloc_run dummy_universe (dummy_free w1) cs rs (dummy_free w2)" by blast
  with c show ?case by (auto intro: alloc_run.a_call)
qed

section \<open>The numbers of the resources\<close>

text \<open>The number a name ends with.\<close>

definition name_numeral :: "string \<Rightarrow> int option" where
  "name_numeral n =
     (if LastIndex n CHR ''-'' = -1 then None else Atoi (drop (nat (LastIndex n CHR ''-'' + 1)) n))"

definition numerals :: "CIResource list \<Rightarrow> int set" where
  "numerals cirs = {k. \<exists>c \<in> set cirs. name_numeral (cir_name c) = Some k}"

lemma numerals_finite [simp]: "finite (numerals cirs)"
proof -
  have "numerals cirs \<subseteq> (\<lambda>c. the (name_numeral (cir_name c))) ` set cirs" by (force simp: numerals_def)
  then show ?thesis by (rule finite_subset) simp
qed

lemma numerals_Cons:
  "numerals (c # cirs) = set_option (name_numeral (cir_name c)) \<union> numerals cirs"
  by (auto simp: numerals_def)

lemma highest_Max:
  "getHighestResourceNumeral cirs h = Max (insert h (numerals cirs))"
proof (induction cirs arbitrary: h)
  case Nil
  then show ?case by (simp add: numerals_def)
next
  case (Cons c cirs)
  show ?case
  proof (cases "name_numeral (cir_name c)")
    case None
    with Cons show ?thesis
      by (auto simp: numerals_Cons name_numeral_def Let_def split: if_split_asm)
  next
    case (Some k)
    then have step: "getHighestResourceNumeral (c # cirs) h = getHighestResourceNumeral cirs (max h k)"
      by (auto simp: name_numeral_def Let_def max_def split: if_split_asm)
    have "Max (insert (max h k) (numerals cirs)) = Max (insert h (insert k (numerals cirs)))"
      by (cases "numerals cirs = {}") (simp_all add: Max_insert ac_simps)
    with step Cons Some show ?thesis by (simp add: numerals_Cons)
  qed
qed

text \<open>C22 (equivalence). The loop that looks for the highest number computes the maximum of the numbers in
  the names, and its start value when there is none above: in particular the order in which the
  resources are listed does not matter.\<close>

theorem highest_is_maximum:
  "getHighestResourceNumeral cirs h = Max (insert h (numerals cirs))"
  by (rule highest_Max)

text \<open>The name of a created resource encodes its number: reading it back gives the
  number, so distinct numbers have distinct names and the next round of creation starts above it.\<close>

theorem created_name_reads_back:
  assumes "0 \<le> i" and "i \<le> max_int64"
  shows "name_numeral (cir_name (newCIResource pool i)) = Some i \<and>
     getHighestResourceNumeral [newCIResource pool i] 0 = i"
proof -
  from cirName_numeral [OF assms] have "name_numeral (cirName i) = Some i"
    by (simp add: name_numeral_def)
  with assms(1) show ?thesis by (simp add: highest_Max numerals_Cons) (simp add: numerals_def)
qed

section \<open>The objects a pool creates\<close>

text \<open>A DNS label (RFC 1123), the strictest form of a name Kubernetes asks for: at most 63 lower-case
  letters, digits and dashes, with neither end a dash.\<close>

definition label_char :: "char \<Rightarrow> bool" where
  "label_char c \<longleftrightarrow> is_digit c \<or> 97 \<le> (of_char c :: nat) \<and> (of_char c :: nat) \<le> 122"

definition dns_label :: "string \<Rightarrow> bool" where
  "dns_label s \<longleftrightarrow> s \<noteq> [] \<and> length s \<le> 63 \<and> (\<forall>c \<in> set s. label_char c \<or> c = CHR ''-'') \<and>
     label_char (hd s) \<and> label_char (last s)"

lemma length_digits: "n < 10 ^ Suc k \<Longrightarrow> length (digits n) \<le> Suc k"
proof (induction k arbitrary: n)
  case 0
  then show ?case by (subst digits.simps) simp
next
  case (Suc k)
  then have "n div 10 < 10 ^ Suc k" by (simp add: less_mult_imp_div_less)
  from Suc.IH [OF this] show ?case by (subst digits.simps) simp
qed

lemma length_digits_int64: "i \<le> 9223372036854775808 \<Longrightarrow> length (digits (nat i)) \<le> 19"
  using length_digits [of "nat i" 18] by simp

lemma cirName_label: "in_int64 i \<Longrightarrow> dns_label (cirName i)"
proof -
  assume "in_int64 i"
  then have "i \<le> 9223372036854775808" "- i \<le> 9223372036854775808" by (simp_all add: in_int64_def int64_bounds)
  from this [THEN length_digits_int64]
  have len: "length (digits (nat i)) \<le> 19" "length (digits (nat (- i))) \<le> 19" .
  have dig: "\<forall>c \<in> set (digits n). is_digit c" for n
    using digits_are_digits [of n] by (simp add: list_all_iff)
  have zero: "is_digit CHR ''0''" by (simp add: is_digit_def)
  have "is_digit (last (digits n))" for n using dig [of n] last_in_set [OF digits_nonempty [of n]] by blast
  with len dig zero show ?thesis
    by (auto simp: dns_label_def cirName_def Sprintf_04d_def label_char_def last_append split: if_split_asm)
qed

lemma cirName_inj_on: "cirName i = cirName j \<Longrightarrow> i = j"
proof -
  assume eq: "cirName i = cirName j"
  have sign: "hd (Sprintf_04d k) = CHR ''-'' \<longleftrightarrow> k < 0" for k
  proof (cases "k < 0")
    case False
    then have "list_all is_digit (Sprintf_04d k)" "Sprintf_04d k \<noteq> []"
      by (simp_all add: Sprintf_04d_digits) (simp add: Sprintf_04d_def)
    with digits_no_sign(1) hd_in_set False show ?thesis by metis
  qed (simp add: Sprintf_04d_def)
  have val: "dec_val (if k < 0 then tl (Sprintf_04d k) else Sprintf_04d k) = nat \<bar>k\<bar>" for k
    by (simp add: Sprintf_04d_def)
  from eq have "Sprintf_04d i = Sprintf_04d j" by (simp add: cirName_def)
  with sign [of i] sign [of j] val [of i] val [of j] show "i = j" by (auto split: if_split_asm)
qed

definition creatable :: "CIPool \<Rightarrow> CIResource \<Rightarrow> bool" where
  "creatable pool c \<longleftrightarrow> dns_label (cir_name c) \<and> Namespace (C_Meta c) = Namespace (P_Meta pool) \<and>
     cir_pool c = pool_name pool \<and> CSpec_Type (C_Spec c) = PSpec_Type (P_Spec pool) \<and>
     spec_state c = StateNone \<and> status_state c = StateNone \<and> CStatus_ResourceId (C_Status c) = '''' \<and>
     ResourceVersion (C_Meta c) = '''' \<and> DeletionTimestamp (C_Meta c) = None \<and>
     EvictionLabel \<notin> dom (evict_labels c)"

lemma newCIResource_creatable:
  assumes "in_int64 i" and "P_Spec pool' = P_Spec pool" and "pool_name pool' = pool_name pool"
    and "Namespace (P_Meta pool') = Namespace (P_Meta pool)"
  shows "creatable pool (newCIResource pool' i)"
  using assms cirName_label [OF assms(1)] by (simp add: creatable_def) (simp add: newCIResource_def evict_labels_def)

lemma manage_creates:
  assumes "manageCIResourcesFor (logged cl) now pool ([], w) = (r, ws, w')" and "status_keeps_spec cl"
  shows "distinct (map cir_name (created ws)) \<and> (\<forall>c \<in> set (created ws). creatable pool c)"
proof -
  obtain le items w1 where "List_CIResources cl (Namespace (P_Meta pool)) w = ((le, items), w1)"
    by (metis prod.exhaust)
  with assms(1) show ?thesis
  proof (cases rule: manage_cases)
    case (resized ws1 pool' w2)
    then have p: "P_Spec pool' = P_Spec pool" "pool_name pool' = pool_name pool"
        "Namespace (P_Meta pool') = Namespace (P_Meta pool)" "created ws1 = []"
      using assms(2) by (auto dest: status_keepsD)
    let ?base = "int64 (getHighestResourceNumeral (sort_key cir_name items) 0 + 1)"
    from resize_log [OF resized(2)] p(4) obtain k where
      cr: "created ws = map (newCIResource pool') [?base..int64 k - 1] \<or> created ws = []"
      by (auto simp: Let_def split: if_split_asm)
    have "in_int64 i" if "?base \<le> i" "i \<le> int64 k - 1" for i
      using that in_int64_int64 [of k] in_int64_int64 [of "getHighestResourceNumeral (sort_key cir_name items) 0 + 1"]
      by (simp add: in_int64_def)
    with cr newCIResource_creatable [OF _ p(1-3)] have "\<forall>c \<in> set (created ws). creatable pool c" by auto
    moreover have "distinct (map cirName [?base..int64 k - 1])"
      by (auto simp: distinct_map inj_on_def dest: cirName_inj_on)
    with cr have "distinct (map cir_name (created ws))" by (auto simp: comp_def)
    ultimately show ?thesis by simp
  qed auto
qed

text \<open>C23 (type). Whatever a request on a pool finds and wherever the 64 bits of a number wrap, every
  CIResource it creates is one the server can accept and the state machine can start from: a name
  that is a DNS label and that no other one created by the request has, in the namespace of the pool,
  of its type and referring to it, in the first state with no resource behind it, and with no version,
  deletion date or eviction label. (A status update is assumed to keep the name and specification of
  the pool.)\<close>

theorem created_resources_are_well_formed:
  assumes "CIPool_Reconcile lib (logged cl) now req ([], w) = (r, ws, w')" and "status_keeps_spec cl"
  shows "distinct (map cir_name (created ws)) \<and>
     (\<forall>c \<in> set (created ws). \<exists>pool w1. Get_CIPool cl req w = (Inr pool, w1) \<and> creatable pool c)"
  using assms(1)
proof (cases rule: Reconcile_cases)
  case (delete pool w1)
  obtain le items w3 where "List_CIResources cl (Namespace (P_Meta pool)) w1 = ((le, items), w3)"
    by (metis prod.exhaust)
  from delete_pool_log [OF delete(3) this] show ?thesis by simp
next
  case (manage pool w1 w2 r')
  from manage_creates [OF manage(5) assms(2)] manage(1) show ?thesis by blast
qed auto

section \<open>Instances\<close>

abbreviation demo_growing :: CIPool where "demo_growing \<equiv> a_pool StatePoolAvailable 0 3 None"

lemma growing_run:
  "map cir_name (created (fst (snd (CIPool_Reconcile list_finalizers
     (logged (fixed_client demo_growing [idle_cir])) 0 (''ofcir'', ''pool'') ([], ()))))) = [''cir-0002'', ''cir-0003'']"
  by (simp add: run_defs Atoi_def dec_val_def digit_val_def is_digit_def int64_def int64_bounds
      createCIResource_def cirName_def Sprintf_04d_def digits.simps digit_def
      create_loop.simps [of _ _ 4 2] create_loop.simps [of _ _ 4 3] create_loop.simps [of _ _ 4 4]) code_simp

lemma well_formed_witness:
  "\<exists>r ws w'. CIPool_Reconcile list_finalizers (logged (fixed_client demo_growing [idle_cir])) 0
      (''ofcir'', ''pool'') ([], ()) = (r, ws, w') \<and>
     map cir_name (created ws) = [''cir-0002'', ''cir-0003''] \<and> (\<forall>c \<in> set (created ws). creatable demo_growing c)"
proof -
  obtain r ws w' where run: "CIPool_Reconcile list_finalizers (logged (fixed_client demo_growing [idle_cir])) 0
      (''ofcir'', ''pool'') ([], ()) = (r, ws, w')" by (metis prod.exhaust)
  with growing_run have "map cir_name (created ws) = [''cir-0002'', ''cir-0003'']" by simp
  with run created_resources_are_well_formed [OF run fixed_client_keeps] show ?thesis by auto
qed

lemma refines_allocator_witness:
  "\<exists>rs w'. run_provider (dummyProvider name_order) [CallAcquire, CallRelease ''dummy-1'', CallClean ''x''] world0 = Some (rs, w') \<and>
     alloc_run (dummy_id ` {..<maxAvailableResources}) (dummy_free world0)
       [CallAcquire, CallRelease ''dummy-1'', CallClean ''x''] rs (dummy_free w')"
  using dummy_refines_allocator [OF world0_inv name_order_once] by blast

lemma reads_back_witness: "getHighestResourceNumeral [newCIResource demo_pool 42] 0 = 42"
  using created_name_reads_back [of 42 demo_pool] by (simp add: max_int64_def)

end
