(* ===== verification/Provider_Part.thy ===== *)
theory Provider_Part
  imports Provider
begin

text \<open>
  Providers that live in one part of a larger world. A part is given by the function that reads it
  and the one that writes it back; the locale \<open>part\<close> has their laws. An operation on the part
  becomes one on the whole world that leaves the rest alone, and a provider over the part becomes
  one over the whole, with the same contract.
\<close>

definition on_part :: "('v \<Rightarrow> 'w) \<Rightarrow> ('w \<Rightarrow> 'v \<Rightarrow> 'v) \<Rightarrow> ('w, 'a) go \<Rightarrow> ('v, 'a) go" where
  "on_part rd wr c v = map_option (\<lambda>(r, w). (r, wr w v)) (c (rd v))"

definition provider_on :: "('v \<Rightarrow> 'w) \<Rightarrow> ('w \<Rightarrow> 'v \<Rightarrow> 'v) \<Rightarrow> 'w Provider \<Rightarrow> 'v Provider" where
  "provider_on rd wr p =
     \<lparr>Acquire = \<lambda>n pn pt. on_part rd wr (Acquire p n pn pt),
      AcquireCompleted = \<lambda>i. on_part rd wr (AcquireCompleted p i), Clean = \<lambda>i. on_part rd wr (Clean p i),
      CleanCompleted = \<lambda>i. on_part rd wr (CleanCompleted p i), Release = \<lambda>i. on_part rd wr (Release p i)\<rparr>"

lemma provider_on_sel [simp]:
  "Acquire (provider_on rd wr p) n pn pt = on_part rd wr (Acquire p n pn pt)"
  "AcquireCompleted (provider_on rd wr p) i = on_part rd wr (AcquireCompleted p i)"
  "Clean (provider_on rd wr p) i = on_part rd wr (Clean p i)"
  "CleanCompleted (provider_on rd wr p) i = on_part rd wr (CleanCompleted p i)"
  "Release (provider_on rd wr p) i = on_part rd wr (Release p i)"
  by (simp_all add: provider_on_def)

lemma on_part_Some:
  "on_part rd wr c v = Some (r, v') \<longleftrightarrow> (\<exists>w'. c (rd v) = Some (r, w') \<and> v' = wr w' v)"
  by (auto simp: on_part_def)

lemma on_part_None [simp]: "on_part rd wr c v = None \<longleftrightarrow> c (rd v) = None"
  by (simp add: on_part_def)

locale part =
  fixes rd :: "'v \<Rightarrow> 'w" and wr :: "'w \<Rightarrow> 'v \<Rightarrow> 'v"
  assumes rd_wr [simp]: "rd (wr w v) = w"
    and wr_rd [simp]: "wr (rd v) v = v"
    and wr_wr [simp]: "wr w (wr w' v) = wr w v"
begin

lemma keeps_on:
  assumes "provider_keeps p ok"
  shows "provider_keeps (provider_on rd wr p) (\<lambda>v. ok (rd v))"
proof unfold_locales
  fix w n pn pt w' r
  assume "ok (rd w)" "Acquire (provider_on rd wr p) n pn pt w = Some (r, w')"
  then show "ok (rd w')"
    by (auto simp: on_part_Some dest: provider_keeps.inv_Acquire [OF assms])
next
  fix w i w' r
  assume "ok (rd w)" "AcquireCompleted (provider_on rd wr p) i w = Some (r, w')"
  then show "ok (rd w')"
    by (auto simp: on_part_Some dest: provider_keeps.inv_AcquireCompleted [OF assms])
next
  fix w i w' r
  assume "ok (rd w)" "Clean (provider_on rd wr p) i w = Some (r, w')"
  then show "ok (rd w')"
    by (auto simp: on_part_Some dest: provider_keeps.inv_Clean [OF assms])
next
  fix w i w' r
  assume "ok (rd w)" "CleanCompleted (provider_on rd wr p) i w = Some (r, w')"
  then show "ok (rd w')"
    by (auto simp: on_part_Some dest: provider_keeps.inv_CleanCompleted [OF assms])
next
  fix w i w' r
  assume "ok (rd w)" "Release (provider_on rd wr p) i w = Some (r, w')"
  then show "ok (rd w')"
    by (auto simp: on_part_Some dest: provider_keeps.inv_Release [OF assms])
qed

lemma provider_on_part:
  assumes "provider p ok"
  shows "provider (provider_on rd wr p) (\<lambda>v. ok (rd v))"
proof -
  have *: "provider_keeps (provider_on rd wr p) (\<lambda>v. ok (rd v))"
    using keeps_on provider.axioms(1) [OF assms] .
  show ?thesis
    by (rule provider.intro [OF *], unfold_locales)
      (auto simp: on_part_Some dest: provider.ready_id [OF assms] provider.cleaned_ok [OF assms])
qed

lemma total_provider_on_part:
  assumes "total_provider p ok"
  shows "total_provider (provider_on rd wr p) (\<lambda>v. ok (rd v))"
proof -
  have *: "provider (provider_on rd wr p) (\<lambda>v. ok (rd v))"
    using provider_on_part total_provider.axioms(1) [OF assms] .
  show ?thesis
    by (rule total_provider.intro [OF *], unfold_locales)
      (simp_all add: total_provider.no_panic [OF assms] del: not_None_eq)
qed

text \<open>What reads another part sees no change.\<close>

lemma apart_on:
  assumes "\<And>w v. other (wr w v) = other v"
  shows "provider_keeps (provider_on rd wr p) (\<lambda>v. other v = x)"
  by unfold_locales (auto simp: on_part_Some assms)

end

end
