(* ===== verification/Equinix_Provider.thy ===== *)
theory Equinix_Provider
  imports Provider_Part Provider_Factory
begin

text \<open>
  \<open>pkg/providers/equinix.go\<close>. The packngo client is code of a library, hence a record of functions
  over the world outside; the package keeps one client for each key in a map, which is the other
  half of the provider's world. The JSON and base64 decoders, the constructor of clients and the
  random identifiers are arguments too (\<open>EquinixLib\<close>).
\<close>

section \<open>The packngo client as the code calls it\<close>

text \<open>\<open>Eq_PublicIPv4\<close> is what \<open>GetNetworkInfo\<close> computes from the device's addresses.\<close>

record EqDevice =
  Eq_ID :: string
  Eq_State :: string
  Eq_Tags :: "string list"
  Eq_PublicIPv4 :: string

record DeviceCreateRequest =
  CR_Hostname :: string
  CR_Metro :: string
  CR_Plan :: string
  CR_OS :: string
  CR_ProjectID :: string
  CR_Tags :: "string list"
  CR_UserData :: string

record DeviceReinstallFields =
  RF_OperatingSystem :: string
  RF_DeprovisionFast :: bool

record 'w packngo_Client =
  Devices_List :: "string \<Rightarrow> ('w, EqDevice list \<times> error option) call"
  Devices_Create :: "DeviceCreateRequest \<Rightarrow> ('w, EqDevice \<times> error option) call"
  Devices_Get :: "string \<Rightarrow> ('w, EqDevice \<times> error option) call"
  Devices_Reinstall :: "string \<Rightarrow> DeviceReinstallFields \<Rightarrow> ('w, error option) call"
  Devices_Delete :: "string \<Rightarrow> bool \<Rightarrow> ('w, error option) call"

section \<open>Configuration and factory\<close>

definition hostPrefix :: string where "hostPrefix = ''ofcir''"

record equinixProviderConfig =
  Eq_ProjectID :: string
  Eq_Token :: string
  Eq_Metros :: "string list"
  Eq_Plan :: string
  Eq_OS :: string
  Eq_UserData :: string

record 'w EquinixLib =
  Eq_Unmarshal :: "string \<Rightarrow> equinixProviderConfig \<Rightarrow> equinixProviderConfig \<times> error option"
  Eq_DecodeString :: "string \<Rightarrow> string \<times> error option"
  Eq_NewClientWithAuth :: "string \<Rightarrow> string \<Rightarrow> 'w packngo_Client"
  Eq_uuid :: "('w, string) call"

record 'w eq_world =
  eqClients :: "string \<rightharpoonup> 'w packngo_Client"
  eq_outer :: 'w

definition equinix_default_config :: equinixProviderConfig where
  "equinix_default_config =
     \<lparr>Eq_ProjectID = '''', Eq_Token = '''', Eq_Metros = [''da'', ''ny'', ''sv''], Eq_Plan = ''c3.small.x86'',
      Eq_OS = ''rocky_8'', Eq_UserData = ''''\<rparr>"

text \<open>The configuration the factory ends up with, or its error.\<close>

definition equinix_config :: "'w EquinixLib \<Rightarrow> SecretData \<Rightarrow> error + equinixProviderConfig" where
  "equinix_config lib secretData =
     (let (config, err) =
            (case secretData ''config'' of
               Some configJson \<Rightarrow> Eq_Unmarshal lib configJson equinix_default_config
             | None \<Rightarrow> (equinix_default_config, None))
      in (case err of
            Some e \<Rightarrow> Inl (WrapError ''error in provider config json: '' e)
          | None \<Rightarrow>
              (if Eq_UserData config \<noteq> ''''
               then (case Eq_DecodeString lib (Eq_UserData config) of
                       (decodedBytes, Some e) \<Rightarrow> Inl (WrapError ''error decoding userdata: '' e)
                     | (decodedBytes, None) \<Rightarrow> Inr (config\<lparr>Eq_UserData := decodedBytes\<rparr>))
               else Inr config)))"

section \<open>Operations\<close>

definition count_pool_tags :: "string \<Rightarrow> EqDevice list \<Rightarrow> int" where
  "count_pool_tags poolName deviceList =
     foldl (\<lambda>count d. foldl (\<lambda>count t. if t = poolName then count + 1 else count) count (Eq_Tags d)) 0 deviceList"

definition create_request :: "equinixProviderConfig \<Rightarrow> string \<Rightarrow> string \<Rightarrow> string \<Rightarrow> DeviceCreateRequest" where
  "create_request cfg resourceName poolName metro =
     \<lparr>CR_Hostname = resourceName, CR_Metro = metro, CR_Plan = Eq_Plan cfg, CR_OS = Eq_OS cfg,
      CR_ProjectID = Eq_ProjectID cfg, CR_Tags = [poolName], CR_UserData = Eq_UserData cfg\<rparr>"

text \<open>The loop over the metros; \<^term>\<open>None\<close> when it ends without a return.\<close>

fun try_metros ::
  "'w packngo_Client \<Rightarrow> equinixProviderConfig \<Rightarrow> string \<Rightarrow> string \<Rightarrow> string list
   \<Rightarrow> ('w, string option) call" where
  "try_metros client cfg resourceName poolName [] w = (None, w)"
| "try_metros client cfg resourceName poolName (metro # metros) w =
     (case Devices_Create client (create_request cfg resourceName poolName metro) w of
        ((device, Some err), w) \<Rightarrow> try_metros client cfg resourceName poolName metros w
      | ((device, None), w) \<Rightarrow> (Some (Eq_ID device), w))"

text \<open>The error after the loop wraps the outer \<open>err\<close>, which is nil there: the loop declares its
  own.\<close>

definition equinix_Acquire ::
  "'w EquinixLib \<Rightarrow> 'w packngo_Client \<Rightarrow> equinixProviderConfig \<Rightarrow> int \<Rightarrow> string \<Rightarrow> string
   \<Rightarrow> ('w, Resource \<times> error option) call" where
  "equinix_Acquire lib client cfg poolSize poolName poolType w =
     (case Devices_List client (Eq_ProjectID cfg) w of
        ((deviceList, Some err), w) \<Rightarrow> ((Resource0, Some (WrapError ''Error getting devices list: '' err)), w)
      | ((deviceList, None), w) \<Rightarrow>
          (let count = count_pool_tags poolName deviceList in
           if count \<ge> poolSize
           then ((Resource0, Some (ErrorString (''Refusing to create device, already have '' @ Itoa count @
                    '' and pool size is '' @ Itoa poolSize))), w)
           else (case Eq_uuid lib w of
                   (uuid, w) \<Rightarrow>
                     (case try_metros client cfg (hostPrefix @ ''-'' @ removeAll CHR ''-'' uuid) poolName
                             (Eq_Metros cfg) w of
                        (Some i, w) \<Rightarrow> ((Resource0\<lparr>Id := i\<rparr>, None), w)
                      | (None, w) \<Rightarrow> ((Resource0, Some (ErrorString ''error creating device: %!w(<nil>)'')), w)))))"

definition equinix_AcquireCompleted ::
  "'w packngo_Client \<Rightarrow> string \<Rightarrow> ('w, bool \<times> Resource \<times> error option) call" where
  "equinix_AcquireCompleted client i w =
     (let resource = Resource0\<lparr>Id := i\<rparr> in
      case Devices_Get client i w of
        ((device, Some err), w) \<Rightarrow> ((False, resource, Some (WrapError ''error getting device: '' err)), w)
      | ((device, None), w) \<Rightarrow>
          (if Eq_State device = ''active''
           then ((True, resource\<lparr>Address := Eq_PublicIPv4 device\<rparr>, None), w)
           else if Eq_State device = ''failed''
           then ((False, resource, Some (ErrorString (''device '' @ i @ '' failed''))), w)
           else ((False, resource, None), w)))"

definition equinix_Clean ::
  "'w packngo_Client \<Rightarrow> equinixProviderConfig \<Rightarrow> string \<Rightarrow> ('w, error option) call" where
  "equinix_Clean client cfg i w =
     (case Devices_Reinstall client i \<lparr>RF_OperatingSystem = Eq_OS cfg, RF_DeprovisionFast = True\<rparr> w of
        (Some err, w) \<Rightarrow> (Some (WrapError ''error reinstalling device: '' err), w)
      | (None, w) \<Rightarrow> (None, w))"

definition equinix_CleanCompleted :: "'w packngo_Client \<Rightarrow> string \<Rightarrow> ('w, bool \<times> error option) call" where
  "equinix_CleanCompleted client i w =
     (case equinix_AcquireCompleted client i w of ((cleaned, r, err), w) \<Rightarrow> ((cleaned, err), w))"

definition equinix_Release :: "'w packngo_Client \<Rightarrow> string \<Rightarrow> ('w, error option) call" where
  "equinix_Release client i w =
     (case Devices_Delete client i True w of
        (Some err, w) \<Rightarrow> (Some (WrapError ''error deleting device: '' err), w)
      | (None, w) \<Rightarrow> (None, w))"

definition equinix_methods ::
  "'w EquinixLib \<Rightarrow> 'w packngo_Client \<Rightarrow> equinixProviderConfig \<Rightarrow> 'w Provider" where
  "equinix_methods lib client cfg =
     \<lparr>Acquire = \<lambda>n pn pt w. Some (equinix_Acquire lib client cfg n pn pt w),
      AcquireCompleted = \<lambda>i w. Some (equinix_AcquireCompleted client i w),
      Clean = \<lambda>i w. Some (equinix_Clean client cfg i w),
      CleanCompleted = \<lambda>i w. Some (equinix_CleanCompleted client i w),
      Release = \<lambda>i w. Some (equinix_Release client i w)\<rparr>"

definition equinixProvider ::
  "'w EquinixLib \<Rightarrow> 'w packngo_Client \<Rightarrow> equinixProviderConfig \<Rightarrow> 'w eq_world Provider" where
  "equinixProvider lib client cfg =
     provider_on eq_outer (\<lambda>w. eq_outer_update (\<lambda>_. w)) (equinix_methods lib client cfg)"

definition client_key :: "equinixProviderConfig \<Rightarrow> string" where
  "client_key cfg = Eq_ProjectID cfg @ Eq_Token cfg"

definition EquinixProviderFactory ::
  "'w EquinixLib \<Rightarrow> string \<Rightarrow> SecretData \<Rightarrow> ('w eq_world, error + 'w eq_world Provider) go" where
  "EquinixProviderFactory lib providerInfo secretData W =
     (case equinix_config lib secretData of
        Inl err \<Rightarrow> Some (Inl err, W)
      | Inr config \<Rightarrow>
          (let key = client_key config;
               W = (case eqClients W key of
                      None \<Rightarrow> W\<lparr>eqClients := (eqClients W)(key \<mapsto>
                                Eq_NewClientWithAuth lib ''packngo lib'' (Eq_Token config))\<rparr>
                    | Some c \<Rightarrow> W)
           in map_option (\<lambda>client. (Inr (equinixProvider lib client config), W)) (eqClients W key)))"

lemma equinix_methods_sel [simp]:
  "Acquire (equinix_methods lib c cfg) n pn pt w = Some (equinix_Acquire lib c cfg n pn pt w)"
  "AcquireCompleted (equinix_methods lib c cfg) i w = Some (equinix_AcquireCompleted c i w)"
  "Clean (equinix_methods lib c cfg) i w = Some (equinix_Clean c cfg i w)"
  "CleanCompleted (equinix_methods lib c cfg) i w = Some (equinix_CleanCompleted c i w)"
  "Release (equinix_methods lib c cfg) i w = Some (equinix_Release c i w)"
  by (simp_all add: equinix_methods_def)

section \<open>The contract\<close>

interpretation eq_world: part eq_outer "\<lambda>w. eq_outer_update (\<lambda>_. w)"
  by unfold_locales simp_all

lemma equinix_ready:
  "equinix_AcquireCompleted c i w = ((b, r, e), w') \<Longrightarrow> Id r = i \<and> (b \<longrightarrow> e = None)"
  by (auto simp: equinix_AcquireCompleted_def Let_def split: prod.split_asm option.split_asm if_split_asm)

interpretation equinix: total_provider "equinix_methods lib c cfg" "\<lambda>_. True" for lib c cfg
proof unfold_locales
  fix i w r e w'
  assume "AcquireCompleted (equinix_methods lib c cfg) i w = Some ((True, r, e), w')"
  with equinix_ready show "e = None \<and> Id r = i" by fastforce
next
  fix i w e w'
  assume "CleanCompleted (equinix_methods lib c cfg) i w = Some ((True, e), w')"
  then show "e = None"
    by (auto simp: equinix_CleanCompleted_def dest: equinix_ready split: prod.split_asm)
qed simp_all

interpretation equinix_total: total_provider "equinixProvider lib c cfg" "\<lambda>_. True" for lib c cfg
  unfolding equinixProvider_def
  by (rule eq_world.total_provider_on_part [OF equinix.total_provider_axioms [of lib c cfg]])

text \<open>No operation touches the map of clients.\<close>

interpretation equinix_cache: provider_keeps "equinixProvider lib c cfg" "\<lambda>W. eqClients W = m" for lib c cfg m
  unfolding equinixProvider_def by (rule eq_world.apart_on) simp

section \<open>The clients in the map\<close>

definition clients_ok :: "'w EquinixLib \<Rightarrow> nat \<Rightarrow> 'w eq_world \<Rightarrow> bool" where
  "clients_ok lib n W \<longleftrightarrow>
     (\<forall>k c. eqClients W k = Some c \<longrightarrow>
        (\<exists>project tok. length project = n \<and> k = project @ tok \<and> c = Eq_NewClientWithAuth lib ''packngo lib'' tok))"

lemma factory_clients:
  assumes "EquinixProviderFactory lib info sec W = Some (Inr p, W')" and "clients_ok lib n W"
    and "equinix_config lib sec = Inr cfg" and "length (Eq_ProjectID cfg) = n"
  shows "clients_ok lib n W'"
    and "p = equinixProvider lib (Eq_NewClientWithAuth lib ''packngo lib'' (Eq_Token cfg)) cfg"
proof -
  let ?c = "Eq_NewClientWithAuth lib ''packngo lib'' (Eq_Token cfg)"
  consider (miss) "eqClients W (client_key cfg) = None"
      "W' = W\<lparr>eqClients := (eqClients W)(client_key cfg \<mapsto> ?c)\<rparr>" "p = equinixProvider lib ?c cfg"
    | (hit) c where "eqClients W (client_key cfg) = Some c" "W' = W" "p = equinixProvider lib c cfg"
    using assms(1,3)
    by (cases "eqClients W (client_key cfg)") (auto simp: EquinixProviderFactory_def Let_def)
  note cs = this
  show "clients_ok lib n W'"
    using cs assms(2,4) by cases (auto simp: clients_ok_def client_key_def)
  show "p = equinixProvider lib ?c cfg"
    using cs
  proof cases
    case miss
    then show ?thesis by simp
  next
    case (hit c)
    from hit(1) assms(2) obtain project tok where
      "length project = n" "client_key cfg = project @ tok" "c = Eq_NewClientWithAuth lib ''packngo lib'' tok"
      unfolding clients_ok_def by blast
    with hit assms(4) show ?thesis by (simp add: client_key_def)
  qed
qed

section \<open>The devices in the cloud\<close>

text \<open>What the documentation of the API says about the devices of one project: listing reads them, a
  device that was created has the tags asked for, one that was deleted is gone, and nothing else
  changes how many there are with a tag.\<close>

definition device_laws ::
  "'w EquinixLib \<Rightarrow> 'w packngo_Client \<Rightarrow> string \<Rightarrow> ('w \<Rightarrow> EqDevice list) \<Rightarrow> bool" where
  "device_laws lib c project devs \<longleftrightarrow>
     (\<forall>w ds e w'. Devices_List c project w = ((ds, e), w') \<longrightarrow> devs w' = devs w \<and> (e = None \<longrightarrow> ds = devs w)) \<and>
     (\<forall>rq w d e w'. CR_ProjectID rq = project \<longrightarrow> Devices_Create c rq w = ((d, e), w') \<longrightarrow>
        (if e = None then devs w' = devs w @ [d] \<and> Eq_Tags d = CR_Tags rq else devs w' = devs w)) \<and>
     (\<forall>i b w e w'. Devices_Delete c i b w = (e, w') \<longrightarrow>
        devs w' = (if e = None then filter (\<lambda>d. Eq_ID d \<noteq> i) (devs w) else devs w)) \<and>
     (\<forall>i w r w'. Devices_Get c i w = (r, w') \<longrightarrow> map Eq_Tags (devs w') = map Eq_Tags (devs w)) \<and>
     (\<forall>i f w r w'. Devices_Reinstall c i f w = (r, w') \<longrightarrow> map Eq_Tags (devs w') = map Eq_Tags (devs w)) \<and>
     (\<forall>w. devs (snd (Eq_uuid lib w)) = devs w)"

lemma device_lawsD:
  assumes "device_laws lib c project devs"
  shows "Devices_List c project w = ((ds, e), w') \<Longrightarrow> devs w' = devs w \<and> (e = None \<longrightarrow> ds = devs w)"
    and "CR_ProjectID rq = project \<Longrightarrow> Devices_Create c rq w = ((d, e), w') \<Longrightarrow>
      if e = None then devs w' = devs w @ [d] \<and> Eq_Tags d = CR_Tags rq else devs w' = devs w"
    and "Devices_Delete c i b w = (e, w') \<Longrightarrow>
      devs w' = (if e = None then filter (\<lambda>d. Eq_ID d \<noteq> i) (devs w) else devs w)"
    and "Devices_Get c i w = (r, w') \<Longrightarrow> map Eq_Tags (devs w') = map Eq_Tags (devs w)"
    and "Devices_Reinstall c i f w = (r2, w') \<Longrightarrow> map Eq_Tags (devs w') = map Eq_Tags (devs w)"
    and "Eq_uuid lib w = (u, w') \<Longrightarrow> devs w' = devs w"
  using assms unfolding device_laws_def by (blast | metis snd_conv)+

lemma count_tags_one:
  "foldl (\<lambda>count t. if t = p then count + 1 else count) n ts = n + int (count_list ts p)"
  by (induction ts arbitrary: n) auto

lemma count_pool_tags_sum: "count_pool_tags p ds = (\<Sum>d\<leftarrow>ds. int (count_list (Eq_Tags d) p))"
proof -
  have "foldl (\<lambda>count d. count + int (count_list (Eq_Tags d) p)) n ds = n + (\<Sum>d\<leftarrow>ds. int (count_list (Eq_Tags d) p))" for n
    by (induction ds arbitrary: n) simp_all
  then show ?thesis by (simp add: count_pool_tags_def count_tags_one)
qed

lemma count_pool_tags_snoc [simp]:
  "count_pool_tags p (ds @ [d]) = count_pool_tags p ds + int (count_list (Eq_Tags d) p)"
  by (simp add: count_pool_tags_sum)

lemma count_pool_tags_filter: "count_pool_tags p (filter P ds) \<le> count_pool_tags p ds"
  by (induction ds) (auto simp: count_pool_tags_sum)

lemma count_pool_tags_tags:
  assumes "map Eq_Tags ds = map Eq_Tags ds'"
  shows "count_pool_tags p ds = count_pool_tags p ds'"
proof -
  have "count_pool_tags p ds = sum_list (map (\<lambda>ts. int (count_list ts p)) (map Eq_Tags ds))" for ds
    by (simp add: count_pool_tags_sum comp_def)
  with assms show ?thesis by presburger
qed

datatype eq_op = EAcquire string | ECompleted string | EClean string | ERelease string

text \<open>A run of operations for resources of any pools of one configuration, \<open>sizes\<close> being the sizes
  the pools ask for.\<close>

fun eq_run ::
  "'w EquinixLib \<Rightarrow> 'w packngo_Client \<Rightarrow> equinixProviderConfig \<Rightarrow> (string \<Rightarrow> int) \<Rightarrow> eq_op list \<Rightarrow> 'w \<Rightarrow> 'w" where
  "eq_run lib c cfg sizes [] w = w"
| "eq_run lib c cfg sizes (EAcquire p # ops) w =
     eq_run lib c cfg sizes ops (snd (equinix_Acquire lib c cfg (sizes p) p '''' w))"
| "eq_run lib c cfg sizes (ECompleted i # ops) w =
     eq_run lib c cfg sizes ops (snd (equinix_AcquireCompleted c i w))"
| "eq_run lib c cfg sizes (EClean i # ops) w = eq_run lib c cfg sizes ops (snd (equinix_Clean c cfg i w))"
| "eq_run lib c cfg sizes (ERelease i # ops) w = eq_run lib c cfg sizes ops (snd (equinix_Release c i w))"

lemma try_metros_devices:
  assumes "device_laws lib c (Eq_ProjectID cfg) devs" and "try_metros c cfg n p ms w = (r, w')"
  shows "count_pool_tags q (devs w') \<le> count_pool_tags q (devs w) + (if q = p then 1 else 0)"
  using assms(2)
proof (induction ms arbitrary: w)
  case (Cons m ms)
  obtain d e w1 where cr: "Devices_Create c (create_request cfg n p m) w = ((d, e), w1)" by (metis prod.exhaust)
  from device_lawsD(2) [OF assms(1) _ cr] have
    "if e = None then devs w1 = devs w @ [d] \<and> Eq_Tags d = [p] else devs w1 = devs w"
    by (simp add: create_request_def)
  show ?case
  proof (cases e)
    case None
    with cr Cons.prems \<open>if e = None then _ else _\<close> show ?thesis by auto
  next
    case (Some x)
    with cr Cons.prems have "try_metros c cfg n p ms w1 = (r, w')" by simp
    from Cons.IH [OF this] \<open>if e = None then _ else _\<close> Some show ?thesis by simp
  qed
qed simp

lemma equinix_Acquire_devices:
  assumes "device_laws lib c (Eq_ProjectID cfg) devs"
    and "\<forall>q. count_pool_tags q (devs w) \<le> max 0 (sizes q)"
  shows "\<forall>q. count_pool_tags q (devs (snd (equinix_Acquire lib c cfg (sizes p) p t w))) \<le> max 0 (sizes q)"
proof -
  obtain ds e w1 where l: "Devices_List c (Eq_ProjectID cfg) w = ((ds, e), w1)" by (metis prod.exhaust)
  obtain u w2 where u: "Eq_uuid lib w1 = (u, w2)" by (metis prod.exhaust)
  obtain r w3 where m: "try_metros c cfg (hostPrefix @ ''-'' @ removeAll CHR ''-'' u) p (Eq_Metros cfg) w2 = (r, w3)"
    by (metis prod.exhaust)
  note laws = device_lawsD(1) [OF assms(1) l] device_lawsD(6) [OF assms(1) u]
  show ?thesis
  proof (cases "e = None \<and> count_pool_tags p ds < sizes p")
    case True
    with laws have "devs w2 = devs w" "count_pool_tags p (devs w) < sizes p" by simp_all
    moreover have "snd (equinix_Acquire lib c cfg (sizes p) p t w) = w3"
      using True l u m by (simp add: equinix_Acquire_def Let_def split: option.split)
    moreover have "count_pool_tags q (devs w3) \<le> count_pool_tags q (devs w2) + (if q = p then 1 else 0)" for q
      by (rule try_metros_devices [OF assms(1) m])
    ultimately show ?thesis
      using assms(2) by (smt (verit))
  next
    case False
    then have "snd (equinix_Acquire lib c cfg (sizes p) p t w) = w1"
      using l by (auto simp: equinix_Acquire_def Let_def split: option.split)
    with laws assms(2) show ?thesis by simp
  qed
qed

lemma eq_run_within:
  assumes "device_laws lib c (Eq_ProjectID cfg) devs"
    and "\<forall>q. count_pool_tags q (devs w) \<le> max 0 (sizes q)"
  shows "\<forall>q. count_pool_tags q (devs (eq_run lib c cfg sizes ops w)) \<le> max 0 (sizes q)"
  using assms(2)
proof (induction ops arbitrary: w)
  case (Cons op ops)
  have same: "\<forall>q. count_pool_tags q (devs w') \<le> max 0 (sizes q)" if "map Eq_Tags (devs w') = map Eq_Tags (devs w)" for w'
    using count_pool_tags_tags [OF that] Cons.prems by simp
  show ?case
  proof (cases op)
    case (EAcquire p)
    with Cons.IH equinix_Acquire_devices [OF assms(1) Cons.prems] show ?thesis by simp
  next
    case (ECompleted i)
    obtain r w' where "Devices_Get c i w = (r, w')" by (metis prod.exhaust)
    moreover from this have "snd (equinix_AcquireCompleted c i w) = w'"
      by (auto simp: equinix_AcquireCompleted_def Let_def split: prod.split option.split)
    ultimately show ?thesis
      using Cons.IH same device_lawsD(4) [OF assms(1)] ECompleted by simp
  next
    case (EClean i)
    obtain r w' where rei: "Devices_Reinstall c i \<lparr>RF_OperatingSystem = Eq_OS cfg, RF_DeprovisionFast = True\<rparr> w = (r, w')"
      by (metis prod.exhaust)
    moreover from this have "snd (equinix_Clean c cfg i w) = w'"
      by (auto simp: equinix_Clean_def split: option.split)
    ultimately show ?thesis
      using Cons.IH same device_lawsD(5) [OF assms(1) rei] EClean by simp
  next
    case (ERelease i)
    obtain r w' where d: "Devices_Delete c i True w = (r, w')" by (metis prod.exhaust)
    then have "snd (equinix_Release c i w) = w'"
      by (auto simp: equinix_Release_def split: option.split)
    moreover have "\<forall>q. count_pool_tags q (devs w') \<le> max 0 (sizes q)"
      using device_lawsD(3) [OF assms(1) d] Cons.prems count_pool_tags_filter
      by (metis (no_types, lifting) order_trans)
    ultimately show ?thesis using Cons.IH ERelease by simp
  qed
qed simp

end
