(* ===== verification/Libvirt_Provider.thy ===== *)
theory Libvirt_Provider
  imports Provider_Factory Go_Strings
begin

text \<open>
  \<open>pkg/providers/libvirt.go\<close>. The bindings of libvirt and the library that turns its documents into
  XML and back are arguments (\<open>LibvirtLib\<close>): a connection, a domain, a network, a storage pool and
  a volume are records of the operations the code calls on them. The documents the code fills in
  are records with the fields it sets. The provider keeps no state of its own. It panics on a domain
  whose document has no interface with a MAC address.
\<close>

section \<open>The libraries as the code calls them\<close>

record 'w libvirt_Domain =
  Dom_IsActive :: "('w, error + bool) call"
  Dom_GetXMLDesc :: "('w, error + string) call"
  Dom_Create :: "('w, error + unit) call"
  Dom_Destroy :: "('w, error + unit) call"
  Dom_Undefine :: "('w, error + unit) call"

record DHCPLease =
  Lease_Mac :: string
  Lease_IPaddr :: string

record 'w libvirt_Network =
  Net_GetDHCPLeases :: "('w, error + DHCPLease list) call"

record 'w libvirt_StoragePool =
  Pool_StorageVolCreateXML :: "string \<Rightarrow> ('w, error + unit) call"

record 'w libvirt_StorageVol =
  Vol_Delete :: "('w, error + unit) call"

record 'w libvirt_Connect =
  LookupDomainByName :: "string \<Rightarrow> ('w, error + 'w libvirt_Domain) call"
  LookupNetworkByName :: "string \<Rightarrow> ('w, error + 'w libvirt_Network) call"
  LookupStoragePoolByName :: "string \<Rightarrow> ('w, error + 'w libvirt_StoragePool) call"
  LookupStorageVolByKey :: "string \<Rightarrow> ('w, error + 'w libvirt_StorageVol) call"
  DomainDefineXML :: "string \<Rightarrow> ('w, error + 'w libvirt_Domain) call"
  Close :: "'w \<Rightarrow> 'w"

definition ERR_NO_DOMAIN :: int where "ERR_NO_DOMAIN = 42"

text \<open>The documents: the volume and the domain. Sizes are a value and a unit.\<close>

record StorageVolume =
  SV_Type :: string
  SV_Name :: string
  SV_Capacity :: "int \<times> string"
  SV_Allocation :: "int \<times> string"
  SV_TargetPath :: string
  SV_TargetFormat :: string
  SV_Permissions :: "string \<times> string \<times> string \<times> string"
  SV_BackingStorePath :: string
  SV_BackingStoreFormat :: string

record DomainInterface =
  If_Bridge :: "string option"
  If_Model :: "string option"
  If_MAC :: "string option"

record DomainTimer =
  Timer_Name :: string
  Timer_TickPolicy :: string
  Timer_Present :: string

record DomainDisk =
  Disk_DriverName :: string
  Disk_DriverType :: string
  Disk_DriverDiscard :: string
  Disk_SourceFile :: string
  Disk_TargetDev :: string
  Disk_TargetBus :: string

record DomainDeviceList =
  Dev_Emulator :: string
  Dev_Disks :: "DomainDisk list"
  Dev_Interfaces :: "DomainInterface list"
  Dev_ConsoleTTYs :: "string list"

record DomainXML =
  DX_Type :: string
  DX_Name :: string
  DX_Metadata :: string
  DX_Memory :: "int \<times> string"
  DX_CurrentMemory :: "int \<times> string"
  DX_VCPU :: int
  DX_OSType :: "string \<times> string \<times> string"
  DX_BootDevices :: "string list"
  DX_ACPI :: bool
  DX_APIC :: bool
  DX_CPUMode :: string
  DX_ClockOffset :: string
  DX_Timers :: "DomainTimer list"
  DX_SuspendToMem :: string
  DX_SuspendToDisk :: string
  DX_Devices :: "DomainDeviceList option"
  DX_QEMUArgs :: "string list"

record libvirtProviderConfig =
  LV_Pool :: string
  LV_Volume :: int
  LV_BackingStore :: string
  LV_Memory :: int
  LV_Cpus :: int
  LV_Bridge :: string
  LV_Ignition :: string

record 'w LibvirtLib =
  LV_Unmarshal :: "string \<Rightarrow> libvirtProviderConfig \<Rightarrow> libvirtProviderConfig \<times> error option"
  NewConnect :: "string \<Rightarrow> ('w, error + 'w libvirt_Connect) call"
  Domain_Unmarshal :: "string \<Rightarrow> error + DomainXML"
  Domain_Marshal :: "DomainXML \<Rightarrow> error + string"
  Volume_Marshal :: "StorageVolume \<Rightarrow> error + string"
  LV_uuid :: "('w, string) call"

section \<open>Configuration and factory\<close>

definition libvirtDomainPrefix :: string where "libvirtDomainPrefix = ''ofcir-vm''"
definition libvirtImagesPath :: string where "libvirtImagesPath = ''/var/lib/libvirt/images''"

definition libvirt_default_config :: libvirtProviderConfig where
  "libvirt_default_config =
     \<lparr>LV_Pool = ''default'', LV_Volume = 20,
      LV_BackingStore = ''/ofcir/tests/fedora-coreos-36.20220806.3.0-qemu.x86_64.qcow2'',
      LV_Memory = 2, LV_Cpus = 2, LV_Bridge = ''virbr0'', LV_Ignition = ''/ofcir/tests/coreos.ign''\<rparr>"

section \<open>Documents\<close>

definition image_path :: "string \<Rightarrow> string" where
  "image_path name = libvirtImagesPath @ ''/'' @ name @ ''.qcow2''"

definition volume_config :: "libvirtProviderConfig \<Rightarrow> string \<Rightarrow> StorageVolume" where
  "volume_config cfg name =
     \<lparr>SV_Type = ''file'', SV_Name = name @ ''.qcow2'', SV_Capacity = (LV_Volume cfg, ''GiB''),
      SV_Allocation = (51318784, ''bytes''), SV_TargetPath = image_path name, SV_TargetFormat = ''qcow2'',
      SV_Permissions = (''0600'', ''0'', ''0'', ''system_u:object_r:virt_image_t:s0''),
      SV_BackingStorePath = LV_BackingStore cfg, SV_BackingStoreFormat = ''qcow2''\<rparr>"

definition domain_interface :: "libvirtProviderConfig \<Rightarrow> string \<Rightarrow> DomainInterface" where
  "domain_interface cfg macAddress =
     \<lparr>If_Bridge = Some (LV_Bridge cfg), If_Model = Some ''virtio'',
      If_MAC = (if macAddress \<noteq> '''' then Some macAddress else None)\<rparr>"

definition domain_config :: "libvirtProviderConfig \<Rightarrow> string \<Rightarrow> string \<Rightarrow> DomainXML" where
  "domain_config cfg name macAddress =
     \<lparr>DX_Type = ''kvm'', DX_Name = name,
      DX_Metadata = ''<libosinfo:libosinfo xmlns:libosinfo=\"http://libosinfo.org/xmlns/libvirt/domain/1.0\"><libosinfo:os id=\"http://fedoraproject.org/coreos/stable\"/></libosinfo:libosinfo>'',
      DX_Memory = (LV_Memory cfg, ''GiB''), DX_CurrentMemory = (LV_Memory cfg, ''GiB''), DX_VCPU = LV_Cpus cfg,
      DX_OSType = (''x86_64'', ''q35'', ''hvm''), DX_BootDevices = [''hd''], DX_ACPI = True, DX_APIC = True,
      DX_CPUMode = ''host-passthrough'', DX_ClockOffset = ''utc'',
      DX_Timers =
        [\<lparr>Timer_Name = ''rtc'', Timer_TickPolicy = ''catchup'', Timer_Present = ''''\<rparr>,
         \<lparr>Timer_Name = ''pit'', Timer_TickPolicy = ''delay'', Timer_Present = ''''\<rparr>,
         \<lparr>Timer_Name = ''hpet'', Timer_TickPolicy = '''', Timer_Present = ''no''\<rparr>],
      DX_SuspendToMem = ''no'', DX_SuspendToDisk = ''no'',
      DX_Devices = Some
        \<lparr>Dev_Emulator = ''/usr/bin/qemu-system-x86_64'',
         Dev_Disks =
           [\<lparr>Disk_DriverName = ''qemu'', Disk_DriverType = ''qcow2'', Disk_DriverDiscard = ''unmap'',
             Disk_SourceFile = image_path name, Disk_TargetDev = ''vda'', Disk_TargetBus = ''virtio''\<rparr>],
         Dev_Interfaces = [domain_interface cfg macAddress], Dev_ConsoleTTYs = [''pty'']\<rparr>,
      DX_QEMUArgs = [''-fw_cfg'', ''name=opt/com.coreos/config,file='' @ LV_Ignition cfg]\<rparr>"

section \<open>Operations\<close>

text \<open>A connection that is closed when the function returns.\<close>

definition with_connect ::
  "'w LibvirtLib \<Rightarrow> (error \<Rightarrow> 'a) \<Rightarrow> ('w libvirt_Connect \<Rightarrow> ('w, 'a) go) \<Rightarrow> ('w, 'a) go" where
  "with_connect lib fail body =
     checked (NewConnect lib ''qemu:///system'') (\<lambda>e. fail (WrapError ''error connecting to qemu: '' e))
       (\<lambda>conn w. map_option (\<lambda>(r, w). (r, Close conn w)) (body conn w))"

text \<open>\<open>domcfg.Devices.Interfaces[0].MAC.Address\<close>\<close>

definition first_mac :: "DomainXML \<Rightarrow> string option" where
  "first_mac d =
     (case DX_Devices d of
        None \<Rightarrow> None
      | Some devices \<Rightarrow> (case Dev_Interfaces devices of [] \<Rightarrow> None | i # _ \<Rightarrow> If_MAC i))"

definition is_no_domain :: "error \<Rightarrow> bool" where
  "is_no_domain err \<longleftrightarrow> (case err of LibvirtError code m \<Rightarrow> code = ERR_NO_DOMAIN | _ \<Rightarrow> False)"

definition other_libvirt_error :: "error \<Rightarrow> bool" where
  "other_libvirt_error err \<longleftrightarrow> (case err of LibvirtError code m \<Rightarrow> code \<noteq> ERR_NO_DOMAIN | _ \<Rightarrow> False)"

text \<open>The part of \<open>createVM\<close> after the test that no such domain exists.\<close>

definition create_resources ::
  "'w LibvirtLib \<Rightarrow> libvirtProviderConfig \<Rightarrow> string \<Rightarrow> string \<Rightarrow> 'w libvirt_Connect \<Rightarrow> ('w, error option) go" where
  "create_resources lib cfg name macAddress conn =
     checked (LookupStoragePoolByName conn (LV_Pool cfg)) (\<lambda>e. Some (WrapError ''error in storage pool lookup: '' e)) (\<lambda>pool.
     checked (Pair (Volume_Marshal lib (volume_config cfg name))) (\<lambda>e. Some (WrapError ''error configuring volume: '' e)) (\<lambda>volDoc.
     checked (Pool_StorageVolCreateXML pool volDoc) (\<lambda>e. Some (WrapError ''error creating volume XML: '' e)) (\<lambda>vol.
     checked (Pair (Domain_Marshal lib (domain_config cfg name macAddress))) (\<lambda>e. Some (WrapError ''error configuring domain: '' e)) (\<lambda>xmlDoc.
     checked (DomainDefineXML conn xmlDoc) (\<lambda>e. Some (WrapError ''error in defining domain: '' e)) (\<lambda>domain.
     checked (Dom_Create domain) (\<lambda>e. Some (WrapError ''error creating domain: '' e)) (\<lambda>u w.
     Some (None, w)))))))"

definition libvirt_createVM ::
  "'w LibvirtLib \<Rightarrow> libvirtProviderConfig \<Rightarrow> string \<Rightarrow> string \<Rightarrow> ('w, error option) go" where
  "libvirt_createVM lib cfg name macAddress =
     with_connect lib Some (\<lambda>conn w.
       case LookupDomainByName conn name w of
         (Inr domain, w) \<Rightarrow> Some (Some (ErrorString (''domain '' @ name @ '' already exists'')), w)
       | (Inl err, w) \<Rightarrow>
           (if other_libvirt_error err then Some (Some err, w)
            else create_resources lib cfg name macAddress conn w))"

definition delete_volume :: "'w libvirt_Connect \<Rightarrow> string \<Rightarrow> ('w, error option) go" where
  "delete_volume conn i w =
     (case LookupStorageVolByKey conn (image_path i) w of
        (Inl err, w) \<Rightarrow> Some (None, w)
      | (Inr vol, w) \<Rightarrow>
          checked (Vol_Delete vol) (\<lambda>e. Some (WrapError ''error deleting volume: '' e)) (\<lambda>u w. Some (None, w)) w)"

definition libvirt_destroyVM :: "'w LibvirtLib \<Rightarrow> string \<Rightarrow> ('w, error option) go" where
  "libvirt_destroyVM lib i =
     with_connect lib Some (\<lambda>conn.
     checked (LookupDomainByName conn i)
       (\<lambda>e. Some (if is_no_domain e then NewResourceNotFoundError i else WrapError ''error in domain lookup: '' e)) (\<lambda>domain.
     checked (Dom_IsActive domain) (\<lambda>e. Some (WrapError ''error verifying domain is active: '' e)) (\<lambda>running.
     checked (if running then Dom_Destroy domain else Pair (Inr ())) (\<lambda>e. Some (WrapError ''error destroying domain: '' e)) (\<lambda>u.
     checked (Dom_Undefine domain) (\<lambda>e. Some (WrapError ''error undefining domain: '' e)) (\<lambda>u.
     delete_volume conn i)))))"

definition libvirt_Acquire ::
  "'w LibvirtLib \<Rightarrow> libvirtProviderConfig \<Rightarrow> int \<Rightarrow> string \<Rightarrow> string \<Rightarrow> ('w, Resource \<times> error option) go" where
  "libvirt_Acquire lib cfg poolSize poolName poolType w =
     (case LV_uuid lib w of
        (uuid, w) \<Rightarrow>
          (let res = Resource0\<lparr>Id := libvirtDomainPrefix @ ''-'' @ removeAll CHR ''-'' uuid\<rparr> in
           do {
             (err, w) \<leftarrow> libvirt_createVM lib cfg (Id res) '''' w;
             Some ((res, map_option (WrapError ''error creating VM: '') err), w)
           }))"

definition lease_of :: "string \<Rightarrow> DHCPLease list \<Rightarrow> DHCPLease option" where
  "lease_of macAddress leases = List.find (\<lambda>l. Lease_Mac l = macAddress) leases"

definition libvirt_AcquireCompleted ::
  "'w LibvirtLib \<Rightarrow> libvirtProviderConfig \<Rightarrow> string \<Rightarrow> ('w, bool \<times> Resource \<times> error option) go" where
  "libvirt_AcquireCompleted lib cfg i =
     (let res = Resource0\<lparr>Id := i\<rparr>; fail = (\<lambda>m e. (False, res, Some (WrapError m e))) in
      with_connect lib (\<lambda>e. (False, res, Some e)) (\<lambda>conn.
      checked (LookupDomainByName conn i) (fail ''error in domain lookup: '') (\<lambda>domain.
      checked (Dom_IsActive domain) (fail ''error checking domain is active: '') (\<lambda>isActive.
      if \<not> isActive then (\<lambda>w. Some ((False, res, None), w))
      else checked (LookupNetworkByName conn (LV_Pool cfg)) (fail ''error in network lookup: '') (\<lambda>network.
      checked (Dom_GetXMLDesc domain) (fail ''error getting the domain XML: '') (\<lambda>xmldoc.
      checked (Pair (Domain_Unmarshal lib xmldoc)) (fail ''error in domain XML: '') (\<lambda>domcfg w.
      do {
        macAddress \<leftarrow> first_mac domcfg;
        checked (Net_GetDHCPLeases network) (fail ''error getting DHCP leases: '') (\<lambda>leases w.
          case lease_of macAddress leases of
            Some l \<Rightarrow> Some ((True, res\<lparr>Address := Lease_IPaddr l\<rparr>, None), w)
          | None \<Rightarrow> Some ((False, res, None), w)) w
      })))))))"

definition libvirt_Clean ::
  "'w LibvirtLib \<Rightarrow> libvirtProviderConfig \<Rightarrow> string \<Rightarrow> ('w, error option) go" where
  "libvirt_Clean lib cfg i =
     with_connect lib Some (\<lambda>conn.
     checked (LookupDomainByName conn i) (\<lambda>e. Some (WrapError ''error in domain lookup: '' e)) (\<lambda>domain.
     checked (Dom_GetXMLDesc domain) (\<lambda>e. Some (WrapError ''error getting the domain XML: '' e)) (\<lambda>xmldoc.
     checked (Pair (Domain_Unmarshal lib xmldoc)) (\<lambda>e. Some (WrapError ''error in domain XML: '' e)) (\<lambda>domcfg w.
     do {
       macAddress \<leftarrow> first_mac domcfg;
       (err, w) \<leftarrow> libvirt_destroyVM lib i w;
       (case err of
          Some e \<Rightarrow> Some (Some (WrapError ''error destroying the VM: '' e), w)
        | None \<Rightarrow> do {
            (err, w) \<leftarrow> libvirt_createVM lib cfg i macAddress w;
            Some (map_option (WrapError ''error creating VM: '') err, w)
          })
     }))))"

definition libvirt_CleanCompleted :: "string \<Rightarrow> ('w, bool \<times> error option) go" where
  "libvirt_CleanCompleted i w = Some ((True, None), w)"

definition libvirt_Release :: "'w LibvirtLib \<Rightarrow> string \<Rightarrow> ('w, error option) go" where
  "libvirt_Release lib i w =
     do {
       (err, w) \<leftarrow> libvirt_destroyVM lib i w;
       Some (map_option (WrapError ''error destroying the VM: '') err, w)
     }"

definition libvirtProvider :: "'w LibvirtLib \<Rightarrow> libvirtProviderConfig \<Rightarrow> 'w Provider" where
  "libvirtProvider lib cfg =
     \<lparr>Acquire = libvirt_Acquire lib cfg, AcquireCompleted = libvirt_AcquireCompleted lib cfg,
      Clean = libvirt_Clean lib cfg, CleanCompleted = libvirt_CleanCompleted, Release = libvirt_Release lib\<rparr>"

definition LibvirtProviderFactory ::
  "'w LibvirtLib \<Rightarrow> string \<Rightarrow> SecretData \<Rightarrow> ('w, error + 'w Provider) go" where
  "LibvirtProviderFactory lib providerInfo secretData w =
     (let (config, err) =
            (case secretData ''config'' of
               Some configJSON \<Rightarrow> LV_Unmarshal lib configJSON libvirt_default_config
             | None \<Rightarrow> (libvirt_default_config, None))
      in (case err of
            Some e \<Rightarrow> Some (Inl (WrapError ''error in provider config json: '' e), w)
          | None \<Rightarrow> Some (Inr (libvirtProvider lib config), w)))"

section \<open>The contract\<close>

lemma with_connect_Some:
  "with_connect lib fail body w = Some (r, w') \<longleftrightarrow>
     (\<exists>e. NewConnect lib ''qemu:///system'' w = (Inl e, w') \<and> r = fail (WrapError ''error connecting to qemu: '' e)) \<or>
     (\<exists>conn w1 w2. NewConnect lib ''qemu:///system'' w = (Inr conn, w1) \<and> body conn w1 = Some (r, w2) \<and> w' = Close conn w2)"
  by (auto simp: with_connect_def checked_Some)

lemma libvirtProvider_sel [simp]:
  "Acquire (libvirtProvider lib cfg) = libvirt_Acquire lib cfg"
  "AcquireCompleted (libvirtProvider lib cfg) = libvirt_AcquireCompleted lib cfg"
  "Clean (libvirtProvider lib cfg) = libvirt_Clean lib cfg"
  "CleanCompleted (libvirtProvider lib cfg) = libvirt_CleanCompleted"
  "Release (libvirtProvider lib cfg) = libvirt_Release lib"
  by (simp_all add: libvirtProvider_def)

lemma lease_ofD: "lease_of m ls = Some l \<Longrightarrow> l \<in> set ls \<and> Lease_Mac l = m"
  by (auto simp: lease_of_def find_Some_iff in_set_conv_nth)

text \<open>A resource is ready when its domain runs and the network has a lease for its MAC address.\<close>

lemma libvirt_ready:
  assumes "libvirt_AcquireCompleted lib cfg i w = Some ((b, r, e), w')"
  shows "Id r = i" and "b \<Longrightarrow> e = None"
    and "b \<Longrightarrow> \<exists>conn w1 domain w2 w3 network w4 xml w5 d mac leases w6 l.
      NewConnect lib ''qemu:///system'' w = (Inr conn, w1) \<and> LookupDomainByName conn i w1 = (Inr domain, w2) \<and>
      Dom_IsActive domain w2 = (Inr True, w3) \<and> LookupNetworkByName conn (LV_Pool cfg) w3 = (Inr network, w4) \<and>
      Dom_GetXMLDesc domain w4 = (Inr xml, w5) \<and> Domain_Unmarshal lib xml = Inr d \<and> first_mac d = Some mac \<and>
      Net_GetDHCPLeases network w5 = (Inr leases, w6) \<and> l \<in> set leases \<and> Lease_Mac l = mac \<and> Address r = Lease_IPaddr l"
  using assms
  by (auto simp: libvirt_AcquireCompleted_def with_connect_Some checked_Some Let_def bind_eq_Some_conv
      split: if_split_asm option.split_asm) (metis lease_ofD)

interpretation libvirt: provider "libvirtProvider lib cfg" "\<lambda>_. True" for lib cfg
proof unfold_locales
  fix i w r e w'
  assume "AcquireCompleted (libvirtProvider lib cfg) i w = Some ((True, r, e), w')"
  then show "e = None \<and> Id r = i" using libvirt_ready(1,2) [of lib cfg i w True r e w'] by simp
qed (simp_all add: libvirt_CleanCompleted_def)

text \<open>A domain that is gone is reported as a resource that is gone.\<close>

lemma libvirt_Release_gone:
  assumes "NewConnect lib ''qemu:///system'' w = (Inr conn, w1)"
    and "LookupDomainByName conn i w1 = (Inl (LibvirtError ERR_NO_DOMAIN m), w2)"
  shows "libvirt_Release lib i w =
    Some (Some (WrapError ''error destroying the VM: '' (NewResourceNotFoundError i)), Close conn w2)"
  using assms by (simp add: libvirt_Release_def libvirt_destroyVM_def with_connect_def is_no_domain_def)

text \<open>What \<open>createVM\<close> did when it reports no error: the volume was created, the document of the new
  domain was defined and the domain started.\<close>

definition defined_and_started ::
  "'w LibvirtLib \<Rightarrow> libvirtProviderConfig \<Rightarrow> string \<Rightarrow> DomainXML \<Rightarrow> 'w \<Rightarrow> 'w \<Rightarrow> bool" where
  "defined_and_started lib cfg name doc w w' \<longleftrightarrow>
     (\<exists>conn w1 err w2 pool w3 volDoc w4 xml domain w5 w6.
        NewConnect lib ''qemu:///system'' w = (Inr conn, w1) \<and> LookupDomainByName conn name w1 = (Inl err, w2) \<and>
        LookupStoragePoolByName conn (LV_Pool cfg) w2 = (Inr pool, w3) \<and>
        Volume_Marshal lib (volume_config cfg name) = Inr volDoc \<and> Pool_StorageVolCreateXML pool volDoc w3 = (Inr (), w4) \<and>
        Domain_Marshal lib doc = Inr xml \<and> DomainDefineXML conn xml w4 = (Inr domain, w5) \<and>
        Dom_Create domain w5 = (Inr (), w6) \<and> w' = Close conn w6)"

lemma libvirt_createVM_ok:
  assumes "libvirt_createVM lib cfg name mac w = Some (None, w')"
  shows "defined_and_started lib cfg name (domain_config cfg name mac) w w'"
proof -
  from assms obtain conn w1 w2 where conn: "NewConnect lib ''qemu:///system'' w = (Inr conn, w1)" "w' = Close conn w2"
    and body: "(case LookupDomainByName conn name w1 of
         (Inr domain, w) \<Rightarrow> Some (Some (ErrorString (''domain '' @ name @ '' already exists'')), w)
       | (Inl err, w) \<Rightarrow>
           (if other_libvirt_error err then Some (Some err, w)
            else create_resources lib cfg name mac conn w)) = Some (None, w2)"
    unfolding libvirt_createVM_def with_connect_Some by blast
  obtain found wa where lk: "LookupDomainByName conn name w1 = (found, wa)" by (metis prod.exhaust)
  with body obtain err where "found = Inl err" "create_resources lib cfg name mac conn wa = Some (None, w2)"
    by (cases found) (auto split: if_split_asm)
  moreover from this(2) obtain pool wb volDoc wc xml domain wd where
    "LookupStoragePoolByName conn (LV_Pool cfg) wa = (Inr pool, wb)"
    "Volume_Marshal lib (volume_config cfg name) = Inr volDoc" "Pool_StorageVolCreateXML pool volDoc wb = (Inr (), wc)"
    "Domain_Marshal lib (domain_config cfg name mac) = Inr xml" "DomainDefineXML conn xml wc = (Inr domain, wd)"
    "Dom_Create domain wd = (Inr (), w2)"
    unfolding create_resources_def checked_Some by auto
  ultimately show ?thesis
    using conn lk unfolding defined_and_started_def by blast
qed

lemma domain_config_sel [simp]:
  "DX_Name (domain_config cfg name mac) = name"
  "first_mac (domain_config cfg name mac) = (if mac \<noteq> '''' then Some mac else None)"
  by (simp_all add: domain_config_def first_mac_def domain_interface_def)

lemma libvirt_Clean_ok:
  assumes "libvirt_Clean lib cfg i w = Some (None, w')"
  shows "\<exists>conn w1 domain w2 xml w3 d mac w4 w5.
    NewConnect lib ''qemu:///system'' w = (Inr conn, w1) \<and> LookupDomainByName conn i w1 = (Inr domain, w2) \<and>
    Dom_GetXMLDesc domain w2 = (Inr xml, w3) \<and> Domain_Unmarshal lib xml = Inr d \<and> first_mac d = Some mac \<and>
    libvirt_destroyVM lib i w3 = Some (None, w4) \<and>
    defined_and_started lib cfg i (domain_config cfg i mac) w4 w5 \<and> w' = Close conn w5"
proof -
  from assms obtain conn w1 domain w2 xml w3 d mac w4 w5 where
    "NewConnect lib ''qemu:///system'' w = (Inr conn, w1)" "LookupDomainByName conn i w1 = (Inr domain, w2)"
    "Dom_GetXMLDesc domain w2 = (Inr xml, w3)" "Domain_Unmarshal lib xml = Inr d" "first_mac d = Some mac"
    "libvirt_destroyVM lib i w3 = Some (None, w4)" "libvirt_createVM lib cfg i mac w4 = Some (None, w5)" "w' = Close conn w5"
    by (auto simp: libvirt_Clean_def with_connect_Some checked_Some bind_eq_Some_conv split: option.split_asm)
  with libvirt_createVM_ok [OF this(7)] show ?thesis by blast
qed

end
