(* ===== verification/Net_Utils.thy ===== *)
theory Net_Utils
  imports Go_Strings
begin

text \<open>
  \<open>IsPortOpen\<close> of \<open>pkg/utils/utils.go\<close>, which the ironic and the IBM cloud provider wait for. The
  dialer of the \<open>net\<close> package is an argument: whether a connection to an address was made within
  the timeout.
\<close>

type_synonym 'w Dialer = "string \<Rightarrow> string \<Rightarrow> Duration \<Rightarrow> ('w, bool) call"

text \<open>\<open>net.JoinHostPort\<close>: brackets around a host with a colon.\<close>

definition JoinHostPort :: "string \<Rightarrow> string \<Rightarrow> string" where
  "JoinHostPort host port =
     (if CHR '':'' \<in> set host then ''['' @ host @ '']:'' @ port else host @ '':'' @ port)"

definition IsPortOpen :: "'w Dialer \<Rightarrow> string \<Rightarrow> string \<Rightarrow> ('w, bool) call" where
  "IsPortOpen dial ip port w =
     (case dial ''tcp'' (JoinHostPort ip port) (Duration (Nanoseconds Second * 5)) w of
        (conn, w) \<Rightarrow> if conn then (True, w) else (False, w))"

lemma IsPortOpen_eq [simp]:
  "IsPortOpen dial ip port w = dial ''tcp'' (JoinHostPort ip port) (Duration (Nanoseconds Second * 5)) w"
  by (simp add: IsPortOpen_def split: prod.split)

end
