(* ===== verification/Ironic_Provider.thy ===== *)
theory Ironic_Provider
  imports Provider_Part Provider_Factory Net_Utils
begin

text \<open>
  \<open>pkg/providers/ironic.go\<close>. The gophercloud clients, the image service, the file system, the
  environment and the JSON, base64 and MD5 functions are arguments (\<open>IronicLib\<close>). The package keeps
  a client and a map of instance data for each key; the maps are shared by reference, so they and
  the provider objects, whose fields a new login replaces, live in stores of the provider's
  world and are named by their index. The provider panics on a write to a nil \<open>Extra\<close> map, a
  client that could not be made and on values of the wrong type.
\<close>

section \<open>The libraries as the code calls them\<close>

text \<open>A value of an \<open>interface{}\<close> from JSON: nil, a string, or another with its JSON text.\<close>

datatype json = JNull | JString string | JOther string

type_synonym extra = "string \<rightharpoonup> json"
type_synonym instance_info = "string \<rightharpoonup> string"

record Node =
  N_UUID :: string
  N_ProvisionState :: string
  N_Extra :: "extra option"

record Image =
  Img_ID :: string
  Img_Properties :: extra

datatype UpdateOperation = ReplaceExtra extra | ReplaceInstanceInfo instance_info

record ProvisionStateOpts =
  PS_Target :: string
  PS_PublicKey :: string

record ServiceClient =
  SC_Handle :: nat
  SC_Microversion :: string
  SC_SkipVerify :: bool

definition nodes_Active :: string where "nodes_Active = ''active''"
definition nodes_Available :: string where "nodes_Available = ''available''"
definition nodes_DeployFail :: string where "nodes_DeployFail = ''deploy failed''"
definition nodes_TargetActive :: string where "nodes_TargetActive = ''active''"

record ironicProviderConfig =
  IR_Endpoint :: string
  IR_OSCloud :: string
  IR_CloudYAML :: string
  IR_Username :: string
  IR_Password :: string
  IR_Image :: string
  IR_Sshkey :: string

text \<open>\<open>Extract\<close> of a result answers a node, never a nil pointer, also beside an error: when the request
  failed it is the zero value, whose map \<open>Extra\<close> is nil.\<close>

definition zero_Node :: Node where
  "zero_Node = \<lparr>N_UUID = '''', N_ProvisionState = '''', N_Extra = None\<rparr>"

text \<open>\<open>Nodes_Pages\<close> is the pager of a listing: the fetches of its pages in order, each page with what
  \<open>ExtractNodes\<close> makes of it. Errors the code drops are not results of the functions here.\<close>

type_synonym 'w pager = "('w, error + (error + Node list)) call list"

record 'w IronicLib =
  IR_Unmarshal :: "string \<Rightarrow> ironicProviderConfig \<Rightarrow> ironicProviderConfig \<times> error option"
  IR_md5 :: "string \<Rightarrow> string"
  IR_DecodeString :: "string \<Rightarrow> string"
  IR_WriteFile :: "string \<Rightarrow> string \<Rightarrow> 'w \<Rightarrow> 'w"
  IR_Setenv :: "string \<Rightarrow> string \<Rightarrow> 'w \<Rightarrow> 'w"
  IR_NewServiceClient :: "string \<Rightarrow> string \<Rightarrow> ('w, ServiceClient option) call"
  IR_NewBareMetalHTTPBasic :: "string \<Rightarrow> string \<Rightarrow> string \<Rightarrow> ServiceClient option"
  Images_Get :: "ServiceClient \<Rightarrow> string \<Rightarrow> ('w, error + Image) call"
  Nodes_Get :: "ServiceClient \<Rightarrow> string \<Rightarrow> ('w, Node \<times> error option) call"
  Nodes_Update :: "ServiceClient \<Rightarrow> string \<Rightarrow> UpdateOperation list \<Rightarrow> ('w, Node \<times> error option) call"
  Nodes_ChangeProvisionState :: "ServiceClient \<Rightarrow> string \<Rightarrow> ProvisionStateOpts \<Rightarrow> ('w, error option) call"
  Nodes_Pages :: "ServiceClient \<Rightarrow> 'w pager"
  IR_Dial :: "'w Dialer"

section \<open>The package's variables and the provider objects\<close>

definition typeName :: string where "typeName = ''ofcir_type''"
definition ofcir_cirName :: string where "ofcir_cirName = ''ofcir_cir''"
definition cirTaken :: string where "cirTaken = ''taken''"

record ironicProvider =
  IP_config :: ironicProviderConfig
  IP_client :: "ServiceClient option"
  IP_instance_info :: "nat option"

record 'w ironic_world =
  ir_clients :: "string \<rightharpoonup> ServiceClient"
  ir_instance_infos :: "string \<rightharpoonup> nat"
  ir_maps :: "instance_info list"
  ir_objects :: "ironicProvider list"
  ir_outer :: 'w

text \<open>Reads through a reference.\<close>

definition deref :: "'a list \<Rightarrow> nat \<Rightarrow> 'a option" where
  "deref store a = (if a < length store then Some (store ! a) else None)"

definition outer_call :: "('w, 'a) call \<Rightarrow> ('w ironic_world, 'a) call" where
  "outer_call c W = (case c (ir_outer W) of (r, w) \<Rightarrow> (r, W\<lparr>ir_outer := w\<rparr>))"

section \<open>The client\<close>

definition ironic_key :: "ironicProviderConfig \<Rightarrow> string" where
  "ironic_key cfg = IR_Endpoint cfg @ IR_Username cfg @ IR_OSCloud cfg @ IR_CloudYAML cfg @ IR_Image cfg"

definition checksummed :: "string \<Rightarrow> instance_info" where
  "checksummed src = [''image_source'' \<mapsto> src, ''image_checksum'' \<mapsto> src @ ''.checksum'']"

text \<open>The instance data of an image of the image service; a property that is there but no string
  panics.\<close>

definition image_info :: "Image \<Rightarrow> instance_info option" where
  "image_info img =
     (case (Img_Properties img ''kernel_id'', Img_Properties img ''ramdisk_id'') of
        (Some (JString k), Some (JString r)) \<Rightarrow>
          Some [''image_source'' \<mapsto> Img_ID img, ''kernel'' \<mapsto> k, ''ramdisk'' \<mapsto> r]
      | (Some k, Some r) \<Rightarrow> None
      | _ \<Rightarrow> Some [''image_source'' \<mapsto> Img_ID img, ''kernel'' \<mapsto> '''', ''ramdisk'' \<mapsto> ''''])"

text \<open>The branch of a configuration with a \<open>clouds.yaml\<close>.\<close>

definition cloud_client ::
  "'w IronicLib \<Rightarrow> ironicProviderConfig \<Rightarrow> ('w, error + ServiceClient \<times> instance_info) go" where
  "cloud_client lib cfg w =
     (let path = ''/tmp/'' @ IR_md5 lib (ironic_key cfg) @ ''.yaml'';
          w = IR_Setenv lib ''OS_CLIENT_CONFIG_FILE'' path
                (IR_WriteFile lib path (IR_DecodeString lib (IR_CloudYAML cfg)) w);
          (client, w) = IR_NewServiceClient lib ''baremetal'' (IR_OSCloud cfg) w in
      if \<not> strings_Contains (IR_Image cfg) ''://''
      then (case IR_NewServiceClient lib ''image'' (IR_OSCloud cfg) w of
              (image_client, w) \<Rightarrow>
                do {
                  image_client \<leftarrow> image_client;
                  checked (Images_Get lib image_client (IR_Image cfg))
                    (\<lambda>e. Inl (WrapError ''Error getting image info: '' e))
                    (\<lambda>img w. do {
                       info \<leftarrow> image_info img;
                       client \<leftarrow> client;
                       Some (Inr (client, info), w)
                     }) w
                })
      else do {
        client \<leftarrow> client;
        Some (Inr (client, checksummed (IR_Image cfg)), w)
      })"

definition basic_client ::
  "'w IronicLib \<Rightarrow> ironicProviderConfig \<Rightarrow> ('w, error + ServiceClient \<times> instance_info) go" where
  "basic_client lib cfg w =
     do {
       client \<leftarrow> IR_NewBareMetalHTTPBasic lib (IR_Endpoint cfg) (IR_Username cfg) (IR_Password cfg);
       Some (Inr (client\<lparr>SC_SkipVerify := True\<rparr>, checksummed (IR_Image cfg)), w)
     }"

text \<open>The entries of both maps for a key that has none.\<close>

definition fill_cache ::
  "'w IronicLib \<Rightarrow> ironicProviderConfig \<Rightarrow> ('w ironic_world, error option) go" where
  "fill_cache lib cfg W =
     do {
       (made, w) \<leftarrow> (if IR_CloudYAML cfg \<noteq> '''' then cloud_client lib cfg (ir_outer W)
                     else basic_client lib cfg (ir_outer W));
       let W = W\<lparr>ir_outer := w\<rparr>;
       Some (case made of
           Inl err \<Rightarrow> (Some err, W)
         | Inr (client, info) \<Rightarrow>
             (None, W\<lparr>ir_clients := (ir_clients W)(ironic_key cfg \<mapsto> client\<lparr>SC_Microversion := ''1.72''\<rparr>),
                ir_instance_infos := (ir_instance_infos W)(ironic_key cfg \<mapsto> length (ir_maps W)),
                ir_maps := ir_maps W @ [info]\<rparr>))
     }"

definition UpdateClient :: "'w IronicLib \<Rightarrow> nat \<Rightarrow> bool \<Rightarrow> ('w ironic_world, error option) go" where
  "UpdateClient lib a clearcache W =
     do {
       p \<leftarrow> deref (ir_objects W) a;
       let key = ironic_key (IP_config p);
       let W = (if clearcache then W\<lparr>ir_clients := (ir_clients W)(key := None)\<rparr> else W);
       (err, W) \<leftarrow> (if ir_clients W key = None then fill_cache lib (IP_config p) W else Some (None, W));
       Some (if err \<noteq> None then (err, W)
             else (None, W\<lparr>ir_objects := (ir_objects W)[a := p\<lparr>IP_client := ir_clients W key,
                     IP_instance_info := ir_instance_infos W key\<rparr>]\<rparr>))
     }"

definition auth_failed :: "error \<Rightarrow> bool" where
  "auth_failed err \<longleftrightarrow> strings_Contains (error_text err) ''Authentication failed''"

text \<open>A request with the provider's client, repeated once after a new login when the token expired;
  the outcome of the login is not looked at. \<open>err\<close> reads the error of a result.\<close>

definition with_login ::
  "'w IronicLib \<Rightarrow> nat \<Rightarrow> ('a \<Rightarrow> error option) \<Rightarrow> (ServiceClient \<Rightarrow> ('w, 'a) call) \<Rightarrow> ('w ironic_world, 'a) go" where
  "with_login lib a err request W =
     do {
       p \<leftarrow> deref (ir_objects W) a;
       client \<leftarrow> IP_client p;
       let (r, W) = outer_call (request client) W;
       if \<exists>e \<in> set_option (err r). auth_failed e
       then do {
         (ignored, W) \<leftarrow> UpdateClient lib a True W;
         p \<leftarrow> deref (ir_objects W) a;
         client \<leftarrow> IP_client p;
         Some (outer_call (request client) W)
       }
       else Some (r, W)
     }"

definition GetNode :: "'w IronicLib \<Rightarrow> nat \<Rightarrow> string \<Rightarrow> ('w ironic_world, Node \<times> error option) go" where
  "GetNode lib a i = with_login lib a snd (\<lambda>client. Nodes_Get lib client i)"

definition UpdateNode ::
  "'w IronicLib \<Rightarrow> nat \<Rightarrow> string \<Rightarrow> UpdateOperation list \<Rightarrow> ('w ironic_world, Node \<times> error option) go" where
  "UpdateNode lib a i opts = with_login lib a snd (\<lambda>client. Nodes_Update lib client i opts)"

definition ChangeProvisionStateNode ::
  "'w IronicLib \<Rightarrow> nat \<Rightarrow> string \<Rightarrow> ProvisionStateOpts \<Rightarrow> ('w ironic_world, error option) go" where
  "ChangeProvisionStateNode lib a i opts =
     with_login lib a (\<lambda>e. e) (\<lambda>client. Nodes_ChangeProvisionState lib client i opts)"

section \<open>Nodes\<close>

text \<open>A read of a map that may be nil.\<close>

definition extra_at :: "Node \<Rightarrow> string \<Rightarrow> json option" where
  "extra_at node k = (case N_Extra node of None \<Rightarrow> None | Some m \<Rightarrow> m k)"

definition deploy_target :: "Node \<Rightarrow> string" where
  "deploy_target node =
     (if N_ProvisionState node = nodes_Active then ''rebuild''
      else if N_ProvisionState node = nodes_DeployFail then ''rebuild''
      else nodes_TargetActive)"

text \<open>The update carries the maps as they are when it is made; its outcome is dropped.\<close>

definition deployNode :: "'w IronicLib \<Rightarrow> nat \<Rightarrow> Node \<Rightarrow> ('w ironic_world, error option) go" where
  "deployNode lib a node W =
     do {
       extra \<leftarrow> N_Extra node;
       let extra = extra(ofcir_cirName \<mapsto> JString cirTaken);
       p \<leftarrow> deref (ir_objects W) a;
       m \<leftarrow> IP_instance_info p;
       info \<leftarrow> deref (ir_maps W) m;
       let info = info(''root_gb'' \<mapsto> ''64'');
       let W = W\<lparr>ir_maps := (ir_maps W)[m := info]\<rparr>;
       (ignored, W) \<leftarrow> UpdateNode lib a (N_UUID node) [ReplaceExtra extra, ReplaceInstanceInfo info] W;
       ChangeProvisionStateNode lib a (N_UUID node)
         \<lparr>PS_Target = deploy_target node, PS_PublicKey = IR_Sshkey (IP_config p)\<rparr> W
     }"

definition node_usable :: "string \<Rightarrow> Node \<Rightarrow> bool" where
  "node_usable poolType node \<longleftrightarrow>
     N_ProvisionState node \<in> {nodes_Active, nodes_Available} \<and>
     extra_at node typeName = Some (JString poolType) \<and>
     (case extra_at node ofcir_cirName of
        None \<Rightarrow> True | Some JNull \<Rightarrow> True | Some (JString s) \<Rightarrow> s = '''' | Some (JOther t) \<Rightarrow> False)"

text \<open>The handler of one page: whether to go on, its error, and the node it selected.\<close>

fun scan_nodes ::
  "'w IronicLib \<Rightarrow> nat \<Rightarrow> string \<Rightarrow> Node list
   \<Rightarrow> ('w ironic_world, bool \<times> error option \<times> Node option) go" where
  "scan_nodes lib a poolType [] W = Some ((True, None, None), W)"
| "scan_nodes lib a poolType (node # nodes) W =
     (if node_usable poolType node
      then do {
        (err, W) \<leftarrow> deployNode lib a node W;
        Some ((False, map_option (WrapError ''error deploying node: '') err, Some node), W)
      }
      else scan_nodes lib a poolType nodes W)"

fun each_page ::
  "'w IronicLib \<Rightarrow> nat \<Rightarrow> string \<Rightarrow> 'w pager \<Rightarrow> ('w ironic_world, Node option \<times> error option) go" where
  "each_page lib a poolType [] W = Some ((None, None), W)"
| "each_page lib a poolType (fetch # pages) W =
     (case outer_call fetch W of
        (Inl err, W) \<Rightarrow> Some ((None, Some err), W)
      | (Inr (Inl err), W) \<Rightarrow> Some ((None, Some (WrapError ''error extracting nodes: '' err)), W)
      | (Inr (Inr thenodes), W) \<Rightarrow>
          do {
            ((more, err, selectedNode), W) \<leftarrow> scan_nodes lib a poolType thenodes W;
            if more then each_page lib a poolType pages W else Some ((selectedNode, err), W)
          })"

definition selectNode :: "'w IronicLib \<Rightarrow> nat \<Rightarrow> string \<Rightarrow> ('w ironic_world, error + Node) go" where
  "selectNode lib a poolType W =
     do {
       p \<leftarrow> deref (ir_objects W) a;
       client \<leftarrow> IP_client p;
       ((selectedNode, err), W) \<leftarrow> each_page lib a poolType (Nodes_Pages lib client) W;
       case err of
         Some e \<Rightarrow> do {
           (ignored, W) \<leftarrow> (if auth_failed e then UpdateClient lib a True W else Some (None, W));
           Some (Inl (WrapError ''error listing nodes: '' e), W)
         }
       | None \<Rightarrow>
           (case selectedNode of
              Some node \<Rightarrow> Some (Inr node, W)
            | None \<Rightarrow> Some (Inl (ErrorString ''Couldn't find a suitable ironic node''), W))
     }"

section \<open>Operations\<close>

definition ironic_Acquire ::
  "'w IronicLib \<Rightarrow> nat \<Rightarrow> int \<Rightarrow> string \<Rightarrow> string \<Rightarrow> ('w ironic_world, Resource \<times> error option) go" where
  "ironic_Acquire lib a poolSize poolName poolType W =
     do {
       (r, W) \<leftarrow> selectNode lib a poolType W;
       Some (case r of
           Inl err \<Rightarrow> ((Resource0, Some (WrapError ''error selecting node: '' err)), W)
         | Inr node \<Rightarrow> ((Resource0\<lparr>Id := N_UUID node\<rparr>, None), W))
     }"

definition json_text :: "json option \<Rightarrow> string" where
  "json_text v =
     (case v of None \<Rightarrow> ''null'' | Some JNull \<Rightarrow> ''null'' | Some (JString s) \<Rightarrow> s | Some (JOther t) \<Rightarrow> t)"

text \<open>The part of \<open>AcquireCompleted\<close> for an active node.\<close>

definition active_node ::
  "'w IronicLib \<Rightarrow> string \<Rightarrow> Node \<Rightarrow> ('w ironic_world, bool \<times> Resource \<times> error option) go" where
  "active_node lib i node W =
     (let address = (case extra_at node ''ofcir_ip'' of Some (JString s) \<Rightarrow> s | _ \<Rightarrow> '''');
          res = Resource0\<lparr>Id := i, Address := address, Metadata := json_text (extra_at node ''ofcir_data'')\<rparr> in
      do {
        sshport \<leftarrow> (case extra_at node ''ofcir_port_ssh'' of
            None \<Rightarrow> Some ''22'' | Some (JString s) \<Rightarrow> Some s | Some _ \<Rightarrow> None);
        let (up, W) = outer_call (IsPortOpen (IR_Dial lib) address sshport) W;
        Some ((up, res, None), W)
      })"

definition ironic_AcquireCompleted ::
  "'w IronicLib \<Rightarrow> nat \<Rightarrow> string \<Rightarrow> ('w ironic_world, bool \<times> Resource \<times> error option) go" where
  "ironic_AcquireCompleted lib a i W =
     do {
       ((node, err), W) \<leftarrow> GetNode lib a i W;
       let res = Resource0\<lparr>Id := i\<rparr>;
       case err of
         Some e \<Rightarrow> Some ((False, res, Some (WrapError ''error getting node: '' e)), W)
       | None \<Rightarrow> do {
           (err, W) \<leftarrow> (if N_ProvisionState node = nodes_DeployFail then deployNode lib a node W
                         else Some (None, W));
           case err of
             Some e \<Rightarrow> Some ((False, res, Some (WrapError ''error deploying node: '' e)), W)
           | None \<Rightarrow> (if N_ProvisionState node \<noteq> nodes_Active then Some ((False, res, None), W)
                      else active_node lib i node W)
         }
     }"

definition ironic_Clean :: "'w IronicLib \<Rightarrow> nat \<Rightarrow> string \<Rightarrow> ('w ironic_world, error option) go" where
  "ironic_Clean lib a i W =
     do {
       ((node, err), W) \<leftarrow> GetNode lib a i W;
       case err of
         Some e \<Rightarrow> Some (Some (WrapError ''error getting node: '' e), W)
       | None \<Rightarrow> deployNode lib a node W
     }"

definition ironic_CleanCompleted :: "'w IronicLib \<Rightarrow> nat \<Rightarrow> string \<Rightarrow> ('w ironic_world, bool \<times> error option) go" where
  "ironic_CleanCompleted lib a i W =
     do {
       ((cleaned, r, err), W) \<leftarrow> ironic_AcquireCompleted lib a i W;
       Some ((cleaned, err), W)
     }"

definition ironic_Release :: "'w IronicLib \<Rightarrow> nat \<Rightarrow> string \<Rightarrow> ('w ironic_world, error option) go" where
  "ironic_Release lib a i W =
     do {
       ((node, ignored), W) \<leftarrow> GetNode lib a i W;
       extra \<leftarrow> N_Extra node;
       (ignored, W) \<leftarrow> UpdateNode lib a i [ReplaceExtra (extra(ofcir_cirName \<mapsto> JString ''''))] W;
       Some (None, W)
     }"

definition ironic_provider :: "'w IronicLib \<Rightarrow> nat \<Rightarrow> 'w ironic_world Provider" where
  "ironic_provider lib a =
     \<lparr>Acquire = ironic_Acquire lib a, AcquireCompleted = ironic_AcquireCompleted lib a,
      Clean = ironic_Clean lib a, CleanCompleted = ironic_CleanCompleted lib a, Release = ironic_Release lib a\<rparr>"

definition ironic_default_config :: ironicProviderConfig where
  "ironic_default_config =
     \<lparr>IR_Endpoint = ''https://172.22.0.3:6385'', IR_OSCloud = ''openstack'', IR_CloudYAML = '''',
      IR_Username = '''', IR_Password = '''', IR_Image = ''http://172.22.0.1/images/ofcir_image.qcow2'',
      IR_Sshkey = ''''\<rparr>"

definition IronicProviderFactory ::
  "'w IronicLib \<Rightarrow> string \<Rightarrow> SecretData \<Rightarrow> ('w ironic_world, error + 'w ironic_world Provider) go" where
  "IronicProviderFactory lib providerInfo secretData W =
     (let (config, err) =
            (case secretData ''config'' of
               Some configJSON \<Rightarrow> IR_Unmarshal lib configJSON ironic_default_config
             | None \<Rightarrow> (ironic_default_config, None))
      in (case err of
            Some e \<Rightarrow> Some (Inl (WrapError ''error in provider config json: '' e), W)
          | None \<Rightarrow>
              (let a = length (ir_objects W);
                   W = W\<lparr>ir_objects := ir_objects W @
                          [\<lparr>IP_config = config, IP_client = None, IP_instance_info = None\<rparr>]\<rparr> in
               do {
                 (err, W) \<leftarrow> UpdateClient lib a False W;
                 Some (case err of Some e \<Rightarrow> (Inl e, W) | None \<Rightarrow> (Inr (ironic_provider lib a), W))
               })))"

section \<open>The contract\<close>

lemma ironic_provider_sel [simp]:
  "Acquire (ironic_provider lib a) = ironic_Acquire lib a"
  "AcquireCompleted (ironic_provider lib a) = ironic_AcquireCompleted lib a"
  "Clean (ironic_provider lib a) = ironic_Clean lib a"
  "CleanCompleted (ironic_provider lib a) = ironic_CleanCompleted lib a"
  "Release (ironic_provider lib a) = ironic_Release lib a"
  by (simp_all add: ironic_provider_def)

text \<open>A resource is ready when its node is active and a connection to its ssh port was made.\<close>

definition ssh_port :: "Node \<Rightarrow> string option" where
  "ssh_port node =
     (case extra_at node ''ofcir_port_ssh'' of None \<Rightarrow> Some ''22'' | Some (JString s) \<Rightarrow> Some s | Some _ \<Rightarrow> None)"

lemma active_node_Some:
  assumes "active_node lib i node W = Some ((b, r, e), W')"
  shows "Id r = i" and "e = None"
    and "\<exists>port W1. ssh_port node = Some port \<and> outer_call (IsPortOpen (IR_Dial lib) (Address r) port) W = (b, W')"
  using assms
  by (auto simp: active_node_def ssh_port_def go_Some)

lemma ironic_ready:
  assumes "ironic_AcquireCompleted lib a i W = Some ((b, r, e), W')"
  shows "Id r = i" and "b \<Longrightarrow> e = None"
    and "b \<Longrightarrow> \<exists>node W1 port. GetNode lib a i W = Some ((node, None), W1) \<and> N_ProvisionState node = nodes_Active \<and>
      ssh_port node = Some port \<and> outer_call (IsPortOpen (IR_Dial lib) (Address r) port) W1 = (True, W')"
proof -
  have "nodes_DeployFail \<noteq> nodes_Active" by (simp add: nodes_DeployFail_def nodes_Active_def)
  with assms have "Id r = i \<and> (b \<longrightarrow> e = None) \<and> (b \<longrightarrow> (\<exists>node W1. GetNode lib a i W = Some ((node, None), W1) \<and>
      N_ProvisionState node = nodes_Active \<and> active_node lib i node W1 = Some ((True, r, e), W')))"
    by (auto simp: ironic_AcquireCompleted_def go_Some dest: active_node_Some(1,2))
  then show "Id r = i" "b \<Longrightarrow> e = None"
    "b \<Longrightarrow> \<exists>node W1 port. GetNode lib a i W = Some ((node, None), W1) \<and> N_ProvisionState node = nodes_Active \<and>
      ssh_port node = Some port \<and> outer_call (IsPortOpen (IR_Dial lib) (Address r) port) W1 = (True, W')"
    by (auto dest!: active_node_Some(3))
qed

interpretation ironic: provider "ironic_provider lib a" "\<lambda>_. True" for lib a
proof unfold_locales
  fix i W r e W'
  assume "AcquireCompleted (ironic_provider lib a) i W = Some ((True, r, e), W')"
  then show "e = None \<and> Id r = i" using ironic_ready(1,2) [of lib a i W True r e W'] by simp
next
  fix i W e W'
  assume "CleanCompleted (ironic_provider lib a) i W = Some ((True, e), W')"
  then obtain r where "ironic_AcquireCompleted lib a i W = Some ((True, r, e), W')"
    by (auto simp: ironic_CleanCompleted_def bind_eq_Some_conv)
  from ironic_ready(2) [OF this] show "e = None" by simp
qed simp_all

section \<open>What a selection takes\<close>

lemma scan_nodes_Some:
  assumes "scan_nodes lib a t ns W = Some ((go_on, err, sel), W')"
  shows "(go_on \<and> err = None \<and> sel = None \<and> W' = W) \<or>
    (\<not> go_on \<and> (\<exists>node \<in> set ns. node_usable t node \<and> sel = Some node \<and>
       (\<exists>e. deployNode lib a node W = Some (e, W') \<and> err = map_option (WrapError ''error deploying node: '') e)))"
  using assms
  by (induction ns) (auto simp: bind_eq_Some_conv split: if_split_asm)

lemma each_page_Some:
  assumes "each_page lib a t pages W = Some ((Some node, None), W')"
  shows "\<exists>fetch \<in> set pages. \<exists>W1 W2 ns. outer_call fetch W1 = (Inr (Inr ns), W2) \<and> node \<in> set ns \<and>
    node_usable t node \<and> deployNode lib a node W2 = Some (None, W')"
  using assms
proof (induction pages arbitrary: W)
  case (Cons fetch pages)
  obtain page W1 where f: "outer_call fetch W = (page, W1)" by (metis prod.exhaust)
  show ?case
  proof (cases page)
    case (Inl err)
    with f Cons.prems show ?thesis by simp
  next
    case (Inr x)
    show ?thesis
    proof (cases x)
      case (Inl err)
      with f Inr Cons.prems show ?thesis by simp
    next
      case ns: (Inr ns)
      with f Inr Cons.prems obtain go_on err sel W2 where
        sc: "scan_nodes lib a t ns W1 = Some ((go_on, err, sel), W2)"
        and rest: "(if go_on then each_page lib a t pages W2 else Some ((sel, err), W2)) = Some ((Some node, None), W')"
        by (auto simp: bind_eq_Some_conv)
      from scan_nodes_Some [OF sc] show ?thesis
      proof
        assume "go_on \<and> err = None \<and> sel = None \<and> W2 = W1"
        with rest Cons.IH [of W1] show ?thesis by auto
      next
        assume "\<not> go_on \<and> (\<exists>node \<in> set ns. node_usable t node \<and> sel = Some node \<and>
          (\<exists>e. deployNode lib a node W1 = Some (e, W2) \<and> err = map_option (WrapError ''error deploying node: '') e))"
        with rest have "node \<in> set ns" "node_usable t node" "deployNode lib a node W1 = Some (None, W')" by auto
        with f Inr ns show ?thesis by auto
      qed
    qed
  qed
qed simp

lemma ironic_Acquire_ok:
  assumes "ironic_Acquire lib a n pn t W = Some ((res, None), W')"
  shows "\<exists>p client fetch W1 W2 ns node. deref (ir_objects W) a = Some p \<and> IP_client p = Some client \<and>
    fetch \<in> set (Nodes_Pages lib client) \<and> outer_call fetch W1 = (Inr (Inr ns), W2) \<and> node \<in> set ns \<and>
    node_usable t node \<and> deployNode lib a node W2 = Some (None, W') \<and> res = Resource0\<lparr>Id := N_UUID node\<rparr>"
proof -
  from assms obtain r W1 where "selectNode lib a t W = Some (r, W1)"
    "(case r of Inl err \<Rightarrow> ((Resource0, Some (WrapError ''error selecting node: '' err)), W1)
      | Inr node \<Rightarrow> ((Resource0\<lparr>Id := N_UUID node\<rparr>, None), W1)) = ((res, None), W')"
    by (auto simp: ironic_Acquire_def go_Some)
  then obtain node where sel: "selectNode lib a t W = Some (Inr node, W')" and r: "res = Resource0\<lparr>Id := N_UUID node\<rparr>"
    by (cases r) auto
  from sel obtain p client where "deref (ir_objects W) a = Some p" "IP_client p = Some client"
    "each_page lib a t (Nodes_Pages lib client) W = Some ((Some node, None), W')"
    by (auto simp: selectNode_def go_Some)
  from each_page_Some [OF this(3)] this(1,2) r show ?thesis by blast
qed

section \<open>Answers\<close>

text \<open>What a request with one login answers is an answer of the request.\<close>

lemma with_login_answer:
  assumes "with_login lib a err request W = Some (r, W')"
  shows "\<exists>client w w'. request client w = (r, w')"
proof -
  from assms obtain p client where p: "deref (ir_objects W) a = Some p" "IP_client p = Some client"
    by (auto simp: with_login_def bind_eq_Some_conv)
  obtain r1 w1 where 1: "request client (ir_outer W) = (r1, w1)" by (metis prod.exhaust)
  show ?thesis
  proof (cases "\<exists>e\<in>set_option (err r1). auth_failed e")
    case False
    with assms p 1 have "r = r1" by (auto simp: with_login_def bind_eq_Some_conv outer_call_def)
    with 1 show ?thesis by blast
  next
    case True
    with assms p 1 obtain W2 client2 where "outer_call (request client2) W2 = (r, W')"
      by (auto simp: with_login_def bind_eq_Some_conv outer_call_def split: if_split_asm)
    then show ?thesis by (auto simp: outer_call_def split: prod.split_asm)
  qed
qed

end
