(* ===== verification/Ibmcloud_Provider.thy ===== *)
theory Ibmcloud_Provider
  imports Provider_Factory Net_Utils
begin

text \<open>
  \<open>pkg/providers/ibmcloud.go\<close>. The SoftLayer services are a record of functions for a session
  (\<open>SoftLayer\<close>); sessions, random numbers, identifiers, the JSON decoder and the dialer are arguments
  (\<open>IbmLib\<close>). The fields of the answers are pointers, hence options: a chain of them is one option,
  and the code panics where it dereferences one that is nil. The provider keeps no state of its own.
\<close>

section \<open>The services as the code calls them\<close>

record Item_Price =
  Price_Id :: "int option"
  Price_LocationGroupId :: "int option"

record Product_Item =
  PI_KeyName :: "string option"
  PI_Prices :: "Item_Price list"

record Preset =
  Preset_KeyName :: "string option"
  Preset_Id :: "int option"

record Ssh_Key =
  Key_Id :: "int option"
  Key_Key :: "string option"
  Key_Label :: "string option"

text \<open>\<open>HW_Status\<close> is \<open>HardwareStatus.Status\<close>, \<open>HW_TransactionStatus\<close> is
  \<open>LastTransaction.TransactionStatus.Name\<close>, \<open>HW_Tags\<close> the names \<open>Tag.Name\<close> of the tag references,
  \<open>HW_PackageId\<close> is \<open>BillingItem.Package.Id\<close> and \<open>HW_BillingItemId\<close> is \<open>BillingItem.Id\<close>.\<close>

record Hardware =
  HW_Id :: "int option"
  HW_Hostname :: "string option"
  HW_Status :: "string option"
  HW_TransactionStatus :: "string option"
  HW_PrimaryIpAddress :: "string option"
  HW_Tags :: "string option list"
  HW_PackageId :: "int option"
  HW_BillingItemId :: "int option"
  HW_HourlyBillingFlag :: "bool option"

record Product_Order =
  Order_Quantity :: int
  Order_Location :: string
  Order_PackageId :: int
  Order_PresetId :: int
  Order_Prices :: "Item_Price list"
  Order_Hostname :: string
  Order_Domain :: string
  Order_UseHourlyPricing :: bool
  Order_SshKeyIds :: "int list"

record Server_Configuration =
  Conf_SshKeyIds :: "int list"
  Conf_CustomProvisionScriptUri :: string
  Conf_ItemPrices :: "Item_Price list"

record 'w SoftLayer =
  SL_GetItems :: "string \<Rightarrow> int \<Rightarrow> ('w, Product_Item list \<times> error option) call"
  SL_GetActivePresets :: "int \<Rightarrow> ('w, Preset list \<times> error option) call"
  SL_PlaceOrder :: "Product_Order \<Rightarrow> bool \<Rightarrow> ('w, error option) call"
  SL_GetHardware :: "string \<Rightarrow> string option \<Rightarrow> ('w, Hardware list \<times> error option) call"
  SL_GetSshKeys :: "('w, Ssh_Key list \<times> error option) call"
  SL_CreateSshKey :: "Ssh_Key \<Rightarrow> ('w, Ssh_Key \<times> error option) call"
  SL_SetTags :: "int \<Rightarrow> string \<Rightarrow> ('w, error option) call"
  SL_ReloadOperatingSystem :: "int \<Rightarrow> string \<Rightarrow> Server_Configuration \<Rightarrow> ('w, error option) call"
  SL_CancelItem :: "int \<Rightarrow> bool \<Rightarrow> bool \<Rightarrow> string \<Rightarrow> string \<Rightarrow> ('w, error option) call"

record ibmcloudProviderConfig =
  IBM_APIKey :: string
  IBM_Sshkey :: string
  IBM_Preset :: string
  IBM_OS :: string
  IBM_ProvScript :: string

record 'w IbmLib =
  IBM_Unmarshal :: "string \<Rightarrow> ibmcloudProviderConfig \<Rightarrow> ibmcloudProviderConfig \<times> error option"
  IBM_session_New :: "string \<Rightarrow> string \<Rightarrow> 'w SoftLayer"
  IBM_Intn :: "nat \<Rightarrow> ('w, nat) call"
  IBM_uuid :: "('w, string) call"
  IBM_Dial :: "'w Dialer"

section \<open>Constants\<close>

definition IbmCloudFastProvisioningServer :: int where "IbmCloudFastProvisioningServer = 200"
definition manualTag :: string where "manualTag = ''ofcir-manual''"
definition takenTag :: string where "takenTag = ''ofcir-taken''"

definition locations :: "string list" where
  "locations =
     [''DALLAS09'', ''DALLAS10'', ''DALLAS12'', ''DALLAS13'', ''FRANKFURT'', ''FRANKFURT04'', ''FRANKFURT05'', ''LONDON02'', ''LONDON04'',
      ''LONDON05'', ''LONDON06'', ''MILAN'', ''MONTREAL'', ''PARIS'', ''MADRID02'', ''MADRID04'', ''MADRID05'', ''SANJOSE03'', ''SANJOSE04'', ''TORONTO'',
      ''TORONTO04'', ''TORONTO05'', ''WASHINGTON06'', ''WASHINGTON07'']"

lemma manual_taken [simp]: "manualTag \<noteq> takenTag" "takenTag \<noteq> manualTag"
  by (simp_all add: manualTag_def takenTag_def)

section \<open>Prices and keys\<close>

text \<open>A loop that returns the first element with a property, where the test may panic.\<close>

fun search :: "('a \<Rightarrow> bool option) \<Rightarrow> 'a list \<Rightarrow> 'a option option" where
  "search t [] = Some None"
| "search t (x # xs) = do { hit \<leftarrow> t x; if hit then Some (Some x) else search t xs }"

definition has :: "('a \<Rightarrow> string option) \<Rightarrow> string \<Rightarrow> 'a \<Rightarrow> bool option" where
  "has field s x = map_option (\<lambda>v. v = s) (field x)"

lemma search_hit: "search t xs = Some (Some x) \<Longrightarrow> x \<in> set xs \<and> t x = Some True"
  by (induction xs) (auto simp: bind_eq_Some_conv split: if_split_asm)

lemma search_miss: "search t xs = Some None \<Longrightarrow> \<forall>x \<in> set xs. t x = Some False"
  by (induction xs) (auto simp: bind_eq_Some_conv split: if_split_asm)

definition getPackageItems :: "'w SoftLayer \<Rightarrow> int \<Rightarrow> ('w, Product_Item list) call" where
  "getPackageItems sl packageId w =
     (case SL_GetItems sl ''id, itemCategory, keyName,prices[id, hourlyRecurringFee, recurringFee, categories]'' packageId w of
        ((receipt, Some err), w) \<Rightarrow> ([], w)
      | ((receipt, None), w) \<Rightarrow> (receipt, w))"

definition getStandardPrice :: "Product_Item \<Rightarrow> Item_Price" where
  "getStandardPrice item =
     (case List.find (\<lambda>p. Price_LocationGroupId p = None) (PI_Prices item) of
        Some p \<Rightarrow> p | None \<Rightarrow> \<lparr>Price_Id = None, Price_LocationGroupId = None\<rparr>)"

fun item_prices :: "Product_Item list \<Rightarrow> string list \<Rightarrow> Item_Price list option" where
  "item_prices items [] = Some []"
| "item_prices items (k # ks) =
     do {
       hit \<leftarrow> search (has PI_KeyName k) items;
       prices \<leftarrow> item_prices items ks;
       Some (case hit of None \<Rightarrow> prices | Some item \<Rightarrow> getStandardPrice item # prices)
     }"

definition getItemPriceList :: "'w SoftLayer \<Rightarrow> int \<Rightarrow> string list \<Rightarrow> ('w, Item_Price list) go" where
  "getItemPriceList sl packageId itemKeyNames w =
     (case getPackageItems sl packageId w of
        (items, w) \<Rightarrow> map_option (\<lambda>prices. (prices, w)) (item_prices items itemKeyNames))"

text \<open>\<open>strings.Split(uuid.New().String(), "-")[0]\<close>\<close>

definition short_uuid :: "'w IbmLib \<Rightarrow> ('w, string) call" where
  "short_uuid lib w = (case IBM_uuid lib w of (u, w) \<Rightarrow> (hd (Split u CHR ''-''), w))"

definition ensureSSHKey ::
  "'w IbmLib \<Rightarrow> 'w SoftLayer \<Rightarrow> string \<Rightarrow> ('w, int option \<times> error option) go" where
  "ensureSSHKey lib sl newkey w =
     (case SL_GetSshKeys sl w of
        ((sshKeys, Some err), w) \<Rightarrow> Some ((None, Some err), w)
      | ((sshKeys, None), w) \<Rightarrow>
          do {
            hit \<leftarrow> search (has Key_Key newkey) sshKeys;
            Some (case hit of
                Some key \<Rightarrow> ((Key_Id key, None), w)
              | None \<Rightarrow>
                  (case short_uuid lib w of
                     (label, w) \<Rightarrow>
                       (case SL_CreateSshKey sl \<lparr>Key_Id = None, Key_Key = Some newkey, Key_Label = Some label\<rparr> w of
                          ((newKey, Some err), w) \<Rightarrow> ((None, Some err), w)
                        | ((newKey, None), w) \<Rightarrow> ((Key_Id newKey, None), w))))
          })"

section \<open>Ordering a server\<close>

definition required_items :: "ibmcloudProviderConfig \<Rightarrow> string list" where
  "required_items cfg =
     [''REBOOT_KVM_OVER_IP'', ''UNLIMITED_SSL_VPN_USERS_1_PPTP_VPN_USER_PER_ACCOUNT'', IBM_OS cfg,
      ''BANDWIDTH_0_GB_2'', ''1_GBPS_PUBLIC_PRIVATE_NETWORK_UPLINKS'', ''1_IP_ADDRESS'']"

definition server_order ::
  "string \<Rightarrow> int \<Rightarrow> Item_Price list \<Rightarrow> string \<Rightarrow> string \<Rightarrow> int \<Rightarrow> Product_Order" where
  "server_order location presetId prices hostname domain key =
     \<lparr>Order_Quantity = 1, Order_Location = location, Order_PackageId = IbmCloudFastProvisioningServer,
      Order_PresetId = presetId, Order_Prices = prices, Order_Hostname = hostname, Order_Domain = domain,
      Order_UseHourlyPricing = True, Order_SshKeyIds = [key]\<rparr>"

text \<open>The identifier of the preset with a name, -1 when there is none.\<close>

definition preset_id :: "string \<Rightarrow> Preset list \<Rightarrow> int option" where
  "preset_id presetname presets =
     do {
       hit \<leftarrow> search (has Preset_KeyName presetname) presets;
       case hit of None \<Rightarrow> Some (-1) | Some p \<Rightarrow> Preset_Id p
     }"

definition serverCreate ::
  "'w IbmLib \<Rightarrow> 'w SoftLayer \<Rightarrow> ibmcloudProviderConfig \<Rightarrow> string \<Rightarrow> string \<Rightarrow> ('w, string \<times> error option) go" where
  "serverCreate lib sl cfg pool presetname w =
     (let (n, w) = IBM_Intn lib (length locations) w;
          (hostname, w) = short_uuid lib w in
      do {
        location \<leftarrow> (if n < length locations then Some (locations ! n) else None);
        ((key, err), w) \<leftarrow> ensureSSHKey lib sl (IBM_Sshkey cfg) w;
        case err of
          Some e \<Rightarrow> Some (('''', Some e), w)
        | None \<Rightarrow> do {
            (prices, w) \<leftarrow> getItemPriceList sl IbmCloudFastProvisioningServer (required_items cfg) w;
            let ((presets, ignored), w) = SL_GetActivePresets sl IbmCloudFastProvisioningServer w;
            presetId \<leftarrow> preset_id presetname presets;
            if presetId = -1
            then Some (('''', Some (ErrorString (''Can't find preset with name '' @ presetname))), w)
            else do {
              key \<leftarrow> key;
              let (err, w) = SL_PlaceOrder sl (server_order location presetId prices hostname (pool @ ''.ofcir'') key) False w;
              Some (case err of Some e \<Rightarrow> (('''', Some e), w) | None \<Rightarrow> ((hostname, None), w))
            }
          }
      })"

section \<open>Operations\<close>

definition getNodeByName :: "'w SoftLayer \<Rightarrow> string \<Rightarrow> ('w, error + Hardware) go" where
  "getNodeByName sl name w =
     (case SL_GetHardware sl ''id;hostname;primaryIpAddress;hardwareStatus;billingItem;hourlyBillingFlag;lastTransaction;tagReferences;billingItem[categoryCode,package[name,id]]'' None w of
        ((nodes, Some err), w) \<Rightarrow> Some (Inl err, w)
      | ((nodes, None), w) \<Rightarrow>
          do {
            hit \<leftarrow> search (has HW_Hostname name) nodes;
            Some (case hit of Some node \<Rightarrow> Inr node | None \<Rightarrow> Inl (ErrorString ''Node node found''), w)
          })"

definition ibmcloud_Clean ::
  "'w IbmLib \<Rightarrow> 'w SoftLayer \<Rightarrow> ibmcloudProviderConfig \<Rightarrow> string \<Rightarrow> ('w, error option) go" where
  "ibmcloud_Clean lib sl cfg i w =
     do {
       (r, w) \<leftarrow> getNodeByName sl i w;
       case r of
         Inl err \<Rightarrow> Some (Some err, w)
       | Inr node \<Rightarrow> do {
           ((key, err), w) \<leftarrow> ensureSSHKey lib sl (IBM_Sshkey cfg) w;
           case err of
             Some e \<Rightarrow> Some (Some e, w)
           | None \<Rightarrow> do {
               package \<leftarrow> HW_PackageId node;
               (prices, w) \<leftarrow> getItemPriceList sl package [IBM_OS cfg] w;
               key \<leftarrow> key;
               hw \<leftarrow> HW_Id node;
               Some (SL_ReloadOperatingSystem sl hw ''FORCE''
                 \<lparr>Conf_SshKeyIds = [key], Conf_CustomProvisionScriptUri = IBM_ProvScript cfg,
                  Conf_ItemPrices = prices\<rparr> w)
             }
         }
     }"

text \<open>A host with the manual tag, without the taken one and active; the status is only read when the
  tags are right.\<close>

definition host_available :: "Hardware \<Rightarrow> bool option" where
  "host_available node =
     do {
       tags \<leftarrow> those (HW_Tags node);
       if manualTag \<in> set tags \<and> takenTag \<notin> set tags
       then has HW_Status ''ACTIVE'' node
       else Some False
     }"

definition hosts_filter :: string where
  "hosts_filter = ''{\"hardware\":{\"tagReferences\":{\"tag\": {\"name\":{\"operation\": \"in\", \"options\": [{\"name\": \"data\", \"value\": [\"'' @
     manualTag @ ''\", \"'' @ takenTag @ ''\"]}]}}}}}''"

text \<open>The tags are set and the host is cleaned, and neither outcome is looked at.\<close>

definition getAvailableHost ::
  "'w IbmLib \<Rightarrow> 'w SoftLayer \<Rightarrow> ibmcloudProviderConfig \<Rightarrow> ('w, error + Hardware option) go" where
  "getAvailableHost lib sl cfg w =
     (case SL_GetHardware sl ''id;hostname;hardwareStatus;tagReferences'' (Some hosts_filter) w of
        ((nodes, Some err), w) \<Rightarrow> Some (Inl err, w)
      | ((nodes, None), w) \<Rightarrow>
          do {
            hit \<leftarrow> search host_available nodes;
            case hit of
              None \<Rightarrow> Some (Inr None, w)
            | Some node \<Rightarrow> do {
                hw \<leftarrow> HW_Id node;
                let (ignored, w) = SL_SetTags sl hw (manualTag @ '','' @ takenTag) w;
                hostname \<leftarrow> HW_Hostname node;
                (ignored, w) \<leftarrow> ibmcloud_Clean lib sl cfg hostname w;
                Some (Inr (Some node), w)
              }
          })"

definition ibmcloud_Acquire ::
  "'w IbmLib \<Rightarrow> 'w SoftLayer \<Rightarrow> ibmcloudProviderConfig \<Rightarrow> int \<Rightarrow> string \<Rightarrow> string
   \<Rightarrow> ('w, Resource \<times> error option) go" where
  "ibmcloud_Acquire lib sl cfg poolSize poolName poolType w =
     do {
       (r, w) \<leftarrow> getAvailableHost lib sl cfg w;
       case r of
         Inl err \<Rightarrow> Some ((Resource0, Some err), w)
       | Inr (Some node) \<Rightarrow> do {
           hostname \<leftarrow> HW_Hostname node;
           Some ((Resource0\<lparr>Id := hostname\<rparr>, None), w)
         }
       | Inr None \<Rightarrow>
           (if IBM_Preset cfg = ''''
            then Some ((Resource0, Some (ErrorString ''No suitable hosts found and Preset not set to create Hosts'')), w)
            else do {
              ((i, err), w) \<leftarrow> serverCreate lib sl cfg poolName (IBM_Preset cfg) w;
              Some (case err of Some e \<Rightarrow> ((Resource0, Some e), w) | None \<Rightarrow> ((Resource0\<lparr>Id := i\<rparr>, None), w))
            })
     }"

definition releaseManualHost :: "'w SoftLayer \<Rightarrow> Hardware \<Rightarrow> ('w, error option) go" where
  "releaseManualHost sl node w = map_option (\<lambda>hw. SL_SetTags sl hw manualTag w) (HW_Id node)"

definition ibmcloud_AcquireCompleted ::
  "'w IbmLib \<Rightarrow> 'w SoftLayer \<Rightarrow> string \<Rightarrow> ('w, bool \<times> Resource \<times> error option) go" where
  "ibmcloud_AcquireCompleted lib sl i w =
     do {
       let res = Resource0\<lparr>Id := i\<rparr>;
       (r, w) \<leftarrow> getNodeByName sl i w;
       case r of
         Inl err \<Rightarrow> Some ((False, res, Some err), w)
       | Inr node \<Rightarrow> do {
           status \<leftarrow> HW_Status node;
           if status \<noteq> ''ACTIVE'' then Some ((False, res, None), w)
           else do {
             transaction \<leftarrow> HW_TransactionStatus node;
             if transaction \<noteq> ''COMPLETE'' then Some ((False, res, None), w)
             else do {
               ip \<leftarrow> HW_PrimaryIpAddress node;
               let (up, w) = IsPortOpen (IBM_Dial lib) ip ''22'' w;
               if \<not> up then Some ((False, res, None), w)
               else Some ((True, res\<lparr>Address := ip\<rparr>, None), w)
             }
           }
         }
     }"

definition ibmcloud_CleanCompleted ::
  "'w IbmLib \<Rightarrow> 'w SoftLayer \<Rightarrow> string \<Rightarrow> ('w, bool \<times> error option) go" where
  "ibmcloud_CleanCompleted lib sl i w =
     do {
       ((cleaned, r, err), w) \<leftarrow> ibmcloud_AcquireCompleted lib sl i w;
       Some ((cleaned, err), w)
     }"

definition ibmcloud_Release :: "'w SoftLayer \<Rightarrow> string \<Rightarrow> ('w, error option) go" where
  "ibmcloud_Release sl i w =
     do {
       (r, w) \<leftarrow> getNodeByName sl i w;
       case r of
         Inl err \<Rightarrow> Some (Some err, w)
       | Inr node \<Rightarrow> do {
           hit \<leftarrow> search (has (\<lambda>t. t) manualTag) (HW_Tags node);
           case hit of
             Some tag \<Rightarrow> releaseManualHost sl node w
           | None \<Rightarrow> do {
               item \<leftarrow> HW_BillingItemId node;
               hourly \<leftarrow> HW_HourlyBillingFlag node;
               Some (SL_CancelItem sl item hourly True ''No longer needed'' ''No longer needed'' w)
             }
         }
     }"

definition ibmcloudProvider :: "'w IbmLib \<Rightarrow> 'w SoftLayer \<Rightarrow> ibmcloudProviderConfig \<Rightarrow> 'w Provider" where
  "ibmcloudProvider lib sl cfg =
     \<lparr>Acquire = ibmcloud_Acquire lib sl cfg, AcquireCompleted = ibmcloud_AcquireCompleted lib sl,
      Clean = ibmcloud_Clean lib sl cfg, CleanCompleted = ibmcloud_CleanCompleted lib sl,
      Release = ibmcloud_Release sl\<rparr>"

definition ibmcloud_default_config :: ibmcloudProviderConfig where
  "ibmcloud_default_config =
     \<lparr>IBM_APIKey = '''', IBM_Sshkey = '''', IBM_Preset = '''', IBM_OS = ''OS_CENTOS_STREAM_8_X_64_BIT'',
      IBM_ProvScript = ''''\<rparr>"

definition IbmcloudProviderFactory ::
  "'w IbmLib \<Rightarrow> string \<Rightarrow> SecretData \<Rightarrow> ('w, error + 'w Provider) go" where
  "IbmcloudProviderFactory lib providerInfo secretData w =
     (let (config, err) =
            (case secretData ''config'' of
               Some configJSON \<Rightarrow> IBM_Unmarshal lib configJSON ibmcloud_default_config
             | None \<Rightarrow> (ibmcloud_default_config, None))
      in (case err of
            Some e \<Rightarrow> Some (Inl (WrapError ''error in provider config json: '' e), w)
          | None \<Rightarrow> Some (Inr (ibmcloudProvider lib (IBM_session_New lib ''apikey'' (IBM_APIKey config)) config), w)))"

section \<open>The contract\<close>

lemma ibmcloudProvider_sel [simp]:
  "Acquire (ibmcloudProvider lib sl cfg) = ibmcloud_Acquire lib sl cfg"
  "AcquireCompleted (ibmcloudProvider lib sl cfg) = ibmcloud_AcquireCompleted lib sl"
  "Clean (ibmcloudProvider lib sl cfg) = ibmcloud_Clean lib sl cfg"
  "CleanCompleted (ibmcloudProvider lib sl cfg) = ibmcloud_CleanCompleted lib sl"
  "Release (ibmcloudProvider lib sl cfg) = ibmcloud_Release sl"
  by (simp_all add: ibmcloudProvider_def)

lemma has_True [simp]: "has field s x = Some True \<longleftrightarrow> field x = Some s"
  by (auto simp: has_def)

lemma has_False: "has field s x = Some False \<longleftrightarrow> (\<exists>v. field x = Some v \<and> v \<noteq> s)"
  by (auto simp: has_def)

lemma ibmcloud_ready:
  assumes "ibmcloud_AcquireCompleted lib sl i w = Some ((b, r, e), w')"
  shows "Id r = i" and "b \<Longrightarrow> e = None"
    and "b \<Longrightarrow> \<exists>node w1. getNodeByName sl i w = Some (Inr node, w1) \<and> HW_Status node = Some ''ACTIVE'' \<and>
      HW_TransactionStatus node = Some ''COMPLETE'' \<and> HW_PrimaryIpAddress node = Some (Address r) \<and>
      IsPortOpen (IBM_Dial lib) (Address r) ''22'' w1 = (True, w')"
  using assms
  by (auto simp: ibmcloud_AcquireCompleted_def go_Some)

interpretation ibmcloud: provider "ibmcloudProvider lib sl cfg" "\<lambda>_. True" for lib sl cfg
proof unfold_locales
  fix i w r e w'
  assume "AcquireCompleted (ibmcloudProvider lib sl cfg) i w = Some ((True, r, e), w')"
  then show "e = None \<and> Id r = i" using ibmcloud_ready(1,2) [of lib sl i w True r e w'] by simp
next
  fix i w e w'
  assume "CleanCompleted (ibmcloudProvider lib sl cfg) i w = Some ((True, e), w')"
  then obtain r where "ibmcloud_AcquireCompleted lib sl i w = Some ((True, r, e), w')"
    by (auto simp: ibmcloud_CleanCompleted_def bind_eq_Some_conv)
  from ibmcloud_ready(2) [OF this] show "e = None" by simp
qed simp_all

lemma host_available_True:
  "host_available node = Some True \<longleftrightarrow>
     (\<exists>tags. those (HW_Tags node) = Some tags \<and> manualTag \<in> set tags \<and> takenTag \<notin> set tags) \<and>
     HW_Status node = Some ''ACTIVE''"
  by (auto simp: host_available_def bind_eq_Some_conv)

section \<open>What an acquisition and a release do\<close>

text \<open>With no preset only a manual host can be acquired.\<close>

lemma ibmcloud_Acquire_manual:
  assumes "ibmcloud_Acquire lib sl cfg n pn pt w = Some ((res, None), w')" and "IBM_Preset cfg = ''''"
  shows "\<exists>nodes w1 node hw hostname w2 e.
    SL_GetHardware sl ''id;hostname;hardwareStatus;tagReferences'' (Some hosts_filter) w = ((nodes, None), w1) \<and>
    node \<in> set nodes \<and> host_available node = Some True \<and> HW_Id node = Some hw \<and> HW_Hostname node = Some hostname \<and>
    ibmcloud_Clean lib sl cfg hostname w2 = Some (e, w') \<and> w2 = snd (SL_SetTags sl hw (manualTag @ '','' @ takenTag) w1) \<and>
    res = Resource0\<lparr>Id := hostname\<rparr>"
proof -
  from assms obtain node hostname where g: "getAvailableHost lib sl cfg w = Some (Inr (Some node), w')"
    "HW_Hostname node = Some hostname" "res = Resource0\<lparr>Id := hostname\<rparr>"
    by (auto simp: ibmcloud_Acquire_def go_Some)
  obtain nodes e w1 where hw: "SL_GetHardware sl ''id;hostname;hardwareStatus;tagReferences'' (Some hosts_filter) w = ((nodes, e), w1)"
    by (metis prod.exhaust)
  with g(1) have "e = None" by (cases e) (simp_all add: getAvailableHost_def)
  with g(1) hw have "search host_available nodes = Some (Some node)"
    "\<exists>hw e w2. HW_Id node = Some hw \<and> w2 = snd (SL_SetTags sl hw (manualTag @ '','' @ takenTag) w1) \<and>
       ibmcloud_Clean lib sl cfg hostname w2 = Some (e, w')"
    using g(2) by (auto simp: getAvailableHost_def go_Some)
  with search_hit [OF this(1)] hw \<open>e = None\<close> g(2,3) show ?thesis by blast
qed

lemma getNodeByName_Inr:
  assumes "getNodeByName sl name w = Some (Inr node, w')"
  shows "\<exists>m nodes. SL_GetHardware sl m None w = ((nodes, None), w') \<and> node \<in> set nodes \<and> HW_Hostname node = Some name"
proof -
  obtain nodes e w1 where hw: "SL_GetHardware sl ''id;hostname;primaryIpAddress;hardwareStatus;billingItem;hourlyBillingFlag;lastTransaction;tagReferences;billingItem[categoryCode,package[name,id]]'' None w = ((nodes, e), w1)"
    by (metis prod.exhaust)
  with assms have "e = None" by (cases e) (simp_all add: getNodeByName_def)
  with assms hw have "search (has HW_Hostname name) nodes = Some (Some node)" "w1 = w'"
    by (auto simp: getNodeByName_def bind_eq_Some_conv split: option.split_asm)
  with search_hit [OF this(1)] hw \<open>e = None\<close> show ?thesis by auto
qed

text \<open>A host that is not manual is cancelled, a manual one is only untagged; a host that is not listed
  is an error that is no \<open>ResourceNotFoundError\<close>.\<close>

lemma ibmcloud_Release_manual:
  assumes "getNodeByName sl i w = Some (Inr node, w1)" and "those (HW_Tags node) = Some tags"
    and "manualTag \<in> set tags" and "HW_Id node = Some hw"
  shows "ibmcloud_Release sl i w = Some (SL_SetTags sl hw manualTag w1)"
proof -
  have "\<exists>t. search (has (\<lambda>t. t) manualTag) ts = Some (Some t)" if "those ts = Some tags'" "manualTag \<in> set tags'" for ts tags'
    using that
  proof (induction ts arbitrary: tags')
    case (Cons t ts)
    then show ?case by (cases t) (auto simp: has_def)
  qed simp
  from this [OF assms(2,3)] assms(1,4) show ?thesis
    by (auto simp: ibmcloud_Release_def releaseManualHost_def)
qed

lemma ibmcloud_Release_hourly:
  assumes "getNodeByName sl i w = Some (Inr node, w1)" and "those (HW_Tags node) = Some tags"
    and "manualTag \<notin> set tags" and "HW_BillingItemId node = Some item" and "HW_HourlyBillingFlag node = Some hourly"
  shows "ibmcloud_Release sl i w = Some (SL_CancelItem sl item hourly True ''No longer needed'' ''No longer needed'' w1)"
proof -
  have "search (has (\<lambda>t. t) manualTag) ts = Some None" if "those ts = Some tags'" "manualTag \<notin> set tags'" for ts tags'
    using that
  proof (induction ts arbitrary: tags')
    case (Cons t ts)
    then show ?case by (cases t) (auto simp: has_def)
  qed simp
  from this [OF assms(2,3)] assms(1,4,5) show ?thesis
    by (simp add: ibmcloud_Release_def)
qed

section \<open>The tags of the hosts\<close>

text \<open>What the documentation says about the identifiers, names and tags of the hosts of an account:
  \<open>SetTags\<close> replaces the tags of one host by those of a comma-separated list, listing reads them,
  and the other calls leave them alone.\<close>

type_synonym host_view = "int option \<times> string option \<times> string option list"

definition view :: "Hardware \<Rightarrow> host_view" where
  "view h = (HW_Id h, HW_Hostname h, HW_Tags h)"

definition retag :: "int \<Rightarrow> string \<Rightarrow> host_view \<Rightarrow> host_view" where
  "retag i s v = (case v of (j, n, ts) \<Rightarrow> (j, n, if j = Some i then map Some (Split s CHR '','') else ts))"

definition account_laws :: "'w IbmLib \<Rightarrow> 'w SoftLayer \<Rightarrow> ('w \<Rightarrow> host_view list) \<Rightarrow> bool" where
  "account_laws lib sl hosts \<longleftrightarrow>
     (\<forall>m f w ns e w'. SL_GetHardware sl m f w = ((ns, e), w') \<longrightarrow> hosts w' = hosts w \<and>
        (e = None \<longrightarrow> view ` set ns \<subseteq> set (hosts w))) \<and>
     (\<forall>i s w. fst (SL_SetTags sl i s w) = None \<longrightarrow> hosts (snd (SL_SetTags sl i s w)) = map (retag i s) (hosts w)) \<and>
     (\<forall>m p w. hosts (snd (SL_GetItems sl m p w)) = hosts w) \<and>
     (\<forall>w. hosts (snd (SL_GetSshKeys sl w)) = hosts w) \<and>
     (\<forall>k w. hosts (snd (SL_CreateSshKey sl k w)) = hosts w) \<and>
     (\<forall>i f c w. hosts (snd (SL_ReloadOperatingSystem sl i f c w)) = hosts w) \<and>
     (\<forall>w. hosts (snd (IBM_uuid lib w)) = hosts w)"

lemma account_lawsD:
  assumes "account_laws lib sl hosts"
  shows "SL_GetHardware sl m f w = ((ns, e), w') \<Longrightarrow> hosts w' = hosts w \<and> (e = None \<longrightarrow> view ` set ns \<subseteq> set (hosts w))"
    and "fst (SL_SetTags sl i s w) = None \<Longrightarrow> hosts (snd (SL_SetTags sl i s w)) = map (retag i s) (hosts w)"
    and "SL_GetItems sl m2 p w = (items, w') \<Longrightarrow> hosts w' = hosts w"
    and "SL_GetSshKeys sl w = (keys, w') \<Longrightarrow> hosts w' = hosts w"
    and "SL_CreateSshKey sl k w = (key, w') \<Longrightarrow> hosts w' = hosts w"
    and "hosts (snd (SL_ReloadOperatingSystem sl i f2 c w)) = hosts w"
    and "IBM_uuid lib w = (u, w') \<Longrightarrow> hosts w' = hosts w"
  using assms unfolding account_laws_def by (blast | metis snd_conv)+

lemma ensureSSHKey_hosts:
  assumes "account_laws lib sl hosts" and "ensureSSHKey lib sl k w = Some (r, w')"
  shows "hosts w' = hosts w"
proof -
  note laws = account_lawsD [OF assms(1)]
  obtain keys e w1 where l: "SL_GetSshKeys sl w = ((keys, e), w1)" by (metis prod.exhaust)
  obtain u w2 where u: "IBM_uuid lib w1 = (u, w2)" by (metis prod.exhaust)
  obtain key e2 w3 where c: "SL_CreateSshKey sl \<lparr>Key_Id = None, Key_Key = Some k, Key_Label = Some (hd (Split u CHR ''-''))\<rparr> w2
      = ((key, e2), w3)" by (metis prod.exhaust)
  have "w' = w1 \<or> w' = w3"
    using assms(2) l u c
    by (cases e; cases e2) (auto simp: ensureSSHKey_def short_uuid_def bind_eq_Some_conv split: option.split_asm)
  with laws(4) [OF l] laws(7) [OF u] laws(5) [OF c] show ?thesis by auto
qed

lemma getItemPriceList_hosts:
  assumes "account_laws lib sl hosts" and "getItemPriceList sl p ks w = Some (r, w')"
  shows "hosts w' = hosts w"
proof -
  obtain items e w1 where "SL_GetItems sl ''id, itemCategory, keyName,prices[id, hourlyRecurringFee, recurringFee, categories]'' p w
      = ((items, e), w1)" by (metis prod.exhaust)
  with account_lawsD(3) [OF assms(1) this] assms(2) show ?thesis
    by (cases e) (auto simp: getItemPriceList_def getPackageItems_def)
qed

lemma getNodeByName_hosts:
  assumes "account_laws lib sl hosts" and "getNodeByName sl i w = Some (r, w')"
  shows "hosts w' = hosts w"
proof -
  obtain nodes e w1 where hw: "SL_GetHardware sl ''id;hostname;primaryIpAddress;hardwareStatus;billingItem;hourlyBillingFlag;lastTransaction;tagReferences;billingItem[categoryCode,package[name,id]]'' None w = ((nodes, e), w1)"
    by (metis prod.exhaust)
  with account_lawsD(1) [OF assms(1) hw] assms(2) show ?thesis
    by (cases e) (auto simp: getNodeByName_def bind_eq_Some_conv split: option.split_asm)
qed

lemma ibmcloud_Clean_hosts:
  assumes "account_laws lib sl hosts" and "ibmcloud_Clean lib sl cfg i w = Some (r, w')"
  shows "hosts w' = hosts w"
proof -
  from assms(2) obtain x w1 where n: "getNodeByName sl i w = Some (x, w1)"
    unfolding ibmcloud_Clean_def by (auto simp: bind_eq_Some_conv)
  note h1 = getNodeByName_hosts [OF assms(1) n]
  show ?thesis
  proof (cases x)
    case (Inl err)
    with assms(2) n h1 show ?thesis by (simp add: ibmcloud_Clean_def)
  next
    case (Inr node)
    with assms(2) n obtain key e w2 where k: "ensureSSHKey lib sl (IBM_Sshkey cfg) w1 = Some ((key, e), w2)"
      by (auto simp: ibmcloud_Clean_def bind_eq_Some_conv)
    note h2 = ensureSSHKey_hosts [OF assms(1) k]
    show ?thesis
    proof (cases e)
      case (Some err)
      with assms(2) n k Inr h1 h2 show ?thesis by (simp add: ibmcloud_Clean_def)
    next
      case None
      with assms(2) n k Inr obtain p prices w3 hw c where "getItemPriceList sl p [IBM_OS cfg] w2 = Some (prices, w3)"
        "SL_ReloadOperatingSystem sl hw ''FORCE'' c w3 = (r, w')"
        by (auto simp: ibmcloud_Clean_def bind_eq_Some_conv)
      with getItemPriceList_hosts [OF assms(1) this(1)] account_lawsD(6) [OF assms(1)] h1 h2 show ?thesis
        by (metis snd_conv)
    qed
  qed
qed

lemma Split_tags [simp]:
  "Split (manualTag @ CHR '','' # takenTag) CHR '','' = [manualTag, takenTag]" "Split manualTag CHR '','' = [manualTag]"
  by (simp_all add: manualTag_def takenTag_def)

lemma retag_retag [simp]: "retag i s (retag i t v) = retag i s v"
  by (cases v) (simp add: retag_def)

lemma view_same_id:
  assumes "distinct (map fst vs)" and "v \<in> set vs" and "u \<in> set vs" and "fst u = fst v"
  shows "u = v"
  using assms by (simp add: distinct_map inj_on_def)

text \<open>The tags after an acquisition of a manual host, and after its release.\<close>

lemma manual_host_tags:
  assumes laws: "account_laws lib sl hosts" and tagged: "\<forall>i s w. fst (SL_SetTags sl i s w) = None"
    and ids: "distinct (map fst (hosts w))" "distinct (map (fst \<circ> snd) (hosts w))"
    and clean: "\<forall>(i, n, ts) \<in> set (hosts w). Some manualTag \<in> set ts \<longrightarrow> Some takenTag \<notin> set ts \<longrightarrow> ts = [Some manualTag]"
    and acq: "ibmcloud_Acquire lib sl cfg k pn pt w = Some ((res, None), w1)" "IBM_Preset cfg = ''''"
  shows "\<exists>hw. (Some hw, Some (Id res), [Some manualTag]) \<in> set (hosts w) \<and>
      hosts w1 = map (retag hw (manualTag @ '','' @ takenTag)) (hosts w)"
    and "getNodeByName sl (Id res) w1 = Some (Inr node, w2) \<Longrightarrow>
      ibmcloud_Release sl (Id res) w1 = Some (r, w3) \<Longrightarrow> r = None \<and> hosts w3 = hosts w"
proof -
  from ibmcloud_Acquire_manual [OF acq] obtain nodes wa h hw hostname wb e where
    l: "SL_GetHardware sl ''id;hostname;hardwareStatus;tagReferences'' (Some hosts_filter) w = ((nodes, None), wa)"
    and h: "h \<in> set nodes" "host_available h = Some True" "HW_Id h = Some hw" "HW_Hostname h = Some hostname"
    and cl: "ibmcloud_Clean lib sl cfg hostname wb = Some (e, w1)"
      "wb = snd (SL_SetTags sl hw (manualTag @ '','' @ takenTag) wa)"
    and res: "res = Resource0\<lparr>Id := hostname\<rparr>" by blast
  have in_w: "view h \<in> set (hosts w)" using account_lawsD(1) [OF laws l] h(1) by auto
  from h(2) obtain tags where tags: "those (HW_Tags h) = Some tags" "manualTag \<in> set tags" "takenTag \<notin> set tags"
    by (auto simp: host_available_True)
  have those_map: "ts = map Some us" if "those ts = Some us" for ts and us :: "string list"
    using that by (induction ts arbitrary: us) (auto split: option.split_asm)
  have "HW_Tags h = [Some manualTag]"
    using bspec [OF clean in_w] tags those_map [OF tags(1)] by (auto simp: view_def)
  with in_w h(3,4) res have v: "(Some hw, Some (Id res), [Some manualTag]) \<in> set (hosts w)" by (simp add: view_def)
  have h1: "hosts w1 = map (retag hw (manualTag @ '','' @ takenTag)) (hosts w)"
    using ibmcloud_Clean_hosts [OF laws cl(1)] account_lawsD(2) [OF laws tagged [rule_format]] account_lawsD(1) [OF laws l]
    by (simp add: cl(2))
  with v show "\<exists>hw. (Some hw, Some (Id res), [Some manualTag]) \<in> set (hosts w) \<and>
      hosts w1 = map (retag hw (manualTag @ '','' @ takenTag)) (hosts w)" by blast
  assume n: "getNodeByName sl (Id res) w1 = Some (Inr node, w2)"
    and rel: "ibmcloud_Release sl (Id res) w1 = Some (r, w3)"
  from getNodeByName_Inr [OF n] obtain m ns where ns: "SL_GetHardware sl m None w1 = ((ns, None), w2)"
    "node \<in> set ns" "HW_Hostname node = Some (Id res)" by blast
  with account_lawsD(1) [OF laws ns(1)] have "view node \<in> set (hosts w1)" "hosts w2 = hosts w1" by auto
  with h1 obtain u where u: "u \<in> set (hosts w)" "view node = retag hw (manualTag @ '','' @ takenTag) u" by auto
  with ns(3) have "fst (snd u) = Some (Id res)" by (cases u) (simp add: view_def retag_def)
  with ids(2) u(1) v have "u = (Some hw, Some (Id res), [Some manualTag])"
    unfolding distinct_map inj_on_def by fastforce
  with u(2) have "HW_Id node = Some hw" "HW_Tags node = [Some manualTag, Some takenTag]"
    by (simp_all add: view_def retag_def)
  with ibmcloud_Release_manual [OF n, of "[manualTag, takenTag]" hw] rel
  have "SL_SetTags sl hw manualTag w2 = (r, w3)" by simp
  with tagged account_lawsD(2) [OF laws, of hw manualTag w2] have "r = None" "hosts w3 = map (retag hw manualTag) (hosts w2)"
    by (metis fst_conv, metis fst_conv snd_conv)
  moreover have "map (retag hw manualTag) (hosts w2) = hosts w"
  proof -
    have "retag hw manualTag x = x" if "x \<in> set (hosts w)" for x
      using view_same_id [OF ids(1) v that] by (cases x) (simp add: retag_def)
    then have "map (retag hw manualTag) (hosts w) = hosts w" by (intro map_idI)
    then show ?thesis by (simp add: \<open>hosts w2 = hosts w1\<close> h1 comp_def)
  qed
  ultimately show "r = None \<and> hosts w3 = hosts w" by simp
qed

end
