(* ===== verification/All_Providers.thy ===== *)
theory All_Providers
  imports Fsm_Process Dummy_Provider Aws_Provider Equinix_Provider Libvirt_Provider Ironic_Provider
    Ibmcloud_Provider
begin

text \<open>
  The six providers behind \<open>providersFactory.go\<close> in one process. Its world has the variables of the
  providers' packages (the in-memory provider, the clients of \<open>equinix.go\<close>, the clients and maps of
  \<open>ironic.go\<close>) and the clouds, which the providers share. Each factory works on its part of it, and
  the locale \<open>part\<close> carries the contracts over to the whole. That a factory sees no more than its part is
  how the world is put together here, not something that is shown: in Go the variables are those of one package.
\<close>

section \<open>The world of the process\<close>

record 'w ofcir_world =
  dummyVars :: dummy_world
  equinixClients :: "string \<rightharpoonup> 'w packngo_Client"
  ironicClients :: "string \<rightharpoonup> ServiceClient"
  ironicInfos :: "string \<rightharpoonup> nat"
  ironicMaps :: "instance_info list"
  ironicObjects :: "ironicProvider list"
  cloud :: 'w

definition dummy_wr :: "dummy_world \<Rightarrow> 'w ofcir_world \<Rightarrow> 'w ofcir_world" where
  "dummy_wr d v = v\<lparr>dummyVars := d\<rparr>"

definition cloud_wr :: "'w \<Rightarrow> 'w ofcir_world \<Rightarrow> 'w ofcir_world" where
  "cloud_wr w v = v\<lparr>cloud := w\<rparr>"

definition equinix_rd :: "'w ofcir_world \<Rightarrow> 'w eq_world" where
  "equinix_rd v = \<lparr>eqClients = equinixClients v, eq_outer = cloud v\<rparr>"

definition equinix_wr :: "'w eq_world \<Rightarrow> 'w ofcir_world \<Rightarrow> 'w ofcir_world" where
  "equinix_wr e v = v\<lparr>equinixClients := eqClients e, cloud := eq_outer e\<rparr>"

definition ironic_rd :: "'w ofcir_world \<Rightarrow> 'w ironic_world" where
  "ironic_rd v =
     \<lparr>ir_clients = ironicClients v, ir_instance_infos = ironicInfos v, ir_maps = ironicMaps v,
      ir_objects = ironicObjects v, ir_outer = cloud v\<rparr>"

definition ironic_wr :: "'w ironic_world \<Rightarrow> 'w ofcir_world \<Rightarrow> 'w ofcir_world" where
  "ironic_wr i v =
     v\<lparr>ironicClients := ir_clients i, ironicInfos := ir_instance_infos i, ironicMaps := ir_maps i,
       ironicObjects := ir_objects i, cloud := ir_outer i\<rparr>"

lemmas part_defs =
  dummy_wr_def cloud_wr_def equinix_rd_def equinix_wr_def ironic_rd_def ironic_wr_def

interpretation dummy_part: part dummyVars dummy_wr
  by unfold_locales (simp_all add: part_defs)

interpretation cloud_part: part cloud cloud_wr
  by unfold_locales (simp_all add: part_defs)

interpretation equinix_part: part equinix_rd equinix_wr
  by unfold_locales (simp_all add: part_defs)

interpretation ironic_part: part ironic_rd ironic_wr
  by unfold_locales (simp_all add: part_defs)

section \<open>The factories\<close>

definition factory_on :: "('v \<Rightarrow> 'w) \<Rightarrow> ('w \<Rightarrow> 'v \<Rightarrow> 'v) \<Rightarrow> 'w factory \<Rightarrow> 'v factory" where
  "factory_on rd wr fac info sec = on_part rd wr (\<lambda>w. map_option (\<lambda>(r, w). (map_sum (\<lambda>e. e) (provider_on rd wr) r, w)) (fac info sec w))"

text \<open>What the providers take from outside the repository.\<close>

record 'w Libraries =
  Lib_range :: map_order
  Lib_libvirt :: "'w LibvirtLib"
  Lib_ironic :: "'w IronicLib"
  Lib_equinix :: "'w EquinixLib"
  Lib_ibmcloud :: "'w IbmLib"
  Lib_aws_Unmarshal :: "string \<Rightarrow> awsProviderConfig \<Rightarrow> awsProviderConfig \<times> error option"
  Lib_aws_builder :: "string \<Rightarrow> credentials \<Rightarrow> ('w, error + 'w EC2Client) call"

definition ofcir_factories :: "'w Libraries \<Rightarrow> 'w ofcir_world ProviderFactories" where
  "ofcir_factories L =
     \<lparr>MakeDummy = \<lambda>info sec v. (case DummyProviderFactory (Lib_range L) info sec (dummyVars v) of
        (p, d) \<Rightarrow> (provider_on dummyVars dummy_wr p, dummy_wr d v)),
      MakeLibvirt = factory_on cloud cloud_wr (LibvirtProviderFactory (Lib_libvirt L)),
      MakeIronic = factory_on ironic_rd ironic_wr (IronicProviderFactory (Lib_ironic L)),
      MakeEquinix = factory_on equinix_rd equinix_wr (EquinixProviderFactory (Lib_equinix L)),
      MakeIbmcloud = factory_on cloud cloud_wr (IbmcloudProviderFactory (Lib_ibmcloud L)),
      MakeAWS = factory_on cloud cloud_wr (\<lambda>info sec w.
        Some (AWSProviderFactory (Lib_aws_Unmarshal L) (Lib_aws_builder L) info sec, w))\<rparr>"

lemma ofcir_factories_sel [simp]:
  "MakeDummy (ofcir_factories L) info sec v =
     (provider_on dummyVars dummy_wr (dummyProvider (Lib_range L)), dummy_wr (dummy_once (dummyVars v)) v)"
  "MakeLibvirt (ofcir_factories L) = factory_on cloud cloud_wr (LibvirtProviderFactory (Lib_libvirt L))"
  "MakeIronic (ofcir_factories L) = factory_on ironic_rd ironic_wr (IronicProviderFactory (Lib_ironic L))"
  "MakeEquinix (ofcir_factories L) = factory_on equinix_rd equinix_wr (EquinixProviderFactory (Lib_equinix L))"
  "MakeIbmcloud (ofcir_factories L) = factory_on cloud cloud_wr (IbmcloudProviderFactory (Lib_ibmcloud L))"
  "MakeAWS (ofcir_factories L) = factory_on cloud cloud_wr (\<lambda>info sec w.
     Some (AWSProviderFactory (Lib_aws_Unmarshal L) (Lib_aws_builder L) info sec, w))"
  by (simp_all add: ofcir_factories_def DummyProviderFactory_def)

lemma factory_on_Some:
  "factory_on rd wr fac info sec v = Some (r, v') \<longleftrightarrow>
     (\<exists>r0 w'. fac info sec (rd v) = Some (r0, w') \<and> r = map_sum (\<lambda>e. e) (provider_on rd wr) r0 \<and> v' = wr w' v)"
  by (auto simp: factory_on_def on_part_Some)

section \<open>Every provider keeps the contract\<close>

text \<open>What a provider name stands for: the part of the world its factory works on.\<close>

lemma NewProvider_ofcir:
  "NewProvider (ofcir_factories L) pool sec v =
     (let p = PSpec_Provider (P_Spec pool); info = PSpec_ProviderInfo (P_Spec pool) in
      if p = ProviderDummy
      then Some (Inr (provider_on dummyVars dummy_wr (dummyProvider (Lib_range L))), dummy_wr (dummy_once (dummyVars v)) v)
      else if p = ProviderLibvirt then MakeLibvirt (ofcir_factories L) info sec v
      else if p = ProviderIronic then MakeIronic (ofcir_factories L) info sec v
      else if p = ProviderEquinix then MakeEquinix (ofcir_factories L) info sec v
      else if p = ProviderIbmcloud then MakeIbmcloud (ofcir_factories L) info sec v
      else if p = ProviderAWS then MakeAWS (ofcir_factories L) info sec v
      else Some (Inl (ErrorString (''unknown provider type: '' @ p)), v))"
  by (simp add: NewProvider_def Let_def)

text \<open>What holds of the world before and after the in-memory provider was initialised.\<close>

definition dummy_started :: "'w Libraries \<Rightarrow> 'w ofcir_world \<Rightarrow> bool" where
  "dummy_started L v \<longleftrightarrow> dummy_inv (dummyVars v) \<and> visits_once (Lib_range L)"

definition dummy_startable :: "'w Libraries \<Rightarrow> 'w ofcir_world \<Rightarrow> bool" where
  "dummy_startable L v \<longleftrightarrow>
     (dummy (dummyVars v) = None \<or> dummy_inv (dummyVars v)) \<and> visits_once (Lib_range L)"

lemma dummy_wr_started: "dummy_startable L v \<Longrightarrow> dummy_started L (dummy_wr (dummy_once (dummyVars v)) v)"
  by (simp add: dummy_startable_def dummy_started_def dummy_once_inv)

text \<open>What the factories make.\<close>

lemma made_libvirt:
  assumes "LibvirtProviderFactory lib info sec w = Some (Inr p, w')"
  shows "w' = w \<and> (\<exists>cfg. p = libvirtProvider lib cfg)"
  using assms by (auto simp: LibvirtProviderFactory_def Let_def split: prod.split_asm option.split_asm)

lemma made_ibmcloud:
  assumes "IbmcloudProviderFactory lib info sec w = Some (Inr p, w')"
  shows "w' = w \<and> (\<exists>sl cfg. p = ibmcloudProvider lib sl cfg)"
  using assms by (auto simp: IbmcloudProviderFactory_def Let_def split: prod.split_asm option.split_asm)

lemma made_aws:
  assumes "AWSProviderFactory unmarshal builder info sec = Inr p"
  shows "\<exists>H cfg. p = awsProvider H cfg"
  using assms by (auto simp: AWSProviderFactory_def Let_def split: prod.split_asm option.split_asm sum.split_asm)

lemma made_equinix:
  assumes "EquinixProviderFactory lib info sec W = Some (Inr p, W')"
  shows "eq_outer W' = eq_outer W \<and> (\<exists>c cfg. p = equinixProvider lib c cfg)"
  using assms by (auto simp: EquinixProviderFactory_def Let_def split: sum.split_asm option.split_asm)

lemma made_ironic:
  assumes "IronicProviderFactory lib info sec W = Some (Inr p, W')"
  shows "p = ironic_provider lib (length (ir_objects W))"
  using assms by (auto simp: IronicProviderFactory_def go_Some split: option.split_asm)

lemma NewProvider_made:
  assumes "NewProvider (ofcir_factories L) pool sec v = Some (Inr p, v1)"
  obtains (dummy) "PSpec_Provider (P_Spec pool) = ProviderDummy"
      "p = provider_on dummyVars dummy_wr (dummyProvider (Lib_range L))" "v1 = dummy_wr (dummy_once (dummyVars v)) v"
  | (libvirt) cfg where "PSpec_Provider (P_Spec pool) = ProviderLibvirt"
      "p = provider_on cloud cloud_wr (libvirtProvider (Lib_libvirt L) cfg)" "v1 = v"
  | (ironic) a where "PSpec_Provider (P_Spec pool) = ProviderIronic"
      "p = provider_on ironic_rd ironic_wr (ironic_provider (Lib_ironic L) a)"
  | (equinix) c cfg where "PSpec_Provider (P_Spec pool) = ProviderEquinix"
      "p = provider_on equinix_rd equinix_wr (equinixProvider (Lib_equinix L) c cfg)" "cloud v1 = cloud v"
  | (ibmcloud) sl cfg where "PSpec_Provider (P_Spec pool) = ProviderIbmcloud"
      "p = provider_on cloud cloud_wr (ibmcloudProvider (Lib_ibmcloud L) sl cfg)" "v1 = v"
  | (aws) H cfg where "PSpec_Provider (P_Spec pool) = ProviderAWS"
      "p = provider_on cloud cloud_wr (awsProvider H cfg)" "v1 = v"
proof -
  have sum: "\<exists>q. r0 = Inr q \<and> p = provider_on rd wr q" if "Inr p = map_sum (\<lambda>e. e) (provider_on rd wr) r0"
    for rd :: "'a ofcir_world \<Rightarrow> 'b" and wr and r0 :: "error + 'b Provider"
    using that by (cases r0) auto
  have plain: "cloud_wr (cloud v) v = v" by simp
  let ?p = "PSpec_Provider (P_Spec pool)" and ?info = "PSpec_ProviderInfo (P_Spec pool)"
  note made = assms [unfolded NewProvider_ofcir Let_def ofcir_factories_sel]
  consider "?p = ProviderDummy" | "?p = ProviderLibvirt" | "?p = ProviderIronic" | "?p = ProviderEquinix"
    | "?p = ProviderIbmcloud" | "?p = ProviderAWS"
    | "?p \<notin> {ProviderDummy, ProviderLibvirt, ProviderIronic, ProviderEquinix, ProviderIbmcloud, ProviderAWS}"
    by blast
  then show ?thesis
  proof cases
    case 1
    with made show ?thesis by (intro dummy) auto
  next
    case 2
    with made have "factory_on cloud cloud_wr (LibvirtProviderFactory (Lib_libvirt L)) ?info sec v = Some (Inr p, v1)"
      by (simp add: provider_types)
    with 2 show ?thesis using plain by (auto simp: factory_on_Some dest!: sum made_libvirt intro: libvirt)
  next
    case 3
    with made have "factory_on ironic_rd ironic_wr (IronicProviderFactory (Lib_ironic L)) ?info sec v = Some (Inr p, v1)"
      by (simp add: provider_types)
    with 3 show ?thesis by (auto simp: factory_on_Some dest!: sum made_ironic intro: ironic)
  next
    case 4
    with made have "factory_on equinix_rd equinix_wr (EquinixProviderFactory (Lib_equinix L)) ?info sec v = Some (Inr p, v1)"
      by (simp add: provider_types)
    with 4 show ?thesis
      by (auto simp: factory_on_Some equinix_wr_def equinix_rd_def dest!: sum made_equinix intro: equinix)
  next
    case 5
    with made have "factory_on cloud cloud_wr (IbmcloudProviderFactory (Lib_ibmcloud L)) ?info sec v = Some (Inr p, v1)"
      by (simp add: provider_types)
    with 5 show ?thesis using plain by (auto simp: factory_on_Some dest!: sum made_ibmcloud intro: ibmcloud)
  next
    case 6
    with made have "factory_on cloud cloud_wr (\<lambda>info sec w.
        Some (AWSProviderFactory (Lib_aws_Unmarshal L) (Lib_aws_builder L) info sec, w)) ?info sec v = Some (Inr p, v1)"
      by (simp add: provider_types)
    with 6 show ?thesis using plain by (auto simp: factory_on_Some dest!: sum made_aws intro: aws)
  next
    case 7
    with made show ?thesis by auto
  qed
qed

lemma NewProvider_contract:
  assumes "NewProvider (ofcir_factories L) pool sec v = Some (Inr p, v1)" and "dummy_startable L v"
  obtains ok where "provider p ok" "ok v1"
  using assms(1)
proof (cases rule: NewProvider_made)
  case dummy
  from dummy_part.provider_on_part [OF total_provider.axioms(1) [OF dummy.total_provider_axioms [of "Lib_range L"]]]
    dummy_wr_started [OF assms(2)] dummy(2,3) that show ?thesis unfolding dummy_started_def by blast
next
  case (libvirt cfg)
  from cloud_part.provider_on_part [OF libvirt.provider_axioms] libvirt(2) that show ?thesis by blast
next
  case (ironic a)
  from ironic_part.provider_on_part [OF ironic.provider_axioms] ironic(2) that show ?thesis by blast
next
  case (equinix c cfg)
  from equinix_part.provider_on_part [OF total_provider.axioms(1) [OF equinix_total.total_provider_axioms]]
    equinix(2) that show ?thesis by blast
next
  case (ibmcloud sl cfg)
  from cloud_part.provider_on_part [OF ibmcloud.provider_axioms] ibmcloud(2) that show ?thesis by blast
next
  case (aws H cfg)
  from cloud_part.provider_on_part [OF aws.provider_axioms] aws(2) that show ?thesis by blast
qed

text \<open>C11 (functional). Whichever of the six providers a pool names, a resource in the waiting state only
  becomes available when that provider reported the resource behind it ready without an error, and
  keeps its identifier; the address and the data are the ones reported.\<close>

theorem available_only_when_ready:
  assumes "Process lib (ofcir_factories L) now cir pool sec NewCIResourceFSM v = Some (((rd, True, d, e), cir', f'), v')"
    and "status_state cir = StateProvisioningWait" and "dummy_startable L v"
  shows "\<exists>p v1 r. NewProvider (ofcir_factories L) pool sec v = Some (Inr p, v1) \<and>
     AcquireCompleted p (CStatus_ResourceId (C_Status cir)) v1 = Some ((True, r, None), v') \<and>
     status_state cir' = StateAvailable \<and> CStatus_ResourceId (C_Status cir') = CStatus_ResourceId (C_Status cir) \<and>
     Id r = CStatus_ResourceId (C_Status cir) \<and>
     CStatus_Address (C_Status cir') = Address r \<and> CStatus_Extra (C_Status cir') = Metadata r"
  using assms(1)
proof (cases rule: Process_cases)
  case (ran p v1 st ctx')
  from fsm_onEntry(3) [OF ran(2) assms(2)] ran(3) assms(2) have
    run: "handleStateProvisioningWait (fsm_ctx cir pool p) (fresh_fsm StateProvisioningWait) v1 = Some (((d, e), ctx', f'), v')"
    by simp
  from NewProvider_contract [OF ran(1) assms(3)] obtain ok where ok: "provider p ok" "ok v1" .
  from provider.wait_ready_id [OF ok _ _ run] assms(2) ran(5) obtain r where
    r: "AcquireCompleted p (CStatus_ResourceId (C_Status cir)) v1 = Some ((True, r, None), v')"
    "CStatus_Address (C_Status cir') = Address r" "CStatus_Extra (C_Status cir') = Metadata r"
    unfolding ran(6) by auto
  from r(1) provider.ready_id [OF ok] have "Id r = CStatus_ResourceId (C_Status cir)" by blast
  moreover from run r(1) assms(2) have "status_state cir' = StateAvailable"
    "CStatus_ResourceId (C_Status cir') = CStatus_ResourceId (C_Status cir)"
    by (auto simp: handleStateProvisioningWait_def ran(6))
  ultimately show ?thesis using ran(1) r by blast
qed simp

text \<open>Of the six providers only libvirt, ironic, IBM cloud and AWS can make a run of the
  state machine panic: with a pool of the in-memory provider or of Equinix, or of an unknown one, the
  one cause is a resource in use without the time of its last update.\<close>

theorem panics_only_in_four_providers:
  fixes v :: "'w ofcir_world"
  assumes "Process lib (ofcir_factories L) now cir pool sec NewCIResourceFSM v = None" and "dummy_startable L v"
  shows "PSpec_Provider (P_Spec pool) \<in> {ProviderLibvirt, ProviderIronic, ProviderIbmcloud, ProviderAWS} \<or>
     lacks_LastUpdated cir pool"
proof (rule disjCI)
  assume not_lacks: "\<not> lacks_LastUpdated cir pool"
  show "PSpec_Provider (P_Spec pool) \<in> {ProviderLibvirt, ProviderIronic, ProviderIbmcloud, ProviderAWS}"
  proof (rule ccontr)
    assume other: "PSpec_Provider (P_Spec pool) \<notin> {ProviderLibvirt, ProviderIronic, ProviderIbmcloud, ProviderAWS}"
    have "EquinixProviderFactory (Lib_equinix L) info sec W \<noteq> None" for info W
      by (auto simp: EquinixProviderFactory_def Let_def split: sum.split option.split)
    then have "factory_on equinix_rd equinix_wr (EquinixProviderFactory (Lib_equinix L)) info sec v \<noteq> None" for info
      by (simp add: factory_on_def del: not_None_eq)
    with other have "NewProvider (ofcir_factories L) pool sec v \<noteq> None"
      by (simp add: NewProvider_ofcir Let_def del: not_None_eq)
    then obtain made v1 where np: "NewProvider (ofcir_factories L) pool sec v = Some (made, v1)" by auto
    show False
    proof (cases made)
      case (Inl err)
      with np assms(1) show ?thesis by (simp add: Process_def)
    next
      case (Inr p)
      with np have np: "NewProvider (ofcir_factories L) pool sec v = Some (Inr p, v1)" by simp
      have "\<exists>ok. total_provider p ok \<and> ok v1"
        using np
      proof (cases rule: NewProvider_made)
        case dummy
        from dummy_part.total_provider_on_part [OF dummy.total_provider_axioms [of "Lib_range L"]]
          dummy_wr_started [OF assms(2)] dummy(2,3) show ?thesis unfolding dummy_started_def by blast
      next
        case (equinix c cfg)
        from equinix_part.total_provider_on_part [OF equinix_total.total_provider_axioms] equinix(2) show ?thesis by blast
      qed (use other in auto)
      then obtain ok where ok: "total_provider p ok" "ok v1" by blast
      show False
      proof (cases "states (NewCIResourceFSM :: 'w ofcir_world CIResourceFSM) (status_state cir)")
        case None
        with np assms(1) show ?thesis by (simp add: Process_def Let_def)
      next
        case (Some st)
        with np assms(1) have
          "run_handler lib now (onEntry st) (fsm_ctx cir pool p) (fresh_fsm (status_state cir)) v1 = None"
          by (auto simp: Process_run run_state_def bind_eq_None_conv split: prod.split_asm)
        with total_provider.run_handler_panics [OF ok Some] not_lacks show False by blast
      qed
    qed
  qed
qed

end
