(* ===== verification/Cloud_Samples.thy ===== *)
theory Cloud_Samples
  imports All_Providers Fsm_Properties
begin

text \<open>
  Small concrete clouds for the instances of the properties: libraries that refuse every request, of
  which the samples replace what they need, and one cloud for each provider.
\<close>

section \<open>Libraries that refuse\<close>

definition refused :: error where "refused = StatusOther ''refused''"

lemma refused_not_auth [simp]: "\<not> auth_failed refused"
  by (simp add: auth_failed_def refused_def) code_simp

definition refusing_libvirt :: "'w LibvirtLib" where
  "refusing_libvirt =
     \<lparr>LV_Unmarshal = \<lambda>s c. (c, None), NewConnect = \<lambda>u w. (Inl refused, w), Domain_Unmarshal = \<lambda>x. Inl refused,
      Domain_Marshal = \<lambda>d. Inl refused, Volume_Marshal = \<lambda>d. Inl refused, LV_uuid = \<lambda>w. (''6ba7b810-9dad'', w)\<rparr>"

definition a_client :: ServiceClient where
  "a_client = \<lparr>SC_Handle = 0, SC_Microversion = ''1.72'', SC_SkipVerify = True\<rparr>"

definition refusing_ironic :: "'w IronicLib" where
  "refusing_ironic =
     \<lparr>IR_Unmarshal = \<lambda>s c. (c, None), IR_md5 = \<lambda>s. s, IR_DecodeString = \<lambda>s. s, IR_WriteFile = \<lambda>p s w. w,
      IR_Setenv = \<lambda>k s w. w, IR_NewServiceClient = \<lambda>s c w. (None, w), IR_NewBareMetalHTTPBasic = \<lambda>e u p. Some a_client,
      Images_Get = \<lambda>c i w. (Inl refused, w), Nodes_Get = \<lambda>c i w. ((zero_Node, Some refused), w),
      Nodes_Update = \<lambda>c i ops w. ((zero_Node, Some refused), w), Nodes_ChangeProvisionState = \<lambda>c i opts w. (None, w),
      Nodes_Pages = \<lambda>c. [], IR_Dial = \<lambda>n a d w. (False, w)\<rparr>"

definition refusing_packngo :: "'w packngo_Client" where
  "refusing_packngo =
     \<lparr>Devices_List = \<lambda>p w. (([], Some refused), w),
      Devices_Create = \<lambda>rq w. ((\<lparr>Eq_ID = '''', Eq_State = '''', Eq_Tags = [], Eq_PublicIPv4 = ''''\<rparr>, Some refused), w),
      Devices_Get = \<lambda>i w. ((\<lparr>Eq_ID = '''', Eq_State = '''', Eq_Tags = [], Eq_PublicIPv4 = ''''\<rparr>, Some refused), w),
      Devices_Reinstall = \<lambda>i f w. (Some refused, w), Devices_Delete = \<lambda>i b w. (Some refused, w)\<rparr>"

definition refusing_equinix :: "'w EquinixLib" where
  "refusing_equinix =
     \<lparr>Eq_Unmarshal = \<lambda>s c. (c, None), Eq_DecodeString = \<lambda>s. (s, None), Eq_NewClientWithAuth = \<lambda>c t. refusing_packngo,
      Eq_uuid = \<lambda>w. (''6ba7b810-9dad'', w)\<rparr>"

definition refusing_softlayer :: "'w SoftLayer" where
  "refusing_softlayer =
     \<lparr>SL_GetItems = \<lambda>m p w. (([], Some refused), w), SL_GetActivePresets = \<lambda>p w. (([], Some refused), w),
      SL_PlaceOrder = \<lambda>ord b w. (Some refused, w), SL_GetHardware = \<lambda>m f w. (([], Some refused), w),
      SL_GetSshKeys = \<lambda>w. (([], Some refused), w), SL_CreateSshKey = \<lambda>k w. ((k, Some refused), w),
      SL_SetTags = \<lambda>i s w. (Some refused, w), SL_ReloadOperatingSystem = \<lambda>i f c w. (Some refused, w),
      SL_CancelItem = \<lambda>i b c r n w. (Some refused, w)\<rparr>"

definition refusing_ibm :: "'w IbmLib" where
  "refusing_ibm =
     \<lparr>IBM_Unmarshal = \<lambda>s c. (c, None), IBM_session_New = \<lambda>u k. refusing_softlayer, IBM_Intn = \<lambda>n w. (0, w),
      IBM_uuid = \<lambda>w. (''6ba7b810-9dad'', w), IBM_Dial = \<lambda>n a d w. (False, w)\<rparr>"

definition refusing_libs :: "'w Libraries" where
  "refusing_libs =
     \<lparr>Lib_range = name_order, Lib_libvirt = refusing_libvirt, Lib_ironic = refusing_ironic,
      Lib_equinix = refusing_equinix, Lib_ibmcloud = refusing_ibm, Lib_aws_Unmarshal = \<lambda>s c. (c, None),
      Lib_aws_builder = \<lambda>region cred w. (Inl refused, w)\<rparr>"

text \<open>The process just started, with the in-memory provider initialised.\<close>

definition started :: "'w \<Rightarrow> 'w ofcir_world" where
  "started w =
     \<lparr>dummyVars = world0, equinixClients = Map.empty, ironicClients = Map.empty, ironicInfos = Map.empty,
      ironicMaps = [], ironicObjects = [], cloud = w\<rparr>"

lemma started_startable [simp]: "Lib_range L = name_order \<Longrightarrow> dummy_startable L (started w)"
  by (simp add: dummy_startable_def started_def)

definition pool_of :: "ProviderType \<Rightarrow> CIPool" where
  "pool_of p = (a_pool StatePoolAvailable 0 1 None)
     \<lparr>P_Spec := (P_Spec (a_pool StatePoolAvailable 0 1 None))\<lparr>PSpec_Provider := p\<rparr>\<rparr>"

lemma pool_of_sel [simp]:
  "PSpec_Provider (P_Spec (pool_of p)) = p" "\<not> IsFallbackPool (pool_of p)"
  "PSpec_ProviderInfo (P_Spec (pool_of p)) = PSpec_ProviderInfo (P_Spec (a_pool StatePoolAvailable 0 1 None))"
  by (simp_all add: pool_of_def IsFallbackPool_def)

end
