(* ===== verification/Cloud_Properties.thy ===== *)
theory Cloud_Properties
  imports Cloud_Samples
begin

text \<open>
  The properties of the Equinix, libvirt, ironic and IBM cloud providers, alone and under the state
  machine, each with a run on a small concrete cloud.
\<close>

section \<open>Deletion\<close>

lemma Process_release:
  fixes w :: 'w
  assumes "NewProvider fac pool sec w = Some (Inr p, w1)" and "status_state cir = StateDelete"
    and "ContainsFinalizer lib (Finalizers (C_Meta cir)) OfcirFinalizer"
    and "\<not> (IsFallbackPool pool \<and> CStatus_ResourceId (C_Status cir) = fallbackResourceID)"
  shows "Release p (CStatus_ResourceId (C_Status cir)) w1 = Some (err, w') \<Longrightarrow>
      \<forall>e \<in> set_option err. errors_As_ResourceNotFound e \<Longrightarrow>
      \<exists>f'. Process lib fac now cir pool sec NewCIResourceFSM w = Some (((True, False, Minute, None),
        set_finalizers (RemoveFinalizer lib (Finalizers (C_Meta cir)) OfcirFinalizer) cir, f'), w')"
    and "Release p (CStatus_ResourceId (C_Status cir)) w1 = None \<Longrightarrow>
      Process lib fac now cir pool sec NewCIResourceFSM w = None"
proof -
  assume "Release p (CStatus_ResourceId (C_Status cir)) w1 = Some (err, w')"
    "\<forall>e \<in> set_option err. errors_As_ResourceNotFound e"
  with assms(2-4) show "\<exists>f'. Process lib fac now cir pool sec NewCIResourceFSM w = Some (((True, False, Minute, None),
      set_finalizers (RemoveFinalizer lib (Finalizers (C_Meta cir)) OfcirFinalizer) cir, f'), w')"
    by (subst Process_state [OF assms(1) fsm_known_simps(9) fsm_onEntry(9)])
      (auto simp: handleStateDelete_def UpdateResourceOnly_def defaultCirRetryDelay_def Let_def)
next
  assume rel: "Release p (CStatus_ResourceId (C_Status cir)) w1 = None"
  obtain st :: "'w fsmState" where st: "states NewCIResourceFSM StateDelete = Some st"
    by (rule fsm_states_Some [OF fsm_known_simps(9)])
  with assms(2) have "states (NewCIResourceFSM :: 'w CIResourceFSM) (status_state cir) = Some st" by simp
  from Process_run [OF assms(1) this] fsm_onEntry(9) [OF st] assms(2-4) rel
  show "Process lib fac now cir pool sec NewCIResourceFSM w = None"
    by (auto simp: run_state_def handleStateDelete_def Let_def)
qed

lemma NewProvider_libvirt:
  assumes "PSpec_Provider (P_Spec pool) = ProviderLibvirt"
    and "LibvirtProviderFactory (Lib_libvirt L) (PSpec_ProviderInfo (P_Spec pool)) sec (cloud v) = Some (Inr p, w0)"
  shows "\<exists>cfg. NewProvider (ofcir_factories L) pool sec v =
    Some (Inr (provider_on cloud cloud_wr (libvirtProvider (Lib_libvirt L) cfg)), v)"
proof -
  from made_libvirt [OF assms(2)] obtain cfg where "p = libvirtProvider (Lib_libvirt L) cfg" "w0 = cloud v" by blast
  with assms have "NewProvider (ofcir_factories L) pool sec v =
      Some (Inr (provider_on cloud cloud_wr (libvirtProvider (Lib_libvirt L) cfg)), v)"
    by (simp add: NewProvider_ofcir Let_def provider_types factory_on_Some)
  then show ?thesis ..
qed

lemma NewProvider_ironic:
  assumes "PSpec_Provider (P_Spec pool) = ProviderIronic"
    and "IronicProviderFactory (Lib_ironic L) (PSpec_ProviderInfo (P_Spec pool)) sec (ironic_rd v) = Some (Inr p, W)"
  shows "NewProvider (ofcir_factories L) pool sec v =
    Some (Inr (provider_on ironic_rd ironic_wr (ironic_provider (Lib_ironic L) (length (ironicObjects v)))), ironic_wr W v)"
proof -
  from made_ironic [OF assms(2)] have "p = ironic_provider (Lib_ironic L) (length (ironicObjects v))"
    by (simp add: ironic_rd_def)
  with assms show ?thesis by (simp add: NewProvider_ofcir Let_def provider_types factory_on_Some)
qed

section \<open>libvirt\<close>

text \<open>A resource in the delete state whose libvirt domain is gone loses its finalizer with
  the next request: \<open>Release\<close> says that there is no such resource, through the wrapped error that
  \<open>handleStateDelete\<close> looks for.\<close>

theorem libvirt_missing_domain_goes:
  assumes "PSpec_Provider (P_Spec pool) = ProviderLibvirt"
    and "LibvirtProviderFactory (Lib_libvirt L) (PSpec_ProviderInfo (P_Spec pool)) sec (cloud v) = Some (Inr p, w0)"
    and "NewConnect (Lib_libvirt L) ''qemu:///system'' (cloud v) = (Inr conn, w1)"
    and "LookupDomainByName conn (CStatus_ResourceId (C_Status cir)) w1 = (Inl (LibvirtError ERR_NO_DOMAIN m), w2)"
    and "status_state cir = StateDelete" and "ContainsFinalizer lib (Finalizers (C_Meta cir)) OfcirFinalizer"
    and "\<not> IsFallbackPool pool"
  shows "\<exists>f'. Process lib (ofcir_factories L) now cir pool sec NewCIResourceFSM v = Some (((True, False, Minute, None),
     set_finalizers (RemoveFinalizer lib (Finalizers (C_Meta cir)) OfcirFinalizer) cir, f'), cloud_wr (Close conn w2) v)"
proof -
  from NewProvider_libvirt [OF assms(1,2)] obtain cfg where np: "NewProvider (ofcir_factories L) pool sec v =
      Some (Inr (provider_on cloud cloud_wr (libvirtProvider (Lib_libvirt L) cfg)), v)" by blast
  from libvirt_Release_gone [OF assms(3,4)] have
    "Release (provider_on cloud cloud_wr (libvirtProvider (Lib_libvirt L) cfg)) (CStatus_ResourceId (C_Status cir)) v =
      Some (Some (WrapError ''error destroying the VM: '' (NewResourceNotFoundError (CStatus_ResourceId (C_Status cir)))),
        cloud_wr (Close conn w2) v)"
    by (simp add: on_part_def)
  from Process_release(1) [OF np assms(5,6) _ this] assms(7) show ?thesis by simp
qed

text \<open>C18 (functional). A libvirt resource that was cleaned without an error is a domain under the same
  name with the MAC address of the old one, when that had one that is not empty, so that the network gives
  it the same lease: the old domain was read and destroyed, then a new volume and a new domain were
  defined and started.\<close>

theorem libvirt_clean_keeps_identity:
  assumes "libvirt_Clean lib cfg i w = Some (None, w')"
  shows "\<exists>conn w1 domain w2 xml w3 d mac w4 new w5.
     NewConnect lib ''qemu:///system'' w = (Inr conn, w1) \<and> LookupDomainByName conn i w1 = (Inr domain, w2) \<and>
     Dom_GetXMLDesc domain w2 = (Inr xml, w3) \<and> Domain_Unmarshal lib xml = Inr d \<and> first_mac d = Some mac \<and>
     libvirt_destroyVM lib i w3 = Some (None, w4) \<and> defined_and_started lib cfg i new w4 w5 \<and>
     DX_Name new = i \<and> (mac \<noteq> '''' \<longrightarrow> first_mac new = Some mac) \<and> w' = Close conn w5"
proof -
  from libvirt_Clean_ok [OF assms] obtain conn w1 domain w2 xml w3 d mac w4 w5 where
    "NewConnect lib ''qemu:///system'' w = (Inr conn, w1) \<and> LookupDomainByName conn i w1 = (Inr domain, w2) \<and>
     Dom_GetXMLDesc domain w2 = (Inr xml, w3) \<and> Domain_Unmarshal lib xml = Inr d \<and> first_mac d = Some mac \<and>
     libvirt_destroyVM lib i w3 = Some (None, w4) \<and>
     defined_and_started lib cfg i (domain_config cfg i mac) w4 w5 \<and> w' = Close conn w5" by blast
  moreover have "DX_Name (domain_config cfg i mac) = i \<and> (mac \<noteq> '''' \<longrightarrow> first_mac (domain_config cfg i mac) = Some mac)"
    by simp
  ultimately show ?thesis by blast
qed

section \<open>ironic\<close>

lemma deployNode_Some:
  assumes "deployNode lib a node W = Some (e, W')"
  shows "\<exists>extra p m info W1 r W2. N_Extra node = Some extra \<and> deref (ir_objects W) a = Some p \<and>
    IP_instance_info p = Some m \<and> deref (ir_maps W) m = Some info \<and>
    W1 = W\<lparr>ir_maps := (ir_maps W)[m := info(''root_gb'' \<mapsto> ''64'')]\<rparr> \<and>
    UpdateNode lib a (N_UUID node) [ReplaceExtra (extra(ofcir_cirName \<mapsto> JString cirTaken)),
      ReplaceInstanceInfo (info(''root_gb'' \<mapsto> ''64''))] W1 = Some (r, W2) \<and>
    ChangeProvisionStateNode lib a (N_UUID node)
      \<lparr>PS_Target = deploy_target node, PS_PublicKey = IR_Sshkey (IP_config p)\<rparr> W2 = Some (e, W')"
  using assms by (auto simp: deployNode_def go_Some)

text \<open>C17 (functional). An ironic acquisition that succeeds returns a node from a page of the listing that
  is active or available, of the pool's type and without the mark of a taken node; the mark is
  asked for first, and then the deployment, whose request succeeded.\<close>

theorem ironic_acquire_takes_free_node:
  assumes "ironic_Acquire lib a n pn t W = Some ((res, None), W')"
  shows "\<exists>p client fetch W1 W2 ns node extra info W3 r W4.
     deref (ir_objects W) a = Some p \<and> IP_client p = Some client \<and> fetch \<in> set (Nodes_Pages lib client) \<and>
     outer_call fetch W1 = (Inr (Inr ns), W2) \<and> node \<in> set ns \<and>
     N_ProvisionState node \<in> {nodes_Active, nodes_Available} \<and> extra_at node typeName = Some (JString t) \<and>
     extra_at node ofcir_cirName \<noteq> Some (JString cirTaken) \<and> Id res = N_UUID node \<and>
     N_Extra node = Some extra \<and>
     UpdateNode lib a (N_UUID node) [ReplaceExtra (extra(ofcir_cirName \<mapsto> JString cirTaken)), ReplaceInstanceInfo info] W3 =
       Some (r, W4) \<and>
     (\<exists>key. ChangeProvisionStateNode lib a (N_UUID node) \<lparr>PS_Target = deploy_target node, PS_PublicKey = key\<rparr> W4 =
        Some (None, W'))"
proof -
  from ironic_Acquire_ok [OF assms] obtain p client fetch W1 W2 ns node where
    n: "deref (ir_objects W) a = Some p" "IP_client p = Some client" "fetch \<in> set (Nodes_Pages lib client)"
    "outer_call fetch W1 = (Inr (Inr ns), W2)" "node \<in> set ns" "node_usable t node"
    "deployNode lib a node W2 = Some (None, W')" "res = Resource0\<lparr>Id := N_UUID node\<rparr>" by blast
  from n(6) have usable: "N_ProvisionState node \<in> {nodes_Active, nodes_Available}"
    "extra_at node typeName = Some (JString t)" "extra_at node ofcir_cirName \<noteq> Some (JString cirTaken)"
    by (auto simp: node_usable_def cirTaken_def)
  from deployNode_Some [OF n(7)] obtain extra info W3 r W4 key where
    "N_Extra node = Some extra"
    "UpdateNode lib a (N_UUID node) [ReplaceExtra (extra(ofcir_cirName \<mapsto> JString cirTaken)), ReplaceInstanceInfo info] W3 =
       Some (r, W4)"
    "ChangeProvisionStateNode lib a (N_UUID node)
       \<lparr>PS_Target = deploy_target node, PS_PublicKey = key\<rparr> W4 = Some (None, W')"
    by (elim exE conjE) (rule that)
  moreover have "Id res = N_UUID node" using n(8) by simp
  ultimately show ?thesis using n(1-5) usable by blast
qed

text \<open>The service does not answer for a node: whatever client asks for it gets an error, and with it the zero
  node that \<open>Extract\<close> gives for a request that failed.\<close>

definition unreadable :: "'w IronicLib \<Rightarrow> string \<Rightarrow> bool" where
  "unreadable lib i \<longleftrightarrow> (\<forall>client w. \<exists>err w'. Nodes_Get lib client i w = ((zero_Node, Some err), w'))"

lemma unreadable_GetNode:
  assumes "unreadable lib i" and "GetNode lib a i W = Some ((node, e), W')"
  shows "node = zero_Node"
proof -
  from with_login_answer [OF assms(2) [unfolded GetNode_def]] obtain client w w' where
    "Nodes_Get lib client i w = ((node, e), w')" by blast
  with assms(1) show ?thesis unfolding unreadable_def by (metis prod.inject)
qed

lemma ironic_Release_panics:
  assumes "unreadable lib i"
  shows "ironic_Release lib a i W = None"
proof (cases "GetNode lib a i W")
  case (Some x)
  obtain node e W1 where "x = ((node, e), W1)" by (metis prod.exhaust)
  with Some unreadable_GetNode [OF assms, of a W node e W1] show ?thesis
    by (simp add: ironic_Release_def zero_Node_def)
qed (simp add: ironic_Release_def)

text \<open>C38 (error). A resource of a regular pool in the delete state makes the run of the state machine panic
  when the service does not answer for its ironic node: \<open>Release\<close> drops the error of the request and
  writes the mark into the map \<open>Extra\<close> of the zero node it got with the error, which is nil. The same holds
  if the request is repeated after a new login.\<close>

theorem ironic_release_panics:
  assumes "PSpec_Provider (P_Spec pool) = ProviderIronic"
    and "IronicProviderFactory (Lib_ironic L) (PSpec_ProviderInfo (P_Spec pool)) sec (ironic_rd v) = Some (Inr p, W)"
    and "unreadable (Lib_ironic L) (CStatus_ResourceId (C_Status cir))"
    and "status_state cir = StateDelete" and "ContainsFinalizer lib (Finalizers (C_Meta cir)) OfcirFinalizer"
    and "\<not> IsFallbackPool pool"
  shows "Process lib (ofcir_factories L) now cir pool sec NewCIResourceFSM v = None"
proof -
  let ?p = "ironic_provider (Lib_ironic L) (length (ironicObjects v))"
  from ironic_Release_panics [OF assms(3)] have
    "Release (provider_on ironic_rd ironic_wr ?p) (CStatus_ResourceId (C_Status cir)) (ironic_wr W v) = None" by simp
  from Process_release(2) [OF NewProvider_ironic [OF assms(1,2)] assms(4,5) _ this] assms(6) show ?thesis by simp
qed

section \<open>Instances\<close>

lemmas refusing_defs =
  refusing_libs_def refusing_libvirt_def refusing_ironic_def refusing_equinix_def refusing_ibm_def

text \<open>A hypervisor on which no domain exists.\<close>

definition empty_conn :: "unit libvirt_Connect" where
  "empty_conn =
     \<lparr>LookupDomainByName = \<lambda>n w. (Inl (LibvirtError ERR_NO_DOMAIN ''no domain''), w),
      LookupNetworkByName = \<lambda>n w. (Inl refused, w), LookupStoragePoolByName = \<lambda>n w. (Inl refused, w),
      LookupStorageVolByKey = \<lambda>k w. (Inl refused, w), DomainDefineXML = \<lambda>x w. (Inl refused, w), Close = \<lambda>w. w\<rparr>"

definition empty_host :: "unit Libraries" where
  "empty_host = refusing_libs\<lparr>Lib_libvirt := refusing_libvirt\<lparr>NewConnect := \<lambda>u w. (Inr empty_conn, w)\<rparr>\<rparr>"

abbreviation dead_cir :: CIResource where
  "dead_cir \<equiv> a_cir ''cir-0001'' StateAvailable StateDelete"

lemma empty_host_factory:
  "LibvirtProviderFactory (Lib_libvirt empty_host) (PSpec_ProviderInfo (P_Spec (pool_of ProviderLibvirt))) Map.empty
     (cloud (started ())) = Some (Inr (libvirtProvider (Lib_libvirt empty_host) libvirt_default_config), ())"
  by (simp add: LibvirtProviderFactory_def)

lemma missing_domain_witness:
  "\<exists>f'. Process list_finalizers (ofcir_factories empty_host) 20 dead_cir (pool_of ProviderLibvirt) Map.empty
     NewCIResourceFSM (started ()) =
     Some (((True, False, Minute, None), set_finalizers [] dead_cir, f'), cloud_wr () (started ()))"
  using libvirt_missing_domain_goes [OF _ empty_host_factory, of empty_conn "()" dead_cir "''no domain''" "()" list_finalizers 20]
  by (simp add: empty_host_def empty_conn_def)

text \<open>A node that cannot be read.\<close>

abbreviation refusing_unit :: "unit Libraries" where "refusing_unit \<equiv> refusing_libs"

lemma refused_unreadable: "unreadable (Lib_ironic refusing_unit) i"
  by (simp add: unreadable_def refusing_libs_def refusing_ironic_def)

lemma unreadable_node:
  "\<exists>W. IronicProviderFactory (Lib_ironic refusing_unit) (PSpec_ProviderInfo (P_Spec (pool_of ProviderIronic))) Map.empty
       (ironic_rd (started ())) = Some (Inr (ironic_provider (Lib_ironic refusing_unit) 0), W)"
  by (auto simp: IronicProviderFactory_def ironic_rd_def started_def UpdateClient_def deref_def fill_cache_def basic_client_def
      ironic_default_config_def refusing_libs_def refusing_ironic_def Let_def)

lemma release_panics_witness:
  "Process list_finalizers (ofcir_factories refusing_unit) 20 dead_cir (pool_of ProviderIronic) Map.empty
     NewCIResourceFSM (started ()) = None"
proof -
  from unreadable_node obtain W where
    "IronicProviderFactory (Lib_ironic refusing_unit) (PSpec_ProviderInfo (P_Spec (pool_of ProviderIronic))) Map.empty
       (ironic_rd (started ())) = Some (Inr (ironic_provider (Lib_ironic refusing_unit) 0), W)" by auto
  from ironic_release_panics [OF _ this refused_unreadable] show ?thesis by simp
qed

lemma panics_witness:
  "\<exists>lib now. Process lib (ofcir_factories refusing_unit) now dead_cir (pool_of ProviderIronic) Map.empty
     NewCIResourceFSM (started ()) = None \<and>
   (ProviderIronic \<in> {ProviderLibvirt, ProviderIronic, ProviderIbmcloud, ProviderAWS} \<or>
    lacks_LastUpdated dead_cir (pool_of ProviderIronic))"
proof -
  from unreadable_node obtain W where
    made: "IronicProviderFactory (Lib_ironic refusing_unit) (PSpec_ProviderInfo (P_Spec (pool_of ProviderIronic))) Map.empty
       (ironic_rd (started ())) = Some (Inr (ironic_provider (Lib_ironic refusing_unit) 0), W)" by (auto simp: started_def)
  from ironic_Release_panics [OF refused_unreadable] have "Release (provider_on ironic_rd ironic_wr (ironic_provider (Lib_ironic refusing_unit)
      (length (ironicObjects (started ()))))) ''dummy-1'' (ironic_wr W (started ())) = None"
    by simp
  with Process_release(2) [OF NewProvider_ironic [OF _ made], of dead_cir list_finalizers 20] have
    "Process list_finalizers (ofcir_factories refusing_unit) 20 dead_cir (pool_of ProviderIronic) Map.empty
       NewCIResourceFSM (started ()) = None" by simp
  with panics_only_in_four_providers [OF this] show ?thesis by (auto simp: refusing_libs_def)
qed

text \<open>A waiting resource of the in-memory provider.\<close>

lemma when_ready_witness:
  "\<exists>rd d e cir' f' v' (r :: Resource). Process list_finalizers (ofcir_factories refusing_unit) 20 (a_cir ''cir-0001'' StateAvailable StateProvisioningWait)
       demo_pool Map.empty NewCIResourceFSM (started ()) = Some (((rd, True, d, e), cir', f'), v') \<and>
     status_state cir' = StateAvailable \<and> Id r = ''dummy-1'' \<and> CStatus_Address (C_Status cir') = Address r"
proof -
  let ?cir = "a_cir ''cir-0001'' StateAvailable StateProvisioningWait"
  let ?p = "provider_on dummyVars dummy_wr (dummyProvider name_order)"
  have np: "NewProvider (ofcir_factories refusing_unit) demo_pool Map.empty (started ()) = Some (Inr ?p, started ())"
    by (simp add: NewProvider_ofcir provider_types Let_def refusing_libs_def started_def dummy_wr_def)
  have "AcquireCompleted ?p ''dummy-1'' (started ()) = Some ((True, di_Resource (dummy_instance 1), None), started ())"
    by (simp add: on_part_def dummy_AcquireCompleted_def started_def dummy_wr_def)
  then obtain rd d e cir' f' v' where run: "Process list_finalizers (ofcir_factories refusing_unit) 20 ?cir
      demo_pool Map.empty NewCIResourceFSM (started ()) = Some (((rd, True, d, e), cir', f'), v')"
    by (subst (asm) Process_state [OF np fsm_known_simps(3) fsm_onEntry(3)])
      (auto simp: handleStateProvisioningWait_def)
  have "dummy_startable refusing_unit (started ())" by (simp add: refusing_libs_def)
  from available_only_when_ready [OF run _ this] obtain r :: Resource where
    "status_state cir' = StateAvailable" "Id r = ''dummy-1''" "CStatus_Address (C_Status cir') = Address r" by auto
  with run show ?thesis by blast
qed

text \<open>A hypervisor with room for one domain: the world says whether it is there.\<close>

definition one_domain :: "bool libvirt_Domain" where
  "one_domain =
     \<lparr>Dom_IsActive = \<lambda>w. (Inr w, w), Dom_GetXMLDesc = \<lambda>w. (Inr ''xml'', w), Dom_Create = \<lambda>w. (Inr (), w),
      Dom_Destroy = \<lambda>w. (Inr (), w), Dom_Undefine = \<lambda>w. (Inr (), False)\<rparr>"

definition one_domain_conn :: "bool libvirt_Connect" where
  "one_domain_conn =
     \<lparr>LookupDomainByName = \<lambda>n w. (if w then Inr one_domain else Inl (LibvirtError ERR_NO_DOMAIN ''no domain''), w),
      LookupNetworkByName = \<lambda>n w. (Inl refused, w),
      LookupStoragePoolByName = \<lambda>n w. (Inr \<lparr>Pool_StorageVolCreateXML = \<lambda>x w. (Inr (), w)\<rparr>, w),
      LookupStorageVolByKey = \<lambda>k w. (Inr \<lparr>Vol_Delete = \<lambda>w. (Inr (), w)\<rparr>, w),
      DomainDefineXML = \<lambda>x w. (Inr one_domain, True), Close = \<lambda>w. w\<rparr>"

definition one_domain_lib :: "bool LibvirtLib" where
  "one_domain_lib = refusing_libvirt\<lparr>NewConnect := \<lambda>u w. (Inr one_domain_conn, w),
     Domain_Unmarshal := \<lambda>x. Inr (domain_config libvirt_default_config ''vm'' ''52:54:00:00:00:01''),
     Domain_Marshal := \<lambda>d. Inr ''xml'', Volume_Marshal := \<lambda>d. Inr ''volume''\<rparr>"

lemma one_domain_clean:
  "libvirt_Clean one_domain_lib libvirt_default_config ''vm'' True = Some (None, True)"
  by (simp add: libvirt_Clean_def libvirt_destroyVM_def libvirt_createVM_def create_resources_def delete_volume_def
      with_connect_def checked_def one_domain_lib_def one_domain_conn_def one_domain_def other_libvirt_error_def)

lemma clean_identity_witness:
  "\<exists>new w4 w5. defined_and_started one_domain_lib libvirt_default_config ''vm'' new w4 w5 \<and> DX_Name new = ''vm''"
  using libvirt_clean_keeps_identity [OF one_domain_clean] by blast

text \<open>A service with one free node, which takes updates or refuses them.\<close>

definition free_node :: Node where
  "free_node = \<lparr>N_UUID = ''node-1'', N_ProvisionState = nodes_Available, N_Extra = Some [typeName \<mapsto> JString TypeCIHost]\<rparr>"

definition one_node :: "unit IronicLib" where
  "one_node = refusing_ironic\<lparr>Nodes_Pages := \<lambda>c. [\<lambda>w. (Inr (Inr [free_node]), w)]\<rparr>"

definition one_node_world :: "unit ironic_world" where
  "one_node_world =
     \<lparr>ir_clients = Map.empty, ir_instance_infos = Map.empty, ir_maps = [checksummed ''image''],
      ir_objects = [\<lparr>IP_config = ironic_default_config, IP_client = Some a_client, IP_instance_info = Some 0\<rparr>], ir_outer = ()\<rparr>"

lemma free_node_usable: "node_usable TypeCIHost free_node"
  by (simp add: node_usable_def free_node_def extra_at_def typeName_def ofcir_cirName_def)

lemma one_node_acquire:
  "\<exists>W. ironic_Acquire one_node 0 1 ''pool'' TypeCIHost one_node_world = Some ((Resource0\<lparr>Id := ''node-1''\<rparr>, None), W)"
  using free_node_usable
  by (simp add: ironic_Acquire_def selectNode_def one_node_def one_node_world_def deref_def outer_call_def deployNode_def
      free_node_def UpdateNode_def ChangeProvisionStateNode_def with_login_def refusing_ironic_def Let_def)

lemma takes_free_node_witness:
  "\<exists>node. Id (Resource0\<lparr>Id := ''node-1''\<rparr>) = N_UUID node \<and> extra_at node ofcir_cirName \<noteq> Some (JString cirTaken)"
proof -
  from one_node_acquire obtain W where
    "ironic_Acquire one_node 0 1 ''pool'' TypeCIHost one_node_world = Some ((Resource0\<lparr>Id := ''node-1''\<rparr>, None), W)" by blast
  from ironic_acquire_takes_free_node [OF this] show ?thesis by blast
qed

end
