(* ===== verification/Ironic_Service.thy ===== *)
theory Ironic_Service
  imports Ironic_Provider
begin

text \<open>
  The nodes behind the ironic provider: what the documentation of the service says about the requests
  the provider sends, and which nodes carry the mark of a taken one after each of its operations.
\<close>

section \<open>The nodes of the service\<close>

primrec apply_op :: "UpdateOperation \<Rightarrow> Node \<Rightarrow> Node" where
  "apply_op (ReplaceExtra m) node = node\<lparr>N_Extra := Some m\<rparr>"
| "apply_op (ReplaceInstanceInfo info) node = node"

text \<open>Listing and reading a node give it as it is, an update that is not refused replaces what it names,
  an order to deploy leaves \<open>Extra\<close> alone, and the other calls leave the nodes alone.\<close>

definition extras :: "('w \<Rightarrow> string \<rightharpoonup> Node) \<Rightarrow> 'w \<Rightarrow> string \<Rightarrow> extra option option" where
  "extras nodes w i = map_option N_Extra (nodes w i)"

definition node_laws :: "'w IronicLib \<Rightarrow> ('w \<Rightarrow> string \<rightharpoonup> Node) \<Rightarrow> bool" where
  "node_laws lib nodes \<longleftrightarrow>
     (\<forall>w i node. nodes w i = Some node \<longrightarrow> N_UUID node = i) \<and>
     (\<forall>c i w node e w'. Nodes_Get lib c i w = ((node, e), w') \<longrightarrow> nodes w' = nodes w \<and> (e = None \<longrightarrow> nodes w i = Some node)) \<and>
     (\<forall>c i ops w r e w'. Nodes_Update lib c i ops w = ((r, e), w') \<longrightarrow>
        (if e = None then nodes w' = (nodes w)(i := map_option (fold apply_op ops) (nodes w i)) else nodes w' = nodes w)) \<and>
     (\<forall>c i opts w e w'. Nodes_ChangeProvisionState lib c i opts w = (e, w') \<longrightarrow> extras nodes w' = extras nodes w) \<and>
     (\<forall>c. \<forall>fetch\<in>set (Nodes_Pages lib c). \<forall>w r w'. fetch w = (r, w') \<longrightarrow> nodes w' = nodes w \<and>
        (\<forall>ns. r = Inr (Inr ns) \<longrightarrow> (\<forall>node\<in>set ns. nodes w (N_UUID node) = Some node))) \<and>
     (\<forall>p s w. nodes (IR_WriteFile lib p s w) = nodes w) \<and> (\<forall>k s w. nodes (IR_Setenv lib k s w) = nodes w) \<and>
     (\<forall>s c w. nodes (snd (IR_NewServiceClient lib s c w)) = nodes w) \<and>
     (\<forall>c i w. nodes (snd (Images_Get lib c i w)) = nodes w) \<and>
     (\<forall>n a d w. nodes (snd (IR_Dial lib n a d w)) = nodes w)"

lemma node_lawsD:
  assumes "node_laws lib nodes"
  shows "nodes w i = Some node \<Longrightarrow> N_UUID node = i"
    and "Nodes_Get lib c i w = ((node, e), w') \<Longrightarrow> nodes w' = nodes w \<and> (e = None \<longrightarrow> nodes w i = Some node)"
    and "Nodes_Update lib c i ops w = ((r, e), w') \<Longrightarrow>
      (if e = None then nodes w' = (nodes w)(i := map_option (fold apply_op ops) (nodes w i)) else nodes w' = nodes w)"
    and "Nodes_ChangeProvisionState lib c i opts w = (e, w') \<Longrightarrow> extras nodes w' = extras nodes w"
    and "fetch \<in> set (Nodes_Pages lib c) \<Longrightarrow> fetch w = (page, w') \<Longrightarrow> nodes w' = nodes w \<and>
      (\<forall>ns. page = Inr (Inr ns) \<longrightarrow> (\<forall>node\<in>set ns. nodes w (N_UUID node) = Some node))"
    and "nodes (IR_WriteFile lib p s w) = nodes w" and "nodes (IR_Setenv lib k s w) = nodes w"
    and "nodes (snd (IR_NewServiceClient lib s k w)) = nodes w" and "nodes (snd (Images_Get lib c i w)) = nodes w"
    and "nodes (snd (IR_Dial lib n a d w)) = nodes w"
proof -
  note laws = assms [unfolded node_laws_def]
  show "nodes w i = Some node \<Longrightarrow> N_UUID node = i" using laws [THEN conjunct1] by blast
  show "Nodes_Get lib c i w = ((node, e), w') \<Longrightarrow> nodes w' = nodes w \<and> (e = None \<longrightarrow> nodes w i = Some node)"
    using laws [THEN conjunct2, THEN conjunct1] by blast
  show "Nodes_Update lib c i ops w = ((r, e), w') \<Longrightarrow>
      (if e = None then nodes w' = (nodes w)(i := map_option (fold apply_op ops) (nodes w i)) else nodes w' = nodes w)"
    using laws [THEN conjunct2, THEN conjunct2, THEN conjunct1] by metis
  show "Nodes_ChangeProvisionState lib c i opts w = (e, w') \<Longrightarrow> extras nodes w' = extras nodes w"
    using laws [THEN conjunct2, THEN conjunct2, THEN conjunct2, THEN conjunct1] by blast
  show "fetch \<in> set (Nodes_Pages lib c) \<Longrightarrow> fetch w = (page, w') \<Longrightarrow> nodes w' = nodes w \<and>
      (\<forall>ns. page = Inr (Inr ns) \<longrightarrow> (\<forall>node\<in>set ns. nodes w (N_UUID node) = Some node))"
    using laws [THEN conjunct2, THEN conjunct2, THEN conjunct2, THEN conjunct2, THEN conjunct1] by blast
qed (use assms in \<open>simp_all add: node_laws_def\<close>)

text \<open>The service takes every update of a node it has.\<close>

definition takes_updates :: "'w IronicLib \<Rightarrow> ('w \<Rightarrow> string \<rightharpoonup> Node) \<Rightarrow> bool" where
  "takes_updates lib nodes \<longleftrightarrow>
     (\<forall>c i ops w. nodes w i \<noteq> None \<longrightarrow> snd (fst (Nodes_Update lib c i ops w)) = None)"

section \<open>Logging in\<close>

lemma cloud_client_nodes:
  assumes laws: "node_laws lib nodes" and run: "cloud_client lib cfg w = Some (r, w')"
  shows "nodes w' = nodes w"
proof -
  note keep = node_lawsD(6-9) [OF laws]
  let ?path = "''/tmp/'' @ IR_md5 lib (ironic_key cfg) @ ''.yaml''"
  let ?w0 = "IR_Setenv lib ''OS_CLIENT_CONFIG_FILE'' ?path (IR_WriteFile lib ?path (IR_DecodeString lib (IR_CloudYAML cfg)) w)"
  obtain client w1 where 1: "IR_NewServiceClient lib ''baremetal'' (IR_OSCloud cfg) ?w0 = (client, w1)" by (metis prod.exhaust)
  obtain image_client w2 where 2: "IR_NewServiceClient lib ''image'' (IR_OSCloud cfg) w1 = (image_client, w2)" by (metis prod.exhaust)
  have "nodes ?w0 = nodes w" by (simp add: keep)
  moreover have "nodes w1 = nodes ?w0" using keep(3) [of "''baremetal''" "IR_OSCloud cfg" ?w0] 1 by simp
  moreover have "nodes w2 = nodes w1" using keep(3) [of "''image''" "IR_OSCloud cfg" w1] 2 by simp
  moreover have "nodes w' = nodes w1 \<or> nodes w' = nodes w2"
  proof (cases "strings_Contains (IR_Image cfg) ''://''")
    case True
    with run 1 show ?thesis by (auto simp: cloud_client_def Let_def bind_eq_Some_conv)
  next
    case False
    with run 1 2 obtain c where c: "image_client = Some c" by (auto simp: cloud_client_def Let_def bind_eq_Some_conv)
    obtain x w3 where 3: "Images_Get lib c (IR_Image cfg) w2 = (x, w3)" by (metis prod.exhaust)
    then have "nodes w3 = nodes w2" using keep(4) [of c "IR_Image cfg" w2] by simp
    moreover from False run 1 2 c 3 have "w' = w3"
      by (cases x) (auto simp: cloud_client_def Let_def bind_eq_Some_conv checked_def)
    ultimately show ?thesis by simp
  qed
  ultimately show ?thesis by auto
qed

lemma UpdateClient_nodes:
  assumes laws: "node_laws lib nodes" and run: "UpdateClient lib a clear W = Some (e, W')"
  shows "nodes (ir_outer W') = nodes (ir_outer W)"
proof -
  have fill: "nodes (ir_outer V') = nodes (ir_outer V)" if "fill_cache lib cfg V = Some (x, V')" for cfg V x V'
  proof -
    let ?made = "if IR_CloudYAML cfg \<noteq> '''' then cloud_client lib cfg (ir_outer V) else basic_client lib cfg (ir_outer V)"
    have keep: "nodes w = nodes (ir_outer V)" if "?made = Some (made, w)" for made w
      using that cloud_client_nodes [OF laws] by (auto simp: basic_client_def bind_eq_Some_conv split: if_split_asm)
    show ?thesis
    proof (cases ?made)
      case None
      with that show ?thesis by (simp add: fill_cache_def)
    next
      case (Some x)
      obtain made w where "x = (made, w)" by (metis prod.exhaust)
      with that Some keep [of made w] show ?thesis
        by (cases made) (auto simp: fill_cache_def Let_def)
    qed
  qed
  show ?thesis
    using run fill by (fastforce simp: UpdateClient_def bind_eq_Some_conv Let_def split: if_split_asm)
qed

text \<open>What a request with one login does, in terms of the request.\<close>

lemma with_login_cases:
  assumes laws: "node_laws lib nodes" and run: "with_login lib a err request W = Some (r, W')"
  obtains (once) client w where "request client (ir_outer W) = (r, w)" "ir_outer W' = w" "ir_objects W' = ir_objects W"
  | (twice) client r1 w1 e client2 w2 w3 where "request client (ir_outer W) = (r1, w1)" "err r1 = Some e" "auth_failed e"
      "nodes w2 = nodes w1" "request client2 w2 = (r, w3)" "ir_outer W' = w3"
proof -
  from run obtain p client where p: "deref (ir_objects W) a = Some p" "IP_client p = Some client"
    by (auto simp: with_login_def bind_eq_Some_conv)
  obtain r1 w1 where 1: "request client (ir_outer W) = (r1, w1)" by (metis prod.exhaust)
  show thesis
  proof (cases "\<exists>e\<in>set_option (err r1). auth_failed e")
    case False
    with run p 1 have "r = r1" "W' = W\<lparr>ir_outer := w1\<rparr>"
      by (auto simp: with_login_def bind_eq_Some_conv outer_call_def)
    with 1 show thesis by (intro once) simp_all
  next
    case True
    then obtain e where e: "err r1 = Some e" "auth_failed e" by auto
    from True run p 1 obtain x W2 client2 where up: "UpdateClient lib a True (W\<lparr>ir_outer := w1\<rparr>) = Some (x, W2)"
      "outer_call (request client2) W2 = (r, W')"
      by (auto simp: with_login_def bind_eq_Some_conv outer_call_def split: if_split_asm)
    from UpdateClient_nodes [OF laws up(1)] have "nodes (ir_outer W2) = nodes w1" by simp
    moreover obtain w3 where "request client2 (ir_outer W2) = (r, w3)" "ir_outer W' = w3"
      using up(2) by (auto simp: outer_call_def split: prod.split_asm)
    ultimately show thesis using 1 e by (intro twice)
  qed
qed

section \<open>The mark of a taken node\<close>

definition marked :: "('w \<Rightarrow> string \<rightharpoonup> Node) \<Rightarrow> 'w ironic_world \<Rightarrow> string \<Rightarrow> bool" where
  "marked nodes W i \<longleftrightarrow>
     (\<exists>m. extras nodes (ir_outer W) i = Some (Some m) \<and> m ofcir_cirName = Some (JString cirTaken))"

lemma marked_extras: "extras nodes (ir_outer W') = extras nodes (ir_outer W) \<Longrightarrow> marked nodes W' i \<longleftrightarrow> marked nodes W i"
  by (simp add: marked_def)

lemma nodes_extras: "nodes w' = nodes w \<Longrightarrow> extras nodes w' = extras nodes w"
  by (auto simp: extras_def)

lemma GetNode_nodes:
  assumes laws: "node_laws lib nodes" and run: "GetNode lib a i W = Some ((node, e), W')"
  shows "nodes (ir_outer W') = nodes (ir_outer W)" and "e = None \<Longrightarrow> nodes (ir_outer W') i = Some node"
proof -
  have "nodes (ir_outer W') = nodes (ir_outer W) \<and> (e = None \<longrightarrow> nodes (ir_outer W') i = Some node)"
    using laws run [unfolded GetNode_def]
  proof (cases rule: with_login_cases)
    case (once client w)
    from node_lawsD(2) [OF laws once(1)] once(2) show ?thesis by simp
  next
    case (twice client r1 w1 x client2 w2 w3)
    obtain n1 e1 where "r1 = (n1, e1)" by (metis prod.exhaust)
    with node_lawsD(2) [OF laws twice(1) [unfolded this]] node_lawsD(2) [OF laws twice(5)] twice(4,6) show ?thesis by simp
  qed
  then show "nodes (ir_outer W') = nodes (ir_outer W)" and "e = None \<Longrightarrow> nodes (ir_outer W') i = Some node" by blast+
qed

lemma Change_extras:
  assumes laws: "node_laws lib nodes" and run: "ChangeProvisionStateNode lib a i opts W = Some (e, W')"
  shows "extras nodes (ir_outer W') = extras nodes (ir_outer W)"
  using laws run [unfolded ChangeProvisionStateNode_def]
proof (cases rule: with_login_cases)
  case (once client w)
  from node_lawsD(4) [OF laws once(1)] once(2) show ?thesis by simp
next
  case (twice client r1 w1 x client2 w2 w3)
  from node_lawsD(4) [OF laws twice(1)] node_lawsD(4) [OF laws twice(5)] nodes_extras [of nodes, OF twice(4)] twice(6)
  show ?thesis by simp
qed

text \<open>An update of a node that is there is made once and changes that node alone.\<close>

lemma UpdateNode_nodes:
  assumes laws: "node_laws lib nodes" and takes: "takes_updates lib nodes"
    and run: "UpdateNode lib a i ops W = Some (r, W')" and there: "nodes (ir_outer W) i = Some node"
  shows "nodes (ir_outer W') = (nodes (ir_outer W))(i \<mapsto> fold apply_op ops node)"
  using laws run [unfolded UpdateNode_def]
proof (cases rule: with_login_cases)
  case (once client w)
  obtain n e where r: "r = (n, e)" by (metis prod.exhaust)
  from takes there once(1) r have "e = None" unfolding takes_updates_def by (metis fst_conv option.distinct(1) snd_conv)
  with node_lawsD(3) [OF laws once(1) [unfolded r]] once(2) there show ?thesis by simp
next
  case (twice client r1 w1 x client2 w2 w3)
  from takes there twice(1,2) show ?thesis unfolding takes_updates_def by (metis fst_conv option.distinct(1))
qed

lemma deployNode_marks:
  assumes laws: "node_laws lib nodes" and takes: "takes_updates lib nodes"
    and run: "deployNode lib a node W = Some (e, W')" and there: "nodes (ir_outer W) (N_UUID node) = Some node"
  shows "marked nodes W' j \<longleftrightarrow> marked nodes W j \<or> j = N_UUID node"
proof -
  from run obtain extra info V r V1 opts where
    up: "UpdateNode lib a (N_UUID node) [ReplaceExtra (extra(ofcir_cirName \<mapsto> JString cirTaken)), ReplaceInstanceInfo info] V = Some (r, V1)"
    and V: "ir_outer V = ir_outer W" and ch: "ChangeProvisionStateNode lib a (N_UUID node) opts V1 = Some (e, W')"
    by (auto simp: deployNode_def go_Some)
  from UpdateNode_nodes [OF laws takes up, of node] V there have
    "nodes (ir_outer V1) = (nodes (ir_outer W))(N_UUID node \<mapsto> node\<lparr>N_Extra := Some (extra(ofcir_cirName \<mapsto> JString cirTaken))\<rparr>)"
    by simp
  moreover have "marked nodes W' j \<longleftrightarrow> marked nodes V1 j" by (rule marked_extras [OF Change_extras [OF laws ch]])
  ultimately show ?thesis by (simp add: marked_def extras_def)
qed

lemma usable_unmarked:
  assumes "node_usable t node" and "nodes (ir_outer W) (N_UUID node) = Some node"
  shows "\<not> marked nodes W (N_UUID node)"
  using assms by (auto simp: marked_def extras_def node_usable_def extra_at_def cirTaken_def)

section \<open>The operations\<close>

lemma scan_nodes_marks:
  assumes laws: "node_laws lib nodes" and takes: "takes_updates lib nodes"
    and run: "scan_nodes lib a t ns W = Some ((go_on, err, sel), W')"
    and there: "\<forall>node\<in>set ns. nodes (ir_outer W) (N_UUID node) = Some node"
  shows "(\<forall>j. marked nodes W j \<longrightarrow> marked nodes W' j) \<and>
    (case sel of None \<Rightarrow> nodes (ir_outer W') = nodes (ir_outer W)
     | Some node \<Rightarrow> \<not> marked nodes W (N_UUID node) \<and> marked nodes W' (N_UUID node))"
  using scan_nodes_Some [OF run]
proof (elim disjE conjE bexE exE)
  fix node e
  assume "node \<in> set ns" "node_usable t node" "sel = Some node" "deployNode lib a node W = Some (e, W')"
  with there deployNode_marks [OF laws takes, of a node W e W'] usable_unmarked [of t node nodes W] show ?thesis by simp
qed simp

lemma each_page_marks:
  assumes laws: "node_laws lib nodes" and takes: "takes_updates lib nodes"
    and run: "each_page lib a t pages W = Some ((sel, err), W')" and pages: "set pages \<subseteq> set (Nodes_Pages lib c)"
  shows "(\<forall>j. marked nodes W j \<longrightarrow> marked nodes W' j) \<and>
    (\<forall>node. sel = Some node \<longrightarrow> \<not> marked nodes W (N_UUID node) \<and> marked nodes W' (N_UUID node))"
  using run pages
proof (induction pages arbitrary: W)
  case (Cons fetch pages)
  obtain page w1 where f: "fetch (ir_outer W) = (page, w1)" by (metis prod.exhaust)
  from Cons.prems(2) have "fetch \<in> set (Nodes_Pages lib c)" by simp
  from node_lawsD(5) [OF laws this f] have w1: "nodes w1 = nodes (ir_outer W)"
    and listed: "\<And>ns. page = Inr (Inr ns) \<Longrightarrow> \<forall>node\<in>set ns. nodes w1 (N_UUID node) = Some node" by simp_all
  let ?W1 = "W\<lparr>ir_outer := w1\<rparr>"
  have same: "marked nodes ?W1 j \<longleftrightarrow> marked nodes W j" for j using w1 by (simp add: marked_def extras_def)
  show ?case
  proof (cases "\<exists>ns. page = Inr (Inr ns)")
    case False
    then have "(sel, W') = (None, ?W1)"
      using Cons.prems(1) f by (cases page) (auto simp: outer_call_def split: sum.split_asm)
    with same show ?thesis by simp
  next
    case True
    then obtain ns where ns: "page = Inr (Inr ns)" ..
    with Cons.prems(1) f obtain go_on err1 sel1 W2 where
      sc: "scan_nodes lib a t ns ?W1 = Some ((go_on, err1, sel1), W2)"
      and rest: "(if go_on then each_page lib a t pages W2 else Some ((sel1, err1), W2)) = Some ((sel, err), W')"
      by (auto simp: outer_call_def bind_eq_Some_conv)
    have m: "(\<forall>j. marked nodes W j \<longrightarrow> marked nodes W2 j) \<and>
        (case sel1 of None \<Rightarrow> nodes (ir_outer W2) = nodes w1
         | Some node \<Rightarrow> \<not> marked nodes W (N_UUID node) \<and> marked nodes W2 (N_UUID node))"
      using scan_nodes_marks [OF laws takes sc] listed [OF ns] same by (auto split: option.split_asm)
    show ?thesis
    proof (cases go_on)
      case False
      with rest m show ?thesis by auto
    next
      case True
      with scan_nodes_Some [OF sc] have "sel1 = None" by auto
      with m w1 have "marked nodes W2 j \<longleftrightarrow> marked nodes W j" for j by (simp add: marked_def extras_def)
      with True rest Cons.IH [of W2] Cons.prems(2) show ?thesis by simp
    qed
  qed
qed simp

text \<open>An acquisition takes no mark away, and a node it hands out gets the mark it did not have.\<close>

lemma Acquire_marks:
  assumes laws: "node_laws lib nodes" and takes: "takes_updates lib nodes"
    and run: "ironic_Acquire lib a n pn t W = Some ((res, e), W')"
  shows "marked nodes W j \<Longrightarrow> marked nodes W' j"
    and "e = None \<Longrightarrow> \<not> marked nodes W (Id res) \<and> marked nodes W' (Id res)"
proof -
  from run obtain r where sel: "selectNode lib a t W = Some (r, W')"
    and r: "(case r of Inl err \<Rightarrow> (Resource0, Some (WrapError ''error selecting node: '' err))
      | Inr node \<Rightarrow> (Resource0\<lparr>Id := N_UUID node\<rparr>, None)) = (res, e)"
    by (fastforce simp: ironic_Acquire_def bind_eq_Some_conv split: sum.split_asm)
  from sel obtain client s err W1 where ep: "each_page lib a t (Nodes_Pages lib client) W = Some ((s, err), W1)"
    and fin: "case err of
         Some e \<Rightarrow> do {
           (ignored, W) \<leftarrow> (if auth_failed e then UpdateClient lib a True W1 else Some (None, W1));
           Some (Inl (WrapError ''error listing nodes: '' e), W)
         } = Some (r, W')
       | None \<Rightarrow> W' = W1 \<and> r = (case s of Some node \<Rightarrow> Inr node | None \<Rightarrow> Inl (ErrorString ''Couldn't find a suitable ironic node''))"
    by (auto simp: selectNode_def bind_eq_Some_conv split: option.split_asm)
  note m = each_page_marks [OF laws takes ep subset_refl]
  have "(marked nodes W' j \<longleftrightarrow> marked nodes W1 j) \<and> (\<forall>node. r = Inr node \<longrightarrow> s = Some node \<and> W' = W1)" for j
  proof (cases err)
    case None
    with fin show ?thesis by (auto split: option.split_asm)
  next
    case (Some x)
    with fin UpdateClient_nodes [OF laws, of a True W1] show ?thesis
      by (auto simp: bind_eq_Some_conv marked_def extras_def split: if_split_asm)
  qed
  with m r show "marked nodes W j \<Longrightarrow> marked nodes W' j"
    and "e = None \<Longrightarrow> \<not> marked nodes W (Id res) \<and> marked nodes W' (Id res)"
    by (auto split: sum.split_asm)
qed

lemma active_node_nodes:
  assumes "node_laws lib nodes" and "active_node lib i node W = Some (r, W')"
  shows "nodes (ir_outer W') = nodes (ir_outer W)"
proof -
  have "nodes w' = nodes w" if "IR_Dial lib n a d w = (x, w')" for n a d w x w'
    using node_lawsD(10) [OF assms(1), of n a d w] that by simp
  with assms(2) show ?thesis
    by (auto simp: active_node_def Let_def bind_eq_Some_conv outer_call_def split: prod.split_asm)
qed

lemma Completed_marks:
  assumes laws: "node_laws lib nodes" and takes: "takes_updates lib nodes"
    and run: "ironic_AcquireCompleted lib a i W = Some (r, W')"
  shows "marked nodes W j \<Longrightarrow> marked nodes W' j"
proof -
  assume "marked nodes W j"
  from run obtain node e W1 where g: "GetNode lib a i W = Some ((node, e), W1)"
    by (auto simp: ironic_AcquireCompleted_def bind_eq_Some_conv)
  have m1: "marked nodes W1 j" using \<open>marked nodes W j\<close> GetNode_nodes(1) [OF laws g] by (simp add: marked_def extras_def)
  show "marked nodes W' j"
  proof (cases e)
    case (Some x)
    with run g m1 show ?thesis by (simp add: ironic_AcquireCompleted_def Let_def)
  next
    case None
    with GetNode_nodes(2) [OF laws g] have there: "nodes (ir_outer W1) i = Some node" by simp
    with node_lawsD(1) [OF laws] have "nodes (ir_outer W1) (N_UUID node) = Some node" by simp
    note dep = deployNode_marks [OF laws takes _ this]
    from None run g obtain err W2 where
      d: "(if N_ProvisionState node = nodes_DeployFail then deployNode lib a node W1 else Some (None, W1)) = Some (err, W2)"
      and fin: "W' = W2 \<or> active_node lib i node W2 = Some (r, W')"
      by (auto simp: ironic_AcquireCompleted_def Let_def bind_eq_Some_conv split: option.split_asm if_split_asm)
    have "marked nodes W2 j" using d m1 dep by (auto split: if_split_asm)
    with fin active_node_nodes [OF laws, of i node W2 r W'] show ?thesis by (auto simp: marked_def extras_def)
  qed
qed

lemma Clean_marks:
  assumes laws: "node_laws lib nodes" and takes: "takes_updates lib nodes"
    and run: "ironic_Clean lib a i W = Some (r, W')"
  shows "marked nodes W j \<Longrightarrow> marked nodes W' j"
proof -
  assume "marked nodes W j"
  from run obtain node e W1 where g: "GetNode lib a i W = Some ((node, e), W1)"
    by (auto simp: ironic_Clean_def bind_eq_Some_conv)
  have m1: "marked nodes W1 j" using \<open>marked nodes W j\<close> GetNode_nodes(1) [OF laws g] by (simp add: marked_def extras_def)
  show "marked nodes W' j"
  proof (cases e)
    case (Some x)
    with run g m1 show ?thesis by (simp add: ironic_Clean_def)
  next
    case None
    with GetNode_nodes(2) [OF laws g] have there: "nodes (ir_outer W1) i = Some node" by simp
    with node_lawsD(1) [OF laws] have "nodes (ir_outer W1) (N_UUID node) = Some node" by simp
    from deployNode_marks [OF laws takes _ this] None run g m1 show ?thesis by (simp add: ironic_Clean_def)
  qed
qed

text \<open>A release touches the mark of its own node only.\<close>

lemma Release_marks:
  assumes laws: "node_laws lib nodes" and run: "ironic_Release lib a i W = Some (r, W')"
  shows "j \<noteq> i \<Longrightarrow> marked nodes W' j \<longleftrightarrow> marked nodes W j"
proof -
  assume j: "j \<noteq> i"
  from run obtain node e W1 ops x where g: "GetNode lib a i W = Some ((node, e), W1)"
    and up: "UpdateNode lib a i ops W1 = Some (x, W')"
    by (auto simp: ironic_Release_def bind_eq_Some_conv)
  have one: "nodes w' j = nodes w j" if "Nodes_Update lib c i ops w = (y, w')" for c w y w'
    using node_lawsD(3) [OF laws, of c i ops w "fst y" "snd y" w'] that j by (auto split: if_split_asm)
  from laws up [unfolded UpdateNode_def] have "nodes (ir_outer W') j = nodes (ir_outer W1) j"
    by (cases rule: with_login_cases) (auto dest!: one)
  with GetNode_nodes(1) [OF laws g] show ?thesis by (simp add: marked_def extras_def)
qed

section \<open>Who holds which node\<close>

text \<open>The nodes that were handed out and not released since, along any sequence of operations of any
  provider objects with any outcome, and of whatever else leaves the \<open>Extra\<close> of every node alone: new
  providers, logins, deployments that finish.\<close>

inductive ironic_holds :: "'w IronicLib \<Rightarrow> ('w \<Rightarrow> string \<rightharpoonup> Node) \<Rightarrow> string list \<Rightarrow> 'w ironic_world \<Rightarrow> bool"
  for lib nodes where
  nothing_held: "ironic_holds lib nodes [] W"
| acquired: "ironic_holds lib nodes held W \<Longrightarrow> ironic_Acquire lib a n pn t W = Some ((res, None), W') \<Longrightarrow>
     ironic_holds lib nodes (held @ [Id res]) W'"
| not_acquired: "ironic_holds lib nodes held W \<Longrightarrow> ironic_Acquire lib a n pn t W = Some ((res, Some e), W') \<Longrightarrow>
     ironic_holds lib nodes held W'"
| completed: "ironic_holds lib nodes held W \<Longrightarrow> ironic_AcquireCompleted lib a i W = Some (r, W') \<Longrightarrow>
     ironic_holds lib nodes held W'"
| cleaned: "ironic_holds lib nodes held W \<Longrightarrow> ironic_Clean lib a i W = Some (e', W') \<Longrightarrow> ironic_holds lib nodes held W'"
| clean_completed: "ironic_holds lib nodes held W \<Longrightarrow> ironic_CleanCompleted lib a i W = Some (r', W') \<Longrightarrow>
     ironic_holds lib nodes held W'"
| released: "ironic_holds lib nodes held W \<Longrightarrow> ironic_Release lib a i W = Some (e', W') \<Longrightarrow>
     ironic_holds lib nodes (removeAll i held) W'"
| elsewhere: "ironic_holds lib nodes held W \<Longrightarrow> extras nodes (ir_outer W') = extras nodes (ir_outer W) \<Longrightarrow>
     ironic_holds lib nodes held W'"

lemma ironic_holds_marked:
  assumes laws: "node_laws lib nodes" and takes: "takes_updates lib nodes" and "ironic_holds lib nodes held W"
  shows "distinct held \<and> (\<forall>i\<in>set held. marked nodes W i)"
  using assms(3)
proof (induction rule: ironic_holds.induct)
  case (acquired held W a n pn t res W')
  from Acquire_marks [OF laws takes acquired(2)] acquired(3) show ?case by auto
next
  case (not_acquired held W a n pn t res e W')
  from Acquire_marks(1) [OF laws takes not_acquired(2)] not_acquired(3) show ?case by auto
next
  case (completed held W a i r W')
  from Completed_marks [OF laws takes completed(2)] completed(3) show ?case by auto
next
  case (cleaned held W a i e' W')
  from Clean_marks [OF laws takes cleaned(2)] cleaned(3) show ?case by auto
next
  case (clean_completed held W a i r' W')
  from clean_completed(2) obtain r where "ironic_AcquireCompleted lib a i W = Some (r, W')"
    by (auto simp: ironic_CleanCompleted_def bind_eq_Some_conv)
  from Completed_marks [OF laws takes this] clean_completed(3) show ?case by auto
next
  case (released held W a i e' W')
  from Release_marks [OF laws released(2)] released(3) show ?case by (auto simp: distinct_removeAll)
next
  case (elsewhere held W W')
  from marked_extras [OF elsewhere(2)] elsewhere(3) show ?case by auto
qed simp

end
