(* ===== verification/Account_Properties.thy ===== *)
theory Account_Properties
  imports Cloud_Samples Ironic_Service
begin

text \<open>
  Properties that need to know what a cloud does with the requests: the devices of an Equinix project,
  the hosts of an IBM cloud account and the nodes of an ironic service, under the laws of their
  documentation, with a simulated project, account and service on which the laws hold.
\<close>

section \<open>Equinix\<close>

text \<open>C13 (bounds). No pool of an Equinix project has more devices than it asks for: whatever operations are
  run, for resources of any pools, the devices tagged with a pool's name are never more than its
  size, when they were not at the start.\<close>

theorem equinix_pool_within_size:
  assumes "device_laws lib c (Eq_ProjectID cfg) devs"
    and "\<forall>q. count_pool_tags q (devs w) \<le> max 0 (sizes q)"
  shows "count_pool_tags p (devs (eq_run lib c cfg sizes ops w)) \<le> max 0 (sizes p)"
  using eq_run_within [OF assms] by blast

text \<open>The histories of the map of clients: calls of the factory for any secrets, and whatever leaves the
  map alone, as all operations do (\<open>equinix_cache\<close>). The projects' identifiers have one length.\<close>

inductive eq_reach :: "'w EquinixLib \<Rightarrow> nat \<Rightarrow> 'w eq_world \<Rightarrow> bool" for lib n where
  eq_started: "eqClients W = Map.empty \<Longrightarrow> eq_reach lib n W"
| eq_made: "eq_reach lib n W \<Longrightarrow> EquinixProviderFactory lib info sec W = Some (r, W') \<Longrightarrow>
     (\<And>cfg. equinix_config lib sec = Inr cfg \<Longrightarrow> length (Eq_ProjectID cfg) = n) \<Longrightarrow> eq_reach lib n W'"
| eq_moved: "eq_reach lib n W \<Longrightarrow> eqClients W' = eqClients W \<Longrightarrow> eq_reach lib n W'"

lemma eq_reach_clients: "eq_reach lib n W \<Longrightarrow> clients_ok lib n W"
proof (induction rule: eq_reach.induct)
  case (eq_started W)
  then show ?case by (simp add: clients_ok_def)
next
  case (eq_made W info sec r W')
  show ?case
  proof (cases "equinix_config lib sec")
    case (Inl err)
    with eq_made show ?thesis by (simp add: EquinixProviderFactory_def)
  next
    case (Inr cfg)
    with eq_made.hyps(2) obtain p where "r = Inr p"
      by (auto simp: EquinixProviderFactory_def Let_def)
    with eq_made Inr show ?thesis by (blast intro: factory_clients(1))
  qed
next
  case (eq_moved W W')
  then show ?case by (simp add: clients_ok_def)
qed

text \<open>C20 (invariant). However often and for whatever secrets the factory ran before, the provider it makes
  works with a client for the token of its own secret, though the clients are shared in a map: the
  key is the project's identifier and the token run together, which tells them apart because the
  identifiers have one length.\<close>

theorem equinix_client_has_own_token:
  assumes "eq_reach lib n W" and "EquinixProviderFactory lib info sec W = Some (Inr p, W')"
    and "equinix_config lib sec = Inr cfg" and "length (Eq_ProjectID cfg) = n"
  shows "p = equinixProvider lib (Eq_NewClientWithAuth lib ''packngo lib'' (Eq_Token cfg)) cfg \<and> eq_reach lib n W'"
  using factory_clients(2) [OF assms(2) eq_reach_clients [OF assms(1)] assms(3,4)]
    eq_reach.eq_made [OF assms(1,2)] assms(3,4) by simp

text \<open>Without that, two secrets can share a key.\<close>

lemma equinix_keys_collide:
  "client_key (equinix_default_config\<lparr>Eq_ProjectID := ''ab'', Eq_Token := ''c''\<rparr>) =
   client_key (equinix_default_config\<lparr>Eq_ProjectID := ''a'', Eq_Token := ''bc''\<rparr>)"
  by (simp add: client_key_def)

section \<open>IBM cloud\<close>

text \<open>C19 (roundtrip). With no preset configured (\<open>IBM_Preset\<close> is empty, so that existing hosts are looked
  for), a host that was acquired and is released again has the tags it had before: it was a manual
  host of the account, the acquisition tags it and no other host as taken, and the release takes that
  back and succeeds, so that all hosts have the tags they had. Assumed are: an account that does what it
  documents (\<open>account_laws\<close>) and accepts every tag; hosts with pairwise different identifiers and pairwise
  different names (the release looks the host up by name); free manual hosts that carry no tag but the one
  of manual hosts; and that the release finds the host and does not panic.\<close>

theorem manual_host_roundtrip:
  assumes "account_laws lib sl hosts" and "\<forall>i s w. fst (SL_SetTags sl i s w) = None"
    and "distinct (map fst (hosts w))" and "distinct (map (fst \<circ> snd) (hosts w))"
    and "\<forall>(i, n, ts) \<in> set (hosts w). Some manualTag \<in> set ts \<longrightarrow> Some takenTag \<notin> set ts \<longrightarrow> ts = [Some manualTag]"
    and "ibmcloud_Acquire lib sl cfg k pn pt w = Some ((res, None), w1)" and "IBM_Preset cfg = ''''"
    and "getNodeByName sl (Id res) w1 = Some (Inr node, w2)" and "ibmcloud_Release sl (Id res) w1 = Some (r, w3)"
  shows "r = None \<and> hosts w3 = hosts w \<and>
     (\<exists>hw. (Some hw, Some (Id res), [Some manualTag]) \<in> set (hosts w) \<and>
        hosts w1 = map (retag hw (manualTag @ '','' @ takenTag)) (hosts w))"
  using manual_host_tags(1) [OF assms(1-7)] manual_host_tags(2) [OF assms(1-9)] by blast

section \<open>ironic\<close>

text \<open>C37 (safety). Ironic never hands out a node twice: whatever sequence of operations of whatever provider
  objects is run, with whatever outcomes, and whatever happens elsewhere that leaves the \<open>Extra\<close> of
  the nodes alone, the nodes that were acquired and not released since are all different, and each
  carries the mark of a taken one in the service. The service is assumed to do what it documents
  (\<open>node_laws\<close>) and to refuse no update of a node it has: \<open>deployNode\<close> does not look at the outcome
  of the update that sets the mark. A run ends where an operation panics.\<close>

theorem ironic_never_double_books:
  assumes "node_laws lib nodes" and "takes_updates lib nodes" and "ironic_holds lib nodes held W"
  shows "distinct held \<and> (\<forall>i\<in>set held. \<exists>m. extras nodes (ir_outer W) i = Some (Some m) \<and>
     m ofcir_cirName = Some (JString cirTaken))"
  using ironic_holds_marked [OF assms] by (simp add: marked_def)

section \<open>Instances\<close>

text \<open>A project: the world is its devices.\<close>

definition a_project :: "EqDevice list packngo_Client" where
  "a_project =
     \<lparr>Devices_List = \<lambda>p w. ((w, None), w),
      Devices_Create = \<lambda>rq w. (let d = \<lparr>Eq_ID = CR_Hostname rq, Eq_State = ''active'', Eq_Tags = CR_Tags rq, Eq_PublicIPv4 = ''1.1.1.1''\<rparr>
        in ((d, None), w @ [d])),
      Devices_Get = \<lambda>i w. (case List.find (\<lambda>d. Eq_ID d = i) w of Some d \<Rightarrow> ((d, None), w)
        | None \<Rightarrow> ((\<lparr>Eq_ID = '''', Eq_State = '''', Eq_Tags = [], Eq_PublicIPv4 = ''''\<rparr>, Some refused), w)),
      Devices_Reinstall = \<lambda>i f w. (None, w),
      Devices_Delete = \<lambda>i b w. (None, filter (\<lambda>d. Eq_ID d \<noteq> i) w)\<rparr>"

definition a_project_lib :: "EqDevice list EquinixLib" where
  "a_project_lib = refusing_equinix\<lparr>Eq_NewClientWithAuth := \<lambda>c t. a_project\<rparr>"

lemma a_project_laws: "device_laws a_project_lib a_project project (\<lambda>w. w)"
  by (auto simp: device_laws_def a_project_def a_project_lib_def refusing_equinix_def Let_def split: option.split_asm)

lemma within_size_witness:
  "count_pool_tags ''pool'' (eq_run a_project_lib a_project equinix_default_config (\<lambda>p. 1)
     [EAcquire ''pool'', EAcquire ''pool'', ERelease ''x'', EAcquire ''pool''] []) \<le> 1"
proof -
  have "count_pool_tags q [] \<le> max 0 1" for q by (simp add: count_pool_tags_def)
  then have "\<forall>q. count_pool_tags q [] \<le> max 0 1" by blast
  from equinix_pool_within_size [OF a_project_laws this, where p = "''pool''" and cfg = equinix_default_config
      and ops = "[EAcquire ''pool'', EAcquire ''pool'', ERelease ''x'', EAcquire ''pool'']"]
  show ?thesis by simp
qed

lemma own_token_witness:
  "\<exists>W. EquinixProviderFactory a_project_lib '''' Map.empty \<lparr>eqClients = Map.empty, eq_outer = []\<rparr> =
     Some (Inr (equinixProvider a_project_lib a_project equinix_default_config), W) \<and> eq_reach a_project_lib 0 W"
proof -
  let ?W = "\<lparr>eqClients = Map.empty, eq_outer = []\<rparr> :: EqDevice list eq_world"
  have cfg: "equinix_config a_project_lib Map.empty = Inr equinix_default_config"
    by (simp add: equinix_config_def equinix_default_config_def)
  then obtain p W where made: "EquinixProviderFactory a_project_lib '''' Map.empty ?W = Some (Inr p, W)"
    by (auto simp: EquinixProviderFactory_def Let_def)
  have "eq_reach a_project_lib 0 ?W" by (rule eq_started) simp
  from equinix_client_has_own_token [OF this made cfg] made show ?thesis
    by (simp add: equinix_default_config_def a_project_lib_def)
qed

text \<open>An account: the world is what its hosts show.\<close>

definition hardware_of :: "host_view \<Rightarrow> Hardware" where
  "hardware_of v = (case v of (i, n, ts) \<Rightarrow>
     \<lparr>HW_Id = i, HW_Hostname = n, HW_Status = Some ''ACTIVE'', HW_TransactionStatus = Some ''COMPLETE'',
      HW_PrimaryIpAddress = Some ''1.1.1.1'', HW_Tags = ts, HW_PackageId = Some 200, HW_BillingItemId = Some 1,
      HW_HourlyBillingFlag = Some True\<rparr>)"

lemma view_hardware_of [simp]: "view (hardware_of v) = v"
  by (cases v) (simp add: view_def hardware_of_def)

definition an_account :: "host_view list SoftLayer" where
  "an_account = refusing_softlayer
     \<lparr>SL_GetHardware := \<lambda>m f w. ((map hardware_of w, None), w), SL_GetSshKeys := \<lambda>w. (([], None), w),
      SL_CreateSshKey := \<lambda>k w. ((k\<lparr>Key_Id := Some 7\<rparr>, None), w), SL_GetItems := \<lambda>m p w. (([], None), w),
      SL_ReloadOperatingSystem := \<lambda>i f c w. (None, w), SL_SetTags := \<lambda>i s w. (None, map (retag i s) w)\<rparr>"

lemma an_account_laws: "account_laws refusing_ibm an_account (\<lambda>w. w)"
  by (auto simp: account_laws_def an_account_def refusing_ibm_def comp_def)

definition two_hosts :: "host_view list" where
  "two_hosts = [(Some 1, Some ''host-1'', [Some manualTag, Some takenTag]), (Some 2, Some ''host-2'', [Some manualTag])]"

lemma two_hosts_acquire:
  "ibmcloud_Acquire refusing_ibm an_account ibmcloud_default_config 1 ''pool'' TypeCIHost two_hosts =
     Some ((Resource0\<lparr>Id := ''host-2''\<rparr>, None), map (retag 2 (manualTag @ '','' @ takenTag)) two_hosts)"
  by (simp add: ibmcloud_Acquire_def getAvailableHost_def an_account_def two_hosts_def hardware_of_def host_available_def
      has_def retag_def ibmcloud_Clean_def getNodeByName_def ensureSSHKey_def short_uuid_def refusing_ibm_def
      getItemPriceList_def getPackageItems_def Let_def)

lemma manual_host_witness:
  "ibmcloud_Release an_account ''host-2'' (map (retag 2 (manualTag @ '','' @ takenTag)) two_hosts) = Some (None, two_hosts)"
proof -
  let ?w1 = "map (retag 2 (manualTag @ '','' @ takenTag)) two_hosts"
  obtain node where node: "getNodeByName an_account ''host-2'' ?w1 = Some (Inr node, ?w1)"
    by (simp add: getNodeByName_def an_account_def two_hosts_def retag_def hardware_of_def has_def)
  obtain r w3 where rel: "ibmcloud_Release an_account ''host-2'' ?w1 = Some (r, w3)"
    by (cases "ibmcloud_Release an_account ''host-2'' ?w1")
      (auto simp: ibmcloud_Release_def getNodeByName_def an_account_def two_hosts_def retag_def hardware_of_def has_def
        releaseManualHost_def)
  have "r = None \<and> w3 = two_hosts"
    using manual_host_roundtrip [OF an_account_laws _ _ _ _ two_hosts_acquire, of node ?w1 r w3] node rel
    by (simp add: two_hosts_def ibmcloud_default_config_def) (simp add: an_account_def)
  with rel show ?thesis by simp
qed

text \<open>A service: the world is its nodes by their identifiers.\<close>

definition service_nodes :: "(string \<rightharpoonup> Node) \<Rightarrow> string \<rightharpoonup> Node" where
  "service_nodes w i = map_option (\<lambda>n. n\<lparr>N_UUID := i\<rparr>) (w i)"

definition a_service :: "(string \<rightharpoonup> Node) IronicLib" where
  "a_service = refusing_ironic
     \<lparr>Nodes_Get := \<lambda>c i w. ((case service_nodes w i of Some n \<Rightarrow> (n, None) | None \<Rightarrow> (zero_Node, Some refused)), w),
      Nodes_Update := \<lambda>c i ops w. (case service_nodes w i of
          Some n \<Rightarrow> ((fold apply_op ops n, None), w(i \<mapsto> fold apply_op ops n))
        | None \<Rightarrow> ((zero_Node, Some refused), w)),
      Nodes_ChangeProvisionState := \<lambda>c i opts w. (None, w(i := map_option (\<lambda>n. n\<lparr>N_ProvisionState := nodes_Active\<rparr>) (w i))),
      Nodes_Pages := \<lambda>c. [\<lambda>w. (Inr (Inr (List.map_filter (service_nodes w) [''node-1'', ''node-2''])), w)]\<rparr>"

lemma apply_ops_UUID [simp]: "N_UUID (fold apply_op ops n) = N_UUID n"
proof (induction ops arbitrary: n)
  case (Cons op ops)
  then show ?case by (cases op) simp_all
qed simp

lemma UUID_same: "N_UUID n = i \<Longrightarrow> n\<lparr>N_UUID := i\<rparr> = n"
  by (cases n) simp

lemma a_service_laws: "node_laws a_service service_nodes" "takes_updates a_service service_nodes"
proof -
  have upd: "service_nodes (w(i \<mapsto> fold apply_op ops n)) = (service_nodes w)(i \<mapsto> fold apply_op ops n)"
    if "service_nodes w i = Some n" for w i ops n
  proof -
    from that have "N_UUID (fold apply_op ops n) = i" by (auto simp: service_nodes_def)
    then show ?thesis by (auto simp: service_nodes_def UUID_same)
  qed
  show "node_laws a_service service_nodes"
    unfolding node_laws_def
  proof (intro conjI)
    show "\<forall>c i ops w r e w'. Nodes_Update a_service c i ops w = ((r, e), w') \<longrightarrow>
        (if e = None then service_nodes w' = (service_nodes w)(i := map_option (fold apply_op ops) (service_nodes w i))
         else service_nodes w' = service_nodes w)"
      using upd by (auto simp: a_service_def split: option.split_asm)
    show "\<forall>c i opts w e w'. Nodes_ChangeProvisionState a_service c i opts w = (e, w') \<longrightarrow>
        extras service_nodes w' = extras service_nodes w"
      by (auto simp: a_service_def extras_def service_nodes_def option.map_comp comp_def)
  qed (auto simp: a_service_def refusing_ironic_def service_nodes_def List.map_filter_def split: option.split_asm)
  show "takes_updates a_service service_nodes"
    by (auto simp: takes_updates_def a_service_def split: option.split)
qed

definition a_free_node :: Node where
  "a_free_node = \<lparr>N_UUID = '''', N_ProvisionState = nodes_Available, N_Extra = Some [typeName \<mapsto> JString TypeCIHost]\<rparr>"

definition a_service_world :: "(string \<rightharpoonup> Node) ironic_world" where
  "a_service_world =
     \<lparr>ir_clients = Map.empty, ir_instance_infos = Map.empty, ir_maps = [checksummed ''image''],
      ir_objects = [\<lparr>IP_config = ironic_default_config, IP_client = Some a_client, IP_instance_info = Some 0\<rparr>],
      ir_outer = [''node-1'' \<mapsto> a_free_node, ''node-2'' \<mapsto> a_free_node]\<rparr>"

lemma two_acquisitions:
  "\<exists>W1 W2. ironic_Acquire a_service 0 2 ''pool'' TypeCIHost a_service_world = Some ((Resource0\<lparr>Id := ''node-1''\<rparr>, None), W1) \<and>
     ironic_Acquire a_service 0 2 ''pool'' TypeCIHost W1 = Some ((Resource0\<lparr>Id := ''node-2''\<rparr>, None), W2)"
  by (simp add: ironic_Acquire_def selectNode_def a_service_def a_service_world_def deref_def outer_call_def deployNode_def
      a_free_node_def UpdateNode_def ChangeProvisionStateNode_def with_login_def service_nodes_def List.map_filter_def
      node_usable_def extra_at_def typeName_def ofcir_cirName_def cirTaken_def nodes_Active_def nodes_Available_def Let_def)

lemma never_double_books_witness:
  "\<exists>W. ironic_holds a_service service_nodes [''node-1'', ''node-2''] W \<and>
     distinct [''node-1'', ''node-2''] \<and>
     (\<forall>i\<in>{''node-1'', ''node-2''}. \<exists>m. extras service_nodes (ir_outer W) i = Some (Some m) \<and>
        m ofcir_cirName = Some (JString cirTaken))"
proof -
  from two_acquisitions obtain W1 W2 where
    1: "ironic_Acquire a_service 0 2 ''pool'' TypeCIHost a_service_world = Some ((Resource0\<lparr>Id := ''node-1''\<rparr>, None), W1)" and
    2: "ironic_Acquire a_service 0 2 ''pool'' TypeCIHost W1 = Some ((Resource0\<lparr>Id := ''node-2''\<rparr>, None), W2)" by blast
  have "ironic_holds a_service service_nodes [''node-1'', ''node-2''] W2"
    using ironic_holds.acquired [OF ironic_holds.acquired [OF ironic_holds.nothing_held 1] 2] by simp
  with ironic_never_double_books [OF a_service_laws this] show ?thesis by auto
qed

end
