(* ===== verification/Scenario.thy ===== *)
theory Scenario
  imports Kube_Client
begin

text \<open>
  The harness of the reconcilers' tests, \<open>pkg/reconcilertest/scenario.go\<close>: a builder that collects
  the conditions to wait for, and a loop that reconciles one object until each of them held in
  turn, a bounded number of times for each. The reconciler, the fake cluster and its client are
  arguments. A call of \<open>FailNow\<close> or \<open>Fatal\<close> ends the test; a failed assertion is noted and the test
  goes on.
\<close>

section \<open>The builder\<close>

text \<open>What the harness reads of an object: its name, and whether it has the type under test.\<close>

record Object =
  Ob_Name :: string
  Ob_Namespace :: string
  Ob_IsPT :: bool

text \<open>An action returns the assertions that failed in it and whether it stopped the test.\<close>

record ('w, 'o) reconcileHandler =
  waitFor :: "'o option \<Rightarrow> ('w, bool) call"
  waitForLabel :: string
  action :: "('o option \<Rightarrow> ('w, string list \<times> bool) call) option"
  actionLabel :: string

record ('w, 'o, 's) scenario =
  schemes :: "('s \<Rightarrow> error option \<times> 's) list"
  setupHandler :: "Object list option"
  startObj :: NamespacedName
  handlers :: "('w, 'o) reconcileHandler list"

definition scenario_New :: "('w, 'o, 's) scenario" where
  "scenario_New = \<lparr>schemes = [], setupHandler = None, startObj = ('''', ''''), handlers = []\<rparr>"

fun join_labels :: "string list \<Rightarrow> string" where
  "join_labels [] = ''''"
| "join_labels [l] = l"
| "join_labels (l # k # ls) = l @ '', '' @ join_labels (k # ls)"

definition WithSchemes :: "('s \<Rightarrow> error option \<times> 's) list \<Rightarrow> ('w, 'o, 's) scenario \<Rightarrow> ('w, 'o, 's) scenario" where
  "WithSchemes fs s = s\<lparr>schemes := schemes s @ fs\<rparr>"

definition Setup :: "Object list \<Rightarrow> ('w, 'o, 's) scenario \<Rightarrow> ('w, 'o, 's) scenario" where
  "Setup sh s = s\<lparr>setupHandler := Some sh\<rparr>"

definition StartReconcileFor :: "string \<Rightarrow> string list \<Rightarrow> ('w, 'o, 's) scenario \<Rightarrow> ('w, 'o, 's) scenario" where
  "StartReconcileFor name namespace s =
     s\<lparr>startObj := (case namespace of [] \<Rightarrow> fst (startObj s) | ns # _ \<Rightarrow> ns, name)\<rparr>"

definition ReconcileUntil ::
  "('o option \<Rightarrow> ('w, bool) call) \<Rightarrow> string list \<Rightarrow> ('w, 'o, 's) scenario \<Rightarrow> ('w, 'o, 's) scenario" where
  "ReconcileUntil wait labels s =
     s\<lparr>handlers := handlers s @
        [\<lparr>waitFor = wait, waitForLabel = join_labels labels, action = None, actionLabel = ''''\<rparr>]\<rparr>"

text \<open>Without a handler the index is out of range.\<close>

definition Then ::
  "('o option \<Rightarrow> ('w, string list \<times> bool) call) \<Rightarrow> string list \<Rightarrow> ('w, 'o, 's) scenario
   \<Rightarrow> ('w, 'o, 's) scenario option" where
  "Then act labels s =
     (if handlers s = [] then None
      else Some (s\<lparr>handlers := butlast (handlers s) @
             [(last (handlers s))\<lparr>action := Some act, actionLabel := join_labels labels\<rparr>]\<rparr>))"

section \<open>The object to start from\<close>

text \<open>The namespace comes first in a \<open>NamespacedName\<close>. A given name without a namespace takes that of
  the first object of the name.\<close>

fun find_start :: "Object list \<Rightarrow> NamespacedName \<Rightarrow> NamespacedName option" where
  "find_start [] start = None"
| "find_start (ob # obs) (ns, name) =
     (if name = Ob_Name ob
      then (let ns' = (if ns = '''' then Ob_Namespace ob else ns) in
            if ns' = Ob_Namespace ob then Some (ns', name) else find_start obs (ns', name))
      else find_start obs (ns, name))"

definition setStartObj :: "Object list \<Rightarrow> NamespacedName \<Rightarrow> string + NamespacedName" where
  "setStartObj objs start =
     (if snd start = ''''
      then (case List.find Ob_IsPT objs of
              Some ob \<Rightarrow> Inr (Ob_Namespace ob, Ob_Name ob)
            | None \<Rightarrow> Inl ''No eligible starting object found for the reconciler'')
      else (case find_start objs start of
              Some s \<Rightarrow> Inr s
            | None \<Rightarrow> Inl (''Object '' @ (if fst start \<noteq> '''' then fst start @ '':'' @ snd start else snd start) @
                        '' not found in the current cache'')))"

section \<open>The test\<close>

text \<open>The fake cluster: \<open>TL_Zero\<close> is the zero value of the type under test, which \<open>Get\<close> leaves in
  place on an error.\<close>

record ('w, 'o, 's) TestLib =
  TL_NewScheme :: 's
  TL_Build :: "'s \<Rightarrow> Object list \<Rightarrow> 'w"
  TL_Reconcile :: "NamespacedName \<Rightarrow> ('w, error option) call"
  TL_Get :: "NamespacedName \<Rightarrow> ('w, error + 'o) call"
  TL_Zero :: 'o

datatype verdict = Finished | Stopped string

definition maxReconciles :: nat where "maxReconciles = 20"

definition noted :: "error option \<Rightarrow> string list" where
  "noted err = (case err of None \<Rightarrow> [] | Some e \<Rightarrow> [error_text e])"

text \<open>One reconciliation and what the cluster then holds, with the assertions that failed.\<close>

definition reconcile_once ::
  "('w, 'o, 's) TestLib \<Rightarrow> NamespacedName \<Rightarrow> ('w, 'o option \<times> string list) call" where
  "reconcile_once lib start w =
     (let (err, w) = TL_Reconcile lib start w; (got, w) = TL_Get lib start w in
      case got of
        Inr latest \<Rightarrow> ((Some latest, noted err), w)
      | Inl e \<Rightarrow>
          (if IsNotFound e then ((None, noted err), w)
           else ((Some (TL_Zero lib), noted err @ noted (Some e)), w)))"

definition run_action ::
  "('w, 'o) reconcileHandler \<Rightarrow> 'o option \<Rightarrow> ('w, string list \<times> bool) call" where
  "run_action h latest w = (case action h of None \<Rightarrow> (([], False), w) | Some act \<Rightarrow> act latest w)"

definition too_many :: "('w, 'o) reconcileHandler \<Rightarrow> nat \<Rightarrow> string" where
  "too_many h stepIndex =
     ''`'' @ (if waitForLabel h = '''' then ''waiting condition #'' @ Itoa (int stepIndex) else waitForLabel h) @
     ''` not satisfied, too many reconcile loops''"

text \<open>The loop: after a step was taken the counter is set to zero and then counted up in the same
  round.\<close>

function test_loop ::
  "('w, 'o, 's) TestLib \<Rightarrow> NamespacedName \<Rightarrow> ('w, 'o) reconcileHandler list \<Rightarrow> nat \<Rightarrow> nat \<Rightarrow> string list
   \<Rightarrow> ('w, verdict \<times> string list) go" where
  "test_loop lib start hs stepIndex loopCounter fails w =
     (if stepIndex < length hs
      then (let ((latest, failed), w) = reconcile_once lib start w;
                (reached, w) = waitFor (hs ! stepIndex) latest w in
            if reached
            then (let ((failed', stop), w) = run_action (hs ! stepIndex) latest w;
                      fails = fails @ failed @ failed' in
                  if stop then Some ((Stopped ''action'', fails), w)
                  else if stepIndex = length hs - 1 then Some ((Finished, fails), w)
                  else test_loop lib start hs (stepIndex + 1) 1 fails w)
            else if loopCounter + 1 \<ge> maxReconciles
            then Some ((Stopped (too_many (hs ! stepIndex) stepIndex), fails @ failed), w)
            else test_loop lib start hs stepIndex (loopCounter + 1) (fails @ failed) w)
      else None)"
  by pat_completeness auto
termination
  by (relation "(\<lambda>(lib, start, hs, i, c, fails, w). length hs - i) <*mlex*>
      measure (\<lambda>(lib, start, hs, i, c, fails, w). maxReconciles - c)")
    (auto intro: wf_mlex mlex_less mlex_leq)

declare test_loop.simps [simp del]

fun add_schemes :: "('s \<Rightarrow> error option \<times> 's) list \<Rightarrow> 's \<Rightarrow> error + 's" where
  "add_schemes [] sc = Inr sc"
| "add_schemes (f # fs) sc = (case f sc of (Some err, sc) \<Rightarrow> Inl err | (None, sc) \<Rightarrow> add_schemes fs sc)"

text \<open>\<open>Test\<close> makes its own cluster, so it takes none: the world in the result is the cluster at the
  end, none when the test stopped before there was one.\<close>

definition scenario_Test ::
  "('w, 'o, 's) TestLib \<Rightarrow> ('w, 'o, 's) scenario \<Rightarrow> ((verdict \<times> string list) \<times> 'w option) option" where
  "scenario_Test lib s =
     (case add_schemes (schemes s) (TL_NewScheme lib) of
        Inl err \<Rightarrow> Some ((Stopped (error_text err), []), None)
      | Inr scheme \<Rightarrow>
          (case setupHandler s of
             None \<Rightarrow> None
           | Some objs \<Rightarrow>
               (let w = TL_Build lib scheme objs in
                case setStartObj objs (startObj s) of
                  Inl msg \<Rightarrow> Some ((Stopped msg, []), Some w)
                | Inr start \<Rightarrow> map_option (\<lambda>(r, w). (r, Some w)) (test_loop lib start (handlers s) 0 0 [] w))))"

section \<open>How often it reconciles\<close>

text \<open>\<open>cnt\<close> counts the reconciliations: each adds one, nothing else does.\<close>

definition counts :: "('w, 'o, 's) TestLib \<Rightarrow> ('w, 'o) reconcileHandler list \<Rightarrow> ('w \<Rightarrow> nat) \<Rightarrow> bool" where
  "counts lib hs cnt \<longleftrightarrow>
     (\<forall>n w. cnt (snd (TL_Reconcile lib n w)) = Suc (cnt w)) \<and> (\<forall>n w. cnt (snd (TL_Get lib n w)) = cnt w) \<and>
     (\<forall>h \<in> set hs. (\<forall>ob w. cnt (snd (waitFor h ob w)) = cnt w) \<and>
        (\<forall>act ob w. action h = Some act \<longrightarrow> cnt (snd (act ob w)) = cnt w))"

lemma reconcile_once_counts:
  assumes "counts lib hs cnt" and "reconcile_once lib start w = (r, w')"
  shows "cnt w' = Suc (cnt w)"
proof -
  obtain err w1 where 1: "TL_Reconcile lib start w = (err, w1)" by (metis prod.exhaust)
  obtain got w2 where 2: "TL_Get lib start w1 = (got, w2)" by (metis prod.exhaust)
  from assms(2) 1 2 have "w' = w2" by (auto simp: reconcile_once_def Let_def split: sum.split_asm if_split_asm)
  with assms(1) 1 2 show ?thesis by (metis counts_def snd_conv)
qed

lemma handler_counts:
  assumes "counts lib hs cnt" and "h \<in> set hs"
  shows "waitFor h ob w = (b, w') \<Longrightarrow> cnt w' = cnt w" and "run_action h ob w = (r, w') \<Longrightarrow> cnt w' = cnt w"
  using assms by (auto simp: counts_def run_action_def split: option.split_asm dest!: bspec) (metis snd_conv)+

lemma test_loop_returns:
  assumes "counts lib hs cnt" and "i < length hs" and "c < maxReconciles"
  shows "\<exists>v fs w'. test_loop lib start hs i c fails w = Some ((v, fs), w') \<and>
    cnt w' \<le> cnt w + (maxReconciles - c) + (length hs - Suc i) * (maxReconciles - 1)"
  using assms
proof (induction lib start hs i c fails w rule: test_loop.induct)
  case (1 lib start hs i c fails w)
  have h: "hs ! i \<in> set hs" using 1(4) by simp
  obtain latest failed w1 where once: "reconcile_once lib start w = ((latest, failed), w1)" by (metis prod.exhaust)
  obtain reached w2 where wait: "waitFor (hs ! i) latest w1 = (reached, w2)" by (metis prod.exhaust)
  obtain failed' stop w3 where act: "run_action (hs ! i) latest w2 = ((failed', stop), w3)" by (metis prod.exhaust)
  have n1: "cnt w1 = Suc (cnt w)" using reconcile_once_counts[OF 1(3) once] .
  have n2: "cnt w2 = cnt w1" using handler_counts(1)[OF 1(3) h wait] .
  have n3: "cnt w3 = cnt w2" using handler_counts(2)[OF 1(3) h act] .
  note step = test_loop.simps[of lib start hs i c fails w]
  show ?case
  proof (cases reached)
    case True
    note IH = 1(1)[OF 1(4) once[symmetric] refl refl wait[symmetric] refl True act[symmetric] refl refl refl _ _ 1(3),
        where xi = w3]
    show ?thesis
    proof (cases "stop \<or> i = length hs - 1")
      case True
      then show ?thesis using 1(4,5) once wait act \<open>reached\<close> n1 n2 n3 by (auto simp: step Let_def)
    next
      case False
      then have more: "Suc i < length hs" using 1(4) by linarith
      have "length hs - Suc i = Suc (length hs - Suc (Suc i))" using more by simp
      with IH False more show ?thesis using 1(4,5) once wait act \<open>reached\<close> n1 n2 n3
        by (fastforce simp: step Let_def maxReconciles_def)
    qed
  next
    case False
    note IH = 1(2)[OF 1(4) once[symmetric] refl refl wait[symmetric] refl False _ 1(3,4)]
    show ?thesis
    proof (cases "c + 1 \<ge> maxReconciles")
      case True
      then show ?thesis using 1(4,5) once wait False n1 n2 by (auto simp: step Let_def)
    next
      case less: False
      with IH show ?thesis using 1(4,5) once wait False n1 n2 by (fastforce simp: step Let_def)
    qed
  qed
qed

section \<open>The test returns\<close>

text \<open>C24 (termination). Whatever the reconciler does, a test with at least one handler returns: it
  finishes or is stopped, after at most 20 reconciliations for the first condition and 19 for each
  further one (the counter is not back at zero when the next condition is first tried).\<close>

theorem scenario_terminates:
  assumes "setupHandler s = Some objs" and "handlers s \<noteq> []" and "counts lib (handlers s) cnt"
    and "\<forall>scheme. cnt (TL_Build lib scheme objs) = 0"
  shows "\<exists>v fails w. scenario_Test lib s = Some ((v, fails), w) \<and>
    (\<forall>w' \<in> set_option w. cnt w' \<le> 20 + 19 * (length (handlers s) - 1))"
proof (cases "add_schemes (schemes s) (TL_NewScheme lib)")
  case (Inl err)
  then show ?thesis by (simp add: scenario_Test_def)
next
  case (Inr scheme)
  show ?thesis
  proof (cases "setStartObj objs (startObj s)")
    case (Inl msg)
    with Inr assms(1,4) show ?thesis by (simp add: scenario_Test_def Let_def)
  next
    case start: (Inr start)
    from assms(2) have "0 < length (handlers s)" "(0 :: nat) < maxReconciles" by (simp_all add: maxReconciles_def)
    from test_loop_returns [OF assms(3) this, of start "[]" "TL_Build lib scheme objs"] assms(4) obtain v fs w' where
      "test_loop lib start (handlers s) 0 0 [] (TL_Build lib scheme objs) = Some ((v, fs), w')"
      "cnt w' \<le> 20 + (length (handlers s) - 1) * 19" by (auto simp: maxReconciles_def)
    with Inr start assms(1) show ?thesis by (simp add: scenario_Test_def Let_def mult.commute)
  qed
qed

text \<open>An instance: a cluster that only counts, and two conditions, the second of which never holds.
  It is stopped with 20 reconciliations.\<close>

definition counting_lib :: "(nat, nat, unit) TestLib" where
  "counting_lib =
     \<lparr>TL_NewScheme = (), TL_Build = \<lambda>sc objs. 0, TL_Reconcile = \<lambda>n w. (None, Suc w),
      TL_Get = \<lambda>n w. (Inr w, w), TL_Zero = 0\<rparr>"

definition counting_scenario :: "(nat, nat, unit) scenario" where
  "counting_scenario =
     ReconcileUntil (\<lambda>ob w. (False, w)) [''never'']
       (ReconcileUntil (\<lambda>ob w. (ob = Some 1, w)) [''one'']
         (StartReconcileFor ''cir-0001'' []
           (Setup [\<lparr>Ob_Name = ''cir-0001'', Ob_Namespace = ''ofcir'', Ob_IsPT = True\<rparr>]
             (WithSchemes [\<lambda>sc. (None, sc)] scenario_New))))"

lemma counting_scenario_sel [simp]:
  "setupHandler counting_scenario = Some [\<lparr>Ob_Name = ''cir-0001'', Ob_Namespace = ''ofcir'', Ob_IsPT = True\<rparr>]"
  "length (handlers counting_scenario) = 2" "counts counting_lib (handlers counting_scenario) (\<lambda>n. n)"
  by (simp_all add: counting_scenario_def ReconcileUntil_def StartReconcileFor_def Setup_def WithSchemes_def
      scenario_New_def counts_def counting_lib_def)

lemma scenario_terminates_witness:
  "\<exists>v fails w. scenario_Test counting_lib counting_scenario = Some ((v, fails), w) \<and> (\<forall>n \<in> set_option w. n \<le> 39)"
proof -
  have "handlers counting_scenario \<noteq> []" by (simp flip: length_greater_0_conv)
  from scenario_terminates [OF counting_scenario_sel(1) this counting_scenario_sel(3)] show ?thesis
    by (simp add: counting_lib_def)
qed

end
