(* ===== verification/Entry_Points.thy ===== *)
theory Entry_Points
  imports Server Cir_Fsm
begin

text \<open>
  How the two programs start: the HTTP server (\<open>cmd/ofcir-api/main.go\<close>, \<open>NewOfcirAPI\<close>, \<open>Init\<close> and
  \<open>Run\<close> of \<open>pkg/server/server.go\<close>, \<open>NewForConfig\<close> of \<open>pkg/server/clientset/v1/api.go\<close>) and the operator
  (\<open>main.go\<close>, the two \<open>SetupWithManager\<close>). The libraries that build configurations, clients and the
  manager are arguments, as is what was given on the command line. A panic is \<^term>\<open>None\<close>, a call of
  \<open>os.Exit\<close> a value of \<open>exit\<close>. The package initialisers that register the API types come last. Logging and signals
  are left out.
\<close>

section \<open>The command line\<close>

text \<open>The flags that were given, with their parsed values.\<close>

record Flags =
  Fl_String :: "string \<rightharpoonup> string"
  Fl_Bool :: "string \<rightharpoonup> bool"
  Fl_Int :: "string \<rightharpoonup> int"

definition flag_value :: "(string \<rightharpoonup> 'a) \<Rightarrow> string \<Rightarrow> 'a \<Rightarrow> 'a" where
  "flag_value given name preset = (case given name of None \<Rightarrow> preset | Some v \<Rightarrow> v)"

section \<open>The clients of the HTTP server\<close>

text \<open>The fields the code sets; \<open>Cfg_Target\<close> stands for host and credentials.\<close>

record rest_Config =
  Cfg_Target :: string
  Cfg_QPS :: int
  Cfg_Burst :: int
  Cfg_GroupVersion :: "(string \<times> string) option"
  Cfg_APIPath :: string
  Cfg_NegotiatedSerializer :: string
  Cfg_UserAgent :: string

record 'w KubeLib =
  BuildConfigFromFlags :: "string \<Rightarrow> string \<Rightarrow> ('w, error + rest_Config) call"
  InClusterConfig :: "('w, error + rest_Config) call"
  RESTClientFor :: "rest_Config \<Rightarrow> error + 'w RestClient"
  kubernetes_NewForConfig :: "rest_Config \<Rightarrow> error + 'w Secrets"
  Codecs_WithoutConversion :: string
  DefaultKubernetesUserAgent :: string

definition NewForConfig :: "'w KubeLib \<Rightarrow> rest_Config \<Rightarrow> error + 'w OfcirV1Interface" where
  "NewForConfig lib c =
     (let config = c\<lparr>Cfg_GroupVersion := Some (''ofcir.openshift'', ''v1''), Cfg_APIPath := ''/apis'',
            Cfg_NegotiatedSerializer := Codecs_WithoutConversion lib, Cfg_UserAgent := DefaultKubernetesUserAgent lib\<rparr> in
      case RESTClientFor lib config of Inl err \<Rightarrow> Inl err | Inr client \<Rightarrow> Inr (OfcirV1Client client))"

section \<open>The HTTP server\<close>

datatype ApiHandler = HandleGetCirStatus | HandleAcquireCir | HandleReleaseCir

text \<open>The router: whether the group uses the middleware, and its routes.\<close>

record Router =
  Router_AuthRequired :: bool
  Router_Routes :: "(string \<times> string \<times> ApiHandler) list"

record 'w OfcirAPI =
  Api_Config :: "rest_Config option"
  Api_Clientset :: "'w OfcirV1Interface option"
  Api_Corev1 :: "'w Secrets option"
  Api_Router :: "Router option"
  Api_Port :: string
  Api_Namespace :: string

definition NewOfcirAPI :: "string \<Rightarrow> string \<Rightarrow> 'w OfcirAPI" where
  "NewOfcirAPI port namespace =
     \<lparr>Api_Config = None, Api_Clientset = None, Api_Corev1 = None, Api_Router = None, Api_Port = port,
      Api_Namespace = namespace\<rparr>"

definition api_routes :: "(string \<times> string \<times> ApiHandler) list" where
  "api_routes =
     [(''GET'', ''/v1/ofcir/:cirName'', HandleGetCirStatus), (''POST'', ''/v1/ofcir'', HandleAcquireCir),
      (''DELETE'', ''/v1/ofcir/:cirName'', HandleReleaseCir)]"

definition OfcirAPI_Init :: "'w KubeLib \<Rightarrow> string \<Rightarrow> 'w OfcirAPI \<Rightarrow> ('w, error option \<times> 'w OfcirAPI) go" where
  "OfcirAPI_Init lib kubeconfig api =
     checked (if kubeconfig \<noteq> '''' then BuildConfigFromFlags lib '''' kubeconfig else InClusterConfig lib)
       (\<lambda>err. (Some err, api))
       (\<lambda>config w.
         (let config = config\<lparr>Cfg_QPS := 50, Cfg_Burst := 100\<rparr>; api = api\<lparr>Api_Config := Some config\<rparr> in
          case NewForConfig lib config of
            Inl err \<Rightarrow> None
          | Inr cs \<Rightarrow>
              (let api = api\<lparr>Api_Clientset := Some cs\<rparr> in
               case kubernetes_NewForConfig lib config of
                 Inl err \<Rightarrow> None
               | Inr corev1 \<Rightarrow>
                   Some ((None, api\<lparr>Api_Corev1 := Some corev1,
                      Api_Router := Some \<lparr>Router_AuthRequired = True, Router_Routes = api_routes\<rparr>\<rparr>), w))))"

record http_Server =
  Http_Addr :: string
  Http_Handler :: "Router option"
  Http_ReadTimeout :: Duration
  Http_IdleTimeout :: Duration

definition OfcirAPI_Run :: "(http_Server \<Rightarrow> 'w \<Rightarrow> 'w) \<Rightarrow> 'w OfcirAPI \<Rightarrow> 'w \<Rightarrow> 'w" where
  "OfcirAPI_Run listenAndServe api w =
     listenAndServe \<lparr>Http_Addr = '':'' @ Api_Port api, Http_Handler = Api_Router api,
       Http_ReadTimeout = Duration (10 * Nanoseconds Second), Http_IdleTimeout = Duration (120 * Nanoseconds Second)\<rparr> w"

definition ofcir_api_main ::
  "'w KubeLib \<Rightarrow> ('w OfcirAPI \<Rightarrow> http_Server \<Rightarrow> 'w \<Rightarrow> 'w) \<Rightarrow> Flags \<Rightarrow> 'w \<Rightarrow> 'w option" where
  "ofcir_api_main lib listenAndServe flags w =
     (let kubeconfig = flag_value (Fl_String flags) ''kubeconfig'' '''';
          port = flag_value (Fl_String flags) ''port'' ''8087'';
          namespace = flag_value (Fl_String flags) ''namespace'' ''ofcir-system'' in
      do {
        ((err, srv), w) \<leftarrow> OfcirAPI_Init lib kubeconfig (NewOfcirAPI port namespace) w;
        if err \<noteq> None then None else Some (OfcirAPI_Run (listenAndServe srv) srv w)
      })"

text \<open>A server that listens has both clients, made for one configuration with the limits set, and every
  route behind the middleware.\<close>

definition well_started :: "'w KubeLib \<Rightarrow> 'w OfcirAPI \<Rightarrow> bool" where
  "well_started lib api \<longleftrightarrow>
     (\<exists>config cs core. Api_Config api = Some config \<and> Cfg_QPS config = 50 \<and> Cfg_Burst config = 100 \<and>
        NewForConfig lib config = Inr cs \<and> Api_Clientset api = Some cs \<and>
        kubernetes_NewForConfig lib config = Inr core \<and> Api_Corev1 api = Some core \<and>
        Api_Router api = Some \<lparr>Router_AuthRequired = True, Router_Routes = api_routes\<rparr>)"

lemma OfcirAPI_Init_ok:
  assumes "OfcirAPI_Init lib kubeconfig api w = Some ((None, api'), w')"
  shows "well_started lib api'" "Api_Port api' = Api_Port api" "Api_Namespace api' = Api_Namespace api"
  using assms by (auto simp: OfcirAPI_Init_def go_Some well_started_def)

section \<open>The operator\<close>

record ControllerOptions =
  Ctl_For :: string
  Ctl_MaxConcurrentReconciles :: nat

record ManagerOptions =
  Mgr_MetricsAddr :: string
  Mgr_SecureServing :: bool
  Mgr_NextProtos :: "string list"
  Mgr_FilterProvider :: string
  Mgr_HealthProbeAddr :: string
  Mgr_LeaderElection :: bool
  Mgr_LeaderElectionID :: string
  Mgr_LeaderElectionNamespace :: string
  Mgr_Namespaces :: "string list"

record 'w CtrlLib =
  Ctrl_GetConfig :: "('w, rest_Config option) call"
  Ctrl_NewManager :: "rest_Config \<Rightarrow> ManagerOptions \<Rightarrow> ('w, error option) call"
  Ctrl_Complete :: "ControllerOptions \<Rightarrow> ('w, error option) call"
  Ctrl_AddHealthzCheck :: "string \<Rightarrow> ('w, error option) call"
  Ctrl_AddReadyzCheck :: "string \<Rightarrow> ('w, error option) call"
  Ctrl_Start :: "('w, error option) call"

definition CIPool_SetupWithManager :: "'w CtrlLib \<Rightarrow> ('w, error option) call" where
  "CIPool_SetupWithManager lib = Ctrl_Complete lib \<lparr>Ctl_For = ''CIPool'', Ctl_MaxConcurrentReconciles = 1\<rparr>"

definition CIResource_SetupWithManager :: "'w CtrlLib \<Rightarrow> ('w, error option) call" where
  "CIResource_SetupWithManager lib = Ctrl_Complete lib \<lparr>Ctl_For = ''CIResource'', Ctl_MaxConcurrentReconciles = 1\<rparr>"

text \<open>The process returns or exits with a code.\<close>

datatype exit = Returned | Exited nat

text \<open>A step whose error ends the process with code 1.\<close>

definition or_exit :: "('w, error option) call \<Rightarrow> ('w, exit) call \<Rightarrow> ('w, exit) call" where
  "or_exit f k w = (case f w of (Some err, w) \<Rightarrow> (Exited 1, w) | (None, w) \<Rightarrow> k w)"

definition manager_options :: "Flags \<Rightarrow> ManagerOptions" where
  "manager_options flags =
     \<lparr>Mgr_MetricsAddr = flag_value (Fl_String flags) ''metrics-bind-address'' '':8443'', Mgr_SecureServing = True,
      Mgr_NextProtos = [''http/1.1''], Mgr_FilterProvider = ''WithAuthenticationAndAuthorization'',
      Mgr_HealthProbeAddr = flag_value (Fl_String flags) ''health-probe-bind-address'' '':8081'',
      Mgr_LeaderElection = flag_value (Fl_Bool flags) ''leader-elect'' False,
      Mgr_LeaderElectionID = ''7c25506c.openshift'', Mgr_LeaderElectionNamespace = ''ofcir-system'',
      Mgr_Namespaces = [''ofcir-system'']\<rparr>"

text \<open>\<open>GetConfigOrDie\<close> exits on its own when there is no configuration.\<close>

definition operator_main :: "'w CtrlLib \<Rightarrow> Flags \<Rightarrow> ('w, exit) call" where
  "operator_main lib flags w =
     (case Ctrl_GetConfig lib w of
        (None, w) \<Rightarrow> (Exited 1, w)
      | (Some config, w) \<Rightarrow>
          or_exit (Ctrl_NewManager lib config (manager_options flags))
            (or_exit (CIPool_SetupWithManager lib)
              (or_exit (CIResource_SetupWithManager lib)
                (or_exit (Ctrl_AddHealthzCheck lib ''healthz'')
                  (or_exit (Ctrl_AddReadyzCheck lib ''readyz'')
                    (or_exit (Ctrl_Start lib) (Pair Returned)))))) w)"

lemma or_exit_Returned:
  "or_exit f k w = (Returned, w') \<longleftrightarrow> (\<exists>w1. f w = (None, w1) \<and> k w1 = (Returned, w'))"
  by (auto simp: or_exit_def split: prod.split option.split)

lemma or_exit_codes: "(\<And>w r w'. k w = (r, w') \<Longrightarrow> r \<in> {Returned, Exited 1}) \<Longrightarrow>
    or_exit f k w = (r, w') \<Longrightarrow> r \<in> {Returned, Exited 1}"
  by (auto simp: or_exit_def split: prod.split_asm option.split_asm)

text \<open>The HTTP server listens only when it has both clients, made for one configuration with
  the rate limits set, with all routes behind the check of the token, on the port and for the
  namespace of the command line; otherwise the process panics.\<close>

theorem server_listens_well_started:
  assumes "ofcir_api_main lib listenAndServe flags w = Some w'"
  shows "\<exists>api w1. well_started lib api \<and> Api_Port api = flag_value (Fl_String flags) ''port'' ''8087'' \<and>
     Api_Namespace api = flag_value (Fl_String flags) ''namespace'' ''ofcir-system'' \<and>
     w' = OfcirAPI_Run (listenAndServe api) api w1"
proof -
  from assms obtain api w1 where
    "OfcirAPI_Init lib (flag_value (Fl_String flags) ''kubeconfig'' '''') (NewOfcirAPI
       (flag_value (Fl_String flags) ''port'' ''8087'') (flag_value (Fl_String flags) ''namespace'' ''ofcir-system'')) w =
       Some ((None, api), w1)" "w' = OfcirAPI_Run (listenAndServe api) api w1"
    by (auto simp: ofcir_api_main_def Let_def bind_eq_Some_conv split: if_split_asm)
  with OfcirAPI_Init_ok [OF this(1)] show ?thesis by (auto simp: NewOfcirAPI_def)
qed

text \<open>The operator returns only after a manager with one worker for the pools and one for the
  resources and both checks was started and stopped without an error; everything else exits with
  code 1. One worker for each kind is what the runs of the controllers one after the other rest on.\<close>

theorem operator_runs_complete:
  assumes "operator_main lib flags w = (r, w')"
  shows "(r = Exited 1) \<or>
     r = Returned \<and> (\<exists>config w0 w1 w2 w3 w4 w5. Ctrl_GetConfig lib w = (Some config, w0) \<and>
       Ctrl_NewManager lib config (manager_options flags) w0 = (None, w1) \<and>
       Ctrl_Complete lib \<lparr>Ctl_For = ''CIPool'', Ctl_MaxConcurrentReconciles = 1\<rparr> w1 = (None, w2) \<and>
       Ctrl_Complete lib \<lparr>Ctl_For = ''CIResource'', Ctl_MaxConcurrentReconciles = 1\<rparr> w2 = (None, w3) \<and>
       Ctrl_AddHealthzCheck lib ''healthz'' w3 = (None, w4) \<and> Ctrl_AddReadyzCheck lib ''readyz'' w4 = (None, w5) \<and>
       Ctrl_Start lib w5 = (None, w'))"
proof (cases "Ctrl_GetConfig lib w")
  case (Pair c w0)
  show ?thesis
  proof (cases c)
    case None
    with Pair assms show ?thesis by (simp add: operator_main_def)
  next
    case (Some config)
    note run = assms [unfolded operator_main_def, simplified Pair Some, simplified]
    have "r \<in> {Returned, Exited 1}"
      by (rule or_exit_codes [OF _ run], (erule or_exit_codes [rotated])+) simp
    with run Pair Some show ?thesis
      by (auto simp: or_exit_Returned CIPool_SetupWithManager_def CIResource_SetupWithManager_def)
  qed
qed

section \<open>The types the programs know\<close>

text \<open>
  \<open>api/v1/groupversion_info.go\<close>, the two \<open>init\<close> functions of the API package and that of
  \<open>main.go\<close>. The builder of \<open>controller-runtime\<close> and the schemes are the library's: \<open>'b\<close> and \<open>'s\<close>.
  Go runs the \<open>init\<close> functions of a package in the order of its files, and those of an imported
  package first.
\<close>

record GroupVersion =
  GV_Group :: string
  GV_Version :: string

datatype api_type = Type_CIPool | Type_CIPoolList | Type_CIResource | Type_CIResourceList

record ('b, 's) SchemeLib =
  new_Builder :: "GroupVersion \<Rightarrow> 'b"
  Builder_Register :: "'b \<Rightarrow> api_type list \<Rightarrow> 'b"
  Builder_AddToScheme :: "'b \<Rightarrow> 's \<Rightarrow> error option \<times> 's"
  NewScheme :: 's
  clientgo_AddToScheme :: "'s \<Rightarrow> error option \<times> 's"

definition GroupVersion_v1 :: GroupVersion where
  "GroupVersion_v1 = \<lparr>GV_Group = ''ofcir.openshift'', GV_Version = ''v1''\<rparr>"

definition SchemeBuilder :: "('b, 's) SchemeLib \<Rightarrow> 'b" where
  "SchemeBuilder lib = new_Builder lib GroupVersion_v1"

definition cipool_init :: "('b, 's) SchemeLib \<Rightarrow> 'b \<Rightarrow> 'b" where
  "cipool_init lib b = Builder_Register lib b [Type_CIPool, Type_CIPoolList]"

definition ciresource_init :: "('b, 's) SchemeLib \<Rightarrow> 'b \<Rightarrow> 'b" where
  "ciresource_init lib b = Builder_Register lib b [Type_CIResource, Type_CIResourceList]"

definition AddToScheme :: "('b, 's) SchemeLib \<Rightarrow> 's \<Rightarrow> error option \<times> 's" where
  "AddToScheme lib = Builder_AddToScheme lib (ciresource_init lib (cipool_init lib (SchemeBuilder lib)))"

text \<open>\<open>utilruntime.Must\<close> panics on an error.\<close>

definition must :: "error option \<times> 's \<Rightarrow> 's option" where
  "must r = (case r of (Some err, s) \<Rightarrow> None | (None, s) \<Rightarrow> Some s)"

definition operator_init :: "('b, 's) SchemeLib \<Rightarrow> 's option" where
  "operator_init lib = do {
     scheme \<leftarrow> must (clientgo_AddToScheme lib (NewScheme lib));
     must (AddToScheme lib scheme) }"

text \<open>The process of the operator: the scheme made by \<open>init\<close> is the one \<open>main\<close> gives the manager,
  whose client and cache it decides.\<close>

definition operator_process ::
  "('b, 's) SchemeLib \<Rightarrow> ('s \<Rightarrow> 'w CtrlLib) \<Rightarrow> Flags \<Rightarrow> ('w, exit) go" where
  "operator_process lib ctrl flags w = do {
     scheme \<leftarrow> operator_init lib;
     Some (operator_main (ctrl scheme) flags w) }"

text \<open>What the builder is documented to do: it collects the types registered with it, and adds all
  of them, under its group and version, to the scheme it is applied to. \<open>gv\<close> and \<open>types\<close> read a
  builder, \<open>knows\<close> a scheme.\<close>

definition builder_collects ::
  "('b, 's) SchemeLib \<Rightarrow> ('b \<Rightarrow> GroupVersion) \<Rightarrow> ('b \<Rightarrow> api_type set) \<Rightarrow>
   ('s \<Rightarrow> GroupVersion \<Rightarrow> api_type \<Rightarrow> bool) \<Rightarrow> bool" where
  "builder_collects lib gv types knows \<longleftrightarrow>
     (\<forall>g. gv (new_Builder lib g) = g \<and> types (new_Builder lib g) = {}) \<and>
     (\<forall>b ts. gv (Builder_Register lib b ts) = gv b \<and>
        types (Builder_Register lib b ts) = types b \<union> set ts) \<and>
     (\<forall>b s s'. Builder_AddToScheme lib b s = (None, s') \<longrightarrow> (\<forall>t\<in>types b. knows s' (gv b) t))"

lemma must_Some: "must r = Some s \<longleftrightarrow> r = (None, s)"
  by (auto simp: must_def split: prod.splits option.splits)

text \<open>The operator starts only with a scheme that knows the pool, the resource and their lists under
  the group and version its clients ask for; otherwise it panics before \<open>main\<close>.\<close>

lemma operator_knows_its_types:
  assumes "builder_collects lib gv types knows"
    and "operator_process lib ctrl flags w = Some (r, w')"
  shows "\<exists>scheme. (\<forall>t. knows scheme GroupVersion_v1 t) \<and> operator_main (ctrl scheme) flags w = (r, w')"
proof -
  let ?b = "ciresource_init lib (cipool_init lib (SchemeBuilder lib))"
  from assms(2) obtain s scheme where s: "Builder_AddToScheme lib ?b s = (None, scheme)"
      "operator_main (ctrl scheme) flags w = (r, w')"
    by (auto simp: operator_process_def operator_init_def AddToScheme_def must_Some bind_eq_Some_conv)
  have "gv ?b = GroupVersion_v1" "t \<in> types ?b" for t
    using assms(1) by (cases t; simp add: ciresource_init_def cipool_init_def SchemeBuilder_def
        builder_collects_def)+
  moreover have "\<forall>t\<in>types ?b. knows scheme (gv ?b) t" using assms(1) s(1) by (simp add: builder_collects_def)
  ultimately have "\<forall>t. knows scheme GroupVersion_v1 t" by simp
  with s(2) show ?thesis by blast
qed

section \<open>Instances\<close>

definition some_config :: rest_Config where
  "some_config = \<lparr>Cfg_Target = ''cluster'', Cfg_QPS = 5, Cfg_Burst = 10, Cfg_GroupVersion = None, Cfg_APIPath = '''',
     Cfg_NegotiatedSerializer = '''', Cfg_UserAgent = ''''\<rparr>"

definition some_rest :: "nat RestClient" where
  "some_rest =
     \<lparr>Do_CIPoolList = \<lambda>ctx rq w. (([], Some (StatusOther ''down'')), w),
      Do_CIPool = \<lambda>ctx rq w. ((\<lparr>P_Meta = \<lparr>Name = '''', Namespace = '''', Labels = None, Finalizers = [], DeletionTimestamp = None,
          ResourceVersion = ''''\<rparr>, P_Spec = \<lparr>PSpec_Provider = '''', PSpec_Priority = 0, PSpec_Size = 0, PSpec_ProviderInfo = '''',
          PSpec_Timeout = 0, PSpec_State = '''', PSpec_Type = ''''\<rparr>,
          P_Status = \<lparr>PStatus_State = '''', PStatus_Size = 0, PStatus_LastUpdated = None\<rparr>\<rparr>, Some (StatusOther ''down'')), w),
      Do_CIResourceList = \<lambda>ctx rq w. (([], Some (StatusOther ''down'')), w),
      Do_CIResource = \<lambda>ctx rq w. ((\<lparr>C_Meta = \<lparr>Name = '''', Namespace = '''', Labels = None, Finalizers = [], DeletionTimestamp = None,
          ResourceVersion = ''''\<rparr>, C_Spec = \<lparr>CSpec_PoolRef = '''', CSpec_State = '''', CSpec_Extra = '''', CSpec_Type = ''''\<rparr>,
          C_Status = \<lparr>CStatus_ResourceId = '''', CStatus_Address = '''', CStatus_ProviderInfo = '''', CStatus_Extra = '''',
          CStatus_State = '''', CStatus_LastUpdated = None\<rparr>\<rparr>, Some (StatusOther ''down'')), w)\<rparr>"

definition some_kube :: "nat KubeLib" where
  "some_kube =
     \<lparr>BuildConfigFromFlags = \<lambda>u k w. (Inl (StatusOther ''no file''), w), InClusterConfig = \<lambda>w. (Inr some_config, w),
      RESTClientFor = \<lambda>c. Inr some_rest, kubernetes_NewForConfig = \<lambda>c. Inr (\<lambda>ctx n k w. ((Map.empty, None), w)),
      Codecs_WithoutConversion = ''json'', DefaultKubernetesUserAgent = ''ofcir-api''\<rparr>"

definition no_flags :: Flags where
  "no_flags = \<lparr>Fl_String = Map.empty, Fl_Bool = Map.empty, Fl_Int = Map.empty\<rparr>"

lemma some_server_starts: "ofcir_api_main some_kube (\<lambda>api srv w. Suc w) no_flags 0 = Some 1"
  by (simp add: ofcir_api_main_def OfcirAPI_Init_def OfcirAPI_Run_def checked_def some_kube_def NewForConfig_def no_flags_def
      flag_value_def NewOfcirAPI_def Let_def)

lemma well_started_witness:
  "\<exists>api. well_started some_kube api \<and> Api_Port api = ''8087'' \<and> Api_Namespace api = ''ofcir-system''"
  using server_listens_well_started [OF some_server_starts] by (auto simp: no_flags_def flag_value_def)

text \<open>A manager that counts its calls and fails in the \<open>k\<close>th.\<close>

definition failing_at :: "nat \<Rightarrow> nat CtrlLib" where
  "failing_at k = (let call = (\<lambda>w. (if w = k then Some (StatusOther ''failed'') else None, Suc w)) in
     \<lparr>Ctrl_GetConfig = \<lambda>w. (Some some_config, w), Ctrl_NewManager = \<lambda>c m. call, Ctrl_Complete = \<lambda>c. call,
      Ctrl_AddHealthzCheck = \<lambda>n. call, Ctrl_AddReadyzCheck = \<lambda>n. call, Ctrl_Start = call\<rparr>)"

lemma operator_witness:
  "operator_main (failing_at 9) no_flags 0 = (Returned, 6) \<and>
   (\<exists>w. Ctrl_Complete (failing_at 9) \<lparr>Ctl_For = ''CIPool'', Ctl_MaxConcurrentReconciles = 1\<rparr> w = (None, Suc w))"
proof -
  have run: "operator_main (failing_at 9) no_flags 0 = (Returned, 6)"
    by (simp add: operator_main_def or_exit_def failing_at_def CIPool_SetupWithManager_def CIResource_SetupWithManager_def Let_def)
  from operator_runs_complete [OF this] obtain w w2 where
    "Ctrl_Complete (failing_at 9) \<lparr>Ctl_For = ''CIPool'', Ctl_MaxConcurrentReconciles = 1\<rparr> w = (None, w2)" by auto
  moreover from this have "w2 = Suc w" by (simp add: failing_at_def Let_def)
  ultimately show ?thesis using run by blast
qed

end
