(* ===== verification/Operator_System.thy ===== *)
theory Operator_System
  imports Fsm_Properties Pool_Controller
begin

text \<open>
  The operator as a whole: its two reconcilers work on one cluster, whose API server keeps what they
  write, and one provider, which keeps the machines. The cluster is the first part of the world and
  the provider's machines the second, and the requests of the work queues run one after the other,
  as the one worker of each controller runs them. What the API server is documented to do is the
  hypothesis \<open>api_server\<close>, what a provider whose machines are ready at once does the locale
  \<open>prompt_provider\<close>.
\<close>

section \<open>The cluster beside the provider\<close>

definition fst_call :: "('c, 'a) call \<Rightarrow> ('c \<times> 'p, 'a) call" where
  "fst_call f = (\<lambda>(c, p). case f c of (r, c') \<Rightarrow> (r, c', p))"

definition fst_client :: "'c Client \<Rightarrow> ('c \<times> 'p) Client" where
  "fst_client cl =
     \<lparr>Get_CIResource = \<lambda>n. fst_call (Get_CIResource cl n),
      Get_CIPool = \<lambda>n. fst_call (Get_CIPool cl n),
      Get_Secret = \<lambda>n. fst_call (Get_Secret cl n),
      List_CIResources = \<lambda>n. fst_call (List_CIResources cl n),
      Create_CIResource = \<lambda>c. fst_call (Create_CIResource cl c),
      Update_CIResource = \<lambda>c. fst_call (Update_CIResource cl c),
      StatusUpdate_CIResource = \<lambda>c. fst_call (StatusUpdate_CIResource cl c),
      DeleteAllOf_CIResources = \<lambda>n l. fst_call (DeleteAllOf_CIResources cl n l),
      Update_CIPool = \<lambda>p. fst_call (Update_CIPool cl p),
      StatusUpdate_CIPool = \<lambda>p. fst_call (StatusUpdate_CIPool cl p)\<rparr>"

lemma fst_call_apply [simp]: "fst_call f (c, p) = (fst (f c), snd (f c), p)"
  by (simp add: fst_call_def split: prod.split)

lemma fst_client_sel [simp]:
  "Get_CIResource (fst_client cl) n = fst_call (Get_CIResource cl n)"
  "Get_CIPool (fst_client cl) n = fst_call (Get_CIPool cl n)"
  "Get_Secret (fst_client cl) n = fst_call (Get_Secret cl n)"
  "List_CIResources (fst_client cl) ns = fst_call (List_CIResources cl ns)"
  "Create_CIResource (fst_client cl) c = fst_call (Create_CIResource cl c)"
  "Update_CIResource (fst_client cl) c = fst_call (Update_CIResource cl c)"
  "StatusUpdate_CIResource (fst_client cl) c = fst_call (StatusUpdate_CIResource cl c)"
  "DeleteAllOf_CIResources (fst_client cl) ns l = fst_call (DeleteAllOf_CIResources cl ns l)"
  "Update_CIPool (fst_client cl) q = fst_call (Update_CIPool cl q)"
  "StatusUpdate_CIPool (fst_client cl) q = fst_call (StatusUpdate_CIPool cl q)"
  by (simp_all add: fst_client_def)

section \<open>The API server\<close>

text \<open>An object as the server keeps it: what was sent, under a version the server gives it.\<close>

definition versioned_cir :: "string \<Rightarrow> CIResource \<Rightarrow> CIResource" where
  "versioned_cir v x = x\<lparr>C_Meta := (C_Meta x)\<lparr>ResourceVersion := v\<rparr>\<rparr>"

definition versioned_pool :: "string \<Rightarrow> CIPool \<Rightarrow> CIPool" where
  "versioned_pool v q = q\<lparr>P_Meta := (P_Meta q)\<lparr>ResourceVersion := v\<rparr>\<rparr>"

definition pool_key :: "CIPool \<Rightarrow> NamespacedName" where
  "pool_key q = (Namespace (P_Meta q), pool_name q)"

definition empty_status :: CIResourceStatus where
  "empty_status = \<lparr>CStatus_ResourceId = '''', CStatus_Address = '''', CStatus_ProviderInfo = '''',
     CStatus_Extra = '''', CStatus_State = '''', CStatus_LastUpdated = None\<rparr>"

text \<open>The documented behaviour the composition needs, with no other writer at work: \<open>cirs\<close> and \<open>pools\<close>
  read the objects of a cluster. Reads answer with what is stored. An object that is new and
  has no status is stored. An object that is stored and not under deletion is updated from its current version: an
  update of the object leaves the status, one of the status leaves everything else. A secret is
  there or reported as not found.\<close>

definition api_reads ::
  "'c Client \<Rightarrow> ('c \<Rightarrow> NamespacedName \<Rightarrow> CIResource option) \<Rightarrow> ('c \<Rightarrow> NamespacedName \<Rightarrow> CIPool option) \<Rightarrow> bool"
where
  "api_reads cl cirs pools \<longleftrightarrow>
     (\<forall>c k x. cirs c k = Some x \<longrightarrow> cir_key x = k \<and> Get_CIResource cl k c = (Inr x, c)) \<and>
     (\<forall>c k q. pools c k = Some q \<longrightarrow> pool_key q = k \<and> Get_CIPool cl k c = (Inr q, c)) \<and>
     (\<forall>c k. \<exists>r. Get_Secret cl k c = (r, c) \<and> (\<forall>e. r = Inl e \<longrightarrow> IsNotFound e)) \<and>
     (\<forall>c ns. \<exists>xs. List_CIResources cl ns c = ((None, xs), c) \<and> distinct (map cir_name xs) \<and>
        set xs = {x. Namespace (C_Meta x) = ns \<and> cirs c (cir_key x) = Some x})"

definition api_writes ::
  "'c Client \<Rightarrow> ('c \<Rightarrow> NamespacedName \<Rightarrow> CIResource option) \<Rightarrow> ('c \<Rightarrow> NamespacedName \<Rightarrow> CIPool option) \<Rightarrow> bool"
where
  "api_writes cl cirs pools \<longleftrightarrow>
     (\<forall>c x. cirs c (cir_key x) = None \<longrightarrow> cir_version x = '''' \<longrightarrow> C_Status x = empty_status \<longrightarrow>
        (\<exists>v c'. Create_CIResource cl x c = (None, c') \<and> pools c' = pools c \<and>
           cirs c' = (cirs c)(cir_key x \<mapsto> versioned_cir v x))) \<and>
     (\<forall>c x y. cirs c (cir_key x) = Some y \<longrightarrow> cir_version x = cir_version y \<longrightarrow>
        IsZero (DeletionTimestamp (C_Meta y)) \<longrightarrow> IsZero (DeletionTimestamp (C_Meta x)) \<longrightarrow>
        (\<exists>v x' c'. Update_CIResource cl x c = ((None, x'), c') \<and> pools c' = pools c \<and>
           cirs c' = (cirs c)(cir_key x \<mapsto> versioned_cir v (x\<lparr>C_Status := C_Status y\<rparr>)))) \<and>
     (\<forall>c x y. cirs c (cir_key x) = Some y \<longrightarrow> cir_version x = cir_version y \<longrightarrow>
        IsZero (DeletionTimestamp (C_Meta y)) \<longrightarrow>
        (\<exists>v x' c'. StatusUpdate_CIResource cl x c = ((None, x'), c') \<and> pools c' = pools c \<and>
           cirs c' = (cirs c)(cir_key x \<mapsto> versioned_cir v (y\<lparr>C_Status := C_Status x\<rparr>)))) \<and>
     (\<forall>c q r. pools c (pool_key q) = Some r \<longrightarrow> ResourceVersion (P_Meta q) = ResourceVersion (P_Meta r) \<longrightarrow>
        IsZero (DeletionTimestamp (P_Meta r)) \<longrightarrow> IsZero (DeletionTimestamp (P_Meta q)) \<longrightarrow>
        (\<exists>v q' c'. Update_CIPool cl q c = ((None, q'), c') \<and> cirs c' = cirs c \<and>
           pools c' = (pools c)(pool_key q \<mapsto> versioned_pool v (q\<lparr>P_Status := P_Status r\<rparr>)))) \<and>
     (\<forall>c q r. pools c (pool_key q) = Some r \<longrightarrow> ResourceVersion (P_Meta q) = ResourceVersion (P_Meta r) \<longrightarrow>
        IsZero (DeletionTimestamp (P_Meta r)) \<longrightarrow>
        (\<exists>v c'. let q' = versioned_pool v (r\<lparr>P_Status := P_Status q\<rparr>) in
           StatusUpdate_CIPool cl q c = ((None, q'), c') \<and> cirs c' = cirs c \<and>
           pools c' = (pools c)(pool_key q \<mapsto> q')))"

definition api_server ::
  "'c Client \<Rightarrow> ('c \<Rightarrow> NamespacedName \<Rightarrow> CIResource option) \<Rightarrow> ('c \<Rightarrow> NamespacedName \<Rightarrow> CIPool option) \<Rightarrow> bool"
where
  "api_server cl cirs pools \<longleftrightarrow> api_reads cl cirs pools \<and> api_writes cl cirs pools"

section \<open>Requests\<close>

text \<open>The work queues hand the controllers one name at a time; the clock is read once by a request
  for a pool and twice by one for a resource.\<close>

datatype request =
    PoolRequest Time NamespacedName
  | CirRequest Time Time NamespacedName

fun operator_run ::
  "Controllerutil \<Rightarrow> 'w ProviderFactories \<Rightarrow> 'w Client \<Rightarrow> request list \<Rightarrow> 'w \<Rightarrow> 'w option" where
  "operator_run lib fac cl [] w = Some w"
| "operator_run lib fac cl (PoolRequest now k # reqs) w =
     operator_run lib fac cl reqs (snd (CIPool_Reconcile lib cl now k w))"
| "operator_run lib fac cl (CirRequest now now' k # reqs) w = do {
     (r, w) \<leftarrow> CIResource_Reconcile lib fac cl now now' k w;
     operator_run lib fac cl reqs w }"

lemma operator_run_append:
  "operator_run lib fac cl (xs @ ys) w =
     do { w \<leftarrow> operator_run lib fac cl xs w; operator_run lib fac cl ys w }"
  by (induction lib fac cl xs w rule: operator_run.induct) (auto split: Option.bind_splits)

section \<open>A provider whose machines are ready at once\<close>

text \<open>\<open>free\<close> are the identifiers it can still hand out, \<open>ids\<close> all it knows, \<open>ok\<close> its own invariant.\<close>

locale prompt_provider =
  fixes P :: "'p Provider" and ok :: "'p \<Rightarrow> bool" and ids :: "string set" and free :: "'p \<Rightarrow> string set"
  assumes finite_ids: "finite ids"
    and free_ids: "ok p \<Longrightarrow> free p \<subseteq> ids"
    and hands_out: "ok p \<Longrightarrow> free p \<noteq> {} \<Longrightarrow> \<exists>r p'. Acquire P n pn pt p = Some ((r, None), p') \<and> ok p' \<and>
      Id r \<in> free p \<and> free p' = free p - {Id r}"
    and ready: "ok p \<Longrightarrow> i \<in> ids \<Longrightarrow>
      \<exists>r p'. AcquireCompleted P i p = Some ((True, r, None), p') \<and> ok p' \<and> free p' = free p"

text \<open>The in-memory provider is one, over the order its iterations visit the map in.\<close>

interpretation dummy_prompt: prompt_provider "dummyProvider ord" "\<lambda>p. dummy_inv p \<and> visits_once ord"
  "dummy_id ` {..<maxAvailableResources}" dummy_free for ord
proof (unfold_locales, goal_cases)
  case (2 p)
  then show ?case using dummy_free_subset by blast
next
  case (3 p n pn pt)
  then show ?case using dummy_Acquire_cases [of p ord n pn pt] by auto
next
  case (4 p i)
  then obtain m where "dummy p = Some m" "i \<in> dom m" by (auto simp: dummy_inv_def)
  with 4 show ?case by (auto simp: dummy_AcquireCompleted_def)
qed simp

section \<open>The pool fills up\<close>

lemma versioned_cir_sel [simp]:
  "C_Spec (versioned_cir v x) = C_Spec x" "C_Status (versioned_cir v x) = C_Status x"
  "cir_key (versioned_cir v x) = cir_key x" "Finalizers (C_Meta (versioned_cir v x)) = Finalizers (C_Meta x)"
  "DeletionTimestamp (C_Meta (versioned_cir v x)) = DeletionTimestamp (C_Meta x)"
  "Namespace (C_Meta (versioned_cir v x)) = Namespace (C_Meta x)" "cir_name (versioned_cir v x) = cir_name x"
  by (simp_all add: versioned_cir_def cir_key_def)

lemma versioned_pool_sel [simp]:
  "P_Spec (versioned_pool v q) = P_Spec q" "P_Status (versioned_pool v q) = P_Status q"
  "pool_key (versioned_pool v q) = pool_key q" "Finalizers (P_Meta (versioned_pool v q)) = Finalizers (P_Meta q)"
  "DeletionTimestamp (P_Meta (versioned_pool v q)) = DeletionTimestamp (P_Meta q)"
  "Namespace (P_Meta (versioned_pool v q)) = Namespace (P_Meta q)" "pool_name (versioned_pool v q) = pool_name q"
  by (simp_all add: versioned_pool_def pool_key_def)

lemma api_create:
  assumes "api_server cl cirs pools" "cirs c (cir_key x) = None" "cir_version x = ''''" "C_Status x = empty_status"
  obtains v c' where "Create_CIResource cl x c = (None, c')" "pools c' = pools c"
    "cirs c' = (cirs c)(cir_key x \<mapsto> versioned_cir v x)"
  using assms unfolding api_server_def api_writes_def by blast

lemma api_list:
  assumes "api_server cl cirs pools"
  obtains xs where "List_CIResources cl ns c = ((None, xs), c)" "distinct (map cir_name xs)"
    "set xs = {x. Namespace (C_Meta x) = ns \<and> cirs c (cir_key x) = Some x}"
  using assms unfolding api_server_def api_reads_def by meson

lemma api_get_pool:
  "api_server cl cirs pools \<Longrightarrow> pools c k = Some q \<Longrightarrow> pool_key q = k \<and> Get_CIPool cl k c = (Inr q, c)"
  unfolding api_server_def api_reads_def by blast

lemma api_secret:
  assumes "api_server cl cirs pools"
  obtains r where "Get_Secret cl k c = (r, c)" "\<And>e. r = Inl e \<Longrightarrow> IsNotFound e"
  using assms unfolding api_server_def api_reads_def by meson

lemma create_loop_stores:
  assumes api: "api_server cl cirs pools" and "0 \<le> i"
    and "\<forall>j\<in>{i..<bound}. cirs c (Namespace (P_Meta q), cirName j) = None"
  shows "\<exists>r c'. create_loop (fst_client cl) q bound i n e (c, p) = (r, c', p) \<and> pools c' = pools c \<and>
     (\<forall>j\<in>{i..<bound}. \<exists>v. cirs c' (Namespace (P_Meta q), cirName j) = Some (versioned_cir v (newCIResource q j))) \<and>
     (\<forall>k. k \<notin> (\<lambda>j. (Namespace (P_Meta q), cirName j)) ` {i..<bound} \<longrightarrow> cirs c' k = cirs c k)"
  using assms(2,3)
proof (induction "nat (bound - i)" arbitrary: i n e c)
  case 0
  then show ?case by (simp add: create_loop.simps [of _ _ _ i])
next
  case (Suc m)
  let ?key = "\<lambda>j. (Namespace (P_Meta q), cirName j)"
  have lt: "i < bound" and m: "m = nat (bound - (i + 1))" using Suc(2) by auto
  have key: "cir_key (newCIResource q i) = ?key i" by (simp add: cir_key_def)
  have "cirs c (cir_key (newCIResource q i)) = None" using Suc.prems(2) lt key by auto
  moreover have "cir_version (newCIResource q i) = ''''" "C_Status (newCIResource q i) = empty_status"
    by (simp_all add: newCIResource_def empty_status_def)
  ultimately obtain v c1 where c1: "Create_CIResource cl (newCIResource q i) c = (None, c1)" "pools c1 = pools c"
      "cirs c1 = (cirs c)(?key i \<mapsto> versioned_cir v (newCIResource q i))"
    using key by (metis api_create [OF api])
  have other: "?key j \<noteq> ?key i" if "i < j" for j using that Suc.prems(1) by (simp add: cirName_inj)
  have "\<forall>j\<in>{i + 1..<bound}. cirs c1 (?key j) = None" using Suc.prems(2) c1(3) other by auto
  from Suc.hyps(1) [OF m _ this, of "n + 1" None] Suc.prems(1) obtain r c' where
    rest: "create_loop (fst_client cl) q bound (i + 1) (n + 1) None (c1, p) = (r, c', p)" "pools c' = pools c1"
      "\<forall>j\<in>{i + 1..<bound}. \<exists>v. cirs c' (?key j) = Some (versioned_cir v (newCIResource q j))"
      "\<forall>k. k \<notin> ?key ` {i + 1..<bound} \<longrightarrow> cirs c' k = cirs c1 k" by auto
  have run: "create_loop (fst_client cl) q bound i n e (c, p) = (r, c', p)"
    using lt c1(1) rest(1) by (simp add: create_loop.simps [of _ _ _ i] createCIResource_def)
  have "?key i \<notin> ?key ` {i + 1..<bound}" using other by force
  then have new: "cirs c' (?key i) = Some (versioned_cir v (newCIResource q i))" using rest(4) c1(3) by simp
  have "\<exists>v. cirs c' (?key j) = Some (versioned_cir v (newCIResource q j))" if "j \<in> {i..<bound}" for j
    using that new rest(3) by (cases "j = i") auto
  moreover have "cirs c' k = cirs c k" if "k \<notin> ?key ` {i..<bound}" for k
  proof -
    have "k \<notin> ?key ` {i + 1..<bound}" "k \<noteq> ?key i" using that lt by auto
    then show ?thesis using rest(4) c1(3) by (metis fun_upd_other)
  qed
  ultimately show ?case using run rest(2) c1(2) by auto
qed

text \<open>The pool before its members: the numbers in use leave room for its size.\<close>

definition room_for :: "('c \<Rightarrow> NamespacedName \<Rightarrow> CIResource option) \<Rightarrow> 'c \<Rightarrow> CIPool \<Rightarrow> bool" where
  "room_for cirs c q \<longleftrightarrow>
     PSpec_Size (P_Spec q) < max_int64 \<and>
     (\<forall>k x. cirs c k = Some x \<longrightarrow> fst k = Namespace (P_Meta q) \<longrightarrow>
        getHighestResourceNumeral [x] 0 + PSpec_Size (P_Spec q) < max_int64)"

lemma highest_less:
  "\<forall>x\<in>set xs. getHighestResourceNumeral [x] 0 < b \<Longrightarrow> 0 \<le> h \<Longrightarrow> h < b \<Longrightarrow>
     getHighestResourceNumeral xs h < b"
proof (induction xs arbitrary: h)
  case (Cons x xs)
  have "getHighestResourceNumeral (x # xs) h = getHighestResourceNumeral xs (getHighestResourceNumeral [x] h)"
    by (simp add: Let_def split: option.split)
  moreover have "0 \<le> getHighestResourceNumeral [x] h" using Cons.prems(2) highest_mono order_trans by blast
  moreover have "getHighestResourceNumeral [x] h < b" using Cons.prems
    by (auto simp: Let_def split: option.split_asm if_split_asm option.split)
  ultimately show ?case using Cons.IH Cons.prems(1) by simp
qed simp

definition memberless :: "('c \<Rightarrow> NamespacedName \<Rightarrow> CIResource option) \<Rightarrow> 'c \<Rightarrow> CIPool \<Rightarrow> bool" where
  "memberless cirs c q \<longleftrightarrow>
     (\<forall>k x. cirs c k = Some x \<longrightarrow> fst k = Namespace (P_Meta q) \<longrightarrow> cir_pool x \<noteq> pool_name q)"

text \<open>What a request does to a pool that is set up and has no member yet.\<close>

definition filled ::
  "('c \<Rightarrow> NamespacedName \<Rightarrow> CIResource option) \<Rightarrow> CIPool \<Rightarrow> 'c \<Rightarrow> 'c \<Rightarrow> NamespacedName set \<Rightarrow> bool" where
  "filled cirs q c c' K \<longleftrightarrow>
     finite K \<and> int (card K) = PSpec_Size (P_Spec q) \<and>
     (\<forall>k\<in>K. fst k = Namespace (P_Meta q) \<and> cirs c k = None \<and>
        (\<exists>j v. cirs c' k = Some (versioned_cir v (newCIResource q j)))) \<and>
     (\<forall>k. k \<notin> K \<longrightarrow> cirs c' k = cirs c k)"

lemma resize_fills:
  assumes api: "api_server cl cirs pools" and xs: "List_CIResources cl (Namespace (P_Meta q)) c = ((None, xs), c)"
    "set xs = {x. Namespace (C_Meta x) = Namespace (P_Meta q) \<and> cirs c (cir_key x) = Some x}"
    and room: "room_for cirs c q" and size: "0 \<le> PSpec_Size (P_Spec q)"
  shows "\<exists>r c' K. resize (fst_client cl) q (sort_key cir_name xs) [] (c, p) = (r, c', p) \<and>
     pools c' = pools c \<and> filled cirs q c c' K"
proof (cases "PSpec_Size (P_Spec q) = 0")
  case True
  then show ?thesis by (auto simp: resize_def filled_def intro!: exI [of _ "{}"])
next
  case False
  let ?h = "getHighestResourceNumeral (sort_key cir_name xs) 0" and ?n = "PSpec_Size (P_Spec q)"
  let ?key = "\<lambda>j. (Namespace (P_Meta q), cirName j)" and ?J = "{?h + 1..<?h + 1 + ?n}"
  have "getHighestResourceNumeral [x] 0 < max_int64 - ?n" if "x \<in> set (sort_key cir_name xs)" for x
  proof -
    have "cirs c (cir_key x) = Some x" "fst (cir_key x) = Namespace (P_Meta q)"
      using that xs(2) by (auto simp: cir_key_def)
    with room show ?thesis unfolding room_for_def by (smt (verit, best))
  qed
  then have "?h < max_int64 - ?n" using highest_less [of "sort_key cir_name xs" "max_int64 - ?n" 0] room
    by (auto simp: room_for_def)
  then have h: "0 \<le> ?h" and fit: "?h + ?n < max_int64" using highest_mono by auto
  have "cirName j \<notin> cir_name ` set xs" if "j \<in> ?J" for j
    using highest_set [of cir_name xs j] that fit by auto
  then have free: "cirs c (?key j) = None" if "j \<in> ?J" for j
  proof (rule_tac ccontr)
    assume "cirs c (?key j) \<noteq> None"
    then obtain x where x: "cirs c (?key j) = Some x" by blast
    then have "cir_key x = ?key j" using api by (simp add: api_server_def api_reads_def)
    then have "x \<in> set xs" "cir_name x = cirName j" using x xs(2) by (auto simp: cir_key_def)
    with \<open>\<And>j. j \<in> ?J \<Longrightarrow> cirName j \<notin> cir_name ` set xs\<close> that show False by (metis image_eqI)
  qed
  have wrap: "int64 (?h + 1) = ?h + 1" "int64 (?h + 1 + ?n) = ?h + 1 + ?n"
    using range_wrap [OF h, of ?n] fit False size by (auto simp: int64_bounds)
  obtain r c' where r: "create_loop (fst_client cl) q (?h + 1 + ?n) (?h + 1) 0 None (c, p) = (r, c', p)"
      "pools c' = pools c" "\<forall>j\<in>?J. \<exists>v. cirs c' (?key j) = Some (versioned_cir v (newCIResource q j))"
      "\<forall>k. k \<notin> ?key ` ?J \<longrightarrow> cirs c' k = cirs c k"
    using create_loop_stores [OF api, of "?h + 1" "?h + 1 + ?n" c q 0 None p] h free by auto
  have "inj_on ?key ?J" using h by (auto simp: inj_on_def cirName_inj)
  then have "card (?key ` ?J) = nat ?n" by (simp add: card_image)
  moreover have "fst k = Namespace (P_Meta q) \<and> cirs c k = None \<and>
      (\<exists>j v. cirs c' k = Some (versioned_cir v (newCIResource q j)))" if "k \<in> ?key ` ?J" for k
  proof -
    from that obtain j where "j \<in> ?J" "k = ?key j" by blast
    with r(3) free show ?thesis by (metis fst_conv)
  qed
  ultimately have "filled cirs q c c' (?key ` ?J)" using r(4) size by (simp add: filled_def)
  moreover obtain n e where "r = (n, e)" by (cases r)
  then have "resize (fst_client cl) q (sort_key cir_name xs) [] (c, p) = ((n > 0, e), c', p)"
    using r(1) False size wrap by (simp add: resize_def Let_def)
  ultimately show ?thesis using r(2) by blast
qed

definition pool_settled :: "Controllerutil \<Rightarrow> CIPool \<Rightarrow> bool" where
  "pool_settled lib q \<longleftrightarrow>
     IsZero (DeletionTimestamp (P_Meta q)) \<and>
     ContainsFinalizer lib (Finalizers (P_Meta q)) OfcirFinalizer \<and>
     PSpec_State (P_Spec q) = StatePoolAvailable \<and> PStatus_State (P_Status q) = StatePoolAvailable"

lemma settled_request:
  assumes api: "api_server cl cirs pools" and q: "pools c k = Some q" "pool_settled lib q"
    and m: "manageCIResourcesFor (fst_client cl) now q (c, p) = (r, c', p)"
  shows "\<exists>r. CIPool_Reconcile lib (fst_client cl) now k (c, p) = (r, c', p)"
proof -
  obtain x where x: "Get_Secret cl (Namespace (P_Meta q), pool_name q @ ''-secret'') c = (x, c)"
      "\<And>e. x = Inl e \<Longrightarrow> IsNotFound e"
    using api_secret [OF api] by metis
  obtain d e where r: "r = (d, e)" by (cases r)
  have "\<exists>r. reconcile_resources (fst_client cl) now q (c, p) = (r, c', p)"
    using m r by (auto simp: reconcile_resources_def split: option.split)
  then obtain r where "reconcile_available (fst_client cl) now q (c, p) = (r, c', p)"
    using x by (cases x) (auto simp: reconcile_available_def)
  moreover have "Get_CIPool cl k c = (Inr q, c)" using api_get_pool [OF api q(1)] by simp
  moreover have "StatePoolAvailable \<noteq> StatePoolOffline"
    by (simp add: StatePoolAvailable_def StatePoolOffline_def)
  ultimately have "CIPool_Reconcile lib (fst_client cl) now k (c, p) = (r, c', p)"
    using q(2) by (simp add: CIPool_Reconcile_def pool_settled_def)
  then show ?thesis by blast
qed

lemma pool_request_fills:
  assumes api: "api_server cl cirs pools" and q: "pools c k = Some q" "pool_settled lib q"
    and less: "memberless cirs c q" and status: "PStatus_Size (P_Status q) = 0"
    and room: "room_for cirs c q" and size: "0 \<le> PSpec_Size (P_Spec q)"
  shows "\<exists>r c' K. CIPool_Reconcile lib (fst_client cl) now k (c, p) = (r, c', p) \<and>
     pools c' = pools c \<and> filled cirs q c c' K"
proof -
  obtain xs where xs: "List_CIResources cl (Namespace (P_Meta q)) c = ((None, xs), c)"
      "set xs = {x. Namespace (C_Meta x) = Namespace (P_Meta q) \<and> cirs c (cir_key x) = Some x}"
    by (rule api_list [OF api])
  have none: "filter (of_pool q) (sort_key cir_name xs) = []"
    using less xs(2) by (auto simp: filter_empty_conv of_pool_def memberless_def cir_key_def)
  from resize_fills [OF api xs room size, where p = p] obtain r c' K where
    r: "resize (fst_client cl) q (sort_key cir_name xs) [] (c, p) = (r, c', p)" "pools c' = pools c"
      "filled cirs q c c' K" by blast
  have "manageCIResourcesFor (fst_client cl) now q (c, p) = (r, c', p)"
    using xs(1) none status r(1) by (simp add: manageCIResourcesFor_def Let_def)
  from settled_request [OF api q this] r(2,3) show ?thesis by blast
qed

text \<open>The two requests before: a pool that was just created gets its finalizer, then its state.\<close>

lemma api_update_pool:
  assumes "api_server cl cirs pools" "pools c (pool_key q) = Some r"
    "ResourceVersion (P_Meta q) = ResourceVersion (P_Meta r)"
    "IsZero (DeletionTimestamp (P_Meta r))" "IsZero (DeletionTimestamp (P_Meta q))"
  obtains v q' c' where "Update_CIPool cl q c = ((None, q'), c')" "cirs c' = cirs c"
    "pools c' = (pools c)(pool_key q \<mapsto> versioned_pool v (q\<lparr>P_Status := P_Status r\<rparr>))"
  using assms unfolding api_server_def api_writes_def by meson

lemma api_update_pool_status:
  assumes "api_server cl cirs pools" "pools c (pool_key q) = Some r"
    "ResourceVersion (P_Meta q) = ResourceVersion (P_Meta r)" "IsZero (DeletionTimestamp (P_Meta r))"
  obtains v c' where
    "StatusUpdate_CIPool cl q c = ((None, versioned_pool v (r\<lparr>P_Status := P_Status q\<rparr>)), c')"
    "cirs c' = cirs c" "pools c' = (pools c)(pool_key q \<mapsto> versioned_pool v (r\<lparr>P_Status := P_Status q\<rparr>))"
  using assms unfolding api_server_def api_writes_def Let_def by meson

lemma pool_updates_sel [simp]:
  "P_Spec (set_pool_finalizers fs q) = P_Spec q" "P_Status (set_pool_finalizers fs q) = P_Status q"
  "pool_key (set_pool_finalizers fs q) = pool_key q" "Finalizers (P_Meta (set_pool_finalizers fs q)) = fs"
  "DeletionTimestamp (P_Meta (set_pool_finalizers fs q)) = DeletionTimestamp (P_Meta q)"
  "ResourceVersion (P_Meta (set_pool_finalizers fs q)) = ResourceVersion (P_Meta q)"
  "pool_key (q\<lparr>P_Status := s\<rparr>) = pool_key q"
  by (simp_all add: set_pool_finalizers_def pool_key_def)

lemma pool_request_finalizer:
  assumes api: "api_server cl cirs pools" and lib: "finalizer_laws lib" and q: "pools c k = Some q"
    and fresh: "IsZero (DeletionTimestamp (P_Meta q))"
      "\<not> ContainsFinalizer lib (Finalizers (P_Meta q)) OfcirFinalizer"
  shows "\<exists>r c' q'. CIPool_Reconcile lib (fst_client cl) now k (c, p) = (r, c', p) \<and> cirs c' = cirs c \<and>
     pools c' = (pools c)(k \<mapsto> q') \<and> P_Spec q' = P_Spec q \<and> P_Status q' = P_Status q \<and> pool_key q' = k \<and>
     DeletionTimestamp (P_Meta q') = DeletionTimestamp (P_Meta q) \<and>
     ContainsFinalizer lib (Finalizers (P_Meta q')) OfcirFinalizer"
proof -
  let ?q = "set_pool_finalizers (AddFinalizer lib (Finalizers (P_Meta q)) OfcirFinalizer) q"
  have k: "pool_key q = k" "Get_CIPool cl k c = (Inr q, c)" using api_get_pool [OF api q] by auto
  obtain v q' c' where u: "Update_CIPool cl ?q c = ((None, q'), c')" "cirs c' = cirs c"
      "pools c' = (pools c)(pool_key ?q \<mapsto> versioned_pool v (?q\<lparr>P_Status := P_Status q\<rparr>))"
    by (rule api_update_pool [OF api, of c ?q q])
      (use q fresh k in simp_all)
  obtain r where "CIPool_Reconcile lib (fst_client cl) now k (c, p) = (r, c', p)"
    using k(2) u(1) fresh by (simp add: CIPool_Reconcile_def Let_def)
  moreover have "ContainsFinalizer lib (AddFinalizer lib fs f) f" for fs f
    using lib by (simp add: finalizer_laws_def)
  ultimately show ?thesis using u(2,3) k(1)
    by (intro exI [of _ r] exI [of _ c'] exI [of _ "versioned_pool v (?q\<lparr>P_Status := P_Status q\<rparr>)"]) auto
qed

lemma pool_request_state:
  assumes api: "api_server cl cirs pools" and q: "pools c k = Some q"
    and p: "IsZero (DeletionTimestamp (P_Meta q))" "ContainsFinalizer lib (Finalizers (P_Meta q)) OfcirFinalizer"
      "PSpec_State (P_Spec q) = StatePoolAvailable" "PStatus_State (P_Status q) \<noteq> StatePoolAvailable"
  shows "\<exists>r c' q'. CIPool_Reconcile lib (fst_client cl) now k (c, p) = (r, c', p) \<and> cirs c' = cirs c \<and>
     pools c' = (pools c)(k \<mapsto> q') \<and> P_Spec q' = P_Spec q \<and> pool_key q' = k \<and> pool_settled lib q' \<and>
     PStatus_Size (P_Status q') = PStatus_Size (P_Status q)"
proof -
  let ?q = "q\<lparr>P_Status := (P_Status q)\<lparr>PStatus_State := StatePoolAvailable, PStatus_LastUpdated := Some now\<rparr>\<rparr>"
  have k: "pool_key q = k" "Get_CIPool cl k c = (Inr q, c)" using api_get_pool [OF api q] by auto
  obtain v c' where u: "StatusUpdate_CIPool cl ?q c = ((None, versioned_pool v (q\<lparr>P_Status := P_Status ?q\<rparr>)), c')"
      "cirs c' = cirs c" "pools c' = (pools c)(pool_key ?q \<mapsto> versioned_pool v (q\<lparr>P_Status := P_Status ?q\<rparr>))"
    by (rule api_update_pool_status [OF api, of c ?q q]) (use q p k in simp_all)
  obtain r where "CIPool_Reconcile lib (fst_client cl) now k (c, p) = (r, c', p)"
    using k(2) u(1) p by (simp add: CIPool_Reconcile_def savePoolStatus_def Let_def)
  then show ?thesis using u(2,3) k(1) p
    by (intro exI [of _ r] exI [of _ c'] exI [of _ "versioned_pool v (q\<lparr>P_Status := P_Status ?q\<rparr>)"])
      (auto simp: pool_settled_def)
qed

text \<open>Three requests take a new pool to its members.\<close>

definition new_pool :: "Controllerutil \<Rightarrow> CIPool \<Rightarrow> bool" where
  "new_pool lib q \<longleftrightarrow>
     IsZero (DeletionTimestamp (P_Meta q)) \<and> \<not> ContainsFinalizer lib (Finalizers (P_Meta q)) OfcirFinalizer \<and>
     PSpec_State (P_Spec q) = StatePoolAvailable \<and> PStatus_State (P_Status q) = '''' \<and>
     PStatus_Size (P_Status q) = 0 \<and> 0 \<le> PSpec_Size (P_Spec q)"

lemma new_pool_fills:
  assumes api: "api_server cl cirs pools" and lib: "finalizer_laws lib" and q: "pools c k = Some q"
    and new: "new_pool lib q" and less: "memberless cirs c q" and room: "room_for cirs c q"
  shows "\<exists>c' K q'. operator_run lib fac (fst_client cl) [PoolRequest t1 k, PoolRequest t2 k, PoolRequest t3 k] (c, p) =
       Some (c', p) \<and> pools c' k = Some q' \<and> P_Spec q' = P_Spec q \<and> pool_key q' = k \<and> pool_settled lib q' \<and>
     filled cirs q' c c' K"
proof -
  have k: "pool_key q = k" using api_get_pool [OF api q] by simp
  from pool_request_finalizer [OF api lib q, of t1 p] new obtain r1 c1 q1 where
    1: "CIPool_Reconcile lib (fst_client cl) t1 k (c, p) = (r1, c1, p)" "cirs c1 = cirs c" "pools c1 k = Some q1"
      "P_Spec q1 = P_Spec q" "P_Status q1 = P_Status q" "pool_key q1 = k"
      "DeletionTimestamp (P_Meta q1) = DeletionTimestamp (P_Meta q)"
      "ContainsFinalizer lib (Finalizers (P_Meta q1)) OfcirFinalizer"
    by (auto simp: new_pool_def)
  have "PStatus_State (P_Status q1) \<noteq> StatePoolAvailable" using new 1(5)
    by (simp add: new_pool_def StatePoolAvailable_def)
  with pool_request_state [OF api 1(3), of lib t2 p] 1 new obtain r2 c2 q2 where
    2: "CIPool_Reconcile lib (fst_client cl) t2 k (c1, p) = (r2, c2, p)" "cirs c2 = cirs c" "pools c2 k = Some q2"
      "P_Spec q2 = P_Spec q" "pool_key q2 = k" "pool_settled lib q2" "PStatus_Size (P_Status q2) = 0"
    by (auto simp: new_pool_def)
  have names: "Namespace (P_Meta q2) = Namespace (P_Meta q)" "pool_name q2 = pool_name q"
    using 2(5) k by (auto simp: pool_key_def)
  have "memberless cirs c2 q2" "room_for cirs c2 q2" "0 \<le> PSpec_Size (P_Spec q2)"
    using less room 2(2,4) names new by (auto simp: memberless_def room_for_def new_pool_def)
  with pool_request_fills [OF api 2(3,6), of t3 p] 2(7) obtain r3 c3 K where
    3: "CIPool_Reconcile lib (fst_client cl) t3 k (c2, p) = (r3, c3, p)" "pools c3 = pools c2"
      "filled cirs q2 c2 c3 K" by blast
  have "filled cirs q2 c c3 K" using 3(3) 2(2) by (simp add: filled_def)
  then show ?thesis using 1(1) 2 3(1,2) by auto
qed

section \<open>A resource becomes available\<close>

lemma api_get_cir:
  assumes "api_server cl cirs pools" and "cirs c k = Some x"
  shows "cir_key x = k \<and> Get_CIResource cl k c = (Inr x, c)"
proof -
  from assms(1) have "\<forall>c k x. cirs c k = Some x \<longrightarrow> cir_key x = k \<and> Get_CIResource cl k c = (Inr x, c)"
    unfolding api_server_def api_reads_def by (elim conjE)
  with assms(2) show ?thesis by blast
qed

lemma api_update_cir:
  assumes "api_server cl cirs pools" "cirs c (cir_key x) = Some y" "cir_version x = cir_version y"
    "IsZero (DeletionTimestamp (C_Meta y))" "IsZero (DeletionTimestamp (C_Meta x))"
  obtains v x' c' where "Update_CIResource cl x c = ((None, x'), c')" "pools c' = pools c"
    "cirs c' = (cirs c)(cir_key x \<mapsto> versioned_cir v (x\<lparr>C_Status := C_Status y\<rparr>))"
  using assms unfolding api_server_def api_writes_def by meson

lemma api_update_cir_status:
  assumes "api_server cl cirs pools" "cirs c (cir_key x) = Some y" "cir_version x = cir_version y"
    "IsZero (DeletionTimestamp (C_Meta y))"
  obtains v x' c' where "StatusUpdate_CIResource cl x c = ((None, x'), c')" "pools c' = pools c"
    "cirs c' = (cirs c)(cir_key x \<mapsto> versioned_cir v (y\<lparr>C_Status := C_Status x\<rparr>))"
  using assms unfolding api_server_def api_writes_def by meson

text \<open>A stored resource of a stored pool, and what one request does to it once \<open>Process\<close> is known.\<close>

definition member_at ::
  "('c \<Rightarrow> NamespacedName \<Rightarrow> CIResource option) \<Rightarrow> ('c \<Rightarrow> NamespacedName \<Rightarrow> CIPool option) \<Rightarrow> CIPool \<Rightarrow>
   NamespacedName \<Rightarrow> CIResource \<Rightarrow> 'c \<Rightarrow> bool" where
  "member_at cirs pools q k x c \<longleftrightarrow>
     pools c (pool_key q) = Some q \<and> cirs c k = Some x \<and> fst k = Namespace (P_Meta q) \<and>
     cir_pool x = pool_name q \<and> IsZero (DeletionTimestamp (C_Meta x))"

lemma member_reads:
  assumes api: "api_server cl cirs pools" and m: "member_at cirs pools q k x c"
  obtains sec where "Get_CIResource (fst_client cl) k (c, p) = (Inr x, c, p)" "cir_key x = k"
    "getPool (fst_client cl) x (c, p) = (Inr (q, sec), c, p)"
proof -
  have x: "cir_key x = k" "Get_CIResource cl k c = (Inr x, c)"
    using api_get_cir [OF api, of c k x] m by (simp_all add: member_at_def)
  have "Get_CIPool cl (pool_key q) c = (Inr q, c)"
    using api_get_pool [OF api, of c "pool_key q" q] m by (simp add: member_at_def)
  moreover have "pool_key q = (Namespace (C_Meta x), cir_pool x)"
    using m x(1) by (auto simp: member_at_def pool_key_def cir_key_def)
  moreover obtain r where "Get_Secret cl (Namespace (P_Meta q), pool_name q @ ''-secret'') c = (r, c)"
      "\<And>e. r = Inl e \<Longrightarrow> IsNotFound e"
    using api_secret [OF api] by metis
  ultimately have "\<exists>sec. getPool (fst_client cl) x (c, p) = (Inr (q, sec), c, p)"
    by (cases r) (auto simp: getPool_def)
  then show thesis using that x by auto
qed

lemma request_writes_resource:
  assumes api: "api_server cl cirs pools" and m: "member_at cirs pools q k x c"
    and run: "\<And>sec. \<exists>d x1 f. Process lib fac now x q sec NewCIResourceFSM (c, p) =
        Some (((True, False, d, None), x1, f), c, p') \<and> x1 = set_finalizers fs x"
  shows "\<exists>r c' v. CIResource_Reconcile lib fac (fst_client cl) now now' k (c, p) = Some (r, c', p') \<and>
     pools c' = pools c \<and> cirs c' = (cirs c)(k \<mapsto> versioned_cir v (set_finalizers fs x))"
proof -
  obtain sec where g: "Get_CIResource (fst_client cl) k (c, p) = (Inr x, c, p)" "cir_key x = k"
    "getPool (fst_client cl) x (c, p) = (Inr (q, sec), c, p)" by (rule member_reads [OF api m])
  obtain d f where pr: "Process lib fac now x q sec NewCIResourceFSM (c, p) =
      Some (((True, False, d, None), set_finalizers fs x, f), c, p')" using run by blast
  have key: "cir_key (set_finalizers fs x) = k" using g(2) by (simp add: cir_key_def)
  obtain v x' c' where u: "Update_CIResource cl (set_finalizers fs x) c = ((None, x'), c')" "pools c' = pools c"
    "cirs c' = (cirs c)(cir_key (set_finalizers fs x) \<mapsto>
       versioned_cir v ((set_finalizers fs x)\<lparr>C_Status := C_Status x\<rparr>))"
    by (rule api_update_cir [OF api, of c "set_finalizers fs x" x]) (use m key in \<open>auto simp: member_at_def\<close>)
  have "CIResource_Reconcile lib fac (fst_client cl) now now' k (c, p) = Some ((d, None), c', p')"
    using u(1) by (simp add: Reconcile_found [OF g(1,3) pr] updateResource_def)
  moreover have "(set_finalizers fs x)\<lparr>C_Status := C_Status x\<rparr> = set_finalizers fs x"
    by (simp add: set_finalizers_def)
  then have "cirs c' = (cirs c)(k \<mapsto> versioned_cir v (set_finalizers fs x))" by (simp only: u(3) key)
  ultimately show ?thesis using u(2) by blast
qed

lemma request_writes_status:
  assumes api: "api_server cl cirs pools" and m: "member_at cirs pools q k x c"
    and run: "\<And>sec. \<exists>d f. Process lib fac now x q sec NewCIResourceFSM (c, p) =
        Some (((False, True, d, None), modify_status g x, f), c, p')"
  shows "\<exists>r c' v. CIResource_Reconcile lib fac (fst_client cl) now now' k (c, p) = Some (r, c', p') \<and>
     pools c' = pools c \<and> cirs c' = (cirs c)(k \<mapsto> versioned_cir v (set_LastUpdated now' (modify_status g x)))"
proof -
  let ?x = "set_LastUpdated now' (modify_status g x)"
  obtain sec where g: "Get_CIResource (fst_client cl) k (c, p) = (Inr x, c, p)" "cir_key x = k"
    "getPool (fst_client cl) x (c, p) = (Inr (q, sec), c, p)" by (rule member_reads [OF api m])
  obtain d f where pr: "Process lib fac now x q sec NewCIResourceFSM (c, p) =
      Some (((False, True, d, None), modify_status g x, f), c, p')" using run by blast
  have key: "cir_key ?x = k" using g(2) by (simp add: cir_key_def)
  obtain v x' c' where u: "StatusUpdate_CIResource cl ?x c = ((None, x'), c')" "pools c' = pools c"
    "cirs c' = (cirs c)(cir_key ?x \<mapsto> versioned_cir v (x\<lparr>C_Status := C_Status ?x\<rparr>))"
    by (rule api_update_cir_status [OF api, of c ?x x]) (use m key in \<open>auto simp: member_at_def\<close>)
  have "CIResource_Reconcile lib fac (fst_client cl) now now' k (c, p) = Some ((d, None), c', p')"
    using u(1) by (simp add: Reconcile_found [OF g(1,3) pr] updateStatus_def)
  moreover have "x\<lparr>C_Status := C_Status ?x\<rparr> = ?x" by (simp add: set_LastUpdated_def modify_status_def)
  then have "cirs c' = (cirs c)(k \<mapsto> versioned_cir v ?x)" by (simp only: u(3) key)
  ultimately show ?thesis using u(2) by blast
qed

text \<open>The stages on the way: created, with its finalizer, provisioning, waiting, available.\<close>

definition stage_state :: "nat \<Rightarrow> CIResourceState" where
  "stage_state n = [StateNone, StateNone, StateProvisioning, StateProvisioningWait, StateAvailable] ! n"

definition at_stage :: "Controllerutil \<Rightarrow> CIPool \<Rightarrow> nat \<Rightarrow> CIResource \<Rightarrow> bool" where
  "at_stage lib q n x \<longleftrightarrow>
     n \<le> 4 \<and> status_state x = stage_state n \<and> IsZero (DeletionTimestamp (C_Meta x)) \<and>
     (ContainsFinalizer lib (Finalizers (C_Meta x)) OfcirFinalizer \<longleftrightarrow> 0 < n) \<and>
     cir_pool x = pool_name q \<and> spec_state x = StateNone"

abbreviation rid :: "CIResource \<Rightarrow> string" where "rid x \<equiv> CStatus_ResourceId (C_Status x)"

lemma stage_state_simps [simp]:
  "stage_state 0 = StateNone" "stage_state (Suc 0) = StateNone" "stage_state 2 = StateProvisioning"
  "stage_state 3 = StateProvisioningWait" "stage_state 4 = StateAvailable"
  by (simp_all add: stage_state_def)

lemma NewProvider_beside:
  "NewProvider fac q sec p = Some (Inr P, p) \<Longrightarrow>
     NewProvider (snd_factories fac) q sec (c, p) = Some (Inr (snd_provider P), c, p)"
  by (simp add: NewProvider_snd)

text \<open>What \<open>Process\<close> does in each, over the provider beside the cluster.\<close>

lemma process_created:
  assumes "NewProvider fac q sec p = Some (Inr P, p)" "at_stage lib q 0 x"
  shows "\<exists>d f. Process lib (snd_factories fac) now x q sec NewCIResourceFSM (c, p) =
     Some (((True, False, d, None), set_finalizers (AddFinalizer lib (Finalizers (C_Meta x)) OfcirFinalizer) x, f), c, p)"
  using assms(2)
  by (subst Process_state [OF NewProvider_beside [OF assms(1)] fsm_known_simps(1) fsm_onEntry(1)])
    (auto simp: at_stage_def handleStateNone_def UpdateResourceOnly_def)

lemma process_init:
  assumes "NewProvider fac q sec p = Some (Inr P, p)" "at_stage lib q (Suc 0) x"
  shows "\<exists>d f. Process lib (snd_factories fac) now x q sec NewCIResourceFSM (c, p) =
     Some (((False, True, d, None), modify_status (\<lambda>s. s\<lparr>CStatus_State := StateProvisioning\<rparr>) x, f), c, p)"
  using assms(2)
  by (subst Process_state [OF NewProvider_beside [OF assms(1)] fsm_known_simps(1) fsm_onEntry(1)])
    (auto simp: at_stage_def handleStateNone_def modify_status_def set_status_state_def)

lemma process_provision:
  assumes "NewProvider fac q sec p = Some (Inr P, p)" "at_stage lib q 2 x" "\<not> IsFallbackPool q"
    and "Acquire P (PSpec_Size (P_Spec q)) (pool_name q) (PSpec_Type (P_Spec q)) p = Some ((r, None), p')"
  shows "\<exists>d f. Process lib (snd_factories fac) now x q sec NewCIResourceFSM (c, p) =
     Some (((False, True, d, None), modify_status (\<lambda>s. s\<lparr>CStatus_ResourceId := Id r,
        CStatus_ProviderInfo := PSpec_ProviderInfo (P_Spec q), CStatus_State := StateProvisioningWait\<rparr>) x, f), c, p')"
  using assms(2-4)
  by (subst Process_state [OF NewProvider_beside [OF assms(1)] fsm_known_simps(2) fsm_onEntry(2)])
    (auto simp: at_stage_def handleStateProvisioning_def Let_def snd_call_def modify_status_def set_status_state_def)

lemma process_ready:
  assumes "NewProvider fac q sec p = Some (Inr P, p)" "at_stage lib q 3 x"
    and "AcquireCompleted P (rid x) p = Some ((True, r, None), p')"
  shows "\<exists>d f. Process lib (snd_factories fac) now x q sec NewCIResourceFSM (c, p) =
     Some (((False, True, d, None), modify_status (\<lambda>s. s\<lparr>CStatus_Address := Address r,
        CStatus_Extra := Metadata r, CStatus_State := StateAvailable\<rparr>) x, f), c, p')"
  using assms(2-3)
  by (subst Process_state [OF NewProvider_beside [OF assms(1)] fsm_known_simps(3) fsm_onEntry(3)])
    (auto simp: at_stage_def handleStateProvisioningWait_def Let_def snd_call_def modify_status_def set_status_state_def)

lemma process_idle:
  assumes "NewProvider fac q sec p = Some (Inr P, p)" "at_stage lib q 4 x"
  shows "\<exists>d f. Process lib (snd_factories fac) now x q sec NewCIResourceFSM (c, p) =
     Some (((False, False, d, None), x, f), c, p)"
  using assms(2)
  by (subst Process_state [OF NewProvider_beside [OF assms(1)] fsm_known_simps(4) fsm_onEntry(4)])
    (auto simp: at_stage_def handleStateAvailable_def Let_def)

end
