(* ===== verification/Operator_Filling.thy ===== *)
theory Operator_Filling
  imports Operator_System
begin

text \<open>
  The members of a pool on their way: what holds of the cluster and the provider between the requests
  for a pool and its members, in whatever order they come, and that every member is available once
  each has had its four requests.
\<close>

section \<open>All members become available\<close>

text \<open>What holds between the requests, in whatever order they come: every member is at the stage it
  was brought to, those past the acquisition hold different machines, and there are enough machines
  left for the others.\<close>

definition held :: "('c \<Rightarrow> NamespacedName \<Rightarrow> CIResource option) \<Rightarrow> 'c \<Rightarrow> NamespacedName \<Rightarrow> string" where
  "held cirs c k = rid (the (cirs c k))"

definition holders :: "(NamespacedName \<Rightarrow> nat) \<Rightarrow> NamespacedName set \<Rightarrow> NamespacedName set" where
  "holders st K = {k \<in> K. 3 \<le> st k}"

text \<open>The members of a pool, as the listing of a request would find them, and a stored pool that still is
  the one asked for.\<close>

definition member_keys ::
  "('c \<Rightarrow> NamespacedName \<Rightarrow> CIResource option) \<Rightarrow> CIPool \<Rightarrow> 'c \<Rightarrow> NamespacedName set" where
  "member_keys cirs q c =
     {k. fst k = Namespace (P_Meta q) \<and> (\<exists>x. cirs c k = Some x \<and> cir_pool x = pool_name q)}"

definition same_pool :: "Controllerutil \<Rightarrow> CIPool \<Rightarrow> CIPool \<Rightarrow> bool" where
  "same_pool lib q r \<longleftrightarrow> P_Spec r = P_Spec q \<and> pool_key r = pool_key q \<and> pool_settled lib r"

definition filling ::
  "('p \<Rightarrow> bool) \<Rightarrow> string set \<Rightarrow> ('p \<Rightarrow> string set) \<Rightarrow> Controllerutil \<Rightarrow>
   ('c \<Rightarrow> NamespacedName \<Rightarrow> CIResource option) \<Rightarrow> ('c \<Rightarrow> NamespacedName \<Rightarrow> CIPool option) \<Rightarrow> CIPool \<Rightarrow>
   NamespacedName set \<Rightarrow> (NamespacedName \<Rightarrow> nat) \<Rightarrow> 'c \<Rightarrow> 'p \<Rightarrow> bool" where
  "filling ok ids free lib cirs pools q K st c p \<longleftrightarrow>
     (\<exists>r. pools c (pool_key q) = Some r \<and> same_pool lib q r) \<and> ok p \<and>
     member_keys cirs q c = K \<and> finite K \<and> int (card K) = PSpec_Size (P_Spec q) \<and>
     (\<forall>k\<in>K. \<exists>x. cirs c k = Some x \<and> at_stage lib q (st k) x) \<and>
     inj_on (held cirs c) (holders st K) \<and> held cirs c ` holders st K \<subseteq> ids - free p \<and>
     card (K - holders st K) \<le> card (free p)"

lemma member_keys_upd:
  assumes "member_keys cirs q c = K" "k \<in> K" "cirs c' = (cirs c)(k \<mapsto> x')" "cir_pool x' = pool_name q"
  shows "member_keys cirs q c' = K"
  using assms by (auto simp: member_keys_def)

context prompt_provider
begin

lemma filling_keep:
  assumes f: "filling ok ids free lib cirs pools q K st c p" and k: "k \<in> K" "cirs c k = Some x"
    and c': "pools c' = pools c" "cirs c' = (cirs c)(k \<mapsto> x')" "at_stage lib q (Suc (st k)) x'"
    and p': "ok p'" "free p' = free p" and st: "st k \<noteq> 2" "st k = 3 \<Longrightarrow> rid x' = rid x"
  shows "filling ok ids free lib cirs pools q K (st(k := Suc (st k))) c' p'"
proof -
  have h: "holders (st(k := Suc (st k))) K = holders st K" using st(1) by (auto simp: holders_def)
  have "st k \<le> 3" using c'(3) by (simp add: at_stage_def)
  then have same: "held cirs c' l = held cirs c l" if "l \<in> holders st K" for l
    using that st(2) c'(2) k(2) by (auto simp: held_def holders_def)
  have "inj_on (held cirs c') (holders st K) = inj_on (held cirs c) (holders st K)"
    by (rule inj_on_cong) (rule same)
  moreover have "held cirs c' ` holders st K = held cirs c ` holders st K"
    by (rule image_cong) (simp_all add: same)
  moreover have "member_keys cirs q c' = K"
    by (rule member_keys_upd [OF _ k(1) c'(2)]) (use f c'(3) in \<open>simp_all add: filling_def at_stage_def\<close>)
  ultimately show ?thesis using f c' p' k by (auto simp: filling_def h)
qed

lemma filling_hand_out:
  assumes f: "filling ok ids free lib cirs pools q K st c p" and k: "k \<in> K" "st k = 2"
    and c': "pools c' = pools c" "cirs c' = (cirs c)(k \<mapsto> x')" "at_stage lib q 3 x'"
    and p': "ok p'" "rid x' \<in> free p" "free p' = free p - {rid x'}"
  shows "filling ok ids free lib cirs pools q K (st(k := 3)) c' p'"
proof -
  let ?H = "holders st K"
  have h: "holders (st(k := 3)) K = insert k ?H" and new: "k \<notin> ?H" using k by (auto simp: holders_def)
  have same: "held cirs c' l = held cirs c l" if "l \<in> ?H" for l
    using that new c'(2) by (auto simp: held_def)
  have mine: "held cirs c' k = rid x'" using c'(2) by (simp add: held_def)
  have image: "held cirs c' ` ?H = held cirs c ` ?H" by (rule image_cong) (simp_all add: same)
  have sub: "held cirs c ` ?H \<subseteq> ids - free p" "inj_on (held cirs c) ?H" using f by (simp_all add: filling_def)
  have "inj_on (held cirs c') ?H = inj_on (held cirs c) ?H" by (rule inj_on_cong) (rule same)
  then have "inj_on (held cirs c') (insert k ?H)" using sub mine p'(2) new image by auto
  moreover have "ok p" "card (K - ?H) \<le> card (free p)" using f by (auto simp: filling_def)
  moreover have fin: "finite (free p)" using free_ids [OF \<open>ok p\<close>] finite_ids by (rule finite_subset)
  have "rid x' \<in> ids" using free_ids [OF \<open>ok p\<close>] p'(2) by blast
  then have "held cirs c' ` insert k ?H \<subseteq> ids - free p'" using sub(1) image mine p'(3) by auto
  moreover have "card (K - insert k ?H) \<le> card (free p')"
  proof -
    have "K - insert k ?H = (K - ?H) - {k}" by blast
    then have "card (K - insert k ?H) = card (K - ?H) - 1" using k new by (simp add: card_Diff_singleton_if)
    moreover have "card (free p') = card (free p) - 1" using p'(2,3) fin by simp
    ultimately show ?thesis using \<open>card (K - ?H) \<le> card (free p)\<close> by simp
  qed
  moreover have "member_keys cirs q c' = K"
    by (rule member_keys_upd [OF _ k(1) c'(2)]) (use f c'(3) in \<open>simp_all add: filling_def at_stage_def\<close>)
  ultimately show ?thesis using f c' p'(1) k(1) by (auto simp: filling_def h)
qed

end

text \<open>A request for a member takes it one stage further, until it is available.\<close>

lemma set_LastUpdated_status [simp]:
  "CStatus_State (C_Status (set_LastUpdated t x)) = status_state x" "rid (set_LastUpdated t x) = rid x"
  "Finalizers (C_Meta (set_LastUpdated t x)) = Finalizers (C_Meta x)"
  by simp_all

context prompt_provider
begin

lemma filling_status:
  assumes api: "api_server cl cirs pools" and f: "filling ok ids free lib cirs pools q K st c p"
    and k: "k \<in> K" "cirs c k = Some x" and m: "member_at cirs pools q1 k x c"
    and run: "\<And>sec. \<exists>d f. Process lib fac now x q1 sec NewCIResourceFSM (c, p) =
        Some (((False, True, d, None), modify_status g x, f), c, p')"
    and st: "st k \<noteq> 2" "at_stage lib q (Suc (st k)) (modify_status g x)" "rid (modify_status g x) = rid x"
    and p': "ok p'" "free p' = free p"
  shows "\<exists>r c'. CIResource_Reconcile lib fac (fst_client cl) now now' k (c, p) = Some (r, c', p') \<and>
     (\<forall>l. l \<noteq> k \<longrightarrow> cirs c' l = cirs c l) \<and>
     filling ok ids free lib cirs pools q K (st(k := Suc (st k))) c' p'"
proof -
  from request_writes_status [OF api m run, of now'] obtain r c' v where
    r: "CIResource_Reconcile lib fac (fst_client cl) now now' k (c, p) = Some (r, c', p')"
    "pools c' = pools c" "cirs c' = (cirs c)(k \<mapsto> versioned_cir v (set_LastUpdated now' (modify_status g x)))"
    by blast
  have "at_stage lib q (Suc (st k)) (versioned_cir v (set_LastUpdated now' (modify_status g x)))"
    using st(2) by (simp add: at_stage_def)
  from filling_keep [OF f k r(2,3) this p' st(1)] r st(3) show ?thesis by simp
qed

lemma filling_request:
  assumes api: "api_server cl cirs pools" and lib: "finalizer_laws lib" and regular: "\<not> IsFallbackPool q"
    and fac: "\<forall>r sec p. P_Spec r = P_Spec q \<longrightarrow> ok p \<longrightarrow> NewProvider fac r sec p = Some (Inr P, p)"
    and f: "filling ok ids free lib cirs pools q K st c p" and k: "k \<in> K"
  shows "\<exists>r c' p'. CIResource_Reconcile lib (snd_factories fac) (fst_client cl) now now' k (c, p) = Some (r, c', p') \<and>
     (\<forall>l. l \<noteq> k \<longrightarrow> cirs c' l = cirs c l) \<and>
     filling ok ids free lib cirs pools q K (st(k := min 4 (Suc (st k)))) c' p'"
proof -
  obtain x where x: "cirs c k = Some x" "at_stage lib q (st k) x" using f k by (auto simp: filling_def)
  have ok: "ok p" using f by (simp add: filling_def)
  obtain q1 where q1: "pools c (pool_key q) = Some q1" "P_Spec q1 = P_Spec q" "pool_key q1 = pool_key q"
    using f by (auto simp: filling_def same_pool_def)
  then have names: "Namespace (P_Meta q1) = Namespace (P_Meta q)" "pool_name q1 = pool_name q"
    by (simp_all add: pool_key_def)
  note np = fac [rule_format, OF q1(2) ok]
  have stage: "at_stage lib q1 n y = at_stage lib q n y" for n y using names by (simp add: at_stage_def)
  have "fst k = Namespace (P_Meta q)" using f k by (auto simp: filling_def member_keys_def)
  then have m: "member_at cirs pools q1 k x c" using q1 x names by (simp add: member_at_def at_stage_def)
  have regular1: "\<not> IsFallbackPool q1" using regular q1(2) by (simp add: IsFallbackPool_def)
  have "st k \<le> 4" using x(2) by (simp add: at_stage_def)
  then consider "st k = 0" | "st k = Suc 0" | "st k = 2" | "st k = 3" | "st k = 4" by linarith
  then show ?thesis
  proof cases
    case 1
    let ?fs = "AddFinalizer lib (Finalizers (C_Meta x)) OfcirFinalizer"
    from process_created [OF np, of lib x now] x(2) 1 stage have
      "\<exists>d x1 f. Process lib (snd_factories fac) now x q1 sec NewCIResourceFSM (c, p) =
         Some (((True, False, d, None), x1, f), c, p) \<and> x1 = set_finalizers ?fs x" for sec by auto
    from request_writes_resource [OF api m this, of now'] obtain r c' v where
      r: "CIResource_Reconcile lib (snd_factories fac) (fst_client cl) now now' k (c, p) = Some (r, c', p)"
      "pools c' = pools c" "cirs c' = (cirs c)(k \<mapsto> versioned_cir v (set_finalizers ?fs x))" by blast
    have "at_stage lib q (Suc (st k)) (versioned_cir v (set_finalizers ?fs x))"
      using x(2) 1 lib by (auto simp: at_stage_def finalizer_laws_def)
    from filling_keep [OF f k x(1) r(2,3) this ok] r 1 show ?thesis by simp
  next
    case 2
    let ?g = "\<lambda>s. s\<lparr>CStatus_State := StateProvisioning\<rparr>"
    have "at_stage lib q1 (Suc 0) x" "at_stage lib q (Suc (st k)) (modify_status ?g x)"
      using x(2) 2 unfolding stage by (auto simp: at_stage_def stage_state_def)
    from filling_status [where now = now and now' = now', OF api f k x(1) m process_init [OF np this(1)] _ this(2) _ ok] 2
    show ?thesis by auto
  next
    case 3
    have "k \<in> K - holders st K" "finite (K - holders st K)" using k 3 f by (auto simp: holders_def filling_def)
    then have "0 < card (K - holders st K)" using card_gt_0_iff by blast
    moreover have "card (K - holders st K) \<le> card (free p)" using f by (simp add: filling_def)
    ultimately have "card (free p) \<noteq> 0" by simp
    then have "free p \<noteq> {}" by auto
    from hands_out [OF ok this] obtain r0 p' where a:
      "Acquire P (PSpec_Size (P_Spec q1)) (pool_name q1) (PSpec_Type (P_Spec q1)) p = Some ((r0, None), p')"
      "ok p'" "Id r0 \<in> free p" "free p' = free p - {Id r0}" by metis
    let ?g = "\<lambda>s. s\<lparr>CStatus_ResourceId := Id r0, CStatus_ProviderInfo := PSpec_ProviderInfo (P_Spec q1),
       CStatus_State := StateProvisioningWait\<rparr>"
    have "at_stage lib q1 2 x" using x(2) 3 unfolding stage by simp
    from request_writes_status [OF api m process_provision [OF np this regular1 a(1)], where now' = now']
    obtain r c' v where
      r: "CIResource_Reconcile lib (snd_factories fac) (fst_client cl) now now' k (c, p) = Some (r, c', p')"
      "pools c' = pools c" "cirs c' = (cirs c)(k \<mapsto> versioned_cir v (set_LastUpdated now' (modify_status ?g x)))"
      by metis
    have "at_stage lib q 3 (versioned_cir v (set_LastUpdated now' (modify_status ?g x)))"
      using x(2) 3 by (auto simp: at_stage_def)
    from filling_hand_out [OF f k 3 r(2,3) this a(2)] a(3,4) r 3 show ?thesis by simp
  next
    case 4
    have "k \<in> holders st K" using k 4 by (simp add: holders_def)
    then have "held cirs c k \<in> ids" using f unfolding filling_def by blast
    then have "rid x \<in> ids" using x(1) by (simp add: held_def)
    from ready [OF ok this] obtain r0 p' where a:
      "AcquireCompleted P (rid x) p = Some ((True, r0, None), p')" "ok p'" "free p' = free p" by metis
    let ?g = "\<lambda>s. s\<lparr>CStatus_Address := Address r0, CStatus_Extra := Metadata r0, CStatus_State := StateAvailable\<rparr>"
    have "at_stage lib q1 3 x" "at_stage lib q (Suc (st k)) (modify_status ?g x)"
      using x(2) 4 unfolding stage by (auto simp: at_stage_def stage_state_def)
    from filling_status [where now = now and now' = now', OF api f k x(1) m process_ready [OF np this(1) a(1)] _ this(2) _ a(2,3)] 4
    show ?thesis by auto
  next
    case 5
    obtain sec where g: "Get_CIResource (fst_client cl) k (c, p) = (Inr x, c, p)"
      "getPool (fst_client cl) x (c, p) = (Inr (q1, sec), c, p)" by (rule member_reads [OF api m])
    from process_idle [OF np] x(2) 5 stage obtain d f' where
      "Process lib (snd_factories fac) now x q1 sec NewCIResourceFSM (c, p) = Some (((False, False, d, None), x, f'), c, p)"
      by metis
    from Reconcile_found [OF g this] have
      "CIResource_Reconcile lib (snd_factories fac) (fst_client cl) now now' k (c, p) = Some ((d, None), c, p)" by simp
    then show ?thesis using f 5 by (simp add: fun_upd_idem)
  qed
qed

end

text \<open>A request for the pool leaves it at that: it has its size.\<close>

lemma members_counted:
  assumes "distinct (map cir_name xs)"
    and "set xs = {x. Namespace (C_Meta x) = Namespace (P_Meta q) \<and> cirs c (cir_key x) = Some x}"
    and "\<And>k x. cirs c k = Some x \<Longrightarrow> cir_key x = k"
  shows "length (filter (of_pool q) (sort_key cir_name xs)) = card (member_keys cirs q c)"
proof -
  let ?ys = "filter (of_pool q) (sort_key cir_name xs)"
  have "distinct xs" using assms(1) by (simp add: distinct_map)
  then have "distinct ?ys" by simp
  then have "length ?ys = card (set ?ys)" by (simp only: distinct_card)
  moreover have "inj_on cir_key (set ?ys)" using assms(1) by (auto simp: distinct_map inj_on_def cir_key_def)
  then have "card (set ?ys) = card (cir_key ` set ?ys)" by (simp add: card_image)
  moreover have "cir_key ` set ?ys = member_keys cirs q c"
  proof (rule set_eqI, rule iffI)
    fix k assume "k \<in> cir_key ` set ?ys"
    then show "k \<in> member_keys cirs q c" using assms(2) by (auto simp: member_keys_def of_pool_def cir_key_def)
  next
    fix k assume "k \<in> member_keys cirs q c"
    then obtain x where x: "cirs c k = Some x" "fst k = Namespace (P_Meta q)" "cir_pool x = pool_name q"
      by (auto simp: member_keys_def)
    from assms(3) [OF x(1)] have key: "cir_key x = k" .
    have ns: "Namespace (C_Meta x) = Namespace (P_Meta q)" using x(2) by (simp add: key [symmetric] cir_key_def)
    have "x \<in> set xs" unfolding assms(2) using ns x(1) key by simp
    then have "x \<in> set ?ys" using x(3) by (simp add: of_pool_def)
    with key [symmetric] show "k \<in> cir_key ` set ?ys" by (rule image_eqI)
  qed
  ultimately show ?thesis by simp
qed

lemma pool_request_rests:
  assumes api: "api_server cl cirs pools" and q: "pools c k = Some q" "pool_settled lib q"
    and size: "int (card (member_keys cirs q c)) = PSpec_Size (P_Spec q)"
  shows "\<exists>r c' q'. CIPool_Reconcile lib (fst_client cl) now k (c, p) = (r, c', p) \<and> cirs c' = cirs c \<and>
     pools c' k = Some q' \<and> same_pool lib q q'"
proof -
  obtain xs where xs: "List_CIResources cl (Namespace (P_Meta q)) c = ((None, xs), c)" "distinct (map cir_name xs)"
      "set xs = {x. Namespace (C_Meta x) = Namespace (P_Meta q) \<and> cirs c (cir_key x) = Some x}"
    by (rule api_list [OF api])
  have n: "int (length (filter (of_pool q) (sort_key cir_name xs))) = PSpec_Size (P_Spec q)"
    using members_counted [where cirs = cirs and c = c and q = q, OF xs(2,3)] api_get_cir [OF api] size by simp
  show ?thesis
  proof (cases "PStatus_Size (P_Status q) = PSpec_Size (P_Spec q)")
    case True
    then have "manageCIResourcesFor (fst_client cl) now q (c, p) = ((False, None), c, p)"
      using xs(1) n by (simp add: manageCIResourcesFor_def resize_def Let_def)
    from settled_request [OF api q this] q show ?thesis by (auto simp: same_pool_def)
  next
    case False
    let ?q = "q\<lparr>P_Status := (P_Status q)\<lparr>PStatus_Size := PSpec_Size (P_Spec q), PStatus_LastUpdated := Some now\<rparr>\<rparr>"
    have key: "pool_key q = k" using api_get_pool [OF api q(1)] by simp
    obtain v c' where u: "StatusUpdate_CIPool cl ?q c = ((None, versioned_pool v (q\<lparr>P_Status := P_Status ?q\<rparr>)), c')"
        "cirs c' = cirs c" "pools c' = (pools c)(pool_key ?q \<mapsto> versioned_pool v (q\<lparr>P_Status := P_Status ?q\<rparr>))"
      by (rule api_update_pool_status [OF api, of c ?q q])
        (use q key in \<open>simp_all add: pool_settled_def\<close>)
    have "manageCIResourcesFor (fst_client cl) now q (c, p) = ((False, None), c', p)"
      using xs(1) n False u(1)
      by (simp add: manageCIResourcesFor_def resize_def savePoolStatus_def set_status_size_def Let_def)
    from settled_request [OF api q this] obtain r where
      "CIPool_Reconcile lib (fst_client cl) now k (c, p) = (r, c', p)" by blast
    moreover have "pools c' k = Some (versioned_pool v (q\<lparr>P_Status := P_Status ?q\<rparr>))" using u(3) key by simp
    moreover have "same_pool lib q (versioned_pool v (q\<lparr>P_Status := P_Status ?q\<rparr>))"
      using q(2) by (simp add: same_pool_def pool_settled_def)
    ultimately show ?thesis using u(2) by blast
  qed
qed

lemma filling_pool_request:
  assumes api: "api_server cl cirs pools" and f: "filling ok ids free lib cirs pools q K st c p"
  shows "\<exists>r c'. CIPool_Reconcile lib (fst_client cl) now (pool_key q) (c, p) = (r, c', p) \<and> cirs c' = cirs c \<and>
     filling ok ids free lib cirs pools q K st c' p"
proof -
  obtain q1 where q1: "pools c (pool_key q) = Some q1" "same_pool lib q q1" using f by (auto simp: filling_def)
  then have "member_keys cirs q1 c = member_keys cirs q c" "PSpec_Size (P_Spec q1) = PSpec_Size (P_Spec q)"
    by (auto simp: member_keys_def same_pool_def pool_key_def)
  then have "int (card (member_keys cirs q1 c)) = PSpec_Size (P_Spec q1)" using f by (auto simp: filling_def)
  moreover have "pool_settled lib q1" using q1(2) by (simp add: same_pool_def)
  ultimately obtain r c' q2 where
    r: "CIPool_Reconcile lib (fst_client cl) now (pool_key q) (c, p) = (r, c', p)" "cirs c' = cirs c"
      "pools c' (pool_key q) = Some q2" "same_pool lib q1 q2"
    using pool_request_rests [OF api q1(1), of lib now p] by blast
  have "same_pool lib q q2" using q1(2) r(4) by (simp add: same_pool_def)
  moreover have "held cirs c' = held cirs c" "member_keys cirs q c' = member_keys cirs q c"
    unfolding held_def member_keys_def r(2) by simp_all
  ultimately have "filling ok ids free lib cirs pools q K st c' p" using f r(2,3) by (simp add: filling_def)
  with r(1,2) show ?thesis by blast
qed

text \<open>How often a list of requests asks for a resource.\<close>

fun requested :: "request \<Rightarrow> NamespacedName" where
  "requested (PoolRequest now k) = k"
| "requested (CirRequest now now' k) = k"

fun for_resource :: "request \<Rightarrow> bool" where
  "for_resource (PoolRequest now k) \<longleftrightarrow> False"
| "for_resource (CirRequest now now' k) \<longleftrightarrow> True"

definition requests_for :: "NamespacedName \<Rightarrow> request list \<Rightarrow> nat" where
  "requests_for k reqs = length (filter (\<lambda>r. for_resource r \<and> requested r = k) reqs)"

text \<open>Requests for a pool and for its members only.\<close>

definition about_pool :: "NamespacedName \<Rightarrow> NamespacedName set \<Rightarrow> request list \<Rightarrow> bool" where
  "about_pool k K reqs \<longleftrightarrow> (\<forall>r\<in>set reqs. if for_resource r then requested r \<in> K else requested r = k)"

context prompt_provider
begin

lemma filling_run:
  assumes api: "api_server cl cirs pools" and lib: "finalizer_laws lib" and regular: "\<not> IsFallbackPool q"
    and fac: "\<forall>r sec p. P_Spec r = P_Spec q \<longrightarrow> ok p \<longrightarrow> NewProvider fac r sec p = Some (Inr P, p)"
  shows "filling ok ids free lib cirs pools q K st c p \<Longrightarrow> about_pool (pool_key q) K reqs \<Longrightarrow>
    \<exists>c' p'. operator_run lib (snd_factories fac) (fst_client cl) reqs (c, p) = Some (c', p') \<and>
      (\<forall>l. l \<notin> K \<longrightarrow> cirs c' l = cirs c l) \<and>
      filling ok ids free lib cirs pools q K (\<lambda>k. if k \<in> K then min 4 (st k + requests_for k reqs) else st k) c' p'"
proof (induction reqs arbitrary: st c p)
  case Nil
  have "st k \<le> 4" if "k \<in> K" for k using Nil(1) that by (auto simp: filling_def at_stage_def)
  then have "(\<lambda>k. if k \<in> K then min 4 (st k + requests_for k []) else st k) = st"
    by (auto simp: requests_for_def)
  with Nil(1) show ?case by simp
next
  case (Cons r reqs)
  have rest: "about_pool (pool_key q) K reqs" using Cons.prems(2) by (simp add: about_pool_def)
  show ?case
  proof (cases r)
    case (PoolRequest now k)
    with Cons.prems(2) have r: "r = PoolRequest now (pool_key q)" by (simp add: about_pool_def)
    from filling_pool_request [OF api Cons.prems(1), of now] obtain d c1 where
      1: "CIPool_Reconcile lib (fst_client cl) now (pool_key q) (c, p) = (d, c1, p)" "cirs c1 = cirs c"
        "filling ok ids free lib cirs pools q K st c1 p" by blast
    have skip: "requests_for l (PoolRequest now (pool_key q) # reqs) = requests_for l reqs" for l
      by (simp add: requests_for_def)
    show ?thesis using Cons.IH [OF 1(3) rest] 1(1,2) unfolding r skip by simp
  next
    case (CirRequest now now' k)
    with Cons.prems(2) have k: "k \<in> K" by (simp add: about_pool_def)
    from filling_request [OF api lib regular fac Cons.prems(1) k, of now now'] obtain d c1 p1 where
      1: "CIResource_Reconcile lib (snd_factories fac) (fst_client cl) now now' k (c, p) = Some (d, c1, p1)"
        "\<forall>l. l \<noteq> k \<longrightarrow> cirs c1 l = cirs c l"
        "filling ok ids free lib cirs pools q K (st(k := min 4 (Suc (st k)))) c1 p1" by metis
    let ?st = "st(k := min 4 (Suc (st k)))"
    from Cons.IH [OF 1(3) rest] obtain c' p' where
      2: "operator_run lib (snd_factories fac) (fst_client cl) reqs (c1, p1) = Some (c', p')"
        "\<forall>l. l \<notin> K \<longrightarrow> cirs c' l = cirs c1 l"
        "filling ok ids free lib cirs pools q K
           (\<lambda>l. if l \<in> K then min 4 (?st l + requests_for l reqs) else ?st l) c' p'" by blast
    have "(if l \<in> K then min 4 (?st l + requests_for l reqs) else ?st l) =
        (if l \<in> K then min 4 (st l + requests_for l (r # reqs)) else st l)" for l
      using k CirRequest by (cases "l = k") (auto simp: requests_for_def min_def)
    moreover have "\<forall>l. l \<notin> K \<longrightarrow> cirs c' l = cirs c l" using 1(2) 2(2) k by metis
    ultimately show ?thesis using 1(1) 2(1,3) CirRequest by simp
  qed
qed

lemma all_become_available:
  assumes "api_server cl cirs pools" and "finalizer_laws lib" and "\<not> IsFallbackPool q"
    and "\<forall>r sec p. P_Spec r = P_Spec q \<longrightarrow> ok p \<longrightarrow> NewProvider fac r sec p = Some (Inr P, p)"
    and start: "filling ok ids free lib cirs pools q K (\<lambda>_. 0) c p"
    and reqs: "about_pool (pool_key q) K reqs" and many: "\<forall>l\<in>K. 4 \<le> requests_for l reqs"
  shows "\<exists>c' p'. operator_run lib (snd_factories fac) (fst_client cl) reqs (c, p) = Some (c', p') \<and>
     (\<forall>l. l \<notin> K \<longrightarrow> cirs c' l = cirs c l) \<and> member_keys cirs q c' = K \<and>
     (\<forall>l\<in>K. \<exists>x. cirs c' l = Some x \<and> status_state x = StateAvailable \<and>
        rid x \<in> ids - free p' \<and> ContainsFinalizer lib (Finalizers (C_Meta x)) OfcirFinalizer) \<and>
     inj_on (held cirs c') K"
proof -
  let ?st = "\<lambda>l. if l \<in> K then min 4 (0 + requests_for l reqs) else 0"
  from filling_run [OF assms(1-4) start reqs] obtain c' p' where
    2: "operator_run lib (snd_factories fac) (fst_client cl) reqs (c, p) = Some (c', p')"
      "\<forall>l. l \<notin> K \<longrightarrow> cirs c' l = cirs c l" "filling ok ids free lib cirs pools q K ?st c' p'" by blast
  have st: "?st l = 4" if "l \<in> K" for l using many that by simp
  then have h: "holders ?st K = K" by (auto simp: holders_def)
  have inj: "inj_on (held cirs c') K" "held cirs c' ` K \<subseteq> ids - free p'"
    using 2(3) h unfolding filling_def by simp_all
  have "member_keys cirs q c' = K" using 2(3) by (simp add: filling_def)
  moreover have "\<exists>x. cirs c' l = Some x \<and> status_state x = StateAvailable \<and>
      rid x \<in> ids - free p' \<and> ContainsFinalizer lib (Finalizers (C_Meta x)) OfcirFinalizer" if "l \<in> K" for l
  proof -
    from 2(3) have "\<forall>k\<in>K. \<exists>x. cirs c' k = Some x \<and> at_stage lib q (?st k) x"
      unfolding filling_def by (elim conjE)
    with that obtain x where "cirs c' l = Some x" "at_stage lib q (?st l) x" by blast
    then have x: "cirs c' l = Some x" "at_stage lib q 4 x" unfolding st [OF that] by blast+
    then have "rid x \<in> ids - free p'" using inj(2) that by (auto simp: held_def)
    with x show ?thesis by (auto simp: at_stage_def)
  qed
  ultimately show ?thesis using 2(1,2) inj(1) by (intro exI [of _ c'] exI [of _ p']) simp
qed

end

section \<open>A pool comes to life\<close>

text \<open>Every member is available, has the finalizer and holds a machine of its own, one of \<open>used\<close>, and
  the other objects are as they were.\<close>

definition brought_to_life ::
  "Controllerutil \<Rightarrow> ('c \<Rightarrow> NamespacedName \<Rightarrow> CIResource option) \<Rightarrow> string set \<Rightarrow> CIPool \<Rightarrow> 'c \<Rightarrow> 'c \<Rightarrow> bool" where
  "brought_to_life lib cirs used q c c' \<longleftrightarrow>
     (\<forall>k\<in>member_keys cirs q c'. \<exists>x. cirs c' k = Some x \<and> status_state x = StateAvailable \<and> rid x \<in> used \<and>
        ContainsFinalizer lib (Finalizers (C_Meta x)) OfcirFinalizer) \<and>
     inj_on (held cirs c') (member_keys cirs q c') \<and>
     (\<forall>k. k \<notin> member_keys cirs q c' \<longrightarrow> cirs c' k = cirs c k)"

text \<open>C3 (liveness). The operator brings a regular pool to life. From a pool object that was just created
  (not a fallback pool, wanted available, of size zero or more, not under deletion, with no status and no
  finalizer yet), with no member and room for the numbers of its size, three requests of the pool's
  controller create exactly the number of resources it asks for and nothing else; then any sequence
  of requests of both controllers for the pool and these resources, in any order, that names each
  resource at least four times ends with exactly these members, all available and with the finalizer,
  each with a machine of its own, while the other resources are as they were. Assumed are: an API server
  that does what it documents (\<open>api_server\<close>) and nobody else writing meanwhile; the documented behaviour
  of the finalizer functions (\<open>finalizer_laws\<close>, and an empty list contains none); a provider whose machines
  are ready at once (\<open>prompt_provider\<close>), with at least as many free as the pool's size; and a factory that
  makes this provider for the specification of the pool, whatever its secret. (A member of a fallback pool
  has no machine until it is leased.)\<close>

theorem operator_fills_a_pool:
  assumes "api_server cl cirs pools" and "finalizer_laws lib" and "prompt_provider P ok ids free"
    and "pools c k = Some q" and "new_pool lib q" and "\<not> IsFallbackPool q"
    and "member_keys cirs q c = {}" and "room_for cirs c q"
    and "ok p" and "PSpec_Size (P_Spec q) \<le> int (card (free p))"
    and "\<forall>q' sec p. P_Spec q' = P_Spec q \<longrightarrow> ok p \<longrightarrow> NewProvider fac q' sec p = Some (Inr P, p)"
    and "\<not> ContainsFinalizer lib [] OfcirFinalizer"
  shows "\<exists>c1. operator_run lib (snd_factories fac) (fst_client cl)
        [PoolRequest t1 k, PoolRequest t2 k, PoolRequest t3 k] (c, p) = Some (c1, p) \<and>
     int (card (member_keys cirs q c1)) = PSpec_Size (P_Spec q) \<and>
     (\<forall>reqs. about_pool k (member_keys cirs q c1) reqs \<longrightarrow>
        (\<forall>k\<in>member_keys cirs q c1. 4 \<le> requests_for k reqs) \<longrightarrow>
        (\<exists>c2 p2. operator_run lib (snd_factories fac) (fst_client cl) reqs (c1, p) = Some (c2, p2) \<and>
           member_keys cirs q c2 = member_keys cirs q c1 \<and> brought_to_life lib cirs (ids - free p2) q c c2))"
proof -
  have less: "memberless cirs c q" using assms(7) by (auto simp: memberless_def member_keys_def)
  from new_pool_fills [OF assms(1,2,4,5) less assms(8)] obtain c1 K q' where
    1: "operator_run lib (snd_factories fac) (fst_client cl) [PoolRequest t1 k, PoolRequest t2 k, PoolRequest t3 k] (c, p) =
         Some (c1, p)" "pools c1 k = Some q'" "P_Spec q' = P_Spec q" "pool_key q' = k" "pool_settled lib q'"
      "filled cirs q' c c1 K" by metis
  have "pool_key q = k" using api_get_pool [OF assms(1,4)] by simp
  then have names: "Namespace (P_Meta q') = Namespace (P_Meta q)" "pool_name q' = pool_name q"
    using 1(4) by (auto simp: pool_key_def)
  have card: "int (card K) = PSpec_Size (P_Spec q)" and fin: "finite K" using 1(3,6) by (auto simp: filled_def)
  have new: "\<exists>j v. cirs c1 l = Some (versioned_cir v (newCIResource q' j))" "fst l = Namespace (P_Meta q)"
    if "l \<in> K" for l using 1(6) names(1) that by (auto simp: filled_def)
  have old: "cirs c1 l = cirs c l" if "l \<notin> K" for l using 1(6) that unfolding filled_def by blast
  have same: "member_keys cirs q' c' = member_keys cirs q c'" for c' using names by (simp add: member_keys_def)
  have K: "member_keys cirs q c1 = K"
    using old new names assms(7) by (fastforce simp: member_keys_def)
  have start: "filling ok ids free lib cirs pools q' K (\<lambda>_. 0) c1 p"
  proof -
    have "at_stage lib q' 0 (versioned_cir v (newCIResource q' j))" for v j
      using assms(12) by (simp add: at_stage_def newCIResource_def IsZero_def StateNone_def)
    then have "\<exists>x. cirs c1 l = Some x \<and> at_stage lib q' 0 x" if "l \<in> K" for l using new(1) [OF that] by metis
    moreover have "card K \<le> card (free p)" using card assms(10) by simp
    moreover have "same_pool lib q' q'" using 1(5) by (simp add: same_pool_def)
    ultimately show ?thesis using 1(2-4) assms(9) fin card K same by (simp add: filling_def holders_def)
  qed
  have regular: "\<not> IsFallbackPool q'" using assms(6) 1(3) by (simp add: IsFallbackPool_def)
  have fac: "\<forall>r sec p. P_Spec r = P_Spec q' \<longrightarrow> ok p \<longrightarrow> NewProvider fac r sec p = Some (Inr P, p)"
    using assms(11) 1(3) by simp
  have all: "\<exists>c2 p2. operator_run lib (snd_factories fac) (fst_client cl) reqs (c1, p) = Some (c2, p2) \<and>
      member_keys cirs q c2 = K \<and> brought_to_life lib cirs (ids - free p2) q c c2"
    if reqs: "about_pool k K reqs" and many: "\<forall>l\<in>K. 4 \<le> requests_for l reqs" for reqs
  proof -
    have "about_pool (pool_key q') K reqs" using reqs 1(4) by simp
    from prompt_provider.all_become_available [OF assms(3,1,2) regular fac start this many] obtain c2 p2 where
      2: "operator_run lib (snd_factories fac) (fst_client cl) reqs (c1, p) = Some (c2, p2)"
        "\<forall>l. l \<notin> K \<longrightarrow> cirs c2 l = cirs c1 l" "member_keys cirs q' c2 = K"
        "\<forall>l\<in>K. \<exists>x. cirs c2 l = Some x \<and> status_state x = StateAvailable \<and>
           rid x \<in> ids - free p2 \<and> ContainsFinalizer lib (Finalizers (C_Meta x)) OfcirFinalizer"
        "inj_on (held cirs c2) K" by blast
    have "brought_to_life lib cirs (ids - free p2) q c c2"
      using 2(2-5) old same by (simp add: brought_to_life_def)
    with 2(1,3) same show ?thesis by metis
  qed
  show ?thesis
    by (rule exI [of _ c1], unfold K, intro conjI allI impI, rule 1(1), rule card, rule all; assumption)
qed

end
