(* ===== verification/Lease_Roundtrip.thy ===== *)
theory Lease_Roundtrip
  imports Operator_System Server
begin

text \<open>
  Both programs at work on one cluster: the HTTP server answers the requests of a job, and the operator
  follows what the server wrote. The server's REST client reads and writes the same stored objects as
  the controllers' client (\<open>rest_server\<close>, beside \<open>api_server\<close>); the provider's machines are the second
  part of the world, which the server never touches.
\<close>

section \<open>The server's clients beside the provider\<close>

definition fst_do ::
  "('c Context \<Rightarrow> 'r \<Rightarrow> ('c, 'a) call) \<Rightarrow> ('c \<times> 'p) Context \<Rightarrow> 'r \<Rightarrow> ('c \<times> 'p, 'a) call" where
  "fst_do f ctx req = (\<lambda>(c, p). fst_call (f (\<lambda>c. ctx (c, p)) req) (c, p))"

definition fst_rest :: "'c RestClient \<Rightarrow> ('c \<times> 'p) RestClient" where
  "fst_rest rc =
     \<lparr>Do_CIPoolList = fst_do (Do_CIPoolList rc), Do_CIPool = fst_do (Do_CIPool rc),
      Do_CIResourceList = fst_do (Do_CIResourceList rc), Do_CIResource = fst_do (Do_CIResource rc)\<rparr>"

definition fst_secrets :: "'c Secrets \<Rightarrow> ('c \<times> 'p) Secrets" where
  "fst_secrets secrets ctx n k = (\<lambda>(c, p). fst_call (secrets (\<lambda>c. ctx (c, p)) n k) (c, p))"

lemma fst_do_apply [simp]:
  "fst_do f ctx req (c, p) = (fst (f (\<lambda>c. ctx (c, p)) req c), snd (f (\<lambda>c. ctx (c, p)) req c), p)"
  by (simp add: fst_do_def)

lemma fst_rest_sel [simp]:
  "Do_CIPoolList (fst_rest rc) = fst_do (Do_CIPoolList rc)" "Do_CIPool (fst_rest rc) = fst_do (Do_CIPool rc)"
  "Do_CIResourceList (fst_rest rc) = fst_do (Do_CIResourceList rc)"
  "Do_CIResource (fst_rest rc) = fst_do (Do_CIResource rc)"
  by (simp_all add: fst_rest_def)

lemma fst_secrets_apply [simp]:
  "fst_secrets secrets ctx n k (c, p) =
     (fst (secrets (\<lambda>c. ctx (c, p)) n k c), snd (secrets (\<lambda>c. ctx (c, p)) n k c), p)"
  by (simp add: fst_secrets_def)

section \<open>The API server, as the HTTP server uses it\<close>

abbreviation get_of :: "string \<Rightarrow> string \<Rightarrow> string \<Rightarrow> Request" where
  "get_of ns resource name \<equiv>
     \<lparr>Req_Verb = VGet, Req_Namespace = ns, Req_Resource = resource, Req_Name = name, Req_Body = None\<rparr>"

abbreviation put_cir_of :: "string \<Rightarrow> string \<Rightarrow> CIResource \<Rightarrow> Request" where
  "put_cir_of ns name x \<equiv>
     \<lparr>Req_Verb = VPut, Req_Namespace = ns, Req_Resource = ''ciresources'', Req_Name = name, Req_Body = Some x\<rparr>"

text \<open>What the paths of the API answer while the request has not timed out: the lists and the objects that
  are stored, and a PUT of a stored object's current version is accepted and leaves its status.\<close>

definition rest_server ::
  "'c RestClient \<Rightarrow> ('c \<Rightarrow> NamespacedName \<Rightarrow> CIResource option) \<Rightarrow> ('c \<Rightarrow> NamespacedName \<Rightarrow> CIPool option) \<Rightarrow> bool"
where
  "rest_server rc cirs pools \<longleftrightarrow>
     (\<forall>ctx c ns. ctx c = None \<longrightarrow>
        (\<exists>qs. Do_CIPoolList rc ctx (get_of ns ''cipools'' '''') c = ((qs, None), c) \<and>
           set qs = {q. Namespace (P_Meta q) = ns \<and> pools c (pool_key q) = Some q})) \<and>
     (\<forall>ctx c ns. ctx c = None \<longrightarrow>
        (\<exists>xs. Do_CIResourceList rc ctx (get_of ns ''ciresources'' '''') c = ((xs, None), c) \<and>
           set xs = {x. Namespace (C_Meta x) = ns \<and> cirs c (cir_key x) = Some x})) \<and>
     (\<forall>ctx c ns n x. ctx c = None \<longrightarrow> cirs c (ns, n) = Some x \<longrightarrow>
        Do_CIResource rc ctx (get_of ns ''ciresources'' n) c = ((x, None), c)) \<and>
     (\<forall>ctx c x y. ctx c = None \<longrightarrow> cirs c (cir_key x) = Some y \<longrightarrow> cir_version x = cir_version y \<longrightarrow>
        IsZero (DeletionTimestamp (C_Meta y)) \<longrightarrow> IsZero (DeletionTimestamp (C_Meta x)) \<longrightarrow>
        (\<exists>v x' c'. Do_CIResource rc ctx (put_cir_of (Namespace (C_Meta x)) (cir_name x) x) c = ((x', None), c') \<and>
           pools c' = pools c \<and> cirs c' = (cirs c)(cir_key x \<mapsto> versioned_cir v (x\<lparr>C_Status := C_Status y\<rparr>))))"

text \<open>The secret with the tokens can be read, and no request of the server runs into one of its deadlines.\<close>

definition tokens_stored :: "'c Secrets \<Rightarrow> (string \<rightharpoonup> string) \<Rightarrow> bool" where
  "tokens_stored secrets tokens \<longleftrightarrow>
     (\<forall>ctx c. ctx c = None \<longrightarrow> secrets ctx ''ofcir-system'' ''ofcir-tokens'' c = ((tokens, None), c))"

definition unhurried :: "'w Env \<Rightarrow> bool" where
  "unhurried env \<longleftrightarrow>
     (\<forall>w. Env_Context env w = None) \<and> (\<forall>v w. Env_Clock env v < Env_Clock env w + 5 * Nanoseconds Second)"

lemma unhurried_ctx [simp]:
  assumes "unhurried env"
  shows "overall_ctx env w v = None" "call_ctx env (overall_ctx env w) u v = None"
    "WithTimeout (Env_Clock env) (Env_Context env) (Duration (5 * Nanoseconds Second)) w v = None"
proof -
  have c: "Env_Context env v = None" for v using assms by (simp add: unhurried_def)
  have t: "Env_Clock env v < Env_Clock env u + 5 * Nanoseconds Second" for u v
    using assms by (simp add: unhurried_def)
  have "WithTimeout (Env_Clock env) (Env_Context env) (Duration (n * Nanoseconds Second)) u v = None"
    if "5 \<le> n" for u v n
    using that t [of v u] c [of v] by (simp add: WithTimeout_def Second_def)
  then show "overall_ctx env w v = None"
    "WithTimeout (Env_Clock env) (Env_Context env) (Duration (5 * Nanoseconds Second)) w v = None"
    by (simp_all add: overall_ctx_def overallTimeout_def)
  then show "call_ctx env (overall_ctx env w) u v = None"
    using t [of v u] by (simp add: call_ctx_def apiCallTimeout_def WithTimeout_def Second_def)
qed

lemma rest_update:
  assumes "rest_server rc cirs pools" "ctx (c, p) = None" "cirs c (cir_key x) = Some y" "cir_version x = cir_version y"
    "IsZero (DeletionTimestamp (C_Meta y))" "IsZero (DeletionTimestamp (C_Meta x))"
  obtains v x' c' where
    "CIResources_Update (OfcirV1Client (fst_rest rc)) (Namespace (C_Meta x)) ctx x (c, p) = ((x', None), c', p)"
    "pools c' = pools c" "cirs c' = (cirs c)(cir_key x \<mapsto> versioned_cir v (x\<lparr>C_Status := C_Status y\<rparr>))"
proof -
  have "\<forall>ctx c x y. ctx c = None \<longrightarrow> cirs c (cir_key x) = Some y \<longrightarrow> cir_version x = cir_version y \<longrightarrow>
        IsZero (DeletionTimestamp (C_Meta y)) \<longrightarrow> IsZero (DeletionTimestamp (C_Meta x)) \<longrightarrow>
        (\<exists>v x' c'. Do_CIResource rc ctx (put_cir_of (Namespace (C_Meta x)) (cir_name x) x) c = ((x', None), c') \<and>
           pools c' = pools c \<and> cirs c' = (cirs c)(cir_key x \<mapsto> versioned_cir v (x\<lparr>C_Status := C_Status y\<rparr>)))"
    using assms(1) unfolding rest_server_def by (elim conjE)
  from this [rule_format, of "\<lambda>c. ctx (c, p)", OF assms(2-)] show thesis
    using that by (auto simp: cirClient_Update_def resourceName_def)
qed

lemma rest_get:
  assumes "rest_server rc cirs pools" "ctx (c, p) = None" "cirs c (ns, n) = Some x"
  shows "CIResources_Get (OfcirV1Client (fst_rest rc)) ns ctx n (c, p) = ((x, None), c, p)"
proof -
  have "\<forall>ctx c ns n x. ctx c = None \<longrightarrow> cirs c (ns, n) = Some x \<longrightarrow>
        Do_CIResource rc ctx (get_of ns ''ciresources'' n) c = ((x, None), c)"
    using assms(1) unfolding rest_server_def by (elim conjE)
  from this [rule_format, of "\<lambda>c. ctx (c, p)", OF assms(2-)] show ?thesis
    by (simp add: cirClient_Get_def resourceName_def)
qed

lemma rest_lists:
  assumes "rest_server rc cirs pools"
  shows "ctx (c, p) = None \<Longrightarrow> \<exists>qs. CIPools_List (OfcirV1Client (fst_rest rc)) ns ctx (c, p) = ((qs, None), c, p) \<and>
      set qs = {q. Namespace (P_Meta q) = ns \<and> pools c (pool_key q) = Some q}"
    and "ctx (c, p) = None \<Longrightarrow> \<exists>xs. CIResources_List (OfcirV1Client (fst_rest rc)) ns ctx (c, p) = ((xs, None), c, p) \<and>
      set xs = {x. Namespace (C_Meta x) = ns \<and> cirs c (cir_key x) = Some x}"
proof -
  have 1: "\<forall>ctx c ns. ctx c = None \<longrightarrow>
        (\<exists>qs. Do_CIPoolList rc ctx (get_of ns ''cipools'' '''') c = ((qs, None), c) \<and>
           set qs = {q. Namespace (P_Meta q) = ns \<and> pools c (pool_key q) = Some q})"
    using assms unfolding rest_server_def by (elim conjE)
  have 2: "\<forall>ctx c ns. ctx c = None \<longrightarrow>
        (\<exists>xs. Do_CIResourceList rc ctx (get_of ns ''ciresources'' '''') c = ((xs, None), c) \<and>
           set xs = {x. Namespace (C_Meta x) = ns \<and> cirs c (cir_key x) = Some x})"
    using assms unfolding rest_server_def by (elim conjE)
  show "ctx (c, p) = None \<Longrightarrow> \<exists>qs. CIPools_List (OfcirV1Client (fst_rest rc)) ns ctx (c, p) = ((qs, None), c, p) \<and>
      set qs = {q. Namespace (P_Meta q) = ns \<and> pools c (pool_key q) = Some q}"
    using 1 [rule_format, of "\<lambda>c. ctx (c, p)" c ns] by (auto simp: cipoolClient_List_def)
  show "ctx (c, p) = None \<Longrightarrow> \<exists>xs. CIResources_List (OfcirV1Client (fst_rest rc)) ns ctx (c, p) = ((xs, None), c, p) \<and>
      set xs = {x. Namespace (C_Meta x) = ns \<and> cirs c (cir_key x) = Some x}"
    using 2 [rule_format, of "\<lambda>c. ctx (c, p)" c ns] by (auto simp: cirClient_List_def resourceName_def)
qed

section \<open>The server lends a resource\<close>

text \<open>A resource that can be lent: stored, eligible, and a member of a pool of a type asked for that the
  token may use.\<close>

definition offered ::
  "('c \<Rightarrow> NamespacedName \<Rightarrow> CIResource option) \<Rightarrow> ('c \<Rightarrow> NamespacedName \<Rightarrow> CIPool option) \<Rightarrow> string \<Rightarrow>
   (CIPool \<Rightarrow> bool) \<Rightarrow> 'c \<Rightarrow> CIPool \<Rightarrow> CIResource \<Rightarrow> bool" where
  "offered cirs pools ns use c q x \<longleftrightarrow>
     pools c (pool_key q) = Some q \<and> Namespace (P_Meta q) = ns \<and> use q \<and>
     cirs c (cir_key x) = Some x \<and> Namespace (C_Meta x) = ns \<and> cir_pool x = pool_name q \<and> eligible x"

lemma look_lends:
  assumes rest: "rest_server rc cirs pools" and env: "unhurried env"
    and ok: "\<forall>r\<in>set rs. eligible r \<longrightarrow> cirs c (cir_key r) = Some r \<and> IsZero (DeletionTimestamp (C_Meta r))"
  shows "case filter eligible rs of
      [] \<Rightarrow> lookForAvailableResource env (OfcirV1Client (fst_rest rc)) (overall_ctx env w) rs m g (c, p) = ((False, g), c, p)
    | x # _ \<Rightarrow> \<exists>v c'. lookForAvailableResource env (OfcirV1Client (fst_rest rc)) (overall_ctx env w) rs m g (c, p) =
          ((True, respond (acquired_response m (set_spec_state StateInUse x)) g), c', p) \<and> pools c' = pools c \<and>
          cirs c' = (cirs c)(cir_key x \<mapsto> versioned_cir v (set_spec_state StateInUse x))"
  using ok
proof (induction rs)
  case (Cons r rs)
  show ?case
  proof (cases "eligible r")
    case False
    then have skip: "lookForAvailableResource env (OfcirV1Client (fst_rest rc)) (overall_ctx env w) (r # rs) m g (c, p) =
        lookForAvailableResource env (OfcirV1Client (fst_rest rc)) (overall_ctx env w) rs m g (c, p)"
      using env by (auto simp: eligible_def)
    have "filter eligible (r # rs) = filter eligible rs" using False by simp
    then show ?thesis unfolding skip using Cons by simp
  next
    case True
    let ?x = "set_spec_state StateInUse r"
    have key: "cir_key ?x = cir_key r" by (simp add: cir_key_def)
    obtain v x' c' where u: "CIResources_Update (OfcirV1Client (fst_rest rc)) (Namespace (C_Meta ?x))
        (call_ctx env (overall_ctx env w) (c, p)) ?x (c, p) = ((x', None), c', p)" "pools c' = pools c"
      "cirs c' = (cirs c)(cir_key ?x \<mapsto> versioned_cir v (?x\<lparr>C_Status := C_Status r\<rparr>))"
      by (rule rest_update [OF rest, of "call_ctx env (overall_ctx env w) (c, p)" c p ?x r])
        (use Cons.prems True key env in simp_all)
    have "?x\<lparr>C_Status := C_Status r\<rparr> = ?x" by (simp add: set_spec_state_def)
    with True u key env show ?thesis by (auto simp: eligible_def Let_def)
  qed
qed simp

text \<open>The answer names the resource.\<close>

definition lent :: "Response \<Rightarrow> string \<Rightarrow> bool" where
  "lent a n \<longleftrightarrow> (\<exists>h. a = JSON StatusOK h \<and> map_of h ''name'' = Some n)"

lemma lent_response [simp]: "lent (acquired_response m x) (cir_name x)"
  by (simp add: lent_def acquired_response_def)

lemma acquire_lends:
  assumes rest: "rest_server rc cirs pools" and env: "unhurried env"
    and some: "offered cirs pools ns (usable types g) c q0 x0"
    and alive: "\<forall>q x. offered cirs pools ns (usable types g) c q x \<longrightarrow> IsZero (DeletionTimestamp (C_Meta x))"
  obtains q x v c' a where "offered cirs pools ns (usable types g) c q x" "lent a (cir_name x)"
    "acquireCmd_Run env (OfcirV1Client (fst_rest rc)) ns types g (c, p) = ((None, respond a g), c', p)"
    "pools c' = pools c" "cirs c' = (cirs c)(cir_key x \<mapsto> versioned_cir v (set_spec_state StateInUse x))"
proof -
  let ?cs = "OfcirV1Client (fst_rest rc)" and ?ov = "overall_ctx env (c, p)"
  obtain qs where l1: "CIPools_List ?cs ns (call_ctx env ?ov (c, p)) (c, p) = ((qs, None), c, p)"
      "set qs = {q. Namespace (P_Meta q) = ns \<and> pools c (pool_key q) = Some q}"
    using rest_lists(1) [OF rest, of "call_ctx env ?ov (c, p)" c p ns] env by auto
  obtain xs where l2: "CIResources_List ?cs ns (call_ctx env ?ov (c, p)) (c, p) = ((xs, None), c, p)"
      "set xs = {x. Namespace (C_Meta x) = ns \<and> cirs c (cir_key x) = Some x}"
    using rest_lists(2) [OF rest, of "call_ctx env ?ov (c, p)" c p ns] env by auto
  note result = that
  define m main fall where "m = collect_pools types g qs []"
    and "main = sort_key (cir_priority m) (rand_Shuffle (Env_Rand env) (fst (split_cirs m xs)))"
    and "fall = snd (split_cirs m xs)"
  note defs = m_def main_def fall_def
  have q0: "q0 \<in> set qs" "usable types g q0" using some l1(2) by (auto simp: offered_def)
  then have m: "m \<noteq> []" by (auto simp: m_def collect_pools_empty filter_empty_conv)
  have "set main \<union> set fall = {x \<in> set xs. map_of m (cir_pool x) \<noteq> None}"
    by (auto simp: main_def fall_def split_cirs_eq)
  then have all: "x \<in> set main \<union> set fall \<longleftrightarrow> x \<in> set xs \<and> map_of m (cir_pool x) \<noteq> None" for x by simp
  have cand: "\<exists>q. offered cirs pools ns (usable types g) c q x" if "x \<in> set main \<union> set fall" "eligible x" for x
  proof -
    from that(1) all obtain q where q: "map_of m (cir_pool x) = Some q" "x \<in> set xs" by blast
    then have "q \<in> set qs \<and> pool_name q = cir_pool x \<and> usable types g q"
      using collect_pools_Some [of types g qs "[]" "cir_pool x" q] by (simp add: m_def)
    with q(2) l1(2) l2(2) that(2) show ?thesis by (auto simp: offered_def)
  qed
  have ok: "\<forall>r\<in>set rs. eligible r \<longrightarrow> cirs c (cir_key r) = Some r \<and> IsZero (DeletionTimestamp (C_Meta r))"
    if sub: "set rs \<subseteq> set main \<union> set fall" for rs
  proof (intro ballI impI)
    fix r assume "r \<in> set rs" "eligible r"
    with sub cand [of r] obtain q where q: "offered cirs pools ns (usable types g) c q r" by blast
    then show "cirs c (cir_key r) = Some r \<and> IsZero (DeletionTimestamp (C_Meta r))"
      using alive q by (auto simp: offered_def)
  qed
  have run: "acquireCmd_Run env ?cs ns types g (c, p) =
      (case lookForAvailableResource env ?cs ?ov main m g (c, p) of
         ((True, g), w) \<Rightarrow> ((None, g), w)
       | ((False, g), w) \<Rightarrow> (case lookForAvailableResource env ?cs ?ov fall m g w of
             ((True, g), w) \<Rightarrow> ((None, g), w)
           | ((False, g), w) \<Rightarrow> ((None, respond (String StatusNotFoundCode
                (''No available resource found of type '' @ print_types types)) g), w)))"
    using l1(1) l2(1) m env
    by (simp add: acquireCmd_Run_def Let_def split_beta defs [symmetric] cong: if_cong split: bool.split)
  have found: thesis if x: "x \<in> set main \<union> set fall" "eligible x"
      and r: "acquireCmd_Run env ?cs ns types g (c, p) =
        ((None, respond (acquired_response m (set_spec_state StateInUse x)) g), c', p)" "pools c' = pools c"
        "cirs c' = (cirs c)(cir_key x \<mapsto> versioned_cir v (set_spec_state StateInUse x))" for x c' v
  proof -
    obtain q where "offered cirs pools ns (usable types g) c q x" using cand [OF x] by blast
    moreover have "lent (acquired_response m (set_spec_state StateInUse x)) (cir_name x)"
      using lent_response [of m "set_spec_state StateInUse x"] by simp
    ultimately show thesis using r by (rule result)
  qed
  note a = look_lends [OF rest env ok [of main], of "(c, p)" m g p]
    and b = look_lends [OF rest env ok [of fall], of "(c, p)" m g p]
  show thesis
  proof (cases "filter eligible main")
    case (Cons x rest)
    with a obtain v c' where look: "lookForAvailableResource env ?cs ?ov main m g (c, p) =
        ((True, respond (acquired_response m (set_spec_state StateInUse x)) g), c', p)" "pools c' = pools c"
        "cirs c' = (cirs c)(cir_key x \<mapsto> versioned_cir v (set_spec_state StateInUse x))" by auto
    have "x \<in> set (filter eligible main)" using Cons by simp
    with found [of x c' v] look run show thesis by simp
  next
    case Nil
    with a have none: "lookForAvailableResource env ?cs ?ov main m g (c, p) = ((False, g), c, p)" by simp
    have "map_of m (pool_name q0) \<noteq> None" unfolding m_def by (rule collect_pools_dom [OF q0])
    then have "x0 \<in> set main \<union> set fall" "eligible x0" using some l2(2) all [of x0] by (auto simp: offered_def)
    moreover have "\<forall>x\<in>set main. \<not> eligible x" using Nil by (simp add: filter_empty_conv)
    ultimately have "filter eligible fall \<noteq> []" by (auto simp: filter_empty_conv)
    then obtain x rest where fx: "filter eligible fall = x # rest" by (cases "filter eligible fall") auto
    with b obtain v c' where look: "lookForAvailableResource env ?cs ?ov fall m g (c, p) =
        ((True, respond (acquired_response m (set_spec_state StateInUse x)) g), c', p)" "pools c' = pools c"
        "cirs c' = (cirs c)(cir_key x \<mapsto> versioned_cir v (set_spec_state StateInUse x))" by auto
    have "x \<in> set (filter eligible fall)" using fx by simp
    with found [of x c' v] look run none show thesis by simp
  qed
qed

section \<open>The requests of a job\<close>

text \<open>What the token of a request lets it use of the types it asks for.\<close>

definition asked_types :: "string option \<Rightarrow> CIResourceType list" where
  "asked_types query = NewAcquireCmd_types (case query of None \<Rightarrow> TypeCIHost | Some q \<Rightarrow> q)"

definition may_lease :: "(string \<rightharpoonup> string) \<Rightarrow> (string \<rightharpoonup> string list) \<Rightarrow> string option \<Rightarrow> CIPool \<Rightarrow> bool" where
  "may_lease tokens headers query q \<longleftrightarrow>
     PSpec_Type (P_Spec q) \<in> set (asked_types query) \<and> may_use tokens headers (pool_name q)"

lemma granted:
  assumes "tokens_stored secrets tokens" "unhurried env" "may_use tokens headers pool"
  obtains g where "AuthRequired env (fst_secrets secrets) (fresh_context headers) (c, p) = (g, c, p)"
    "\<not> Gin_Aborted g" "Gin_Responses g = []" "\<And>pool. CanUsePool g pool \<longleftrightarrow> may_use tokens headers pool"
proof -
  let ?ctx = "WithTimeout (Env_Clock env) (Env_Context env) (Duration (5 * Nanoseconds Second)) (c, p)"
  obtain v where v: "allowed_pools tokens headers = Some v" using assms(3) by (auto simp: may_use_def)
  then obtain t ts where t: "headers ''X-Ofcirtoken'' = Some (t # ts)" "token_pools tokens t \<noteq> ''''"
      "v = TrimSpace (token_pools tokens t)"
    by (auto simp: allowed_pools_def split: option.split_asm list.split_asm if_split_asm)
  have "fst_secrets secrets ?ctx ''ofcir-system'' ''ofcir-tokens'' (c, p) = ((tokens, None), c, p)"
    using assms(1,2) by (simp add: tokens_stored_def)
  then have run: "AuthRequired env (fst_secrets secrets) (fresh_context headers) (c, p) =
      ((fresh_context headers)\<lparr>Gin_Keys := [''validpools'' \<mapsto> v]\<rparr>, c, p)"
    using t by (simp add: AuthRequired_def Let_def del: fst_secrets_apply)
  show thesis using run by (rule that) (simp_all add: CanUsePool_def may_use_def v)
qed

lemma served_post:
  assumes rest: "rest_server rc cirs pools" and env: "unhurried env" and tok: "tokens_stored secrets tokens"
    and some: "offered cirs pools ns (may_lease tokens headers query) c q0 x0"
    and alive: "\<forall>q x. offered cirs pools ns (may_lease tokens headers query) c q x \<longrightarrow>
        IsZero (DeletionTimestamp (C_Meta x))"
  obtains q x v c' g a where "offered cirs pools ns (may_lease tokens headers query) c q x"
    "serve env (OfcirV1Client (fst_rest rc)) (fst_secrets secrets) ns (PostCir query) headers (c, p) = (g, c', p)"
    "Gin_Responses g = [a]" "lent a (cir_name x)" "pools c' = pools c"
    "cirs c' = (cirs c)(cir_key x \<mapsto> versioned_cir v (set_spec_state StateInUse x))"
proof -
  have "may_use tokens headers (pool_name q0)" using some by (simp add: offered_def may_lease_def)
  with tok env obtain g where g: "AuthRequired env (fst_secrets secrets) (fresh_context headers) (c, p) = (g, c, p)"
    "\<not> Gin_Aborted g" "Gin_Responses g = []" "\<And>pool. CanUsePool g pool \<longleftrightarrow> may_use tokens headers pool"
    by (metis granted)
  have use: "usable (asked_types query) g = may_lease tokens headers query"
    by (simp add: fun_eq_iff usable_def may_lease_def g(4))
  note result = that
  show thesis
  proof (rule acquire_lends [OF rest env, of ns "asked_types query" g c q0 x0 p, unfolded use, OF some alive])
    fix q x v c' a
    assume "offered cirs pools ns (may_lease tokens headers query) c q x" "lent a (cir_name x)"
      "acquireCmd_Run env (OfcirV1Client (fst_rest rc)) ns (asked_types query) g (c, p) = ((None, respond a g), c', p)"
      "pools c' = pools c" "cirs c' = (cirs c)(cir_key x \<mapsto> versioned_cir v (set_spec_state StateInUse x))"
    with g result [of q x "respond a g" c' a v] show thesis
      by (simp add: serve_def handleAcquireCir_def asked_types_def reply_error_def)
  qed
qed

section \<open>A resource on loan\<close>

text \<open>The stored copy of \<open>x0\<close> on its way: the same machine, with the status and the specification it
  has come to.\<close>

definition same_machine :: "CIResource \<Rightarrow> CIResource \<Rightarrow> bool" where
  "same_machine x y \<longleftrightarrow>
     rid y = rid x \<and> CStatus_Address (C_Status y) = CStatus_Address (C_Status x) \<and>
     CStatus_Extra (C_Status y) = CStatus_Extra (C_Status x) \<and>
     Finalizers (C_Meta y) = Finalizers (C_Meta x)"

definition on_loan ::
  "('c \<Rightarrow> NamespacedName \<Rightarrow> CIResource option) \<Rightarrow> ('c \<Rightarrow> NamespacedName \<Rightarrow> CIPool option) \<Rightarrow> CIPool \<Rightarrow>
   CIResource \<Rightarrow> CIResourceState \<Rightarrow> CIResourceState \<Rightarrow> 'c \<Rightarrow> bool" where
  "on_loan cirs pools q x0 st sp c \<longleftrightarrow>
     (\<exists>x. member_at cirs pools q (cir_key x0) x c \<and> same_machine x0 x \<and> status_state x = st \<and> spec_state x = sp)"

lemma loan_request:
  assumes api: "api_server cl cirs pools" and loan: "on_loan cirs pools q x0 st sp c"
    and run: "\<And>x sec. status_state x = st \<Longrightarrow> spec_state x = sp \<Longrightarrow> rid x = rid x0 \<Longrightarrow>
        IsZero (DeletionTimestamp (C_Meta x)) \<Longrightarrow>
        \<exists>d f. Process lib fac now x q sec NewCIResourceFSM (c, p) =
          Some (((False, True, d, None), modify_status (\<lambda>s. s\<lparr>CStatus_State := st'\<rparr>) x, f), c, p')"
  shows "\<exists>r c'. CIResource_Reconcile lib fac (fst_client cl) now now' (cir_key x0) (c, p) = Some (r, c', p') \<and>
     pools c' = pools c \<and> (\<forall>l. l \<noteq> cir_key x0 \<longrightarrow> cirs c' l = cirs c l) \<and> on_loan cirs pools q x0 st' sp c'"
proof -
  obtain x where x: "member_at cirs pools q (cir_key x0) x c" "same_machine x0 x" "status_state x = st" "spec_state x = sp"
    using loan by (auto simp: on_loan_def)
  let ?x = "set_LastUpdated now' (modify_status (\<lambda>s. s\<lparr>CStatus_State := st'\<rparr>) x)"
  have "\<And>sec. \<exists>d f. Process lib fac now x q sec NewCIResourceFSM (c, p) =
      Some (((False, True, d, None), modify_status (\<lambda>s. s\<lparr>CStatus_State := st'\<rparr>) x, f), c, p')"
    by (rule run) (use x in \<open>auto simp: same_machine_def member_at_def\<close>)
  from request_writes_status [OF api x(1) this, of now'] obtain r c' v where
    r: "CIResource_Reconcile lib fac (fst_client cl) now now' (cir_key x0) (c, p) = Some (r, c', p')"
      "pools c' = pools c" "cirs c' = (cirs c)(cir_key x0 \<mapsto> versioned_cir v ?x)" by blast
  have "member_at cirs pools q (cir_key x0) (versioned_cir v ?x) c'"
    using x(1) r(2,3) by (simp add: member_at_def)
  moreover have "same_machine x0 (versioned_cir v ?x)" using x(2) by (simp add: same_machine_def set_LastUpdated_def)
  ultimately have "on_loan cirs pools q x0 st' sp c'"
    using x(4) unfolding on_loan_def by (intro exI [of _ "versioned_cir v ?x"]) simp
  with r show ?thesis by simp
qed

text \<open>What \<open>Process\<close> does on the way.\<close>

lemma process_taken:
  assumes "NewProvider fac q sec p = Some (Inr P, p)" "status_state x = StateAvailable" "spec_state x = StateInUse"
    "IsZero (DeletionTimestamp (C_Meta x))"
  shows "\<exists>d f. Process lib (snd_factories fac) now x q sec NewCIResourceFSM (c, p) =
     Some (((False, True, d, None), modify_status (\<lambda>s. s\<lparr>CStatus_State := StateInUse\<rparr>) x, f), c, p)"
  using assms(2-)
  by (subst Process_state [OF NewProvider_beside [OF assms(1)] fsm_known_simps(4) fsm_onEntry(4)])
    (auto simp: handleStateAvailable_def modify_status_def set_status_state_def Let_def)

lemma process_given_back:
  assumes "NewProvider fac q sec p = Some (Inr P, p)" "status_state x = StateInUse" "spec_state x = StateAvailable"
  shows "\<exists>d f. Process lib (snd_factories fac) now x q sec NewCIResourceFSM (c, p) =
     Some (((False, True, d, None), modify_status (\<lambda>s. s\<lparr>CStatus_State := StateCleaning\<rparr>) x, f), c, p)"
  using assms(2-)
  by (subst Process_state [OF NewProvider_beside [OF assms(1)] fsm_known_simps(6) fsm_onEntry(6)])
    (auto simp: handleStateInUse_def modify_status_def set_status_state_def Let_def)

lemma process_cleaning:
  assumes "NewProvider fac q sec p = Some (Inr P, p)" "status_state x = StateCleaning" "\<not> IsFallbackPool q"
    "Clean P (rid x) p = Some (None, p')"
  shows "\<exists>d f. Process lib (snd_factories fac) now x q sec NewCIResourceFSM (c, p) =
     Some (((False, True, d, None), modify_status (\<lambda>s. s\<lparr>CStatus_State := StateCleaningWait\<rparr>) x, f), c, p')"
  using assms(2-)
  by (subst Process_state [OF NewProvider_beside [OF assms(1)] fsm_known_simps(7) fsm_onEntry(7)])
    (auto simp: handleStateCleaning_def modify_status_def set_status_state_def snd_call_def Let_def)

lemma process_cleaned:
  assumes "NewProvider fac q sec p = Some (Inr P, p)" "status_state x = StateCleaningWait" "\<not> IsFallbackPool q"
    "CleanCompleted P (rid x) p = Some ((True, None), p')"
  shows "\<exists>d f. Process lib (snd_factories fac) now x q sec NewCIResourceFSM (c, p) =
     Some (((False, True, d, None), modify_status (\<lambda>s. s\<lparr>CStatus_State := StateAvailable\<rparr>) x, f), c, p')"
  using assms(2-)
  by (subst Process_state [OF NewProvider_beside [OF assms(1)] fsm_known_simps(8) fsm_onEntry(8)])
    (auto simp: handleStateCleaningWait_def modify_status_def set_status_state_def snd_call_def Let_def)

text \<open>The server takes it back: the specification asks for the available state again.\<close>

lemma served_delete:
  assumes api: "api_server cl cirs pools" and rest: "rest_server rc cirs pools" and env: "unhurried env"
    and tok: "tokens_stored secrets tokens" and loan: "on_loan cirs pools q x0 StateInUse sp c" and use: "may_use tokens headers (pool_name q)"
    and key: "cir_key x0 = (ns, n)"
  obtains g c' where
    "serve env (OfcirV1Client (fst_rest rc)) (fst_secrets secrets) ns (DeleteCir n) headers (c, p) = (g, c', p)"
    "Gin_Responses g = [String StatusOK n]" "pools c' = pools c" "\<forall>l. l \<noteq> cir_key x0 \<longrightarrow> cirs c' l = cirs c l"
    "on_loan cirs pools q x0 StateInUse StateAvailable c'"
proof -
  obtain x where x: "member_at cirs pools q (ns, n) x c" "same_machine x0 x" "status_state x = StateInUse"
    using loan key by (auto simp: on_loan_def)
  obtain g where g: "AuthRequired env (fst_secrets secrets) (fresh_context headers) (c, p) = (g, c, p)"
    "\<not> Gin_Aborted g" "Gin_Responses g = []" "\<And>pool. CanUsePool g pool \<longleftrightarrow> may_use tokens headers pool"
    using granted [OF tok env use] by metis
  let ?x = "set_spec_state StateAvailable x"
  have at: "cirs c (ns, n) = Some x" "IsZero (DeletionTimestamp (C_Meta x))" "cir_pool x = pool_name q"
    using x(1) by (auto simp: member_at_def)
  have kx: "cir_key x = (ns, n)" using api_get_cir [OF api at(1)] by simp
  then have names: "Namespace (C_Meta x) = ns" "cir_name x = n" "cir_key ?x = (ns, n)" by (simp_all add: cir_key_def)
  let ?ctx = "call_ctx env (overall_ctx env (c, p)) (c, p)"
  have get: "CIResources_Get (OfcirV1Client (fst_rest rc)) ns ?ctx n (c, p) = ((x, None), c, p)"
    by (rule rest_get [OF rest _ at(1)]) (simp add: env)
  obtain v x' c' where u: "CIResources_Update (OfcirV1Client (fst_rest rc)) (Namespace (C_Meta ?x)) ?ctx ?x (c, p) =
      ((x', None), c', p)" "pools c' = pools c"
    "cirs c' = (cirs c)(cir_key ?x \<mapsto> versioned_cir v (?x\<lparr>C_Status := C_Status x\<rparr>))"
    by (rule rest_update [OF rest, of ?ctx c p ?x x]) (use at names env in simp_all)
  have "releaseCmd_Run env (OfcirV1Client (fst_rest rc)) ns n g (c, p) = ((None, respond (String StatusOK n) g), c', p)"
    using get u(1) g(4) use at(3) x(3) names by (simp add: releaseCmd_Run_def Let_def)
  then have "serve env (OfcirV1Client (fst_rest rc)) (fst_secrets secrets) ns (DeleteCir n) headers (c, p) =
      (respond (String StatusOK n) g, c', p)"
    using g by (simp add: serve_def handleReleaseCir_def reply_error_def)
  moreover have "?x\<lparr>C_Status := C_Status x\<rparr> = ?x" by (simp add: set_spec_state_def)
  then have c': "cirs c' = (cirs c)((ns, n) \<mapsto> versioned_cir v ?x)" by (simp only: u(3) names)
  moreover have "on_loan cirs pools q x0 StateInUse StateAvailable c'"
    unfolding on_loan_def key using x c' u(2)
    by (intro exI [of _ "versioned_cir v ?x"]) (simp add: member_at_def same_machine_def)
  ultimately show thesis using that [of "respond (String StatusOK n) g" c'] g(3) u(2) key by simp
qed

section \<open>A provider that cleans at once\<close>

locale prompt_cleaner = prompt_provider +
  assumes cleans: "ok p \<Longrightarrow> i \<in> ids \<Longrightarrow> \<exists>p'. Clean P i p = Some (None, p') \<and> ok p' \<and> free p' = free p"
    and cleaned: "ok p \<Longrightarrow> i \<in> ids \<Longrightarrow> \<exists>p'. CleanCompleted P i p = Some ((True, None), p') \<and> ok p' \<and> free p' = free p"

interpretation dummy_cleans: prompt_cleaner "dummyProvider ord" "\<lambda>p. dummy_inv p \<and> visits_once ord"
  "dummy_id ` {..<maxAvailableResources}" dummy_free for ord
proof (unfold_locales, goal_cases)
  case (1 p i)
  then obtain m where "dummy p = Some m" "i \<in> dom m" by (auto simp: dummy_inv_def)
  with 1 show ?case by (auto simp: dummy_Clean_def)
next
  case (2 p i)
  then obtain m where "dummy p = Some m" "i \<in> dom m" by (auto simp: dummy_inv_def)
  with 2 show ?case by (auto simp: dummy_CleanCompleted_def)
qed

section \<open>Jobs\<close>

text \<open>The two programs take turns: a job asks the server, and the controllers work off a request. The
  responses are collected.\<close>

datatype event = Ask Route "string \<rightharpoonup> string list" | Work request

fun system_run ::
  "Controllerutil \<Rightarrow> 'w ProviderFactories \<Rightarrow> 'w Client \<Rightarrow> 'w Env \<Rightarrow> 'w OfcirV1Interface \<Rightarrow> 'w Secrets \<Rightarrow> string \<Rightarrow>
   event list \<Rightarrow> 'w \<Rightarrow> (Response list \<times> 'w) option" where
  "system_run lib fac cl env cs secrets ns [] w = Some ([], w)"
| "system_run lib fac cl env cs secrets ns (Ask route headers # es) w =
     (case serve env cs secrets ns route headers w of
        (g, w) \<Rightarrow> do {
          (rs, w) \<leftarrow> system_run lib fac cl env cs secrets ns es w;
          Some (Gin_Responses g @ rs, w) })"
| "system_run lib fac cl env cs secrets ns (Work r # es) w = do {
     w \<leftarrow> operator_run lib fac cl [r] w;
     system_run lib fac cl env cs secrets ns es w }"

lemma system_run_work:
  "operator_run lib fac cl reqs w = Some w' \<Longrightarrow>
     system_run lib fac cl env cs secrets ns (map Work reqs) w = Some ([], w')"
proof (induction reqs arbitrary: w)
  case (Cons r reqs)
  have "do { v \<leftarrow> operator_run lib fac cl [r] w; operator_run lib fac cl reqs v } = Some w'"
    using Cons.prems operator_run_append [of lib fac cl "[r]" reqs w] by simp
  then obtain v where "operator_run lib fac cl [r] w = Some v" "operator_run lib fac cl reqs v = Some w'"
    unfolding bind_eq_Some_conv by blast
  with Cons.IH show ?case by simp
qed simp

text \<open>There is something to lease, and whatever the server may hand out is in order: it is not under deletion,
  its pool is a regular one of a provider at hand, and it has a machine of it.\<close>

definition open_for_jobs ::
  "'p Provider \<Rightarrow> ('p \<Rightarrow> bool) \<Rightarrow> string set \<Rightarrow> 'p ProviderFactories \<Rightarrow> ('c \<Rightarrow> NamespacedName \<Rightarrow> CIResource option) \<Rightarrow>
   ('c \<Rightarrow> NamespacedName \<Rightarrow> CIPool option) \<Rightarrow> string \<Rightarrow> (CIPool \<Rightarrow> bool) \<Rightarrow> 'c \<Rightarrow> 'p \<Rightarrow> bool" where
  "open_for_jobs P ok ids fac cirs pools ns use c p \<longleftrightarrow>
     ok p \<and> (\<exists>q x. offered cirs pools ns use c q x) \<and>
     (\<forall>q x. offered cirs pools ns use c q x \<longrightarrow>
        IsZero (DeletionTimestamp (C_Meta x)) \<and> rid x \<in> ids \<and> \<not> IsFallbackPool q \<and>
        (\<forall>sec p. ok p \<longrightarrow> NewProvider fac q sec p = Some (Inr P, p)))"

context prompt_cleaner
begin

text \<open>Given back, the resource becomes available in three requests.\<close>

lemma comes_back:
  assumes api: "api_server cl cirs pools" and loan: "on_loan cirs pools q x0 StateInUse StateAvailable c"
    and ok: "ok p" "rid x0 \<in> ids" and regular: "\<not> IsFallbackPool q"
    and fac: "\<forall>sec p. ok p \<longrightarrow> NewProvider fac q sec p = Some (Inr P, p)"
  shows "\<exists>c' p'. operator_run lib (snd_factories fac) (fst_client cl)
        [CirRequest t2 u2 (cir_key x0), CirRequest t3 u3 (cir_key x0), CirRequest t4 u4 (cir_key x0)] (c, p) =
        Some (c', p') \<and> pools c' = pools c \<and> (\<forall>l. l \<noteq> cir_key x0 \<longrightarrow> cirs c' l = cirs c l) \<and>
     on_loan cirs pools q x0 StateAvailable StateAvailable c' \<and> ok p' \<and> free p' = free p"
proof -
  note np = fac [rule_format]
  from loan_request [OF api loan process_given_back [OF np [OF ok(1)]], of lib t2 u2] obtain r1 c1 where
    1: "CIResource_Reconcile lib (snd_factories fac) (fst_client cl) t2 u2 (cir_key x0) (c, p) = Some (r1, c1, p)"
      "pools c1 = pools c" "\<forall>l. l \<noteq> cir_key x0 \<longrightarrow> cirs c1 l = cirs c l"
      "on_loan cirs pools q x0 StateCleaning StateAvailable c1" by blast
  obtain p1 where p1: "Clean P (rid x0) p = Some (None, p1)" "ok p1" "free p1 = free p"
    using cleans [OF ok] by blast
  have "\<exists>d f. Process lib (snd_factories fac) t3 x q sec NewCIResourceFSM (c1, p) =
      Some (((False, True, d, None), modify_status (\<lambda>s. s\<lparr>CStatus_State := StateCleaningWait\<rparr>) x, f), c1, p1)"
    if "status_state x = StateCleaning" "rid x = rid x0" for x sec
    by (rule process_cleaning [OF np [OF ok(1)] that(1) regular]) (simp add: that(2) p1(1))
  from loan_request [OF api 1(4) this, of u3] obtain r2 c2 where
    2: "CIResource_Reconcile lib (snd_factories fac) (fst_client cl) t3 u3 (cir_key x0) (c1, p) = Some (r2, c2, p1)"
      "pools c2 = pools c1" "\<forall>l. l \<noteq> cir_key x0 \<longrightarrow> cirs c2 l = cirs c1 l"
      "on_loan cirs pools q x0 StateCleaningWait StateAvailable c2" by blast
  obtain p2 where p2: "CleanCompleted P (rid x0) p1 = Some ((True, None), p2)" "ok p2" "free p2 = free p1"
    using cleaned [OF p1(2) ok(2)] by blast
  have "\<exists>d f. Process lib (snd_factories fac) t4 x q sec NewCIResourceFSM (c2, p1) =
      Some (((False, True, d, None), modify_status (\<lambda>s. s\<lparr>CStatus_State := StateAvailable\<rparr>) x, f), c2, p2)"
    if "status_state x = StateCleaningWait" "rid x = rid x0" for x sec
    by (rule process_cleaned [OF np [OF p1(2)] that(1) regular]) (simp add: that(2) p2(1))
  from loan_request [OF api 2(4) this, of u4] obtain r3 c3 where
    3: "CIResource_Reconcile lib (snd_factories fac) (fst_client cl) t4 u4 (cir_key x0) (c2, p1) = Some (r3, c3, p2)"
      "pools c3 = pools c2" "\<forall>l. l \<noteq> cir_key x0 \<longrightarrow> cirs c3 l = cirs c2 l"
      "on_loan cirs pools q x0 StateAvailable StateAvailable c3" by blast
  have "operator_run lib (snd_factories fac) (fst_client cl)
      [CirRequest t2 u2 (cir_key x0), CirRequest t3 u3 (cir_key x0), CirRequest t4 u4 (cir_key x0)] (c, p) =
      Some (c3, p2)" using 1(1) 2(1) 3(1) by simp
  moreover have "\<forall>l. l \<noteq> cir_key x0 \<longrightarrow> cirs c3 l = cirs c l" using 1(3) 2(3) 3(3) by metis
  ultimately show ?thesis using 1(2) 2(2) 3(2,4) p1(3) p2(2,3) by metis
qed

end

lemma on_loan_upd:
  assumes "offered cirs pools ns use c q x" "IsZero (DeletionTimestamp (C_Meta x))"
    and "pools c' = pools c" "cirs c' = (cirs c)(cir_key x \<mapsto> versioned_cir v (set_spec_state s x))"
  shows "on_loan cirs pools q x StateAvailable s c'"
proof -
  have "status_state x = StateAvailable" "fst (cir_key x) = Namespace (P_Meta q)"
    using assms(1) by (auto simp: offered_def eligible_def cir_key_def)
  then show ?thesis
    using assms unfolding on_loan_def
    by (intro exI [of _ "versioned_cir v (set_spec_state s x)"]) (simp add: member_at_def same_machine_def offered_def)
qed

text \<open>What is back on offer is what was lent.\<close>

lemma offered_again:
  assumes api: "api_server cl cirs pools" and off: "offered cirs pools ns use c q x"
    and loan: "on_loan cirs pools q x StateAvailable StateAvailable c'" and pools: "pools c' = pools c"
  obtains y where "offered cirs pools ns use c' q y" "cir_key y = cir_key x" "same_machine x y"
    "IsZero (DeletionTimestamp (C_Meta y))"
proof -
  from loan obtain y where y: "member_at cirs pools q (cir_key x) y c'" "same_machine x y"
      "status_state y = StateAvailable" "spec_state y = StateAvailable" by (auto simp: on_loan_def)
  have at: "cirs c' (cir_key x) = Some y" "cir_pool y = pool_name q" "IsZero (DeletionTimestamp (C_Meta y))"
    using y(1) by (simp_all add: member_at_def)
  have key: "cir_key y = cir_key x" using api_get_cir [OF api at(1)] by simp
  then have "Namespace (C_Meta y) = ns" using off by (auto simp: offered_def cir_key_def)
  moreover have "pools c (pool_key q) = Some q" "Namespace (P_Meta q) = ns" "use q"
    using off by (simp_all add: offered_def)
  ultimately have "offered cirs pools ns use c' q y"
    using at y key pools by (simp add: offered_def eligible_def)
  with key y(2) at(3) show thesis by (intro that)
qed

lemma stays_open:
  assumes api: "api_server cl cirs pools" and op: "open_for_jobs P ok ids fac cirs pools ns use c p"
    and off: "offered cirs pools ns use c q x" and loan: "on_loan cirs pools q x StateAvailable StateAvailable c'"
    and pools: "pools c' = pools c" and others: "\<forall>l. l \<noteq> cir_key x \<longrightarrow> cirs c' l = cirs c l" and ok: "ok p'"
  shows "open_for_jobs P ok ids fac cirs pools ns use c' p'"
proof -
  obtain y where y: "offered cirs pools ns use c' q y" "cir_key y = cir_key x" "same_machine x y"
    "IsZero (DeletionTimestamp (C_Meta y))" by (rule offered_again [OF api off loan pools])
  have fine: "IsZero (DeletionTimestamp (C_Meta r)) \<and> rid r \<in> ids \<and> \<not> IsFallbackPool d \<and>
        (\<forall>sec p. ok p \<longrightarrow> NewProvider fac d sec p = Some (Inr P, p))"
    if "offered cirs pools ns use c d r" for d r
    using op that unfolding open_for_jobs_def by blast
  have "IsZero (DeletionTimestamp (C_Meta r)) \<and> rid r \<in> ids \<and> \<not> IsFallbackPool d \<and>
        (\<forall>sec p. ok p \<longrightarrow> NewProvider fac d sec p = Some (Inr P, p))"
    if o: "offered cirs pools ns use c' d r" for d r
  proof (cases "cir_key r = cir_key x")
    case True
    with o y(1,2) have "r = y" by (simp add: offered_def)
    moreover from this have "pool_key d = pool_key q" using o y(1) by (simp add: offered_def pool_key_def)
    then have "d = q" using o y(1) by (simp add: offered_def)
    ultimately show ?thesis using fine [OF off] y(3,4) by (simp add: same_machine_def)
  next
    case False
    then have "offered cirs pools ns use c d r" using o others pools by (simp add: offered_def)
    then show ?thesis by (rule fine)
  qed
  then show ?thesis using y(1) ok unfolding open_for_jobs_def by blast
qed

text \<open>C4 (roundtrip). A job leases a machine from the server and gives it back, with the operator at work in
  between. While something is on offer to its token, the POST is answered 200 with the name of a resource
  that was on offer, and the next request of the operator for it finds it in use; the DELETE of that name is then
  answered 200, and three requests of the operator make it available again, with the machine, the address and the
  finalizers it had. Nothing else changed, the provider has as many machines as before, and the
  server is open for the next job. The two clients are assumed to see one API server that does what it documents, the
  tokens to be readable, the requests not to run into their deadlines, and the provider to clean at once.
  Every resource on offer is assumed not to be under deletion, to belong to a regular pool and to have an
  identifier the provider knows, and the factory to make this one working provider for its pool
  (\<open>open_for_jobs\<close>): a resource under deletion would be handed out too and then deleted, and one of a
  fallback pool loses its machine and address when it comes back.\<close>

theorem job_leases_and_returns:
  assumes "api_server cl cirs pools" and "rest_server rc cirs pools"
    and "tokens_stored secrets tokens" and "unhurried env"
    and "prompt_cleaner P ok ids free"
    and "open_for_jobs P ok ids fac cirs pools ns (may_lease tokens headers query) c p"
  shows "\<exists>q x a c1 c2 p2. offered cirs pools ns (may_lease tokens headers query) c q x \<and> lent a (cir_name x) \<and>
     system_run lib (snd_factories fac) (fst_client cl) env (OfcirV1Client (fst_rest rc)) (fst_secrets secrets) ns
       [Ask (PostCir query) headers, Work (CirRequest t1 u1 (cir_key x))] (c, p) = Some ([a], c1, p) \<and>
     on_loan cirs pools q x StateInUse StateInUse c1 \<and>
     system_run lib (snd_factories fac) (fst_client cl) env (OfcirV1Client (fst_rest rc)) (fst_secrets secrets) ns
       [Ask (DeleteCir (cir_name x)) headers, Work (CirRequest t2 u2 (cir_key x)),
        Work (CirRequest t3 u3 (cir_key x)), Work (CirRequest t4 u4 (cir_key x))] (c1, p) =
       Some ([String StatusOK (cir_name x)], c2, p2) \<and>
     on_loan cirs pools q x StateAvailable StateAvailable c2 \<and>
     pools c2 = pools c \<and> (\<forall>l. l \<noteq> cir_key x \<longrightarrow> cirs c2 l = cirs c l) \<and> free p2 = free p \<and>
     open_for_jobs P ok ids fac cirs pools ns (may_lease tokens headers query) c2 p2"
proof -
  let ?use = "may_lease tokens headers query" and ?cs = "OfcirV1Client (fst_rest rc)"
  let ?run = "system_run lib (snd_factories fac) (fst_client cl) env ?cs (fst_secrets secrets) ns"
  have ok: "ok p" and fine: "\<forall>q x. offered cirs pools ns ?use c q x \<longrightarrow>
        IsZero (DeletionTimestamp (C_Meta x)) \<and> rid x \<in> ids \<and> \<not> IsFallbackPool q \<and>
        (\<forall>sec p. ok p \<longrightarrow> NewProvider fac q sec p = Some (Inr P, p))"
    using assms(6) unfolding open_for_jobs_def by blast+
  obtain q0 x0 where "offered cirs pools ns ?use c q0 x0" using assms(6) unfolding open_for_jobs_def by blast
  moreover have "\<forall>q x. offered cirs pools ns ?use c q x \<longrightarrow> IsZero (DeletionTimestamp (C_Meta x))" using fine by blast
  ultimately obtain q x v c0 g a where off: "offered cirs pools ns ?use c q x"
    and post: "serve env ?cs (fst_secrets secrets) ns (PostCir query) headers (c, p) = (g, c0, p)"
      "Gin_Responses g = [a]" "lent a (cir_name x)" "pools c0 = pools c"
      "cirs c0 = (cirs c)(cir_key x \<mapsto> versioned_cir v (set_spec_state StateInUse x))"
    by (rule served_post [OF assms(2,4,3)])
  have x: "IsZero (DeletionTimestamp (C_Meta x))" "rid x \<in> ids" "\<not> IsFallbackPool q"
      "\<forall>sec p. ok p \<longrightarrow> NewProvider fac q sec p = Some (Inr P, p)" using fine off by blast+
  have key: "cir_key x = (ns, cir_name x)" and use: "may_use tokens headers (pool_name q)"
    using off by (simp_all add: offered_def cir_key_def may_lease_def)
  have loan0: "on_loan cirs pools q x StateAvailable StateInUse c0" by (rule on_loan_upd [OF off x(1) post(4,5)])
  from loan_request [OF assms(1) loan0 process_taken [OF x(4) [rule_format, OF ok]], of lib t1 u1] obtain r1 c1 where
    1: "CIResource_Reconcile lib (snd_factories fac) (fst_client cl) t1 u1 (cir_key x) (c0, p) = Some (r1, c1, p)"
      "pools c1 = pools c0" "\<forall>l. l \<noteq> cir_key x \<longrightarrow> cirs c1 l = cirs c0 l"
      "on_loan cirs pools q x StateInUse StateInUse c1" by blast
  obtain g2 d1 where
    del: "serve env ?cs (fst_secrets secrets) ns (DeleteCir (cir_name x)) headers (c1, p) = (g2, d1, p)"
      "Gin_Responses g2 = [String StatusOK (cir_name x)]" "pools d1 = pools c1" "\<forall>l. l \<noteq> cir_key x \<longrightarrow> cirs d1 l = cirs c1 l"
      "on_loan cirs pools q x StateInUse StateAvailable d1"
    by (rule served_delete [OF assms(1,2,4,3) 1(4) use key])
  from prompt_cleaner.comes_back [OF assms(5,1) del(5) ok x(2,3,4), of lib t2 u2 t3 u3 t4 u4] obtain c2 p2 where
    2: "operator_run lib (snd_factories fac) (fst_client cl)
        [CirRequest t2 u2 (cir_key x), CirRequest t3 u3 (cir_key x), CirRequest t4 u4 (cir_key x)] (d1, p) =
        Some (c2, p2)" "pools c2 = pools d1" "\<forall>l. l \<noteq> cir_key x \<longrightarrow> cirs c2 l = cirs d1 l"
      "on_loan cirs pools q x StateAvailable StateAvailable c2" "ok p2" "free p2 = free p" by blast
  have pools: "pools c2 = pools c" using post(4) 1(2) del(3) 2(2) by simp
  have others: "\<forall>l. l \<noteq> cir_key x \<longrightarrow> cirs c2 l = cirs c l" using post(5) 1(3) del(4) 2(3) by simp
  have "?run [Ask (PostCir query) headers, Work (CirRequest t1 u1 (cir_key x))] (c, p) = Some ([a], c1, p)"
    using post(1,2) 1(1) by simp
  moreover have "?run [Ask (DeleteCir (cir_name x)) headers, Work (CirRequest t2 u2 (cir_key x)),
      Work (CirRequest t3 u3 (cir_key x)), Work (CirRequest t4 u4 (cir_key x))] (c1, p) =
      Some ([String StatusOK (cir_name x)], c2, p2)"
    using system_run_work [OF 2(1), of env ?cs "fst_secrets secrets" ns]
    by (simp only: system_run.simps(2) del(1,2) prod.case list.map Option.bind_lunit append_Nil2)
  moreover note stays_open [OF assms(1,6) off 2(4) pools others 2(5)]
  ultimately show ?thesis using off post(3) 1(4) 2(4,6) pools others by blast
qed

end
