(* ===== verification/Operator_Samples.thy ===== *)
theory Operator_Samples
  imports Operator_Filling Lease_Roundtrip Server_Properties
begin

text \<open>
  A small API server that behaves as \<open>api_server\<close> and \<open>rest_server\<close> ask, a pool of the in-memory provider
  brought to life on it beside a resource of another pool, and a job that leases a machine and gives it
  back.
\<close>

section \<open>A cluster on shelves\<close>

text \<open>The objects, latest first, and the number of the next version. What was written last hides what
  was there before.\<close>

type_synonym shelves = "CIResource list \<times> CIPool list \<times> nat"

definition cir_on :: "shelves \<Rightarrow> NamespacedName \<Rightarrow> CIResource option" where
  "cir_on c k = find (\<lambda>x. cir_key x = k) (fst c)"

definition pool_on :: "shelves \<Rightarrow> NamespacedName \<Rightarrow> CIPool option" where
  "pool_on c k = find (\<lambda>q. pool_key q = k) (fst (snd c))"

definition next_version :: "shelves \<Rightarrow> string" where
  "next_version c = Itoa (int (snd (snd c)))"

definition put_cir :: "CIResource \<Rightarrow> shelves \<Rightarrow> CIResource \<times> shelves" where
  "put_cir x c = (let x = versioned_cir (next_version c) x in
     (x, x # fst c, fst (snd c), Suc (snd (snd c))))"

definition put_pool :: "CIPool \<Rightarrow> shelves \<Rightarrow> CIPool \<times> shelves" where
  "put_pool q c = (let q = versioned_pool (next_version c) q in
     (q, fst c, q # fst (snd c), Suc (snd (snd c))))"

definition missing :: "NamespacedName \<Rightarrow> error" where "missing k = StatusNotFound (snd k)"
definition stale :: "NamespacedName \<Rightarrow> error" where "stale k = StatusConflict (snd k)"

definition shelf_client :: "shelves Client" where
  "shelf_client =
     \<lparr>Get_CIResource = \<lambda>k c. (case cir_on c k of Some x \<Rightarrow> (Inr x, c) | None \<Rightarrow> (Inl (missing k), c)),
      Get_CIPool = \<lambda>k c. (case pool_on c k of Some q \<Rightarrow> (Inr q, c) | None \<Rightarrow> (Inl (missing k), c)),
      Get_Secret = \<lambda>k c. (Inl (missing k), c),
      List_CIResources = \<lambda>ns c.
        ((None, remdups [x \<leftarrow> fst c. Namespace (C_Meta x) = ns \<and> cir_on c (cir_key x) = Some x]), c),
      Create_CIResource = \<lambda>x c.
        (if cir_on c (cir_key x) = None then (None, snd (put_cir (x\<lparr>C_Status := empty_status\<rparr>) c))
         else (Some (stale (cir_key x)), c)),
      Update_CIResource = \<lambda>x c. (case cir_on c (cir_key x) of
          None \<Rightarrow> ((Some (missing (cir_key x)), x), c)
        | Some y \<Rightarrow> (if cir_version x = cir_version y
            then (let r = put_cir (x\<lparr>C_Status := C_Status y\<rparr>) c in ((None, fst r), snd r))
            else ((Some (stale (cir_key x)), x), c))),
      StatusUpdate_CIResource = \<lambda>x c. (case cir_on c (cir_key x) of
          None \<Rightarrow> ((Some (missing (cir_key x)), x), c)
        | Some y \<Rightarrow> (if cir_version x = cir_version y
            then (let r = put_cir (y\<lparr>C_Status := C_Status x\<rparr>) c in ((None, fst r), snd r))
            else ((Some (stale (cir_key x)), x), c))),
      DeleteAllOf_CIResources = \<lambda>ns l c. (Some (StatusOther ''not served''), c),
      Update_CIPool = \<lambda>q c. (case pool_on c (pool_key q) of
          None \<Rightarrow> ((Some (missing (pool_key q)), q), c)
        | Some r \<Rightarrow> (if ResourceVersion (P_Meta q) = ResourceVersion (P_Meta r)
            then (let r = put_pool (q\<lparr>P_Status := P_Status r\<rparr>) c in ((None, fst r), snd r))
            else ((Some (stale (pool_key q)), q), c))),
      StatusUpdate_CIPool = \<lambda>q c. (case pool_on c (pool_key q) of
          None \<Rightarrow> ((Some (missing (pool_key q)), q), c)
        | Some r \<Rightarrow> (if ResourceVersion (P_Meta q) = ResourceVersion (P_Meta r)
            then (let r = put_pool (r\<lparr>P_Status := P_Status q\<rparr>) c in ((None, fst r), snd r))
            else ((Some (stale (pool_key q)), q), c)))\<rparr>"

lemma put_on [simp]:
  "fst (put_cir x c) = versioned_cir (next_version c) x"
  "cir_on (snd (put_cir x c)) = (cir_on c)(cir_key x \<mapsto> versioned_cir (next_version c) x)"
  "pool_on (snd (put_cir x c)) = pool_on c"
  "fst (put_pool q c) = versioned_pool (next_version c) q"
  "pool_on (snd (put_pool q c)) = (pool_on c)(pool_key q \<mapsto> versioned_pool (next_version c) q)"
  "cir_on (snd (put_pool q c)) = cir_on c"
  by (auto simp: put_cir_def put_pool_def cir_on_def pool_on_def Let_def fun_eq_iff)

lemma cir_on_key: "cir_on c k = Some x \<Longrightarrow> cir_key x = k \<and> x \<in> set (fst c)"
  by (auto simp: cir_on_def find_Some_iff)

lemma pool_on_key: "pool_on c k = Some q \<Longrightarrow> pool_key q = k"
  by (auto simp: pool_on_def find_Some_iff)

lemma status_key [simp]: "cir_key (x\<lparr>C_Status := s\<rparr>) = cir_key x"
  by (simp add: cir_key_def)

lemma shelf_reads: "api_reads shelf_client cir_on pool_on"
  unfolding api_reads_def
proof (intro conjI allI impI, goal_cases)
  case (5 c k)
  then show ?case by (auto simp: shelf_client_def missing_def)
next
  case (6 c ns)
  let ?xs = "remdups [x \<leftarrow> fst c. Namespace (C_Meta x) = ns \<and> cir_on c (cir_key x) = Some x]"
  have "inj_on cir_name (set ?xs)"
    by (auto simp: inj_on_def) (metis cir_key_def option.inject)
  then have "distinct (map cir_name ?xs)" by (simp add: distinct_map)
  moreover have "set ?xs = {x. Namespace (C_Meta x) = ns \<and> cir_on c (cir_key x) = Some x}"
    by (auto dest: cir_on_key)
  ultimately show ?case by (auto simp: shelf_client_def)
qed (auto simp: shelf_client_def dest: cir_on_key pool_on_key)

lemma shelf_writes: "api_writes shelf_client cir_on pool_on"
  unfolding api_writes_def
proof (intro conjI allI impI, goal_cases)
  case (1 c x)
  let ?x = "x\<lparr>C_Status := empty_status\<rparr>"
  have "?x = x" using 1(3) by (cases x) simp
  moreover have "cir_on (snd (put_cir ?x c)) = (cir_on c)(cir_key x \<mapsto> versioned_cir (next_version c) ?x)" by simp
  ultimately have "cir_on (snd (put_cir ?x c)) = (cir_on c)(cir_key x \<mapsto> versioned_cir (next_version c) x)"
    by metis
  moreover have "Create_CIResource shelf_client x c = (None, snd (put_cir ?x c))"
    using 1(1) by (simp add: shelf_client_def)
  ultimately show ?case using put_on(3) by blast
next
  case (2 c x y)
  let ?x = "x\<lparr>C_Status := C_Status y\<rparr>"
  have "Update_CIResource shelf_client x c = ((None, fst (put_cir ?x c)), snd (put_cir ?x c))"
    using 2 by (simp add: shelf_client_def Let_def)
  moreover have "cir_on (snd (put_cir ?x c)) = (cir_on c)(cir_key x \<mapsto> versioned_cir (next_version c) ?x)" by simp
  ultimately show ?case using put_on(3) by blast
next
  case (3 c x y)
  let ?x = "y\<lparr>C_Status := C_Status x\<rparr>"
  have "StatusUpdate_CIResource shelf_client x c = ((None, fst (put_cir ?x c)), snd (put_cir ?x c))"
    using 3 by (simp add: shelf_client_def Let_def)
  moreover have "cir_on (snd (put_cir ?x c)) = (cir_on c)(cir_key x \<mapsto> versioned_cir (next_version c) ?x)"
    using cir_on_key [OF 3(1)] by simp
  ultimately show ?case using put_on(3) by blast
next
  case (4 c q r)
  let ?q = "q\<lparr>P_Status := P_Status r\<rparr>"
  have "Update_CIPool shelf_client q c = ((None, fst (put_pool ?q c)), snd (put_pool ?q c))"
    using 4 by (simp add: shelf_client_def Let_def)
  moreover have "pool_on (snd (put_pool ?q c)) = (pool_on c)(pool_key q \<mapsto> versioned_pool (next_version c) ?q)" by simp
  ultimately show ?case using put_on(6) by blast
next
  case (5 c q r)
  let ?q = "r\<lparr>P_Status := P_Status q\<rparr>"
  have "StatusUpdate_CIPool shelf_client q c = ((None, versioned_pool (next_version c) ?q), snd (put_pool ?q c))"
    using 5 by (simp add: shelf_client_def Let_def)
  moreover have "pool_on (snd (put_pool ?q c)) = (pool_on c)(pool_key q \<mapsto> versioned_pool (next_version c) ?q)"
    using pool_on_key [OF 5(1)] by simp
  ultimately show ?case unfolding Let_def using put_on(6) by blast
qed

section \<open>A pool of two\<close>

text \<open>The pool as an administrator creates it, and a resource of another pool that is there before.\<close>

definition young_pool :: CIPool where
  "young_pool = (a_pool StatePoolAvailable 0 2 None)\<lparr>P_Meta := (P_Meta (a_pool StatePoolAvailable 0 2 None))\<lparr>Finalizers := []\<rparr>,
     P_Status := \<lparr>PStatus_State = '''', PStatus_Size = 0, PStatus_LastUpdated = None\<rparr>\<rparr>"

definition stranger :: CIResource where
  "stranger = (a_cir ''cir-0007'' StateInUse StateInUse)\<lparr>C_Spec := (C_Spec (a_cir ''cir-0007'' StateInUse StateInUse))
     \<lparr>CSpec_PoolRef := ''other''\<rparr>\<rparr>"

abbreviation shelves0 :: shelves where "shelves0 \<equiv> ([stranger], [young_pool], 1)"

lemma young_pool_sel [simp]:
  "P_Spec young_pool = P_Spec (a_pool StatePoolAvailable 0 2 None)" "pool_name young_pool = ''pool''"
  "Namespace (P_Meta young_pool) = ''ofcir''" "Finalizers (P_Meta young_pool) = []"
  "DeletionTimestamp (P_Meta young_pool) = None" "PStatus_State (P_Status young_pool) = ''''"
  "PStatus_Size (P_Status young_pool) = 0" "pool_key young_pool = (''ofcir'', ''pool'')"
  by (simp_all add: young_pool_def pool_key_def a_pool_def)

lemma stranger_sel [simp]:
  "cir_key stranger = (''ofcir'', ''cir-0007'')" "cir_name stranger = ''cir-0007''" "cir_pool stranger = ''other''"
  by (simp_all add: stranger_def cir_key_def a_cir_def)

lemma shelf_server: "api_server shelf_client cir_on pool_on"
  by (simp add: api_server_def shelf_reads shelf_writes)

lemma young_NewProvider:
  "P_Spec q' = P_Spec young_pool \<Longrightarrow> dummy_inv p \<Longrightarrow>
     NewProvider demo_fac q' sec p = Some (Inr (dummyProvider name_order), p)"
  by (simp add: dummy_NewProvider ProviderDummy_def)

lemma operator_fills_witness:
  "\<exists>c1. operator_run list_finalizers (snd_factories demo_fac) (fst_client shelf_client)
        [PoolRequest 1 (''ofcir'', ''pool''), PoolRequest 2 (''ofcir'', ''pool''), PoolRequest 3 (''ofcir'', ''pool'')]
        (shelves0, world0) = Some (c1, world0) \<and>
     int (card (member_keys cir_on young_pool c1)) = 2 \<and>
     (\<exists>reqs c2 p2. operator_run list_finalizers (snd_factories demo_fac) (fst_client shelf_client) reqs (c1, world0) =
          Some (c2, p2) \<and> member_keys cir_on young_pool c2 = member_keys cir_on young_pool c1 \<and>
        brought_to_life list_finalizers cir_on (dummy_id ` {..<maxAvailableResources} - dummy_free p2) young_pool
          shelves0 c2)"
proof -
  let ?run = "operator_run list_finalizers (snd_factories demo_fac) (fst_client shelf_client)"
  have "card (dummy_free world0) = 10"
    by (simp add: demo_free card_image inj_on_def maxAvailableResources_def)
  then have free: "PSpec_Size (P_Spec young_pool) \<le> int (card (dummy_free world0))" by simp
  have on: "cir_on shelves0 k = Some x \<longleftrightarrow> x = stranger \<and> k = (''ofcir'', ''cir-0007'')" for k x
    by (auto simp: cir_on_def)
  then have less: "member_keys cir_on young_pool shelves0 = {}" by (auto simp: member_keys_def)
  have "getHighestResourceNumeral [stranger] 0 = 7"
    by (simp add: Atoi_def dec_val_def digit_val_def is_digit_def int64_bounds Let_def)
  with on have room: "room_for cir_on shelves0 young_pool" by (auto simp: room_for_def int64_bounds)
  have new: "new_pool list_finalizers young_pool" by (simp add: new_pool_def IsZero_def)
  have pool: "pool_on shelves0 (''ofcir'', ''pool'') = Some young_pool" by (simp add: pool_on_def)
  have ok: "dummy_inv world0 \<and> visits_once name_order" and size: "PSpec_Size (P_Spec young_pool) = 2"
    and nofin: "\<not> ContainsFinalizer list_finalizers [] OfcirFinalizer" by simp_all
  have regular: "\<not> IsFallbackPool young_pool" by (simp add: IsFallbackPool_def)
  have fac: "\<forall>q' sec p. P_Spec q' = P_Spec young_pool \<longrightarrow> (dummy_inv p \<and> visits_once name_order) \<longrightarrow>
      NewProvider demo_fac q' sec p = Some (Inr (dummyProvider name_order), p)"
    using young_NewProvider by blast
  obtain c1 where 1: "?run [PoolRequest 1 (''ofcir'', ''pool''), PoolRequest 2 (''ofcir'', ''pool''),
        PoolRequest 3 (''ofcir'', ''pool'')] (shelves0, world0) = Some (c1, world0)"
    "int (card (member_keys cir_on young_pool c1)) = 2"
    "\<forall>reqs. about_pool (''ofcir'', ''pool'') (member_keys cir_on young_pool c1) reqs \<longrightarrow>
        (\<forall>k\<in>member_keys cir_on young_pool c1. 4 \<le> requests_for k reqs) \<longrightarrow>
        (\<exists>c2 p2. ?run reqs (c1, world0) = Some (c2, p2) \<and>
           member_keys cir_on young_pool c2 = member_keys cir_on young_pool c1 \<and>
           brought_to_life list_finalizers cir_on (dummy_id ` {..<maxAvailableResources} - dummy_free p2) young_pool
             shelves0 c2)"
    using operator_fills_a_pool [OF shelf_server list_finalizers_laws dummy_prompt.prompt_provider_axioms pool new
        regular less room ok free fac nofin, of 1 2 3] unfolding size by (elim exE conjE) (rule that)
  let ?K = "member_keys cir_on young_pool c1"
  have "finite ?K" using 1(2) by (metis card.infinite int_eq_iff_numeral of_nat_0 zero_neq_numeral)
  then obtain ks where ks: "set ks = ?K" using finite_list by blast
  define reqs where "reqs = concat (map (\<lambda>k. replicate 4 (CirRequest 20 21 k)) ks)"
  have "about_pool (''ofcir'', ''pool'') ?K reqs" using ks by (auto simp: reqs_def about_pool_def)
  moreover have "4 \<le> requests_for k (concat (map (\<lambda>k. replicate 4 (CirRequest 20 21 k)) ls))" if "k \<in> set ls" for k ls
    using that by (induction ls) (auto simp: requests_for_def)
  then have "\<forall>k\<in>?K. 4 \<le> requests_for k reqs" using ks by (simp add: reqs_def)
  ultimately show ?thesis using 1 by blast
qed

section \<open>A job\<close>

text \<open>The paths of the API over the same shelves.\<close>

definition shelf_rest :: "shelves RestClient" where
  "shelf_rest =
     \<lparr>Do_CIPoolList = \<lambda>ctx req c.
        (([q \<leftarrow> fst (snd c). Namespace (P_Meta q) = Req_Namespace req \<and> pool_on c (pool_key q) = Some q], None), c),
      Do_CIPool = \<lambda>ctx req c. (case pool_on c (Req_Namespace req, Req_Name req) of
          Some q \<Rightarrow> ((q, None), c)
        | None \<Rightarrow> ((young_pool, Some (StatusNotFound (Req_Name req))), c)),
      Do_CIResourceList = \<lambda>ctx req c.
        (([x \<leftarrow> fst c. Namespace (C_Meta x) = Req_Namespace req \<and> cir_on c (cir_key x) = Some x], None), c),
      Do_CIResource = \<lambda>ctx req c. (case Req_Body req of
          None \<Rightarrow> (case cir_on c (Req_Namespace req, Req_Name req) of
              Some x \<Rightarrow> ((x, None), c)
            | None \<Rightarrow> ((stranger, Some (StatusNotFound (Req_Name req))), c))
        | Some x \<Rightarrow> (case Update_CIResource shelf_client x c of ((e, x), c) \<Rightarrow> ((x, e), c)))\<rparr>"

lemma shelf_rest_server: "rest_server shelf_rest cir_on pool_on"
  unfolding rest_server_def
proof (intro conjI allI impI, goal_cases)
  case (1 ctx c ns)
  have "q \<in> set (fst (snd c))" if "pool_on c (pool_key q) = Some q" for q
    using that by (auto simp: pool_on_def find_Some_iff)
  then show ?case by (auto simp: shelf_rest_def)
next
  case (2 ctx c ns)
  then show ?case by (auto simp: shelf_rest_def dest: cir_on_key)
next
  case (3 ctx c ns n x)
  then show ?case by (simp add: shelf_rest_def)
next
  case (4 ctx c x y)
  let ?x = "x\<lparr>C_Status := C_Status y\<rparr>"
  have "Do_CIResource shelf_rest ctx (put_cir_of (Namespace (C_Meta x)) (cir_name x) x) c =
      ((fst (put_cir ?x c), None), snd (put_cir ?x c))"
    using 4 by (simp add: shelf_rest_def shelf_client_def Let_def)
  moreover have "cir_on (snd (put_cir ?x c)) = (cir_on c)(cir_key x \<mapsto> versioned_cir (next_version c) ?x)" by simp
  ultimately show ?case using put_on(3) by blast
qed

text \<open>A pool with one member that waits for a job, and the stranger.\<close>

abbreviation open_pool :: CIPool where "open_pool \<equiv> a_pool StatePoolAvailable 0 1 None"
abbreviation spare_cir :: CIResource where "spare_cir \<equiv> a_cir ''cir-0001'' StateAvailable StateAvailable"
abbreviation shelves1 :: shelves where "shelves1 \<equiv> ([stranger, spare_cir], [open_pool], 2)"
abbreviation demo_tokens :: "string \<rightharpoonup> string" where "demo_tokens \<equiv> [''token'' \<mapsto> ''pool'']"

lemma demo_may_lease:
  "may_lease demo_tokens token_header None q \<longleftrightarrow> PSpec_Type (P_Spec q) = TypeCIHost \<and> pool_name q = ''pool''"
proof -
  have "asked_types None = [TypeCIHost]"
    by (simp add: asked_types_def NewAcquireCmd_types_def TypeCIHost_def)
  then show ?thesis
    by (simp add: may_lease_def may_use_def allowed_pools_def token_pools_def TrimSpace_pool)
qed

lemma spare_cir_key: "cir_key spare_cir = (''ofcir'', ''cir-0001'')" by (simp add: cir_key_def)

lemma shelves1_offers:
  "offered cir_on pool_on ''ofcir'' (may_lease demo_tokens token_header None) shelves1 q x \<longleftrightarrow>
     q = open_pool \<and> x = spare_cir"
proof -
  have pool: "pool_on shelves1 k = Some q \<longleftrightarrow> q = open_pool \<and> k = (''ofcir'', ''pool'')" for k q
    by (auto simp: pool_on_def pool_key_def a_pool_def)
  have cir: "cir_on shelves1 k = Some x \<longleftrightarrow> x = stranger \<and> k = (''ofcir'', ''cir-0007'') \<or>
      x = spare_cir \<and> k = (''ofcir'', ''cir-0001'')" for k x
    by (auto simp: cir_on_def spare_cir_key)
  have "pool_key open_pool = (''ofcir'', ''pool'')" "Namespace (P_Meta open_pool) = ''ofcir''"
    by (simp_all add: pool_key_def a_pool_def)
  moreover have "eligible spare_cir" "\<not> cir_pool stranger = ''pool''" by (simp_all add: eligible_def)
  ultimately show ?thesis
    using spare_cir_key by (auto simp: offered_def pool cir demo_may_lease)
qed

lemma job_witness:
  "\<exists>a c1 c2 p2. lent a ''cir-0001'' \<and>
     system_run list_finalizers (snd_factories demo_fac) (fst_client shelf_client) calm
       (OfcirV1Client (fst_rest shelf_rest)) (fst_secrets fixed_secrets) ''ofcir''
       [Ask (PostCir None) token_header, Work (CirRequest 20 21 (''ofcir'', ''cir-0001''))] (shelves1, world0) =
       Some ([a], c1, world0) \<and>
     on_loan cir_on pool_on open_pool spare_cir StateInUse StateInUse c1 \<and>
     system_run list_finalizers (snd_factories demo_fac) (fst_client shelf_client) calm
       (OfcirV1Client (fst_rest shelf_rest)) (fst_secrets fixed_secrets) ''ofcir''
       [Ask (DeleteCir ''cir-0001'') token_header, Work (CirRequest 30 31 (''ofcir'', ''cir-0001'')),
        Work (CirRequest 40 41 (''ofcir'', ''cir-0001'')), Work (CirRequest 50 51 (''ofcir'', ''cir-0001''))] (c1, world0) =
       Some ([String StatusOK ''cir-0001''], c2, p2) \<and>
     on_loan cir_on pool_on open_pool spare_cir StateAvailable StateAvailable c2"
proof -
  have env: "unhurried calm" by (simp add: unhurried_def calm_def Second_def)
  have tok: "tokens_stored fixed_secrets demo_tokens" by (simp add: tokens_stored_def fixed_secrets_def)
  have "dummy_id 1 = ''dummy-1''" by (simp add: dummy_id_def Itoa_def digits.simps digit_def char_of_def bit_0)
  then have "''dummy-1'' \<in> dummy_id ` {..<maxAvailableResources}"
    by (intro image_eqI [of _ _ 1]) (simp_all add: maxAvailableResources_def)
  then have "open_for_jobs (dummyProvider name_order) (\<lambda>p. dummy_inv p \<and> visits_once name_order)
      (dummy_id ` {..<maxAvailableResources}) demo_fac cir_on pool_on ''ofcir''
      (may_lease demo_tokens token_header None) shelves1 world0"
    by (simp add: open_for_jobs_def shelves1_offers IsZero_def IsFallbackPool_def dummy_NewProvider ProviderDummy_def)
  from job_leases_and_returns [OF shelf_server shelf_rest_server tok env dummy_cleans.prompt_cleaner_axioms this,
      of list_finalizers 20 21 30 31 40 41 50 51]
  show ?thesis unfolding shelves1_offers by (auto simp: spare_cir_key)
qed

end
