(* ===== verification/Deep_Copy.thy ===== *)
theory Deep_Copy
  imports Api_Types
begin

text \<open>
  The deep copies of \<open>api/v1/zz_generated.deepcopy.go\<close>, over an explicit memory: an address is an
  index into the list of the cells allocated so far, a pointer of a struct is an address or \<open>nil\<close>,
  and an array of structs is a run of consecutive cells. The structs of this theory are those of
  the API types with their pointers kept: the label map, the finalizer slice, the deletion
  timestamp and the time of the last update are addresses. \<open>metav1.Time.DeepCopy\<close> and the
  \<open>DeepCopyInto\<close> of \<open>metav1.ObjectMeta\<close> and \<open>metav1.ListMeta\<close> are the library's: the record
  \<open>apimachinery\<close> holds them, and the theorems of \<open>Deep_Copy_Properties\<close> state what they assume of
  them. A slice of structs is the address of its first element and its length.
\<close>

section \<open>Memory\<close>

type_synonym addr = nat
type_synonym slice = "(addr \<times> nat) option"

record TypeMeta =
  Kind :: string
  APIVersion :: string

text \<open>The fields of \<open>metav1.ObjectMeta\<close> and \<open>metav1.ListMeta\<close> as the memory holds them.\<close>

record ObjectMetaRep =
  MR_Name :: string
  MR_Namespace :: string
  MR_Labels :: "addr option"
  MR_Finalizers :: "addr option"
  MR_DeletionTimestamp :: "addr option"
  MR_ResourceVersion :: string

record ListMetaRep =
  LR_ResourceVersion :: string
  LR_Continue :: string
  LR_RemainingItemCount :: "addr option"

record CIPoolStatusRep =
  PSR_State :: CIPoolState
  PSR_Size :: int
  PSR_LastUpdated :: "addr option"

record CIPoolRep =
  PR_TypeMeta :: TypeMeta
  PR_ObjectMeta :: ObjectMetaRep
  PR_Spec :: CIPoolSpec
  PR_Status :: CIPoolStatusRep

record CIPoolListRep =
  PL_TypeMeta :: TypeMeta
  PL_ListMeta :: ListMetaRep
  PL_Items :: slice

record CIResourceStatusRep =
  CSR_ResourceId :: string
  CSR_Address :: string
  CSR_ProviderInfo :: string
  CSR_Extra :: string
  CSR_State :: CIResourceState
  CSR_LastUpdated :: "addr option"

record CIResourceRep =
  CR_TypeMeta :: TypeMeta
  CR_ObjectMeta :: ObjectMetaRep
  CR_Spec :: CIResourceSpec
  CR_Status :: CIResourceStatusRep

record CIResourceListRep =
  CL_TypeMeta :: TypeMeta
  CL_ListMeta :: ListMetaRep
  CL_Items :: slice

text \<open>A cell holds one struct, or one of the library's values a pointer leads to.\<close>

datatype cell =
    TimeCell Time
  | IntCell int
  | LabelsCell "string \<rightharpoonup> string"
  | StringsCell "string list"
  | PoolSpecCell CIPoolSpec
  | PoolStatusCell CIPoolStatusRep
  | PoolCell CIPoolRep
  | PoolListCell CIPoolListRep
  | ResourceSpecCell CIResourceSpec
  | ResourceStatusCell CIResourceStatusRep
  | ResourceCell CIResourceRep
  | ResourceListCell CIResourceListRep

type_synonym memory = "cell list"

definition load :: "memory \<Rightarrow> addr \<Rightarrow> cell option" where
  "load h a = (if a < length h then Some (h ! a) else None)"

text \<open>The struct of one type in a cell; a cell of another type has none.\<close>

fun as_pool_spec where
  "as_pool_spec (PoolSpecCell x) = Some x" | "as_pool_spec _ = None"
fun as_pool_status where
  "as_pool_status (PoolStatusCell x) = Some x" | "as_pool_status _ = None"
fun as_pool where
  "as_pool (PoolCell x) = Some x" | "as_pool _ = None"
fun as_pool_list where
  "as_pool_list (PoolListCell x) = Some x" | "as_pool_list _ = None"
fun as_resource_spec where
  "as_resource_spec (ResourceSpecCell x) = Some x" | "as_resource_spec _ = None"
fun as_resource_status where
  "as_resource_status (ResourceStatusCell x) = Some x" | "as_resource_status _ = None"
fun as_resource where
  "as_resource (ResourceCell x) = Some x" | "as_resource _ = None"
fun as_resource_list where
  "as_resource_list (ResourceListCell x) = Some x" | "as_resource_list _ = None"
fun as_time where
  "as_time (TimeCell x) = Some x" | "as_time _ = None"
fun as_int where
  "as_int (IntCell x) = Some x" | "as_int _ = None"
fun as_labels where
  "as_labels (LabelsCell x) = Some x" | "as_labels _ = None"
fun as_strings where
  "as_strings (StringsCell x) = Some x" | "as_strings _ = None"

text \<open>The zero values \<open>new(T)\<close> and \<open>make([]T, n)\<close> fill memory with.\<close>

definition zero_TypeMeta :: TypeMeta where
  "zero_TypeMeta = \<lparr>Kind = '''', APIVersion = ''''\<rparr>"
definition zero_ObjectMeta :: ObjectMetaRep where
  "zero_ObjectMeta = \<lparr>MR_Name = '''', MR_Namespace = '''', MR_Labels = None, MR_Finalizers = None,
     MR_DeletionTimestamp = None, MR_ResourceVersion = ''''\<rparr>"
definition zero_ListMeta :: ListMetaRep where
  "zero_ListMeta = \<lparr>LR_ResourceVersion = '''', LR_Continue = '''', LR_RemainingItemCount = None\<rparr>"
definition zero_CIPoolSpec :: CIPoolSpec where
  "zero_CIPoolSpec = \<lparr>PSpec_Provider = '''', PSpec_Priority = 0, PSpec_Size = 0,
     PSpec_ProviderInfo = '''', PSpec_Timeout = 0, PSpec_State = '''', PSpec_Type = ''''\<rparr>"
definition zero_CIPoolStatus :: CIPoolStatusRep where
  "zero_CIPoolStatus = \<lparr>PSR_State = '''', PSR_Size = 0, PSR_LastUpdated = None\<rparr>"
definition zero_CIPool :: CIPoolRep where
  "zero_CIPool = \<lparr>PR_TypeMeta = zero_TypeMeta, PR_ObjectMeta = zero_ObjectMeta,
     PR_Spec = zero_CIPoolSpec, PR_Status = zero_CIPoolStatus\<rparr>"
definition zero_CIPoolList :: CIPoolListRep where
  "zero_CIPoolList =
     \<lparr>PL_TypeMeta = zero_TypeMeta, PL_ListMeta = zero_ListMeta, PL_Items = None\<rparr>"
definition zero_CIResourceSpec :: CIResourceSpec where
  "zero_CIResourceSpec =
     \<lparr>CSpec_PoolRef = '''', CSpec_State = '''', CSpec_Extra = '''', CSpec_Type = ''''\<rparr>"
definition zero_CIResourceStatus :: CIResourceStatusRep where
  "zero_CIResourceStatus = \<lparr>CSR_ResourceId = '''', CSR_Address = '''', CSR_ProviderInfo = '''',
     CSR_Extra = '''', CSR_State = '''', CSR_LastUpdated = None\<rparr>"
definition zero_CIResource :: CIResourceRep where
  "zero_CIResource = \<lparr>CR_TypeMeta = zero_TypeMeta, CR_ObjectMeta = zero_ObjectMeta,
     CR_Spec = zero_CIResourceSpec, CR_Status = zero_CIResourceStatus\<rparr>"
definition zero_CIResourceList :: CIResourceListRep where
  "zero_CIResourceList =
     \<lparr>CL_TypeMeta = zero_TypeMeta, CL_ListMeta = zero_ListMeta, CL_Items = None\<rparr>"

text \<open>The library's copies: \<open>metav1.Time.DeepCopy\<close> of a non-nil pointer, and the metadata's.\<close>

record apimachinery =
  Time_DeepCopy :: "addr \<Rightarrow> (memory, addr) go"
  ObjectMeta_DeepCopyInto :: "ObjectMetaRep \<Rightarrow> (memory, ObjectMetaRep) go"
  ListMeta_DeepCopyInto :: "ListMetaRep \<Rightarrow> (memory, ListMetaRep) go"

section \<open>The generated functions\<close>

text \<open>
  \<open>in.DeepCopyInto(out)\<close> assigns every field of the struct \<open>out\<close> points to and reads only
  \<open>*in\<close>: it is a function from the struct \<open>*in\<close> to the struct it leaves in \<open>*out\<close>, with the memory
  it allocates. \<open>copy_into\<close> applies it between two cells, as a call through two pointers does,
  and \<open>new_copy\<close> is the body the generated \<open>DeepCopy\<close> functions share: \<open>nil\<close> for \<open>nil\<close>,
  otherwise a new zero struct, filled by \<open>DeepCopyInto\<close>.
\<close>

definition copy_into ::
  "(cell \<Rightarrow> 'a option) \<Rightarrow> ('a \<Rightarrow> cell) \<Rightarrow> ('a \<Rightarrow> (memory, 'a) go) \<Rightarrow> addr \<Rightarrow> addr \<Rightarrow> memory \<Rightarrow>
   memory option" where
  "copy_into un mk DeepCopyInto a out h = do {
     c \<leftarrow> load h a;
     x \<leftarrow> un c;
     (y, h) \<leftarrow> DeepCopyInto x h;
     Some (h[out := mk y]) }"

definition new_copy ::
  "(cell \<Rightarrow> 'a option) \<Rightarrow> ('a \<Rightarrow> cell) \<Rightarrow> 'a \<Rightarrow> ('a \<Rightarrow> (memory, 'a) go) \<Rightarrow> addr option \<Rightarrow>
   (memory, addr option) go" where
  "new_copy un mk zero DeepCopyInto inp h =
     (case inp of
        None \<Rightarrow> Some (None, h)
      | Some a \<Rightarrow> do {
          let out = length h;
          h \<leftarrow> copy_into un mk DeepCopyInto a out (h @ [mk zero]);
          Some (Some out, h) })"

text \<open>The loop \<open>for i := range *in\<close> over the elements of two arrays.\<close>

fun copy_items :: "(addr \<Rightarrow> addr \<Rightarrow> memory \<Rightarrow> memory option) \<Rightarrow> addr \<Rightarrow> addr \<Rightarrow> nat \<Rightarrow> memory \<Rightarrow>
    memory option" where
  "copy_items item a out 0 h = Some h"
| "copy_items item a out (Suc n) h = do {
     h \<leftarrow> item a out h;
     copy_items item (Suc a) (Suc out) n h }"

definition copy_slice ::
  "(cell \<Rightarrow> 'a option) \<Rightarrow> ('a \<Rightarrow> cell) \<Rightarrow> 'a \<Rightarrow> ('a \<Rightarrow> (memory, 'a) go) \<Rightarrow> slice \<Rightarrow>
   (memory, slice) go" where
  "copy_slice un mk zero DeepCopyInto items h =
     (case items of
        None \<Rightarrow> Some (None, h)
      | Some (a, n) \<Rightarrow> do {
          let out = length h;
          h \<leftarrow> copy_items (copy_into un mk DeepCopyInto) a out n (h @ replicate n (mk zero));
          Some (Some (out, n), h) })"

subsection \<open>Pools\<close>

definition CIPoolSpec_DeepCopyInto :: "CIPoolSpec \<Rightarrow> (memory, CIPoolSpec) go" where
  "CIPoolSpec_DeepCopyInto x h =
     (let out = x; out = out\<lparr>PSpec_Timeout := PSpec_Timeout x\<rparr> in Some (out, h))"

definition CIPoolSpec_DeepCopy :: "addr option \<Rightarrow> (memory, addr option) go" where
  "CIPoolSpec_DeepCopy = new_copy as_pool_spec PoolSpecCell zero_CIPoolSpec CIPoolSpec_DeepCopyInto"

definition CIPoolStatus_DeepCopyInto ::
  "apimachinery \<Rightarrow> CIPoolStatusRep \<Rightarrow> (memory, CIPoolStatusRep) go" where
  "CIPoolStatus_DeepCopyInto L x h =
     (let out = x in
      case PSR_LastUpdated x of
        None \<Rightarrow> Some (out, h)
      | Some t \<Rightarrow> do {
          (t, h) \<leftarrow> Time_DeepCopy L t h;
          Some (out\<lparr>PSR_LastUpdated := Some t\<rparr>, h) })"

definition CIPoolStatus_DeepCopy :: "apimachinery \<Rightarrow> addr option \<Rightarrow> (memory, addr option) go" where
  "CIPoolStatus_DeepCopy L =
     new_copy as_pool_status PoolStatusCell zero_CIPoolStatus (CIPoolStatus_DeepCopyInto L)"

definition CIPool_DeepCopyInto :: "apimachinery \<Rightarrow> CIPoolRep \<Rightarrow> (memory, CIPoolRep) go" where
  "CIPool_DeepCopyInto L x h = do {
     let out = x;
     let out = out\<lparr>PR_TypeMeta := PR_TypeMeta x\<rparr>;
     (m, h) \<leftarrow> ObjectMeta_DeepCopyInto L (PR_ObjectMeta x) h;
     let out = out\<lparr>PR_ObjectMeta := m\<rparr>;
     let out = out\<lparr>PR_Spec := PR_Spec x\<rparr>;
     (s, h) \<leftarrow> CIPoolStatus_DeepCopyInto L (PR_Status x) h;
     Some (out\<lparr>PR_Status := s\<rparr>, h) }"

definition CIPool_DeepCopy :: "apimachinery \<Rightarrow> addr option \<Rightarrow> (memory, addr option) go" where
  "CIPool_DeepCopy L = new_copy as_pool PoolCell zero_CIPool (CIPool_DeepCopyInto L)"

definition CIPoolList_DeepCopyInto ::
  "apimachinery \<Rightarrow> CIPoolListRep \<Rightarrow> (memory, CIPoolListRep) go" where
  "CIPoolList_DeepCopyInto L x h = do {
     let out = x;
     let out = out\<lparr>PL_TypeMeta := PL_TypeMeta x\<rparr>;
     (m, h) \<leftarrow> ListMeta_DeepCopyInto L (PL_ListMeta x) h;
     let out = out\<lparr>PL_ListMeta := m\<rparr>;
     (s, h) \<leftarrow> copy_slice as_pool PoolCell zero_CIPool (CIPool_DeepCopyInto L) (PL_Items x) h;
     Some (out\<lparr>PL_Items := s\<rparr>, h) }"

definition CIPoolList_DeepCopy :: "apimachinery \<Rightarrow> addr option \<Rightarrow> (memory, addr option) go" where
  "CIPoolList_DeepCopy L =
     new_copy as_pool_list PoolListCell zero_CIPoolList (CIPoolList_DeepCopyInto L)"

subsection \<open>Resources\<close>

definition CIResourceSpec_DeepCopyInto :: "CIResourceSpec \<Rightarrow> (memory, CIResourceSpec) go" where
  "CIResourceSpec_DeepCopyInto x h =
     (let out = x; out = out\<lparr>CSpec_PoolRef := CSpec_PoolRef x\<rparr> in Some (out, h))"

definition CIResourceSpec_DeepCopy :: "addr option \<Rightarrow> (memory, addr option) go" where
  "CIResourceSpec_DeepCopy =
     new_copy as_resource_spec ResourceSpecCell zero_CIResourceSpec CIResourceSpec_DeepCopyInto"

definition CIResourceStatus_DeepCopyInto ::
  "apimachinery \<Rightarrow> CIResourceStatusRep \<Rightarrow> (memory, CIResourceStatusRep) go" where
  "CIResourceStatus_DeepCopyInto L x h =
     (let out = x in
      case CSR_LastUpdated x of
        None \<Rightarrow> Some (out, h)
      | Some t \<Rightarrow> do {
          (t, h) \<leftarrow> Time_DeepCopy L t h;
          Some (out\<lparr>CSR_LastUpdated := Some t\<rparr>, h) })"

definition CIResourceStatus_DeepCopy ::
  "apimachinery \<Rightarrow> addr option \<Rightarrow> (memory, addr option) go" where
  "CIResourceStatus_DeepCopy L =
     new_copy as_resource_status ResourceStatusCell zero_CIResourceStatus
       (CIResourceStatus_DeepCopyInto L)"

definition CIResource_DeepCopyInto ::
  "apimachinery \<Rightarrow> CIResourceRep \<Rightarrow> (memory, CIResourceRep) go" where
  "CIResource_DeepCopyInto L x h = do {
     let out = x;
     let out = out\<lparr>CR_TypeMeta := CR_TypeMeta x\<rparr>;
     (m, h) \<leftarrow> ObjectMeta_DeepCopyInto L (CR_ObjectMeta x) h;
     let out = out\<lparr>CR_ObjectMeta := m\<rparr>;
     let out = out\<lparr>CR_Spec := CR_Spec x\<rparr>;
     (s, h) \<leftarrow> CIResourceStatus_DeepCopyInto L (CR_Status x) h;
     Some (out\<lparr>CR_Status := s\<rparr>, h) }"

definition CIResource_DeepCopy :: "apimachinery \<Rightarrow> addr option \<Rightarrow> (memory, addr option) go" where
  "CIResource_DeepCopy L =
     new_copy as_resource ResourceCell zero_CIResource (CIResource_DeepCopyInto L)"

definition CIResourceList_DeepCopyInto ::
  "apimachinery \<Rightarrow> CIResourceListRep \<Rightarrow> (memory, CIResourceListRep) go" where
  "CIResourceList_DeepCopyInto L x h = do {
     let out = x;
     let out = out\<lparr>CL_TypeMeta := CL_TypeMeta x\<rparr>;
     (m, h) \<leftarrow> ListMeta_DeepCopyInto L (CL_ListMeta x) h;
     let out = out\<lparr>CL_ListMeta := m\<rparr>;
     (s, h) \<leftarrow> copy_slice as_resource ResourceCell zero_CIResource
       (CIResource_DeepCopyInto L) (CL_Items x) h;
     Some (out\<lparr>CL_Items := s\<rparr>, h) }"

definition CIResourceList_DeepCopy :: "apimachinery \<Rightarrow> addr option \<Rightarrow> (memory, addr option) go" where
  "CIResourceList_DeepCopy L =
     new_copy as_resource_list ResourceListCell zero_CIResourceList (CIResourceList_DeepCopyInto L)"

subsection \<open>Objects\<close>

text \<open>\<open>DeepCopyObject\<close> wraps the pointer in an interface value. A \<open>nil\<close> pointer becomes the
  \<open>nil\<close> interface, not an interface that holds a \<open>nil\<close> pointer.\<close>

datatype api_object =
    CIPoolObject addr
  | CIPoolListObject addr
  | CIResourceObject addr
  | CIResourceListObject addr

definition CIPool_DeepCopyObject ::
  "apimachinery \<Rightarrow> addr option \<Rightarrow> (memory, api_object option) go" where
  "CIPool_DeepCopyObject L inp h = do {
     (c, h) \<leftarrow> CIPool_DeepCopy L inp h;
     Some (case c of Some c \<Rightarrow> Some (CIPoolObject c) | None \<Rightarrow> None, h) }"

definition CIPoolList_DeepCopyObject ::
  "apimachinery \<Rightarrow> addr option \<Rightarrow> (memory, api_object option) go" where
  "CIPoolList_DeepCopyObject L inp h = do {
     (c, h) \<leftarrow> CIPoolList_DeepCopy L inp h;
     Some (case c of Some c \<Rightarrow> Some (CIPoolListObject c) | None \<Rightarrow> None, h) }"

definition CIResource_DeepCopyObject ::
  "apimachinery \<Rightarrow> addr option \<Rightarrow> (memory, api_object option) go" where
  "CIResource_DeepCopyObject L inp h = do {
     (c, h) \<leftarrow> CIResource_DeepCopy L inp h;
     Some (case c of Some c \<Rightarrow> Some (CIResourceObject c) | None \<Rightarrow> None, h) }"

definition CIResourceList_DeepCopyObject ::
  "apimachinery \<Rightarrow> addr option \<Rightarrow> (memory, api_object option) go" where
  "CIResourceList_DeepCopyObject L inp h = do {
     (c, h) \<leftarrow> CIResourceList_DeepCopy L inp h;
     Some (case c of Some c \<Rightarrow> Some (CIResourceListObject c) | None \<Rightarrow> None, h) }"

end
