(* ===== verification/Deep_Copy_Properties.thy ===== *)
theory Deep_Copy_Properties
  imports Deep_Copy
begin

text \<open>
  That the generated copies of \<open>Deep_Copy\<close> are deep. A copy is judged by the \<^emph>\<open>view\<close> of a struct in
  a memory: the value it stands for, with all pointers followed, and the set of the cells that value
  rests on. The locale \<open>deep_copier\<close> is the contract of a copy; it is interpreted on the copies of
  the two specs, which hold no pointer, and lemmas build it up through pointers, structs with
  two parts that hold pointers, and arrays.
\<close>

section \<open>Views\<close>


type_synonym ('a, 'v) view = "memory \<Rightarrow> 'a \<Rightarrow> ('v \<times> addr set) option"

definition plain :: "('a, 'a) view" where
  "plain h x = Some (x, {})"

text \<open>A struct behind a non-nil pointer, and behind a pointer that may be \<open>nil\<close>.\<close>

definition pointee :: "(cell \<Rightarrow> 'a option) \<Rightarrow> ('a, 'v) view \<Rightarrow> (addr, 'v) view" where
  "pointee un V h a = do {
     c \<leftarrow> load h a;
     x \<leftarrow> un c;
     (v, R) \<leftarrow> V h x;
     Some (v, insert a R) }"

definition if_any :: "('a, 'v) view \<Rightarrow> ('a option, 'v option) view" where
  "if_any V h p =
     (case p of None \<Rightarrow> Some (None, {}) | Some a \<Rightarrow> do { (v, R) \<leftarrow> V h a; Some (Some v, R) })"

text \<open>A struct with two parts that hold pointers; \<open>f\<close> puts the value together.\<close>

definition parts ::
  "('x \<Rightarrow> 'a) \<Rightarrow> ('a, 'u) view \<Rightarrow> ('x \<Rightarrow> 'b) \<Rightarrow> ('b, 'v) view \<Rightarrow> ('x \<Rightarrow> 'u \<Rightarrow> 'v \<Rightarrow> 'y) \<Rightarrow>
   ('x, 'y) view" where
  "parts p V q W f h x = do {
     (u, R) \<leftarrow> V h (p x);
     (v, S) \<leftarrow> W h (q x);
     Some (f x u v, R \<union> S) }"

text \<open>The elements of an array.\<close>

fun items :: "(addr, 'v) view \<Rightarrow> memory \<Rightarrow> addr \<Rightarrow> nat \<Rightarrow> ('v list \<times> addr set) option" where
  "items V h a 0 = Some ([], {})"
| "items V h a (Suc n) = do {
     (v, R) \<leftarrow> V h a;
     (vs, S) \<leftarrow> items V h (Suc a) n;
     Some (v # vs, R \<union> S) }"

definition elements :: "(addr, 'v) view \<Rightarrow> (slice, 'v list option) view" where
  "elements V = if_any (\<lambda>h (a, n). items V h a n)"

text \<open>The API objects: an abstract struct is that of \<open>Api_Types\<close>, with its type metadata.\<close>

abbreviation time_view :: "(addr, Time) view" where "time_view \<equiv> pointee as_time plain"


definition ObjectMeta_view :: "(ObjectMetaRep, ObjectMeta) view" where
  "ObjectMeta_view =
     parts (\<lambda>m. (MR_Labels m, MR_Finalizers m))
       (parts fst (if_any (pointee as_labels plain)) snd (if_any (pointee as_strings plain)) (\<lambda>_. Pair))
       MR_DeletionTimestamp (if_any time_view)
       (\<lambda>m (ls, fs) d. \<lparr>Name = MR_Name m, Namespace = MR_Namespace m, Labels = ls,
          Finalizers = (case fs of None \<Rightarrow> [] | Some fs \<Rightarrow> fs), DeletionTimestamp = d,
          ResourceVersion = MR_ResourceVersion m\<rparr>)"

definition ListMeta_view :: "(ListMetaRep, string \<times> string \<times> int option) view" where
  "ListMeta_view h m = do {
     (n, A) \<leftarrow> if_any (pointee as_int plain) h (LR_RemainingItemCount m);
     Some ((LR_ResourceVersion m, LR_Continue m, n), A) }"

definition CIPoolStatus_view :: "(CIPoolStatusRep, CIPoolStatus) view" where
  "CIPoolStatus_view h s = do {
     (t, A) \<leftarrow> if_any time_view h (PSR_LastUpdated s);
     Some (\<lparr>PStatus_State = PSR_State s, PStatus_Size = PSR_Size s, PStatus_LastUpdated = t\<rparr>, A) }"

definition CIResourceStatus_view :: "(CIResourceStatusRep, CIResourceStatus) view" where
  "CIResourceStatus_view h s = do {
     (t, A) \<leftarrow> if_any time_view h (CSR_LastUpdated s);
     Some (\<lparr>CStatus_ResourceId = CSR_ResourceId s, CStatus_Address = CSR_Address s,
            CStatus_ProviderInfo = CSR_ProviderInfo s, CStatus_Extra = CSR_Extra s,
            CStatus_State = CSR_State s, CStatus_LastUpdated = t\<rparr>, A) }"

definition CIPool_view :: "(CIPoolRep, TypeMeta \<times> CIPool) view" where
  "CIPool_view = parts PR_ObjectMeta ObjectMeta_view PR_Status CIPoolStatus_view
     (\<lambda>x m s. (PR_TypeMeta x, \<lparr>P_Meta = m, P_Spec = PR_Spec x, P_Status = s\<rparr>))"

definition CIResource_view :: "(CIResourceRep, TypeMeta \<times> CIResource) view" where
  "CIResource_view = parts CR_ObjectMeta ObjectMeta_view CR_Status CIResourceStatus_view
     (\<lambda>x m s. (CR_TypeMeta x, \<lparr>C_Meta = m, C_Spec = CR_Spec x, C_Status = s\<rparr>))"

definition CIPoolList_view ::
  "(CIPoolListRep, TypeMeta \<times> (string \<times> string \<times> int option) \<times> (TypeMeta \<times> CIPool) list option) view"
where
  "CIPoolList_view = parts PL_ListMeta ListMeta_view PL_Items (elements (pointee as_pool CIPool_view))
     (\<lambda>x m ps. (PL_TypeMeta x, m, ps))"

definition CIResourceList_view ::
  "(CIResourceListRep,
    TypeMeta \<times> (string \<times> string \<times> int option) \<times> (TypeMeta \<times> CIResource) list option) view" where
  "CIResourceList_view =
     parts CL_ListMeta ListMeta_view CL_Items (elements (pointee as_resource CIResource_view))
       (\<lambda>x m cs. (CL_TypeMeta x, m, cs))"

section \<open>What a deep copy is\<close>

text \<open>
  The contract of a copy: a view reads no cell outside those it reports, and the copy of a value
  has the same view, in a memory that only grew, resting on new cells alone.
\<close>

locale framed =
  fixes V :: "('a, 'v) view"
  assumes allocated: "V h x = Some (v, R) \<Longrightarrow> R \<subseteq> {..<length h}"
    and rests_on:
      "V h x = Some (v, R) \<Longrightarrow> (\<And>a. a \<in> R \<Longrightarrow> load h' a = load h a) \<Longrightarrow> V h' x = Some (v, R)"

locale deep_copier = framed V for V :: "('a, 'v) view" +
  fixes copy :: "'a \<Rightarrow> (memory, 'a) go"
  assumes copies:
    "V h x = Some (v, R) \<Longrightarrow> \<exists>y k S. copy x h = Some (y, h @ k) \<and> V (h @ k) y = Some (v, S) \<and>
       S \<subseteq> {length h..<length (h @ k)}"

lemma load_append [simp]: "a < length h \<Longrightarrow> load (h @ k) a = load h a"
  by (simp add: load_def nth_append)

lemma load_update_other [simp]: "a \<noteq> b \<Longrightarrow> load (h[b := c]) a = load h a"
  by (simp add: load_def)

context framed
begin

lemma grows: "V h x = Some (v, R) \<Longrightarrow> V (h @ k) x = Some (v, R)"
  by (rule rests_on) (use allocated in fastforce)+

lemma write_elsewhere: "V h x = Some (v, R) \<Longrightarrow> a \<notin> R \<Longrightarrow> V (h[a := c]) x = Some (v, R)"
  by (erule rests_on) (metis load_update_other)

end

context deep_copier
begin

text \<open>After a copy, a write to a cell of one of the two leaves the other as it was.\<close>

lemma independent:
  assumes "V h x = Some (v, R)"
  shows "\<exists>y k S. copy x h = Some (y, h @ k) \<and>
           V (h @ k) x = Some (v, R) \<and> V (h @ k) y = Some (v, S) \<and> R \<inter> S = {} \<and>
           (\<forall>a\<in>S. \<forall>c. V ((h @ k)[a := c]) x = Some (v, R)) \<and>
           (\<forall>a\<in>R. \<forall>c. V ((h @ k)[a := c]) y = Some (v, S))"
proof -
  from copies [OF assms] obtain y k S where y: "copy x h = Some (y, h @ k)"
      "V (h @ k) y = Some (v, S)" "S \<subseteq> {length h..<length (h @ k)}" by blast
  have x: "V (h @ k) x = Some (v, R)" using assms by (rule grows)
  have "R \<inter> S = {}" using allocated [OF assms] y(3) by fastforce
  then show ?thesis using x y(1,2) write_elsewhere [OF x] write_elsewhere [OF y(2)] by blast
qed

end

subsection \<open>Views are framed\<close>

lemma framed_plain [simp, intro]: "framed plain"
  by unfold_locales (auto simp: plain_def)

lemma pointee_Some:
  "pointee un V h a = Some (v, R) \<longleftrightarrow>
     (\<exists>c x S. load h a = Some c \<and> un c = Some x \<and> V h x = Some (v, S) \<and> R = insert a S)"
  by (auto simp: pointee_def bind_eq_Some_conv)

lemma if_any_Some:
  "if_any V h p = Some (w, R) \<longleftrightarrow>
     p = None \<and> w = None \<and> R = {} \<or> (\<exists>a v. p = Some a \<and> V h a = Some (v, R) \<and> w = Some v)"
  by (auto simp: if_any_def bind_eq_Some_conv split: option.splits)

lemma parts_Some:
  "parts p V q W f h x = Some (y, R) \<longleftrightarrow>
     (\<exists>u S v T. V h (p x) = Some (u, S) \<and> W h (q x) = Some (v, T) \<and> y = f x u v \<and> R = S \<union> T)"
  by (auto simp: parts_def bind_eq_Some_conv)

lemma items_Suc_Some:
  "items V h a (Suc n) = Some (ws, R) \<longleftrightarrow>
     (\<exists>v S vs T. V h a = Some (v, S) \<and> items V h (Suc a) n = Some (vs, T) \<and>
        ws = v # vs \<and> R = S \<union> T)"
  by (auto simp: bind_eq_Some_conv)

lemmas view_Some = pointee_Some if_any_Some parts_Some items_Suc_Some

lemma framed_pointee [intro]:
  assumes "framed V"
  shows "framed (pointee un V)"
proof
  fix h :: memory and a v R assume v: "pointee un V h a = Some (v, R)"
  then obtain c x S where x: "load h a = Some c" "un c = Some x" "V h x = Some (v, S)" "R = insert a S"
    by (auto simp: pointee_Some)
  show "R \<subseteq> {..<length h}"
    using x(1,4) framed.allocated [OF assms x(3)] by (auto simp: load_def split: if_splits)
  fix h' assume same: "\<And>a. a \<in> R \<Longrightarrow> load h' a = load h a"
  have "V h' x = Some (v, S)" by (rule framed.rests_on [OF assms x(3)]) (simp add: same x(4))
  then show "pointee un V h' a = Some (v, R)" using x(1,2,4) same by (auto simp: pointee_Some)
qed

lemma framed_if_any [intro]:
  assumes "framed V"
  shows "framed (if_any V)"
proof
  fix h :: memory and p w R assume w: "if_any V h p = Some (w, R)"
  then show "R \<subseteq> {..<length h}" using framed.allocated [OF assms] by (fastforce simp: if_any_Some)
  fix h' assume same: "\<And>a. a \<in> R \<Longrightarrow> load h' a = load h a"
  from w consider "p = None" "w = None" "R = {}"
    | a v where "p = Some a" "V h a = Some (v, R)" "w = Some v" by (auto simp: if_any_Some)
  then show "if_any V h' p = Some (w, R)"
  proof cases
    case 2
    have "V h' a = Some (v, R)" by (rule framed.rests_on [OF assms 2(2)]) (rule same)
    then show ?thesis using 2(1,3) by (simp add: if_any_Some)
  qed (simp add: if_any_Some)
qed

lemma framed_parts [intro]:
  assumes "framed V" "framed W"
  shows "framed (parts p V q W f)"
proof
  fix h :: memory and x y R assume "parts p V q W f h x = Some (y, R)"
  then obtain u S v T where s: "V h (p x) = Some (u, S)" "W h (q x) = Some (v, T)"
      "y = f x u v" "R = S \<union> T" by (auto simp: parts_Some)
  show "R \<subseteq> {..<length h}"
    using framed.allocated [OF assms(1) s(1)] framed.allocated [OF assms(2) s(2)] s(4) by blast
  fix h' assume same: "\<And>a. a \<in> R \<Longrightarrow> load h' a = load h a"
  have "V h' (p x) = Some (u, S)" by (rule framed.rests_on [OF assms(1) s(1)]) (simp add: same s(4))
  moreover have "W h' (q x) = Some (v, T)"
    by (rule framed.rests_on [OF assms(2) s(2)]) (simp add: same s(4))
  ultimately show "parts p V q W f h' x = Some (y, R)" using s(3,4) by (auto simp: parts_Some)
qed

lemma framed_items:
  assumes "framed V"
  shows "framed (\<lambda>h (a, n). items V h a n)"
proof
  fix h :: memory and s vs R assume "(case s of (a, n) \<Rightarrow> items V h a n) = Some (vs, R)"
  moreover obtain a n where s: "s = (a, n)" by (cases s)
  ultimately have "items V h a n = Some (vs, R)" by simp
  then have "R \<subseteq> {..<length h} \<and>
      (\<forall>h'. (\<forall>a\<in>R. load h' a = load h a) \<longrightarrow> items V h' a n = Some (vs, R))"
  proof (induction n arbitrary: a vs R)
    case (Suc n)
    from Suc.prems obtain v S ws T where i: "V h a = Some (v, S)" "items V h (Suc a) n = Some (ws, T)"
        "vs = v # ws" "R = S \<union> T" by (auto simp only: items_Suc_Some)
    note rest = Suc.IH [OF i(2)]
    have "S \<subseteq> {..<length h}" by (rule framed.allocated [OF assms i(1)])
    moreover have "V h' a = Some (v, S)" if "\<forall>a\<in>R. load h' a = load h a" for h'
      by (rule framed.rests_on [OF assms i(1)]) (use that i(4) in simp)
    ultimately show ?case using rest i(3,4) by (auto simp: items_Suc_Some)
  qed simp
  then show "R \<subseteq> {..<length h}"
    and "(\<And>a. a \<in> R \<Longrightarrow> load h' a = load h a) \<Longrightarrow>
           (case s of (a, n) \<Rightarrow> items V h' a n) = Some (vs, R)" for h'
    using s by auto
qed

lemma framed_elements [intro]: "framed V \<Longrightarrow> framed (elements V)"
  unfolding elements_def by (rule framed_if_any) (rule framed_items)
subsection \<open>Copies of structs, pointers and arrays\<close>

lemma grown_append:
  assumes "length h \<le> length h'" "\<forall>a<length h. load h' a = load h a"
  shows "\<exists>k. h' = h @ k"
proof
  have "take (length h) h' = h"
    using assms by (intro nth_equalityI) (auto simp: load_def split: if_splits)
  then show "h' = h @ drop (length h) h'" by (metis append_take_drop_id)
qed

text \<open>Two parts copied one after the other.\<close>

lemma copies_parts:
  assumes "deep_copier V f" "deep_copier W g" and y: "parts p V q W c h x = Some (y, R)"
  obtains u v m s k1 k2 S where
    "f (p x) h = Some (m, h @ k1)" "g (q x) (h @ k1) = Some (s, h @ k1 @ k2)"
    "V (h @ k1 @ k2) m = Some (u, fst S)" "W (h @ k1 @ k2) s = Some (v, snd S)" "y = c x u v"
    "fst S \<union> snd S \<subseteq> {length h..<length (h @ k1 @ k2)}"
proof -
  note V = deep_copier.axioms(1) [OF assms(1)] and W = deep_copier.axioms(1) [OF assms(2)]
  from y obtain u A v B where a: "V h (p x) = Some (u, A)" "W h (q x) = Some (v, B)" "y = c x u v"
    by (auto simp: parts_Some)
  from deep_copier.copies [OF assms(1) a(1)] obtain m k1 S where m: "f (p x) h = Some (m, h @ k1)"
      "V (h @ k1) m = Some (u, S)" "S \<subseteq> {length h..<length (h @ k1)}" by blast
  from deep_copier.copies [OF assms(2) framed.grows [OF W a(2)]] obtain s k2 T
    where s: "g (q x) (h @ k1) = Some (s, (h @ k1) @ k2)" "W ((h @ k1) @ k2) s = Some (v, T)"
      "T \<subseteq> {length (h @ k1)..<length ((h @ k1) @ k2)}" by blast
  have "V (h @ k1 @ k2) m = Some (u, S)" using framed.grows [OF V m(2), of k2] by simp
  then show thesis using that [of m k1 s k2 u "(S, T)" v] m s a(3) by fastforce
qed

text \<open>One struct copied into a cell that is there already.\<close>

lemma copy_into_copies:
  assumes copier: "deep_copier V into" and mk: "\<And>x. un (mk x) = Some x"
    and v: "pointee un V h a = Some (v, R)" and out: "out < length h"
  obtains h' S where "copy_into un mk into a out h = Some h'" "length h \<le> length h'"
    "pointee un V h' out = Some (v, insert out S)" "S \<subseteq> {length h..<length h'}"
    "\<forall>b<length h. b \<noteq> out \<longrightarrow> load h' b = load h b"
proof -
  from v obtain c x A where x: "load h a = Some c" "un c = Some x" "V h x = Some (v, A)"
    by (auto simp: pointee_Some)
  from deep_copier.copies [OF copier x(3)] obtain y k S where y: "into x h = Some (y, h @ k)"
      "V (h @ k) y = Some (v, S)" "S \<subseteq> {length h..<length (h @ k)}" by blast
  define h' where "h' = (h @ k)[out := mk y]"
  have "V h' y = Some (v, S)" unfolding h'_def
    by (rule framed.write_elsewhere [OF deep_copier.axioms(1) [OF copier] y(2)]) (use y(3) out in auto)
  moreover have "load h' out = Some (mk y)" using out by (simp add: h'_def load_def)
  ultimately have "pointee un V h' out = Some (v, insert out S)" using mk by (auto simp: pointee_Some)
  moreover have "copy_into un mk into a out h = Some h'"
    using x y(1) by (simp add: copy_into_def h'_def)
  ultimately show thesis using that [of h' S] y(3) by (auto simp: h'_def)
qed

lemma copy_items_copies:
  assumes copier: "deep_copier V into" and mk: "\<And>x. un (mk x) = Some x"
  shows "items (pointee un V) h a n = Some (vs, R) \<Longrightarrow> out + n \<le> length h \<Longrightarrow>
    R \<inter> {out..<out + n} = {} \<Longrightarrow>
    \<exists>h' S. copy_items (copy_into un mk into) a out n h = Some h' \<and> length h \<le> length h' \<and>
      items (pointee un V) h' out n = Some (vs, S) \<and> S \<subseteq> {out..<out + n} \<union> {length h..<length h'} \<and>
      (\<forall>b<length h. b \<notin> {out..<out + n} \<longrightarrow> load h' b = load h b)"
proof (induction n arbitrary: a out h vs R)
  case (Suc n)
  have V: "framed (pointee un V)" by (rule framed_pointee) (rule deep_copier.axioms(1) [OF copier])
  from Suc.prems(1) obtain v A ws B where i: "pointee un V h a = Some (v, A)"
      "items (pointee un V) h (Suc a) n = Some (ws, B)" "vs = v # ws" "R = A \<union> B"
    by (auto simp only: items_Suc_Some)
  have "out < length h" using Suc.prems(2) by simp
  then obtain h1 S1
    where c: "copy_into un mk into a out h = Some h1" "length h \<le> length h1"
      "pointee un V h1 out = Some (v, insert out S1)" "S1 \<subseteq> {length h..<length h1}"
      and same1: "\<forall>b<length h. b \<noteq> out \<longrightarrow> load h1 b = load h b"
    by (rule copy_into_copies [OF copier mk i(1)])
  have B: "B \<subseteq> {..<length h}"
    using framed.allocated [OF framed_items [OF V], of h "(Suc a, n)"] i(2) by simp
  have same: "load h1 b = load h b" if "b \<in> B" for b
  proof -
    have "b < length h" "b \<noteq> out" using that B i(4) Suc.prems(3) by auto
    then show ?thesis using same1 by blast
  qed
  have i1: "items (pointee un V) h1 (Suc a) n = Some (ws, B)"
    using framed.rests_on [OF framed_items [OF V], of h "(Suc a, n)" ws B h1] i(2) same by simp
  have "Suc out + n \<le> length h1" "B \<inter> {Suc out..<Suc out + n} = {}"
    using Suc.prems(2,3) i(4) c(2) by auto
  from Suc.IH [OF i1 this] obtain h' S
    where r: "copy_items (copy_into un mk into) (Suc a) (Suc out) n h1 = Some h'"
      "length h1 \<le> length h'" "items (pointee un V) h' (Suc out) n = Some (ws, S)"
      "S \<subseteq> {Suc out..<Suc out + n} \<union> {length h1..<length h'}"
      "\<forall>b<length h1. b \<notin> {Suc out..<Suc out + n} \<longrightarrow> load h' b = load h1 b" by blast
  have "pointee un V h' out = Some (v, insert out S1)"
    by (rule framed.rests_on [OF V c(3)]) (use r(5) c(2,4) Suc.prems(2) in fastforce)
  then have "items (pointee un V) h' out (Suc n) = Some (vs, insert out S1 \<union> S)"
    using r(3) i(3) by (simp add: items_Suc_Some del: items.simps)
  moreover have "insert out S1 \<union> S \<subseteq> {out..<out + Suc n} \<union> {length h..<length h'}"
    using c(2,4) r(2,4) by fastforce
  moreover have "\<forall>b<length h. b \<notin> {out..<out + Suc n} \<longrightarrow> load h' b = load h b"
    using same1 r(5) c(2) by fastforce
  ultimately show ?case using c(1,2) r(1,2) by (auto simp del: items.simps)
qed simp

text \<open>The generated \<open>DeepCopy\<close>, and the copy of a slice.\<close>

lemma deep_copier_new_copy:
  assumes copier: "deep_copier V into" and mk: "\<And>x. un (mk x) = Some x"
  shows "deep_copier (if_any (pointee un V)) (new_copy un mk zero into)"
proof (intro deep_copier.intro deep_copier_axioms.intro)
  have V: "framed (pointee un V)" by (rule framed_pointee) (rule deep_copier.axioms(1) [OF copier])
  then show "framed (if_any (pointee un V))" ..
  fix h p w R assume "if_any (pointee un V) h p = Some (w, R)"
  then consider "p = None" "w = None" | a v where "p = Some a" "pointee un V h a = Some (v, R)" "w = Some v"
    by (auto simp: if_any_Some)
  then show "\<exists>y k S. new_copy un mk zero into p h = Some (y, h @ k) \<and>
      if_any (pointee un V) (h @ k) y = Some (w, S) \<and> S \<subseteq> {length h..<length (h @ k)}"
  proof cases
    case 1 then show ?thesis by (auto simp: new_copy_def if_any_Some intro!: exI [of _ "[]"])
  next
    case 2
    have old: "pointee un V (h @ [mk zero]) a = Some (v, R)" by (rule framed.grows [OF V 2(2)])
    have "length h < length (h @ [mk zero])" by simp
    then obtain h' S
      where c: "copy_into un mk into a (length h) (h @ [mk zero]) = Some h'"
        "length (h @ [mk zero]) \<le> length h'" "pointee un V h' (length h) = Some (v, insert (length h) S)"
        "S \<subseteq> {length (h @ [mk zero])..<length h'}"
        "\<forall>b<length (h @ [mk zero]). b \<noteq> length h \<longrightarrow> load h' b = load (h @ [mk zero]) b"
      by (rule copy_into_copies [OF copier mk old])
    have "\<forall>b<length h. load h' b = load h b" using c(5) by simp
    moreover have "length h \<le> length h'" using c(2) by simp
    ultimately obtain k where k: "h' = h @ k" using grown_append by blast
    have "insert (length h) S \<subseteq> {length h..<length h'}" using c(2,4) by auto
    moreover have "new_copy un mk zero into p h = Some (Some (length h), h')"
      using c(1) 2(1) by (simp add: new_copy_def)
    moreover have "if_any (pointee un V) h' (Some (length h)) = Some (w, insert (length h) S)"
      using c(3) 2(3) by (simp add: if_any_Some)
    ultimately show ?thesis using k by blast
  qed
qed

lemma deep_copier_slice:
  assumes copier: "deep_copier V into" and mk: "\<And>x. un (mk x) = Some x"
  shows "deep_copier (elements (pointee un V)) (copy_slice un mk zero into)"
proof (intro deep_copier.intro deep_copier_axioms.intro)
  have V: "framed (pointee un V)" by (rule framed_pointee) (rule deep_copier.axioms(1) [OF copier])
  then show "framed (elements (pointee un V))" ..
  note I = framed_items [OF V]
  fix h s w R assume "elements (pointee un V) h s = Some (w, R)"
  then consider "s = None" "w = None"
    | a n vs where "s = Some (a, n)" "items (pointee un V) h a n = Some (vs, R)" "w = Some vs"
    by (auto simp: elements_def if_any_Some)
  then show "\<exists>y k S. copy_slice un mk zero into s h = Some (y, h @ k) \<and>
      elements (pointee un V) (h @ k) y = Some (w, S) \<and> S \<subseteq> {length h..<length (h @ k)}"
  proof cases
    case 1 then show ?thesis
      by (auto simp: copy_slice_def elements_def if_any_Some intro!: exI [of _ "[]"])
  next
    case 2
    let ?h = "h @ replicate n (mk zero)" and ?new = "{length h..<length h + n}"
    have i: "items (pointee un V) ?h a n = Some (vs, R)" and "R \<subseteq> {..<length h}"
      using framed.grows [OF I, of h "(a, n)"] framed.allocated [OF I, of h "(a, n)"] 2(2) by auto
    then have disj: "R \<inter> {length h..<length h + n} = {}" by auto
    have "length h + n \<le> length ?h" by simp
    from copy_items_copies [OF copier mk i this disj] obtain h' S
      where c: "copy_items (copy_into un mk into) a (length h) n ?h = Some h'"
        "length ?h \<le> length h'" "items (pointee un V) h' (length h) n = Some (vs, S)"
        "S \<subseteq> ?new \<union> {length ?h..<length h'}"
        "\<forall>b<length ?h. b \<notin> ?new \<longrightarrow> load h' b = load ?h b"
      by blast
    have "\<forall>b<length h. load h' b = load h b" using c(5) by simp
    moreover have "length h \<le> length h'" using c(2) by simp
    ultimately obtain k where k: "h' = h @ k" using grown_append by blast
    have "S \<subseteq> {length h..<length h'}" using c(2,4) by fastforce
    moreover have "copy_slice un mk zero into s h = Some (Some (length h, n), h')"
      using c(1) 2(1) by (simp add: copy_slice_def)
    moreover have "elements (pointee un V) h' (Some (length h, n)) = Some (w, S)"
      using c(3) 2(3) by (simp add: elements_def if_any_Some)
    ultimately show ?thesis using k by blast
  qed
qed

section \<open>The generated copies are deep\<close>

text \<open>What the copies rely on: \<open>metav1.Time.DeepCopy\<close> allocates a time equal to its own, and the
  metadata's \<open>DeepCopyInto\<close> copies the maps, slices and times behind its pointers.\<close>

definition library_copies :: "apimachinery \<Rightarrow> bool" where
  "library_copies L \<longleftrightarrow>
     deep_copier time_view (Time_DeepCopy L) \<and>
     deep_copier ObjectMeta_view (ObjectMeta_DeepCopyInto L) \<and>
     deep_copier ListMeta_view (ListMeta_DeepCopyInto L)"

interpretation pool_spec: deep_copier plain CIPoolSpec_DeepCopyInto
  by unfold_locales (auto simp: plain_def CIPoolSpec_DeepCopyInto_def intro!: exI [of _ "[]"])

interpretation resource_spec: deep_copier plain CIResourceSpec_DeepCopyInto
  by unfold_locales (auto simp: plain_def CIResourceSpec_DeepCopyInto_def intro!: exI [of _ "[]"])

text \<open>A struct with one pointer, as both statuses are: \<open>upd\<close> sets it.\<close>

lemma deep_copier_one_pointer:
  assumes pointer: "deep_copier W cp"
    and V: "\<And>h x. V h x = do { (t, A) \<leftarrow> if_any W h (sel x); Some (f x t, A) }"
    and copy: "\<And>x h. copy x h = (case sel x of None \<Rightarrow> Some (x, h)
        | Some t \<Rightarrow> do { (t, h) \<leftarrow> cp t h; Some (upd t x, h) })"
    and upd: "\<And>x t. sel (upd t x) = Some t" "\<And>x s t. f (upd s x) t = f x t"
  shows "deep_copier V copy"
proof (intro deep_copier.intro deep_copier_axioms.intro)
  have V_Some: "V h x = Some (v, R) \<longleftrightarrow> (\<exists>t. if_any W h (sel x) = Some (t, R) \<and> v = f x t)"
    for h x v R
    by (auto simp: V bind_eq_Some_conv)
  have F: "framed (if_any W)" by (rule framed_if_any) (rule deep_copier.axioms(1) [OF pointer])
  show "framed V"
  proof
    fix h :: memory and x v R assume "V h x = Some (v, R)"
    then obtain t where t: "if_any W h (sel x) = Some (t, R)" "v = f x t"
      by (auto simp: V_Some)
    show "R \<subseteq> {..<length h}" by (rule framed.allocated [OF F t(1)])
    fix h' assume same: "\<And>a. a \<in> R \<Longrightarrow> load h' a = load h a"
    have "if_any W h' (sel x) = Some (t, R)" by (rule framed.rests_on [OF F t(1) same])
    then show "V h' x = Some (v, R)" using t(2) by (auto simp: V_Some)
  qed
  fix h x v R assume "V h x = Some (v, R)"
  then consider "sel x = None" "v = f x None" "R = {}"
    | a t where "sel x = Some a" "W h a = Some (t, R)" "v = f x (Some t)"
    by (auto simp: V_Some if_any_Some)
  then show "\<exists>y k S. copy x h = Some (y, h @ k) \<and> V (h @ k) y = Some (v, S) \<and>
      S \<subseteq> {length h..<length (h @ k)}"
  proof cases
    case 1 then show ?thesis by (auto simp: copy V_Some if_any_Some intro!: exI [of _ "[]"])
  next
    case 2
    from deep_copier.copies [OF pointer 2(2)] obtain b k S where "cp a h = Some (b, h @ k)"
        "W (h @ k) b = Some (t, S)" "S \<subseteq> {length h..<length (h @ k)}" by blast
    then show ?thesis using 2(1,3)
      by (intro exI [of _ "upd b x"] exI [of _ k] exI [of _ S])
        (auto simp: copy V_Some if_any_Some upd)
  qed
qed

lemma deep_copier_CIPoolStatus:
  "library_copies L \<Longrightarrow> deep_copier CIPoolStatus_view (CIPoolStatus_DeepCopyInto L)"
  by (rule deep_copier_one_pointer [where sel = PSR_LastUpdated and cp = "Time_DeepCopy L"
        and upd = "\<lambda>t. PSR_LastUpdated_update (\<lambda>_. Some t)"
        and f = "\<lambda>s t. \<lparr>PStatus_State = PSR_State s, PStatus_Size = PSR_Size s,
          PStatus_LastUpdated = t\<rparr>"])
    (auto simp: library_copies_def CIPoolStatus_view_def CIPoolStatus_DeepCopyInto_def)

lemma deep_copier_CIResourceStatus:
  "library_copies L \<Longrightarrow> deep_copier CIResourceStatus_view (CIResourceStatus_DeepCopyInto L)"
  by (rule deep_copier_one_pointer [where sel = CSR_LastUpdated and cp = "Time_DeepCopy L"
        and upd = "\<lambda>t. CSR_LastUpdated_update (\<lambda>_. Some t)"
        and f = "\<lambda>s t. \<lparr>CStatus_ResourceId = CSR_ResourceId s, CStatus_Address = CSR_Address s,
            CStatus_ProviderInfo = CSR_ProviderInfo s, CStatus_Extra = CSR_Extra s,
            CStatus_State = CSR_State s, CStatus_LastUpdated = t\<rparr>"])
    (auto simp: library_copies_def CIResourceStatus_view_def CIResourceStatus_DeepCopyInto_def)

text \<open>A struct with two such parts: \<open>build\<close> is the struct the function leaves.\<close>

lemma deep_copier_parts:
  assumes f: "deep_copier V f" and g: "deep_copier W g"
    and copy: "\<And>x h. copy x h = do { (m, h) \<leftarrow> f (p x) h; (s, h) \<leftarrow> g (q x) h; Some (build x m s, h) }"
    and build: "\<And>x m s. p (build x m s) = m" "\<And>x m s. q (build x m s) = s"
      "\<And>x m s. c (build x m s) = c x"
  shows "deep_copier (parts p V q W c) copy"
proof (intro deep_copier.intro deep_copier_axioms.intro)
  show "framed (parts p V q W c)"
    using f g by (intro framed_parts) (rule deep_copier.axioms(1), assumption)+
  fix h x y R assume "parts p V q W c h x = Some (y, R)"
  from copies_parts [OF f g this] obtain u v m s k1 k2 S where r: "f (p x) h = Some (m, h @ k1)"
      "g (q x) (h @ k1) = Some (s, h @ k1 @ k2)" "V (h @ k1 @ k2) m = Some (u, fst S)"
      "W (h @ k1 @ k2) s = Some (v, snd S)" "y = c x u v"
      "fst S \<union> snd S \<subseteq> {length h..<length (h @ k1 @ k2)}" .
  then have "parts p V q W c (h @ k1 @ k2) (build x m s) = Some (y, fst S \<union> snd S)"
    by (simp add: parts_Some build)
  then show "\<exists>y' k S. copy x h = Some (y', h @ k) \<and> parts p V q W c (h @ k) y' = Some (y, S) \<and>
      S \<subseteq> {length h..<length (h @ k)}"
    using r(1,2,6) by (intro exI [of _ "build x m s"] exI [of _ "k1 @ k2"]) (auto simp: copy)
qed

lemma deep_copier_CIPool:
  assumes "library_copies L"
  shows "deep_copier CIPool_view (CIPool_DeepCopyInto L)"
  unfolding CIPool_view_def
  by (rule deep_copier_parts [where f = "ObjectMeta_DeepCopyInto L" and g = "CIPoolStatus_DeepCopyInto L"
        and build = "\<lambda>x m s. x\<lparr>PR_ObjectMeta := m, PR_Status := s\<rparr>"])
    (use assms in \<open>auto simp: library_copies_def CIPool_DeepCopyInto_def
      intro: deep_copier_CIPoolStatus\<close>)

lemma deep_copier_CIResource:
  assumes "library_copies L"
  shows "deep_copier CIResource_view (CIResource_DeepCopyInto L)"
  unfolding CIResource_view_def
  by (rule deep_copier_parts [where f = "ObjectMeta_DeepCopyInto L"
        and g = "CIResourceStatus_DeepCopyInto L"
        and build = "\<lambda>x m s. x\<lparr>CR_ObjectMeta := m, CR_Status := s\<rparr>"])
    (use assms in \<open>auto simp: library_copies_def CIResource_DeepCopyInto_def
      intro: deep_copier_CIResourceStatus\<close>)

lemma deep_copier_CIPoolList:
  assumes "library_copies L"
  shows "deep_copier CIPoolList_view (CIPoolList_DeepCopyInto L)"
  unfolding CIPoolList_view_def
  by (rule deep_copier_parts [where f = "ListMeta_DeepCopyInto L"
        and g = "copy_slice as_pool PoolCell zero_CIPool (CIPool_DeepCopyInto L)"
        and build = "\<lambda>x m s. x\<lparr>PL_ListMeta := m, PL_Items := s\<rparr>"])
    (use assms deep_copier_slice [OF deep_copier_CIPool [OF assms], of as_pool PoolCell zero_CIPool]
      in \<open>auto simp: library_copies_def CIPoolList_DeepCopyInto_def\<close>)

lemma deep_copier_CIResourceList:
  assumes "library_copies L"
  shows "deep_copier CIResourceList_view (CIResourceList_DeepCopyInto L)"
  unfolding CIResourceList_view_def
  by (rule deep_copier_parts [where f = "ListMeta_DeepCopyInto L"
        and g = "copy_slice as_resource ResourceCell zero_CIResource (CIResource_DeepCopyInto L)"
        and build = "\<lambda>x m s. x\<lparr>CL_ListMeta := m, CL_Items := s\<rparr>"])
    (use assms deep_copier_slice [OF deep_copier_CIResource [OF assms], of as_resource ResourceCell
        zero_CIResource] in \<open>auto simp: library_copies_def CIResourceList_DeepCopyInto_def\<close>)

section \<open>Copies of objects\<close>

text \<open>The object at \<open>b\<close> of the memory \<open>h'\<close> is an independent copy of the one at \<open>a\<close> of the memory
  \<open>h\<close>: both have the value the original had, they rest on disjoint cells, and a write to a cell
  of either, whatever it writes, leaves the other with that value.\<close>

definition independent_copy :: "(addr, 'v) view \<Rightarrow> memory \<Rightarrow> addr \<Rightarrow> memory \<Rightarrow> addr \<Rightarrow> bool" where
  "independent_copy V h a h' b \<longleftrightarrow>
     (\<exists>v R S. V h a = Some (v, R) \<and> V h' a = Some (v, R) \<and> V h' b = Some (v, S) \<and> R \<inter> S = {} \<and>
        (\<forall>d\<in>S. \<forall>c. V (h'[d := c]) a = Some (v, R)) \<and> (\<forall>d\<in>R. \<forall>c. V (h'[d := c]) b = Some (v, S)))"

lemma object_copy_independent:
  assumes copier: "deep_copier V into" and mk: "\<And>x. un (mk x) = Some x"
    and obj: "\<And>inp h. obj inp h = do {
      (c, h) \<leftarrow> new_copy un mk zero into inp h;
      Some (case c of Some c \<Rightarrow> Some (wrap c) | None \<Rightarrow> None, h) }"
    and v: "pointee un V h a = Some (v, R)"
  shows "\<exists>b k. obj (Some a) h = Some (Some (wrap b), h @ k) \<and>
           independent_copy (pointee un V) h a (h @ k) b"
proof -
  have old: "if_any (pointee un V) h (Some a) = Some (Some v, R)" using v by (simp add: if_any_Some)
  from deep_copier.independent [OF deep_copier_new_copy [where zero = zero, OF copier mk] old]
  show ?thesis using v by (force simp: if_any_Some independent_copy_def obj)
qed

lemma CIPool_independent:
  "library_copies L \<Longrightarrow> pointee as_pool CIPool_view h a = Some (v, R) \<Longrightarrow>
     \<exists>b k. CIPool_DeepCopyObject L (Some a) h = Some (Some (CIPoolObject b), h @ k) \<and>
       independent_copy (pointee as_pool CIPool_view) h a (h @ k) b"
  by (erule object_copy_independent [OF deep_copier_CIPool, rotated 3, where mk = PoolCell])
    (auto simp: CIPool_DeepCopyObject_def CIPool_DeepCopy_def)

lemma CIPoolList_independent:
  "library_copies L \<Longrightarrow> pointee as_pool_list CIPoolList_view h a = Some (v, R) \<Longrightarrow>
     \<exists>b k. CIPoolList_DeepCopyObject L (Some a) h = Some (Some (CIPoolListObject b), h @ k) \<and>
       independent_copy (pointee as_pool_list CIPoolList_view) h a (h @ k) b"
  by (erule object_copy_independent [OF deep_copier_CIPoolList, rotated 3, where mk = PoolListCell])
    (auto simp: CIPoolList_DeepCopyObject_def CIPoolList_DeepCopy_def)

lemma CIResource_independent:
  "library_copies L \<Longrightarrow> pointee as_resource CIResource_view h a = Some (v, R) \<Longrightarrow>
     \<exists>b k. CIResource_DeepCopyObject L (Some a) h = Some (Some (CIResourceObject b), h @ k) \<and>
       independent_copy (pointee as_resource CIResource_view) h a (h @ k) b"
  by (erule object_copy_independent [OF deep_copier_CIResource, rotated 3, where mk = ResourceCell])
    (auto simp: CIResource_DeepCopyObject_def CIResource_DeepCopy_def)

lemma CIResourceList_independent:
  "library_copies L \<Longrightarrow> pointee as_resource_list CIResourceList_view h a = Some (v, R) \<Longrightarrow>
     \<exists>b k. CIResourceList_DeepCopyObject L (Some a) h = Some (Some (CIResourceListObject b), h @ k) \<and>
       independent_copy (pointee as_resource_list CIResourceList_view) h a (h @ k) b"
  by (erule object_copy_independent [OF deep_copier_CIResourceList, rotated 3,
        where mk = ResourceListCell])
    (auto simp: CIResourceList_DeepCopyObject_def CIResourceList_DeepCopy_def)

text \<open>C21 (safety). \<open>DeepCopyObject\<close> of each of the four API types gives an independent copy of the
  object behind its pointer, through the object's metadata, its status and the items of a list: the
  copy has the value of the original, in memory of its own, and a write to any cell of either
  leaves the other as it was. A \<open>nil\<close> pointer gives the \<open>nil\<close> interface. The copies of
  \<open>metav1.Time\<close> and of the metadata structs, which are the library's, are assumed to be deep.\<close>

theorem deep_copies_are_independent:
  assumes "library_copies L"
  shows "(pointee as_pool CIPool_view h a \<noteq> None \<longrightarrow>
      (\<exists>b k. CIPool_DeepCopyObject L (Some a) h = Some (Some (CIPoolObject b), h @ k) \<and>
        independent_copy (pointee as_pool CIPool_view) h a (h @ k) b)) \<and>
    (pointee as_pool_list CIPoolList_view h a \<noteq> None \<longrightarrow>
      (\<exists>b k. CIPoolList_DeepCopyObject L (Some a) h = Some (Some (CIPoolListObject b), h @ k) \<and>
        independent_copy (pointee as_pool_list CIPoolList_view) h a (h @ k) b)) \<and>
    (pointee as_resource CIResource_view h a \<noteq> None \<longrightarrow>
      (\<exists>b k. CIResource_DeepCopyObject L (Some a) h = Some (Some (CIResourceObject b), h @ k) \<and>
        independent_copy (pointee as_resource CIResource_view) h a (h @ k) b)) \<and>
    (pointee as_resource_list CIResourceList_view h a \<noteq> None \<longrightarrow>
      (\<exists>b k. CIResourceList_DeepCopyObject L (Some a) h =
          Some (Some (CIResourceListObject b), h @ k) \<and>
        independent_copy (pointee as_resource_list CIResourceList_view) h a (h @ k) b)) \<and>
    CIPool_DeepCopyObject L None h = Some (None, h) \<and>
    CIPoolList_DeepCopyObject L None h = Some (None, h) \<and>
    CIResource_DeepCopyObject L None h = Some (None, h) \<and>
    CIResourceList_DeepCopyObject L None h = Some (None, h)"
  using CIPool_independent [OF assms] CIPoolList_independent [OF assms]
    CIResource_independent [OF assms] CIResourceList_independent [OF assms]
  by (auto simp: CIPool_DeepCopyObject_def CIPool_DeepCopy_def CIPoolList_DeepCopyObject_def
      CIPoolList_DeepCopy_def CIResource_DeepCopyObject_def CIResource_DeepCopy_def
      CIResourceList_DeepCopyObject_def CIResourceList_DeepCopy_def new_copy_def)

section \<open>A concrete memory\<close>

text \<open>Library copies, written as the library documents them, and a memory with a list that holds
  one resource with labels, a finalizer and a deletion timestamp.\<close>

definition copy_cell :: "(cell \<Rightarrow> 'a option) \<Rightarrow> addr \<Rightarrow> (memory, addr) go" where
  "copy_cell un a h = do { c \<leftarrow> load h a; x \<leftarrow> un c; Some (length h, h @ [c]) }"

definition copy_if_any :: "(addr \<Rightarrow> (memory, addr) go) \<Rightarrow> addr option \<Rightarrow> (memory, addr option) go" where
  "copy_if_any f p h =
     (case p of None \<Rightarrow> Some (None, h) | Some a \<Rightarrow> do { (b, h) \<leftarrow> f a h; Some (Some b, h) })"

definition demo_library :: apimachinery where
  "demo_library = \<lparr>
     Time_DeepCopy = copy_cell as_time,
     ObjectMeta_DeepCopyInto = (\<lambda>m h. do {
       (ls, h) \<leftarrow> copy_if_any (copy_cell as_labels) (MR_Labels m) h;
       (fs, h) \<leftarrow> copy_if_any (copy_cell as_strings) (MR_Finalizers m) h;
       (d, h) \<leftarrow> copy_if_any (copy_cell as_time) (MR_DeletionTimestamp m) h;
       Some (m\<lparr>MR_Labels := ls, MR_Finalizers := fs, MR_DeletionTimestamp := d\<rparr>, h) }),
     ListMeta_DeepCopyInto = (\<lambda>m h. do {
       (n, h) \<leftarrow> copy_if_any (copy_cell as_int) (LR_RemainingItemCount m) h;
       Some (m\<lparr>LR_RemainingItemCount := n\<rparr>, h) })\<rparr>"

definition demo_memory :: memory where
  "demo_memory =
     [LabelsCell [EvictionLabel \<mapsto> ''true''], StringsCell [OfcirFinalizer], TimeCell 5, TimeCell 3,
      ResourceCell \<lparr>CR_TypeMeta = zero_TypeMeta,
        CR_ObjectMeta = \<lparr>MR_Name = ''cir-0001'', MR_Namespace = ''ofcir'', MR_Labels = Some 0,
          MR_Finalizers = Some 1, MR_DeletionTimestamp = Some 2, MR_ResourceVersion = ''7''\<rparr>,
        CR_Spec = zero_CIResourceSpec, CR_Status = zero_CIResourceStatus\<lparr>CSR_LastUpdated := Some 3\<rparr>\<rparr>,
      ResourceListCell \<lparr>CL_TypeMeta = zero_TypeMeta, CL_ListMeta = zero_ListMeta,
        CL_Items = Some (4, 1)\<rparr>]"

lemma deep_copier_cell: "deep_copier (pointee un plain) (copy_cell un)"
proof (intro deep_copier.intro deep_copier_axioms.intro)
  show "framed (pointee un plain)" by (rule framed_pointee) (rule framed_plain)
  fix h a v R assume "pointee un plain h a = Some (v, R)"
  then obtain c where "load h a = Some c" "un c = Some v" "R = {a}" by (auto simp: pointee_Some plain_def)
  then show "\<exists>y k S. copy_cell un a h = Some (y, h @ k) \<and> pointee un plain (h @ k) y = Some (v, S) \<and>
      S \<subseteq> {length h..<length (h @ k)}"
    by (intro exI [of _ "length h"] exI [of _ "[c]"] exI [of _ "{length h}"])
      (auto simp: copy_cell_def pointee_Some plain_def load_def)
qed

lemma deep_copier_if_any:
  assumes f: "deep_copier V f"
  shows "deep_copier (if_any V) (copy_if_any f)"
  by (rule deep_copier_one_pointer [where sel = "\<lambda>p. p" and upd = "\<lambda>t p. Some t" and f = "\<lambda>p t. t",
        OF f]) (auto simp: copy_if_any_def split: option.splits Option.bind_splits)

lemma library_copies_demo: "library_copies demo_library"
proof -
  have "deep_copier (parts fst (if_any (pointee as_labels plain)) snd (if_any (pointee as_strings plain))
      (\<lambda>_. Pair)) (\<lambda>(p, q) h. do {
        (ls, h) \<leftarrow> copy_if_any (copy_cell as_labels) p h;
        (fs, h) \<leftarrow> copy_if_any (copy_cell as_strings) q h;
        Some ((ls, fs), h) })"
    by (rule deep_copier_parts [where build = "\<lambda>x. Pair", OF
          deep_copier_if_any [OF deep_copier_cell] deep_copier_if_any [OF deep_copier_cell]]) auto
  from deep_copier_parts [where build = "\<lambda>m (ls, fs) d.
      m\<lparr>MR_Labels := ls, MR_Finalizers := fs, MR_DeletionTimestamp := d\<rparr>",
      OF this deep_copier_if_any [OF deep_copier_cell]]
  have "deep_copier ObjectMeta_view (ObjectMeta_DeepCopyInto demo_library)"
    unfolding ObjectMeta_view_def
    by (rule meta_mp) (auto simp: demo_library_def split: prod.splits Option.bind_splits)
  moreover have "deep_copier ListMeta_view (ListMeta_DeepCopyInto demo_library)"
    by (rule deep_copier_one_pointer [where sel = LR_RemainingItemCount
          and upd = "\<lambda>t. LR_RemainingItemCount_update (\<lambda>_. Some t)"
          and f = "\<lambda>m n. (LR_ResourceVersion m, LR_Continue m, n)", OF deep_copier_cell])
      (auto simp: ListMeta_view_def demo_library_def copy_if_any_def split: option.splits Option.bind_splits)
  moreover have "deep_copier time_view (Time_DeepCopy demo_library)"
    by (simp add: demo_library_def deep_copier_cell)
  ultimately show ?thesis by (simp add: library_copies_def)
qed

lemma deep_copies_witness:
  "library_copies demo_library \<and>
   (\<exists>v. pointee as_resource_list CIResourceList_view demo_memory 5 = Some (v, {0, 1, 2, 3, 4, 5})) \<and>
   (\<exists>b k. CIResourceList_DeepCopyObject demo_library (Some 5) demo_memory =
        Some (Some (CIResourceListObject b), demo_memory @ k) \<and>
      independent_copy (pointee as_resource_list CIResourceList_view) demo_memory 5 (demo_memory @ k) b)"
proof -
  have "\<exists>v. pointee as_resource_list CIResourceList_view demo_memory 5 = Some (v, {0, 1, 2, 3, 4, 5})"
    by (simp add: pointee_def load_def demo_memory_def CIResourceList_view_def parts_def ListMeta_view_def
        if_any_def elements_def CIResource_view_def ObjectMeta_view_def CIResourceStatus_view_def
        plain_def zero_ListMeta_def insert_commute numeral_nat)
  then show ?thesis
    using deep_copies_are_independent [OF library_copies_demo, where h = demo_memory and a = 5]
      library_copies_demo by blast
qed

end
