(* ===== verification/Aws_Mock.thy ===== *)
theory Aws_Mock
  imports Aws_Handler
begin

text \<open>
  The mocks of the interfaces of \<open>aws.go\<close> that its tests use, \<open>pkg/providers/mock_aws.go\<close>. A mock hands
  its calls to the controller of gomock and reads the answers back by type assertions; its recorder
  tells the controller which calls to expect. The controller is code of a library, hence an argument.
  The locale \<open>returned_as\<close> is what a mocked method relies on in the assertion of its result; it is
  interpreted on the eight types that are returned. A recorded call with the values it is to
  return, and the call of the mocked method, agree on the receiver, the name and the arguments, so
  that the method returns these values (\<open>recorded_call_is_answered\<close>).
\<close>

section \<open>Interface values\<close>

text \<open>A value of \<open>interface{}\<close>, by its dynamic type; a pointer may be nil under its type. Contexts, the
  options of a request and clients are not looked into.\<close>

datatype ('c, 'o, 'i) any =
    AnyNil
  | AnyError error
  | AnyContext 'c
  | AnyOption 'o
  | AnyString string
  | AnyCredentials credentials
  | AnyEC2Client 'i
  | AnyRunInstancesInput "RunInstancesInput option"
  | AnyTerminateInstancesInput "string list option"
  | AnyDescribeInstancesInput "DescribeInstancesInput option"
  | AnyRunInstancesOutput "Ec2Instance list option"
  | AnyTerminateInstancesOutput "unit option"
  | AnyDescribeInstancesOutput "Ec2Instance list list option"
  | AnyRunInstanceParams "RunInstanceParams option"
  | AnyInstanceIdentifier "InstanceIdentifier option"
  | AnyFindRegionParams "FindRegionParams option"
  | AnyPoolFilterParams "PoolFilterParams option"
  | AnyStringPtr "string option"
  | AnyIntPtr "int option"
  | AnyBoolPtr "bool option"

text \<open>\<open>v, _ := x.(T)\<close>: the value under that type, nil for a value of any other.\<close>

fun as_error :: "('c, 'o, 'i) any \<Rightarrow> error option" where
  "as_error (AnyError e) = Some e" | "as_error _ = None"
fun as_EC2Client :: "('c, 'o, 'i) any \<Rightarrow> 'i option" where
  "as_EC2Client (AnyEC2Client i) = Some i" | "as_EC2Client _ = None"
fun as_RunInstancesOutput :: "('c, 'o, 'i) any \<Rightarrow> Ec2Instance list option" where
  "as_RunInstancesOutput (AnyRunInstancesOutput p) = p" | "as_RunInstancesOutput _ = None"
fun as_TerminateInstancesOutput :: "('c, 'o, 'i) any \<Rightarrow> unit option" where
  "as_TerminateInstancesOutput (AnyTerminateInstancesOutput p) = p" | "as_TerminateInstancesOutput _ = None"
fun as_DescribeInstancesOutput :: "('c, 'o, 'i) any \<Rightarrow> Ec2Instance list list option" where
  "as_DescribeInstancesOutput (AnyDescribeInstancesOutput p) = p" | "as_DescribeInstancesOutput _ = None"
fun as_string_ptr :: "('c, 'o, 'i) any \<Rightarrow> string option" where
  "as_string_ptr (AnyStringPtr p) = p" | "as_string_ptr _ = None"
fun as_int_ptr :: "('c, 'o, 'i) any \<Rightarrow> int option" where
  "as_int_ptr (AnyIntPtr p) = p" | "as_int_ptr _ = None"
fun as_bool_ptr :: "('c, 'o, 'i) any \<Rightarrow> bool option" where
  "as_bool_ptr (AnyBoolPtr p) = p" | "as_bool_ptr _ = None"

section \<open>Mocks and recorders\<close>

text \<open>A mock and its recorder point to each other. They live in cells, with the interface they mock.\<close>

datatype mocked = Mocked_EC2Client | Mocked_AWSClientsBuilder | Mocked_AWSHandler

record 'k Mock =
  mock_ctrl :: 'k
  mock_recorder :: "nat option"

record MockRecorder =
  recorder_mock :: nat

datatype 'k mock_cell = MockCell mocked "'k Mock" | RecorderCell mocked MockRecorder

type_synonym ('k, 'w) mocks = "'k mock_cell list \<times> 'w"

fun mock_in :: "mocked \<Rightarrow> 'k mock_cell \<Rightarrow> 'k Mock option" where
  "mock_in t (MockCell u m) = (if u = t then Some m else None)"
| "mock_in t (RecorderCell u r) = None"

fun recorder_in :: "mocked \<Rightarrow> 'k mock_cell \<Rightarrow> MockRecorder option" where
  "recorder_in t (RecorderCell u r) = (if u = t then Some r else None)"
| "recorder_in t (MockCell u m) = None"

definition cell_at :: "nat \<Rightarrow> 'k mock_cell list \<Rightarrow> 'k mock_cell option" where
  "cell_at a h = (if a < length h then Some (h ! a) else None)"

definition mock_at :: "mocked \<Rightarrow> nat \<Rightarrow> 'k mock_cell list \<Rightarrow> 'k Mock option" where
  "mock_at t m h = do { c \<leftarrow> cell_at m h; mock_in t c }"

definition recorder_at :: "mocked \<Rightarrow> nat \<Rightarrow> 'k mock_cell list \<Rightarrow> MockRecorder option" where
  "recorder_at t mr h = do { c \<leftarrow> cell_at mr h; recorder_in t c }"

text \<open>The body of the three constructors, and of the three \<open>EXPECT\<close>.\<close>

definition new_mock :: "mocked \<Rightarrow> 'k \<Rightarrow> (('k, 'w) mocks, nat) call" where
  "new_mock t ctrl = (\<lambda>(h, w).
     (let mock = length h; h = h @ [MockCell t \<lparr>mock_ctrl = ctrl, mock_recorder = None\<rparr>];
          recorder = length h; h = h @ [RecorderCell t \<lparr>recorder_mock = mock\<rparr>] in
      (mock, h[mock := MockCell t \<lparr>mock_ctrl = ctrl, mock_recorder = Some recorder\<rparr>], w)))"

definition expect :: "mocked \<Rightarrow> nat \<Rightarrow> (('k, 'w) mocks, nat option) go" where
  "expect t m = (\<lambda>(h, w). do { mock \<leftarrow> mock_at t m h; Some (mock_recorder mock, h, w) })"

section \<open>The controller\<close>

text \<open>\<open>gomock.Controller\<close> as the mocks call it; a call that was not expected ends the test (\<open>None\<close>). A
  method is known to it by its receiver, its name and, for the recorder, its type.\<close>

type_synonym receiver = "mocked \<times> nat"
type_synonym method_type = "mocked \<times> string"

record ('k, 'a, 'e, 'w) Gomock =
  T_Helper :: "'k \<Rightarrow> ('w, unit) go"
  Ctl_Call :: "'k \<Rightarrow> receiver \<Rightarrow> string \<Rightarrow> 'a list \<Rightarrow> ('w, 'a list) go"
  Ctl_RecordCallWithMethodType :: "'k \<Rightarrow> receiver \<Rightarrow> string \<Rightarrow> method_type \<Rightarrow> 'a list \<Rightarrow> ('w, 'e) go"

definition mock_call ::
  "('k, 'a, 'e, 'w) Gomock \<Rightarrow> mocked \<Rightarrow> nat \<Rightarrow> string \<Rightarrow> 'a list \<Rightarrow> (('k, 'w) mocks, 'a list) go" where
  "mock_call lib t m name args = (\<lambda>(h, w). do {
     mock \<leftarrow> mock_at t m h;
     (_, w) \<leftarrow> T_Helper lib (mock_ctrl mock) w;
     (ret, w) \<leftarrow> Ctl_Call lib (mock_ctrl mock) (t, m) name args w;
     Some (ret, h, w) })"

definition recorder_call ::
  "('k, 'a, 'e, 'w) Gomock \<Rightarrow> mocked \<Rightarrow> nat \<Rightarrow> string \<Rightarrow> 'a list \<Rightarrow> (('k, 'w) mocks, 'e) go" where
  "recorder_call lib t mr name args = (\<lambda>(h, w). do {
     r \<leftarrow> recorder_at t mr h;
     mock \<leftarrow> mock_at t (recorder_mock r) h;
     (_, w) \<leftarrow> T_Helper lib (mock_ctrl mock) w;
     (e, w) \<leftarrow> Ctl_RecordCallWithMethodType lib (mock_ctrl mock) (t, recorder_mock r) name (t, name) args w;
     Some (e, h, w) })"

text \<open>\<open>ret[0]\<close> and \<open>ret[1]\<close>: an index out of range is a panic.\<close>

definition ret_at :: "'a list \<Rightarrow> nat \<Rightarrow> 'a option" where
  "ret_at ret i = (if i < length ret then Some (ret ! i) else None)"

definition value_and_error ::
  "(('c, 'o, 'i) any \<Rightarrow> 'v option) \<Rightarrow> (('w, ('c, 'o, 'i) any list) go) \<Rightarrow> ('w, 'v option \<times> error option) go" where
  "value_and_error as_value call w = do {
     (ret, w) \<leftarrow> call w;
     ret0 \<leftarrow> ret_at ret 0;
     ret1 \<leftarrow> ret_at ret 1;
     Some ((as_value ret0, as_error ret1), w) }"

text \<open>The loop that appends the options of a request.\<close>

definition varargs :: "('c, 'o, 'i) any list \<Rightarrow> 'o list \<Rightarrow> ('c, 'o, 'i) any list" where
  "varargs args optFns = foldl (\<lambda>vs a. vs @ [AnyOption a]) args optFns"

section \<open>The EC2 client\<close>

type_synonym ('k, 'c, 'o, 'i, 'e, 'w) gomock = "('k, ('c, 'o, 'i) any, 'e, 'w) Gomock"

definition NewMockEC2ClientInterface :: "'k \<Rightarrow> (('k, 'w) mocks, nat) call" where
  "NewMockEC2ClientInterface = new_mock Mocked_EC2Client"

definition MockEC2ClientInterface_EXPECT :: "nat \<Rightarrow> (('k, 'w) mocks, nat option) go" where
  "MockEC2ClientInterface_EXPECT = expect Mocked_EC2Client"

definition MockEC2ClientInterface_DescribeInstances ::
  "('k, 'c, 'o, 'i, 'e, 'w) gomock \<Rightarrow> nat \<Rightarrow> 'c \<Rightarrow> DescribeInstancesInput option \<Rightarrow> 'o list \<Rightarrow>
   (('k, 'w) mocks, Ec2Instance list list option \<times> error option) go" where
  "MockEC2ClientInterface_DescribeInstances lib m ctx params optFns =
     value_and_error as_DescribeInstancesOutput
       (mock_call lib Mocked_EC2Client m ''DescribeInstances''
          (varargs [AnyContext ctx, AnyDescribeInstancesInput params] optFns))"

definition MockEC2ClientInterfaceMockRecorder_DescribeInstances ::
  "('k, 'c, 'o, 'i, 'e, 'w) gomock \<Rightarrow> nat \<Rightarrow> ('c, 'o, 'i) any \<Rightarrow> ('c, 'o, 'i) any \<Rightarrow> ('c, 'o, 'i) any list \<Rightarrow>
   (('k, 'w) mocks, 'e) go" where
  "MockEC2ClientInterfaceMockRecorder_DescribeInstances lib mr ctx params optFns =
     recorder_call lib Mocked_EC2Client mr ''DescribeInstances'' ([ctx, params] @ optFns)"

definition MockEC2ClientInterface_RunInstances ::
  "('k, 'c, 'o, 'i, 'e, 'w) gomock \<Rightarrow> nat \<Rightarrow> 'c \<Rightarrow> RunInstancesInput option \<Rightarrow> 'o list \<Rightarrow>
   (('k, 'w) mocks, Ec2Instance list option \<times> error option) go" where
  "MockEC2ClientInterface_RunInstances lib m ctx params optFns =
     value_and_error as_RunInstancesOutput
       (mock_call lib Mocked_EC2Client m ''RunInstances''
          (varargs [AnyContext ctx, AnyRunInstancesInput params] optFns))"

definition MockEC2ClientInterfaceMockRecorder_RunInstances ::
  "('k, 'c, 'o, 'i, 'e, 'w) gomock \<Rightarrow> nat \<Rightarrow> ('c, 'o, 'i) any \<Rightarrow> ('c, 'o, 'i) any \<Rightarrow> ('c, 'o, 'i) any list \<Rightarrow>
   (('k, 'w) mocks, 'e) go" where
  "MockEC2ClientInterfaceMockRecorder_RunInstances lib mr ctx params optFns =
     recorder_call lib Mocked_EC2Client mr ''RunInstances'' ([ctx, params] @ optFns)"

definition MockEC2ClientInterface_TerminateInstances ::
  "('k, 'c, 'o, 'i, 'e, 'w) gomock \<Rightarrow> nat \<Rightarrow> 'c \<Rightarrow> string list option \<Rightarrow> 'o list \<Rightarrow>
   (('k, 'w) mocks, unit option \<times> error option) go" where
  "MockEC2ClientInterface_TerminateInstances lib m ctx params optFns =
     value_and_error as_TerminateInstancesOutput
       (mock_call lib Mocked_EC2Client m ''TerminateInstances''
          (varargs [AnyContext ctx, AnyTerminateInstancesInput params] optFns))"

definition MockEC2ClientInterfaceMockRecorder_TerminateInstances ::
  "('k, 'c, 'o, 'i, 'e, 'w) gomock \<Rightarrow> nat \<Rightarrow> ('c, 'o, 'i) any \<Rightarrow> ('c, 'o, 'i) any \<Rightarrow> ('c, 'o, 'i) any list \<Rightarrow>
   (('k, 'w) mocks, 'e) go" where
  "MockEC2ClientInterfaceMockRecorder_TerminateInstances lib mr ctx params optFns =
     recorder_call lib Mocked_EC2Client mr ''TerminateInstances'' ([ctx, params] @ optFns)"

section \<open>The builder of clients\<close>

definition NewMockAWSClientsBuilderInterface :: "'k \<Rightarrow> (('k, 'w) mocks, nat) call" where
  "NewMockAWSClientsBuilderInterface = new_mock Mocked_AWSClientsBuilder"

definition MockAWSClientsBuilderInterface_EXPECT :: "nat \<Rightarrow> (('k, 'w) mocks, nat option) go" where
  "MockAWSClientsBuilderInterface_EXPECT = expect Mocked_AWSClientsBuilder"

definition MockAWSClientsBuilderInterface_GetEC2Client ::
  "('k, 'c, 'o, 'i, 'e, 'w) gomock \<Rightarrow> nat \<Rightarrow> 'c \<Rightarrow> string \<Rightarrow> credentials \<Rightarrow>
   (('k, 'w) mocks, 'i option \<times> error option) go" where
  "MockAWSClientsBuilderInterface_GetEC2Client lib m ctx region creds =
     value_and_error as_EC2Client
       (mock_call lib Mocked_AWSClientsBuilder m ''GetEC2Client'' [AnyContext ctx, AnyString region, AnyCredentials creds])"

definition MockAWSClientsBuilderInterfaceMockRecorder_GetEC2Client ::
  "('k, 'c, 'o, 'i, 'e, 'w) gomock \<Rightarrow> nat \<Rightarrow> ('c, 'o, 'i) any \<Rightarrow> ('c, 'o, 'i) any \<Rightarrow> ('c, 'o, 'i) any \<Rightarrow>
   (('k, 'w) mocks, 'e) go" where
  "MockAWSClientsBuilderInterfaceMockRecorder_GetEC2Client lib mr ctx region creds =
     recorder_call lib Mocked_AWSClientsBuilder mr ''GetEC2Client'' [ctx, region, creds]"

section \<open>The handler\<close>

definition NewMockAWSHandlerInterface :: "'k \<Rightarrow> (('k, 'w) mocks, nat) call" where
  "NewMockAWSHandlerInterface = new_mock Mocked_AWSHandler"

definition MockAWSHandlerInterface_EXPECT :: "nat \<Rightarrow> (('k, 'w) mocks, nat option) go" where
  "MockAWSHandlerInterface_EXPECT = expect Mocked_AWSHandler"

definition MockAWSHandlerInterface_FindInstanceRegion ::
  "('k, 'c, 'o, 'i, 'e, 'w) gomock \<Rightarrow> nat \<Rightarrow> 'c \<Rightarrow> FindRegionParams option \<Rightarrow>
   (('k, 'w) mocks, string option \<times> error option) go" where
  "MockAWSHandlerInterface_FindInstanceRegion lib m ctx params =
     value_and_error as_string_ptr
       (mock_call lib Mocked_AWSHandler m ''FindInstanceRegion'' [AnyContext ctx, AnyFindRegionParams params])"

definition MockAWSHandlerInterfaceMockRecorder_FindInstanceRegion ::
  "('k, 'c, 'o, 'i, 'e, 'w) gomock \<Rightarrow> nat \<Rightarrow> ('c, 'o, 'i) any \<Rightarrow> ('c, 'o, 'i) any \<Rightarrow> (('k, 'w) mocks, 'e) go" where
  "MockAWSHandlerInterfaceMockRecorder_FindInstanceRegion lib mr ctx params =
     recorder_call lib Mocked_AWSHandler mr ''FindInstanceRegion'' [ctx, params]"

definition MockAWSHandlerInterface_GetInstanceInRegionPublicIP ::
  "('k, 'c, 'o, 'i, 'e, 'w) gomock \<Rightarrow> nat \<Rightarrow> 'c \<Rightarrow> InstanceIdentifier option \<Rightarrow>
   (('k, 'w) mocks, string option \<times> error option) go" where
  "MockAWSHandlerInterface_GetInstanceInRegionPublicIP lib m ctx params =
     value_and_error as_string_ptr
       (mock_call lib Mocked_AWSHandler m ''GetInstanceInRegionPublicIP'' [AnyContext ctx, AnyInstanceIdentifier params])"

definition MockAWSHandlerInterfaceMockRecorder_GetInstanceInRegionPublicIP ::
  "('k, 'c, 'o, 'i, 'e, 'w) gomock \<Rightarrow> nat \<Rightarrow> ('c, 'o, 'i) any \<Rightarrow> ('c, 'o, 'i) any \<Rightarrow> (('k, 'w) mocks, 'e) go" where
  "MockAWSHandlerInterfaceMockRecorder_GetInstanceInRegionPublicIP lib mr ctx params =
     recorder_call lib Mocked_AWSHandler mr ''GetInstanceInRegionPublicIP'' [ctx, params]"

definition MockAWSHandlerInterface_GetTotalAmountOfPoolInstancesInRegion ::
  "('k, 'c, 'o, 'i, 'e, 'w) gomock \<Rightarrow> nat \<Rightarrow> 'c \<Rightarrow> PoolFilterParams option \<Rightarrow>
   (('k, 'w) mocks, int option \<times> error option) go" where
  "MockAWSHandlerInterface_GetTotalAmountOfPoolInstancesInRegion lib m ctx params =
     value_and_error as_int_ptr
       (mock_call lib Mocked_AWSHandler m ''GetTotalAmountOfPoolInstancesInRegion'' [AnyContext ctx, AnyPoolFilterParams params])"

definition MockAWSHandlerInterfaceMockRecorder_GetTotalAmountOfPoolInstancesInRegion ::
  "('k, 'c, 'o, 'i, 'e, 'w) gomock \<Rightarrow> nat \<Rightarrow> ('c, 'o, 'i) any \<Rightarrow> ('c, 'o, 'i) any \<Rightarrow> (('k, 'w) mocks, 'e) go" where
  "MockAWSHandlerInterfaceMockRecorder_GetTotalAmountOfPoolInstancesInRegion lib mr ctx params =
     recorder_call lib Mocked_AWSHandler mr ''GetTotalAmountOfPoolInstancesInRegion'' [ctx, params]"

definition MockAWSHandlerInterface_IsInstanceInRegionActive ::
  "('k, 'c, 'o, 'i, 'e, 'w) gomock \<Rightarrow> nat \<Rightarrow> 'c \<Rightarrow> InstanceIdentifier option \<Rightarrow>
   (('k, 'w) mocks, bool option \<times> error option) go" where
  "MockAWSHandlerInterface_IsInstanceInRegionActive lib m ctx params =
     value_and_error as_bool_ptr
       (mock_call lib Mocked_AWSHandler m ''IsInstanceInRegionActive'' [AnyContext ctx, AnyInstanceIdentifier params])"

definition MockAWSHandlerInterfaceMockRecorder_IsInstanceInRegionActive ::
  "('k, 'c, 'o, 'i, 'e, 'w) gomock \<Rightarrow> nat \<Rightarrow> ('c, 'o, 'i) any \<Rightarrow> ('c, 'o, 'i) any \<Rightarrow> (('k, 'w) mocks, 'e) go" where
  "MockAWSHandlerInterfaceMockRecorder_IsInstanceInRegionActive lib mr ctx params =
     recorder_call lib Mocked_AWSHandler mr ''IsInstanceInRegionActive'' [ctx, params]"

definition MockAWSHandlerInterface_ReleaseInstanceInRegion ::
  "('k, 'c, 'o, 'i, 'e, 'w) gomock \<Rightarrow> nat \<Rightarrow> 'c \<Rightarrow> InstanceIdentifier option \<Rightarrow> (('k, 'w) mocks, error option) go" where
  "MockAWSHandlerInterface_ReleaseInstanceInRegion lib m ctx params w = do {
     (ret, w) \<leftarrow> mock_call lib Mocked_AWSHandler m ''ReleaseInstanceInRegion'' [AnyContext ctx, AnyInstanceIdentifier params] w;
     ret0 \<leftarrow> ret_at ret 0;
     Some (as_error ret0, w) }"

definition MockAWSHandlerInterfaceMockRecorder_ReleaseInstanceInRegion ::
  "('k, 'c, 'o, 'i, 'e, 'w) gomock \<Rightarrow> nat \<Rightarrow> ('c, 'o, 'i) any \<Rightarrow> ('c, 'o, 'i) any \<Rightarrow> (('k, 'w) mocks, 'e) go" where
  "MockAWSHandlerInterfaceMockRecorder_ReleaseInstanceInRegion lib mr ctx params =
     recorder_call lib Mocked_AWSHandler mr ''ReleaseInstanceInRegion'' [ctx, params]"

definition MockAWSHandlerInterface_RunInstanceInRegion ::
  "('k, 'c, 'o, 'i, 'e, 'w) gomock \<Rightarrow> nat \<Rightarrow> 'c \<Rightarrow> RunInstanceParams option \<Rightarrow>
   (('k, 'w) mocks, string option \<times> error option) go" where
  "MockAWSHandlerInterface_RunInstanceInRegion lib m ctx params =
     value_and_error as_string_ptr
       (mock_call lib Mocked_AWSHandler m ''RunInstanceInRegion'' [AnyContext ctx, AnyRunInstanceParams params])"

definition MockAWSHandlerInterfaceMockRecorder_RunInstanceInRegion ::
  "('k, 'c, 'o, 'i, 'e, 'w) gomock \<Rightarrow> nat \<Rightarrow> ('c, 'o, 'i) any \<Rightarrow> ('c, 'o, 'i) any \<Rightarrow> (('k, 'w) mocks, 'e) go" where
  "MockAWSHandlerInterfaceMockRecorder_RunInstanceInRegion lib mr ctx params =
     recorder_call lib Mocked_AWSHandler mr ''RunInstanceInRegion'' [ctx, params]"

section \<open>What a mocked method makes of an answer\<close>

text \<open>What \<open>Return\<close> is given for a result of type \<open>'v\<close> that may be nil: nil, or a value under its type.\<close>

definition boxed :: "('v \<Rightarrow> ('c, 'o, 'i) any) \<Rightarrow> 'v option \<Rightarrow> ('c, 'o, 'i) any" where
  "boxed box v = (case v of None \<Rightarrow> AnyNil | Some x \<Rightarrow> box x)"

locale returned_as =
  fixes box :: "'v \<Rightarrow> ('c, 'o, 'i) any" and as_value :: "('c, 'o, 'i) any \<Rightarrow> 'v option"
  assumes under_its_type: "as_value (box v) = Some v"
    and of_nil: "as_value AnyNil = None"
begin

lemma comes_back [simp]: "as_value (boxed box v) = v"
  by (simp add: boxed_def under_its_type of_nil split: option.split)

end

interpretation error_value: returned_as AnyError as_error by unfold_locales simp_all
interpretation client_value: returned_as AnyEC2Client as_EC2Client by unfold_locales simp_all
interpretation run_output: returned_as "\<lambda>v. AnyRunInstancesOutput (Some v)" as_RunInstancesOutput
  by unfold_locales simp_all
interpretation terminate_output: returned_as "\<lambda>v. AnyTerminateInstancesOutput (Some v)" as_TerminateInstancesOutput
  by unfold_locales simp_all
interpretation describe_output: returned_as "\<lambda>v. AnyDescribeInstancesOutput (Some v)" as_DescribeInstancesOutput
  by unfold_locales simp_all
interpretation string_ptr: returned_as "\<lambda>v. AnyStringPtr (Some v)" as_string_ptr by unfold_locales simp_all
interpretation int_ptr: returned_as "\<lambda>v. AnyIntPtr (Some v)" as_int_ptr by unfold_locales simp_all
interpretation bool_ptr: returned_as "\<lambda>v. AnyBoolPtr (Some v)" as_bool_ptr by unfold_locales simp_all

lemma varargs_eq [simp]: "varargs args opts = args @ map AnyOption opts"
  unfolding varargs_def by (induction opts arbitrary: args) simp_all

section \<open>A mock and its recorder\<close>

definition linked :: "mocked \<Rightarrow> nat \<Rightarrow> nat \<Rightarrow> 'k \<Rightarrow> 'k mock_cell list \<Rightarrow> bool" where
  "linked t m mr ctrl h \<longleftrightarrow>
     mock_at t m h = Some \<lparr>mock_ctrl = ctrl, mock_recorder = Some mr\<rparr> \<and>
     recorder_at t mr h = Some \<lparr>recorder_mock = m\<rparr>"

text \<open>A new mock has a recorder of its own, and the mocks there were keep theirs.\<close>

lemma new_mock_linked:
  assumes "new_mock t ctrl (h, w) = (m, h', w')"
  shows "linked t m (Suc m) ctrl h'" "expect t m (h', w') = Some (Some (Suc m), h', w')" "w' = w" "m = length h"
proof -
  let ?mock = "MockCell t \<lparr>mock_ctrl = ctrl, mock_recorder = Some (Suc m)\<rparr>"
  show m: "m = length h" and "w' = w" using assms by (auto simp: new_mock_def Let_def)
  have h': "h' = h @ [?mock, RecorderCell t \<lparr>recorder_mock = m\<rparr>]"
    using assms by (auto simp: new_mock_def Let_def list_update_append)
  have "cell_at m h' = Some ?mock" "cell_at (Suc m) h' = Some (RecorderCell t \<lparr>recorder_mock = m\<rparr>)"
    by (simp_all add: h' m cell_at_def nth_append)
  then show "linked t m (Suc m) ctrl h'" "expect t m (h', w') = Some (Some (Suc m), h', w')"
    by (simp_all add: linked_def expect_def mock_at_def recorder_at_def)
qed

lemma new_mock_keeps:
  assumes "new_mock t ctrl (h, w) = (m, h', w')" and "linked u n nr c h"
  shows "linked u n nr c h'"
proof -
  have "cell_at a h' = Some x" if "cell_at a h = Some x" for a x
    using that assms(1) by (auto simp: new_mock_def Let_def cell_at_def nth_append split: if_split_asm)
  then show ?thesis
    using assms(2) by (fastforce simp: linked_def mock_at_def recorder_at_def bind_eq_Some_conv)
qed

text \<open>What gomock documents: \<open>Helper\<close> does nothing to the expectations; a call that was recorded, when no
  other call of the method was expected, is answered with the values given to its \<open>Return\<close>.\<close>

definition gomock_laws ::
  "('k, 'a, 'e, 'w) Gomock \<Rightarrow> ('e \<Rightarrow> 'a list \<Rightarrow> ('w, unit) go) \<Rightarrow> ('k \<Rightarrow> receiver \<Rightarrow> string \<Rightarrow> 'w \<Rightarrow> bool) \<Rightarrow> bool" where
  "gomock_laws lib Return nothing_expected \<longleftrightarrow>
     (\<forall>k w. T_Helper lib k w = Some ((), w)) \<and>
     (\<forall>k rcv name mt args w e w1 rets w2. nothing_expected k rcv name w \<longrightarrow>
        Ctl_RecordCallWithMethodType lib k rcv name mt args w = Some (e, w1) \<longrightarrow> Return e rets w1 = Some ((), w2) \<longrightarrow>
        (\<exists>w3. Ctl_Call lib k rcv name args w2 = Some (rets, w3)))"

lemma recorded_call_is_answered:
  assumes laws: "gomock_laws lib Return nothing_expected" and link: "linked t m mr k h"
    and idle: "nothing_expected k (t, m) name w"
    and recorded: "recorder_call lib t mr name args (h, w) = Some (e, h1, w1)"
    and returned: "Return e rets w1 = Some ((), w2)"
  shows "\<exists>w3. mock_call lib t m name args (h1, w2) = Some (rets, h1, w3)"
proof -
  have silent: "T_Helper lib k w = Some ((), w)" for k w using laws by (simp add: gomock_laws_def)
  from recorded link silent have r: "Ctl_RecordCallWithMethodType lib k (t, m) name (t, name) args w = Some (e, w1)" "h1 = h"
    by (auto simp: recorder_call_def linked_def bind_eq_Some_conv)
  from laws idle r(1) returned obtain w3 where "Ctl_Call lib k (t, m) name args w2 = Some (rets, w3)"
    unfolding gomock_laws_def by blast
  then show ?thesis using link silent r(2) by (auto simp: mock_call_def linked_def)
qed

lemmas mock_methods =
  MockEC2ClientInterface_DescribeInstances_def MockEC2ClientInterfaceMockRecorder_DescribeInstances_def
  MockEC2ClientInterface_RunInstances_def MockEC2ClientInterfaceMockRecorder_RunInstances_def
  MockEC2ClientInterface_TerminateInstances_def MockEC2ClientInterfaceMockRecorder_TerminateInstances_def
  MockAWSClientsBuilderInterface_GetEC2Client_def MockAWSClientsBuilderInterfaceMockRecorder_GetEC2Client_def
  MockAWSHandlerInterface_FindInstanceRegion_def MockAWSHandlerInterfaceMockRecorder_FindInstanceRegion_def
  MockAWSHandlerInterface_GetInstanceInRegionPublicIP_def
  MockAWSHandlerInterfaceMockRecorder_GetInstanceInRegionPublicIP_def
  MockAWSHandlerInterface_GetTotalAmountOfPoolInstancesInRegion_def
  MockAWSHandlerInterfaceMockRecorder_GetTotalAmountOfPoolInstancesInRegion_def
  MockAWSHandlerInterface_IsInstanceInRegionActive_def MockAWSHandlerInterfaceMockRecorder_IsInstanceInRegionActive_def
  MockAWSHandlerInterface_ReleaseInstanceInRegion_def MockAWSHandlerInterfaceMockRecorder_ReleaseInstanceInRegion_def
  MockAWSHandlerInterface_RunInstanceInRegion_def MockAWSHandlerInterfaceMockRecorder_RunInstanceInRegion_def

text \<open>An expectation, recorded through the recorder with the values to return, and the call it is for.\<close>

definition expectation ::
  "('k, 'c, 'o, 'i, 'e, 'w) gomock \<Rightarrow> ('e \<Rightarrow> ('c, 'o, 'i) any list \<Rightarrow> ('w, unit) go) \<Rightarrow>
   (('k, 'w) mocks, 'e) go \<Rightarrow> ('c, 'o, 'i) any list \<Rightarrow> ('k, 'w) mocks \<Rightarrow> ('k, 'w) mocks option" where
  "expectation lib Return recorder rets s = do {
     (e, h, w) \<leftarrow> recorder s;
     (_, w) \<leftarrow> Return e rets w;
     Some (h, w) }"

lemma expectation_met:
  assumes "gomock_laws lib Return nothing_expected" "linked t m mr k h" "nothing_expected k (t, m) name w"
    and "expectation lib Return (recorder_call lib t mr name args) rets (h, w) = Some s"
  shows "\<exists>s'. mock_call lib t m name args s = Some (rets, s')"
proof -
  from assms(4) obtain e h1 w1 w2 where "recorder_call lib t mr name args (h, w) = Some (e, h1, w1)"
      "Return e rets w1 = Some ((), w2)" "s = (h1, w2)"
    by (auto simp: expectation_def bind_eq_Some_conv)
  with recorded_call_is_answered [OF assms(1-3)] show ?thesis by blast
qed

lemma expected_value_returned:
  assumes "gomock_laws lib Return nothing_expected" "linked t m mr k h" "nothing_expected k (t, m) name w"
    and "expectation lib Return (recorder_call lib t mr name args) [boxed box v, boxed AnyError err] (h, w) = Some s"
    and "returned_as box as_value"
  shows "\<exists>s'. value_and_error as_value (mock_call lib t m name args) s = Some ((v, err), s')"
  using expectation_met [OF assms(1-4)] returned_as.comes_back [OF assms(5)]
  by (auto simp: value_and_error_def ret_at_def)

text \<open>Every method of the three mocks returns what was recorded for it: its recorder names the same method
  with the same arguments, and the assertions give back the values.\<close>

lemma mocked_EC2Client_returns:
  assumes "gomock_laws lib Return nothing_expected" and "linked Mocked_EC2Client m mr k h"
  shows
    "nothing_expected k (Mocked_EC2Client, m) ''DescribeInstances'' w \<Longrightarrow>
     expectation lib Return (MockEC2ClientInterfaceMockRecorder_DescribeInstances lib mr (AnyContext ctx) (AnyDescribeInstancesInput params1)
        (map AnyOption opts)) [boxed (\<lambda>v. AnyDescribeInstancesOutput (Some v)) v1, boxed AnyError err] (h, w) = Some s \<Longrightarrow>
     \<exists>s'. MockEC2ClientInterface_DescribeInstances lib m ctx params1 opts s = Some ((v1, err), s')"
    "nothing_expected k (Mocked_EC2Client, m) ''RunInstances'' w \<Longrightarrow>
     expectation lib Return (MockEC2ClientInterfaceMockRecorder_RunInstances lib mr (AnyContext ctx) (AnyRunInstancesInput params2)
        (map AnyOption opts)) [boxed (\<lambda>v. AnyRunInstancesOutput (Some v)) v2, boxed AnyError err] (h, w) = Some s \<Longrightarrow>
     \<exists>s'. MockEC2ClientInterface_RunInstances lib m ctx params2 opts s = Some ((v2, err), s')"
    "nothing_expected k (Mocked_EC2Client, m) ''TerminateInstances'' w \<Longrightarrow>
     expectation lib Return (MockEC2ClientInterfaceMockRecorder_TerminateInstances lib mr (AnyContext ctx) (AnyTerminateInstancesInput params3)
        (map AnyOption opts)) [boxed (\<lambda>v. AnyTerminateInstancesOutput (Some v)) v3, boxed AnyError err] (h, w) = Some s \<Longrightarrow>
     \<exists>s'. MockEC2ClientInterface_TerminateInstances lib m ctx params3 opts s = Some ((v3, err), s')"
  unfolding mock_methods varargs_eq
  by (erule expected_value_returned [OF assms], assumption,
      rule describe_output.returned_as_axioms run_output.returned_as_axioms terminate_output.returned_as_axioms)+

lemma mocked_AWSClientsBuilder_returns:
  assumes "gomock_laws lib Return nothing_expected" and "linked Mocked_AWSClientsBuilder m mr k h"
  shows
    "nothing_expected k (Mocked_AWSClientsBuilder, m) ''GetEC2Client'' w \<Longrightarrow>
     expectation lib Return (MockAWSClientsBuilderInterfaceMockRecorder_GetEC2Client lib mr (AnyContext ctx)
        (AnyString region) (AnyCredentials creds)) [boxed AnyEC2Client v, boxed AnyError err] (h, w) = Some s \<Longrightarrow>
     \<exists>s'. MockAWSClientsBuilderInterface_GetEC2Client lib m ctx region creds s = Some ((v, err), s')"
  unfolding mock_methods
  by (erule expected_value_returned [OF assms], assumption, rule client_value.returned_as_axioms)

lemma mocked_AWSHandler_returns:
  assumes "gomock_laws lib Return nothing_expected" and "linked Mocked_AWSHandler m mr k h"
  shows
    "nothing_expected k (Mocked_AWSHandler, m) ''FindInstanceRegion'' w \<Longrightarrow>
     expectation lib Return (MockAWSHandlerInterfaceMockRecorder_FindInstanceRegion lib mr (AnyContext ctx) (AnyFindRegionParams params1))
        [boxed (\<lambda>v. AnyStringPtr (Some v)) v1, boxed AnyError err] (h, w) = Some s \<Longrightarrow>
     \<exists>s'. MockAWSHandlerInterface_FindInstanceRegion lib m ctx params1 s = Some ((v1, err), s')"
    "nothing_expected k (Mocked_AWSHandler, m) ''GetInstanceInRegionPublicIP'' w \<Longrightarrow>
     expectation lib Return (MockAWSHandlerInterfaceMockRecorder_GetInstanceInRegionPublicIP lib mr (AnyContext ctx) (AnyInstanceIdentifier params2))
        [boxed (\<lambda>v. AnyStringPtr (Some v)) v2, boxed AnyError err] (h, w) = Some s \<Longrightarrow>
     \<exists>s'. MockAWSHandlerInterface_GetInstanceInRegionPublicIP lib m ctx params2 s = Some ((v2, err), s')"
    "nothing_expected k (Mocked_AWSHandler, m) ''GetTotalAmountOfPoolInstancesInRegion'' w \<Longrightarrow>
     expectation lib Return (MockAWSHandlerInterfaceMockRecorder_GetTotalAmountOfPoolInstancesInRegion lib mr (AnyContext ctx) (AnyPoolFilterParams params3))
        [boxed (\<lambda>v. AnyIntPtr (Some v)) v3, boxed AnyError err] (h, w) = Some s \<Longrightarrow>
     \<exists>s'. MockAWSHandlerInterface_GetTotalAmountOfPoolInstancesInRegion lib m ctx params3 s = Some ((v3, err), s')"
    "nothing_expected k (Mocked_AWSHandler, m) ''IsInstanceInRegionActive'' w \<Longrightarrow>
     expectation lib Return (MockAWSHandlerInterfaceMockRecorder_IsInstanceInRegionActive lib mr (AnyContext ctx) (AnyInstanceIdentifier params4))
        [boxed (\<lambda>v. AnyBoolPtr (Some v)) v4, boxed AnyError err] (h, w) = Some s \<Longrightarrow>
     \<exists>s'. MockAWSHandlerInterface_IsInstanceInRegionActive lib m ctx params4 s = Some ((v4, err), s')"
    "nothing_expected k (Mocked_AWSHandler, m) ''RunInstanceInRegion'' w \<Longrightarrow>
     expectation lib Return (MockAWSHandlerInterfaceMockRecorder_RunInstanceInRegion lib mr (AnyContext ctx) (AnyRunInstanceParams params5))
        [boxed (\<lambda>v. AnyStringPtr (Some v)) v5, boxed AnyError err] (h, w) = Some s \<Longrightarrow>
     \<exists>s'. MockAWSHandlerInterface_RunInstanceInRegion lib m ctx params5 s = Some ((v5, err), s')"
    "nothing_expected k (Mocked_AWSHandler, m) ''ReleaseInstanceInRegion'' w \<Longrightarrow>
     expectation lib Return (MockAWSHandlerInterfaceMockRecorder_ReleaseInstanceInRegion lib mr (AnyContext ctx)
        (AnyInstanceIdentifier params4)) [boxed AnyError err] (h, w) = Some s \<Longrightarrow>
     \<exists>s'. MockAWSHandlerInterface_ReleaseInstanceInRegion lib m ctx params4 s = Some (err, s')"
  unfolding mock_methods
       apply (erule expected_value_returned [OF assms], assumption,
         rule string_ptr.returned_as_axioms int_ptr.returned_as_axioms bool_ptr.returned_as_axioms)+
  apply (drule expectation_met [OF assms], assumption)
  apply (auto simp: ret_at_def)
  done

section \<open>An instance\<close>

text \<open>A controller that keeps its expectations in a list: the receiver, the method and the arguments, and
  what to return once that is known. An expectation is used up by the call it is for.\<close>

type_synonym 'a notebook = "(receiver \<times> string \<times> 'a list \<times> 'a list option) list"

fun answer :: "receiver \<Rightarrow> string \<Rightarrow> 'a list \<Rightarrow> 'a notebook \<Rightarrow> ('a list \<times> 'a notebook) option" where
  "answer rcv name args [] = None"
| "answer rcv name args (x # xs) =
     (case x of
        (r, n, a, Some rets) \<Rightarrow>
          (if r = rcv \<and> n = name \<and> a = args then Some (rets, xs)
           else do { (rets, ys) \<leftarrow> answer rcv name args xs; Some (rets, x # ys) })
      | (r, n, a, None) \<Rightarrow> do { (rets, ys) \<leftarrow> answer rcv name args xs; Some (rets, x # ys) })"

definition notebook_gomock :: "(unit, 'a, nat, 'a notebook) Gomock" where
  "notebook_gomock =
     \<lparr>T_Helper = \<lambda>k w. Some ((), w),
      Ctl_Call = \<lambda>k rcv name args w. answer rcv name args w,
      Ctl_RecordCallWithMethodType = \<lambda>k rcv name mt args w. Some (length w, w @ [(rcv, name, args, None)])\<rparr>"

definition notebook_Return :: "nat \<Rightarrow> 'a list \<Rightarrow> ('a notebook, unit) go" where
  "notebook_Return e rets w =
     (if e < length w then (case w ! e of (rcv, name, args, _) \<Rightarrow> Some ((), w[e := (rcv, name, args, Some rets)]))
      else None)"

definition notebook_idle :: "unit \<Rightarrow> receiver \<Rightarrow> string \<Rightarrow> 'a notebook \<Rightarrow> bool" where
  "notebook_idle k rcv name w \<longleftrightarrow> (\<forall>x\<in>set w. fst x \<noteq> rcv \<or> fst (snd x) \<noteq> name)"

lemma answer_last:
  "\<forall>x\<in>set w. fst x \<noteq> rcv \<or> fst (snd x) \<noteq> name \<Longrightarrow>
     answer rcv name args (w @ [(rcv, name, args, Some rets)]) = Some (rets, w)"
  by (induction w) (auto split: option.split)

lemma notebook_laws: "gomock_laws notebook_gomock notebook_Return notebook_idle"
  by (auto simp: gomock_laws_def notebook_gomock_def notebook_Return_def notebook_idle_def nth_append
      list_update_append answer_last)

text \<open>The mock of the client, made and asked as the tests do.\<close>

lemma mocked_client_instance:
  "\<exists>s. expectation notebook_gomock notebook_Return
       (MockEC2ClientInterfaceMockRecorder_TerminateInstances notebook_gomock (Suc 0) (AnyContext ()) (AnyTerminateInstancesInput (Some [''i-1'']))
          (map AnyOption ([] :: unit list)))
       [boxed (\<lambda>v. AnyTerminateInstancesOutput (Some v)) None, boxed AnyError (Some (ErrorString ''throttled'')) :: (unit, unit, unit) any]
       (snd (NewMockEC2ClientInterface () ([], []))) = Some s \<and>
     (\<exists>s'. MockEC2ClientInterface_TerminateInstances notebook_gomock 0 () (Some [''i-1'']) [] s =
        Some ((None, Some (ErrorString ''throttled'')), s'))"
proof -
  let ?w = "[] :: (unit, unit, unit) any notebook"
  obtain m h w where new: "NewMockEC2ClientInterface () ([], ?w) = (m, h, w)" by (metis prod.exhaust)
  note new' = new [unfolded NewMockEC2ClientInterface_def]
  have m: "m = 0" "w = []" using new_mock_linked(3,4) [OF new'] by simp_all
  have link: "linked Mocked_EC2Client 0 (Suc 0) () h" using new_mock_linked(1) [OF new'] m by simp
  have idle: "notebook_idle () (Mocked_EC2Client, 0) ''TerminateInstances'' ?w" by (simp add: notebook_idle_def)
  obtain s where s: "expectation notebook_gomock notebook_Return
       (MockEC2ClientInterfaceMockRecorder_TerminateInstances notebook_gomock (Suc 0) (AnyContext ()) (AnyTerminateInstancesInput (Some [''i-1'']))
          (map AnyOption ([] :: unit list)))
       [boxed (\<lambda>v. AnyTerminateInstancesOutput (Some v)) None, boxed AnyError (Some (ErrorString ''throttled''))]
       (h, ?w) = Some s"
    using link by (auto simp: expectation_def mock_methods recorder_call_def linked_def notebook_gomock_def notebook_Return_def)
  from mocked_EC2Client_returns(3) [OF notebook_laws link idle s] s new m show ?thesis by auto
qed

end
