(* ===== verification/Spec2Isabelle.thy ===== *)
theory Spec2Isabelle
  imports Provider_Properties Pool_Controller Server_Properties Lease_Samples Abstractions Cloud_Properties
    Account_Properties Scenario Entry_Points Operator_Samples Deep_Copy_Properties Aws_Mock
begin

text \<open>
  The verification of ofcir, a Kubernetes operator that keeps pools of machines for CI jobs, and of
  the HTTP server through which jobs lease them.

  \<^bold>\<open>The program.\<close> A \<open>CIPool\<close> (\<open>api/v1/cipool_types.go\<close>) asks for a number of machines of one
  provider. The pool reconciler (\<open>controllers/cipool_controller.go\<close>) creates and evicts
  \<open>CIResource\<close>s (\<open>api/v1/ciresource_types.go\<close>) until there are as many. Each resource is one
  machine: its reconciler (\<open>controllers/ciresource_controller.go\<close>) reads it, its pool and the
  pool's secret, makes a fresh state machine (\<open>controllers/ciresource_fsm.go\<close>), lets it process the
  resource once and writes back what changed, the resource or its status. The state machine calls
  the pool's provider (\<open>pkg/providers\<close>) to acquire, clean and release the machine. The HTTP server
  (\<open>pkg/server/server.go\<close>, \<open>pkg/server/commands\<close>, over \<open>pkg/server/clientset/v1\<close>) maps a token to
  the pools it may use and leases a resource by writing the state wanted into its specification,
  which the state machine then follows. The two controllers and the server share nothing but the
  objects in the cluster.

  \<^bold>\<open>Conventions.\<close> The world, of type \<open>'w\<close>, is whatever the code reads and changes outside its own
  variables: the cluster, the cloud, the in-memory provider. An operation is a function from the
  world to its result and the world after (\<open>call\<close>), or to an option of them (\<open>go\<close>) when the code
  can panic: \<open>None\<close> is the panic. Go's \<open>error\<close> is the datatype \<open>error\<close>, one constructor for each
  kind of error the code tells apart, and results carry \<open>error option\<close> as Go's do. Pointers to
  objects read from the cluster are values returned updated; optional pointers are options. Go's
  \<open>int\<close> and \<open>time.Duration\<close> are integers, wrapped to 64 bits where the code computes with sizes,
  numbers and times (\<open>int64\<close>, \<open>time_Sub\<close>, which saturates as the library does). Logging is left
  out. All recursion is total: over lists, or with a measure for the loop that creates members and for
  the loop of the test harness, so no fuel is used anywhere.

  \<^bold>\<open>Code that is not in the repository\<close> is an argument of the definitions: the Kubernetes client
  (\<open>Client\<close>), the finalizer functions of controller-runtime (\<open>Controllerutil\<close>, with the laws
  \<open>finalizer_laws\<close>), the REST and secrets clients, the clock, contexts other than their deadline, the
  random numbers of the shuffle, the iteration order of Go maps, the EC2 client and the loader of
  its configuration, the packngo client of Equinix, the bindings of libvirt, the services of ironic
  and of SoftLayer, sockets, the JSON and base64 decoders, the manager of the controllers, the
  controller of gomock, the fake cluster of the tests. Where a property needs to know what a cloud
  does with a request, the laws of its documentation are a named predicate (\<open>device_laws\<close>,
  \<open>account_laws\<close>, \<open>node_laws\<close>), shown to hold of a simulated cloud. Theorems about the writes that reach the cluster put a log of
  the writes beside the world of an arbitrary client (\<open>logged\<close>, \<open>recording\<close>).

  \<^bold>\<open>Theories\<close>, in the order of their imports.

  \<^item> \<open>Ofcir_Prelude\<close>: calls, panics, errors, 64-bit integers, durations and times. \<open>Go_Strings\<close>: the
    functions of Go's library on strings and decimal numbers, with the round trip between
    \<open>fmt.Sprintf\<close> of \<open>%04d\<close> and \<open>strconv.Atoi\<close> on which the names of resources rest.
  \<^item> \<open>Api_Types\<close>: the two custom resources. \<open>Samples\<close>: concrete ones for the instances.
  \<^item> \<open>Provider\<close>: \<open>pkg/providers/provider.go\<close> and the contract of a provider as the locales
    \<open>provider_keeps\<close> (an invariant of the world is kept), \<open>provider\<close> and \<open>total_provider\<close> (no panic).
    \<open>Dummy_Provider\<close>: \<open>dummy.go\<close>, which interprets them. \<open>Aws_Handler\<close> and \<open>Aws_Provider\<close>: \<open>aws.go\<close>,
    with the locale \<open>aws_handler\<close> for the interface between its two halves. \<open>Aws_Log\<close>: a log of the
    requests to EC2 beside the world of any handler, and what an acquisition sends. \<open>Aws_Mock\<close>: \<open>mock_aws.go\<close>, the
    mocks of its interfaces, with the locale \<open>returned_as\<close> for the values they give back.
    \<open>Equinix_Provider\<close>: \<open>equinix.go\<close>, with the map of clients the package keeps and the devices of a
    project. \<open>Libvirt_Provider\<close>: \<open>libvirt.go\<close>, with the documents of the volume and the domain.
    \<open>Ironic_Provider\<close>: \<open>ironic.go\<close>, with stores for the provider objects and the maps that are shared by
    reference. \<open>Ironic_Service\<close>: the nodes of the service, with the laws of its documentation, and which of them
    carry the mark of a taken one. \<open>Ibmcloud_Provider\<close>: \<open>ibmcloud.go\<close>, with the tags of the hosts of an account.
    \<open>Net_Utils\<close>: \<open>IsPortOpen\<close>. Each interprets the contract.
    \<open>Provider_Factory\<close>: \<open>providersFactory.go\<close>. \<open>Provider_Part\<close>: the locale \<open>part\<close>, a provider in one part
    of a larger world. \<open>All_Providers\<close>: the six providers over the world of the process, through four
    interpretations of \<open>part\<close>, and what holds of the state machine over them. That a factory works on its
    part of this world only, the variables its file uses and the clouds, is how the world is put
    together and not a result: in Go the variables are those of one package.
  \<^item> \<open>Cir_Fsm\<close>: \<open>ciresource_fsm.go\<close>, with the table of states and events as the code builds it.
    \<open>Fsm_Contract\<close>: the diagram of the states as the relation \<open>cir_edge\<close>, and the locale
    \<open>state_handler\<close>, what \<open>Process\<close> relies on in a handler, interpreted on all nine.
    \<open>Fsm_Process\<close>: \<open>Process\<close> over them.
  \<^item> \<open>Kube_Client\<close>: the client of the controllers, and the log of its writes.
    \<open>Cir_Controller\<close> and \<open>Pool_Controller\<close>: the two reconcilers.
  \<^item> \<open>Lifecycle\<close>: the step relation of one resource under its reconciler, lost writes, edits and
    deletion requests by others, in any order, with the invariant of what is reachable; and
    successful requests in a row (\<open>drive\<close>), for the properties of liveness.
  \<^item> \<open>Clientset\<close>: \<open>clientset/v1\<close> and the locale \<open>clientset\<close>, what a client of it may assume of the
    updates it sends. \<open>Server_Commands\<close>: the three commands and \<open>pkg/utils\<close>. \<open>Server\<close>: the
    middleware, the handlers and the routes, with the locale \<open>server_clients\<close>. \<open>Entry_Points\<close>: how the
    server and the operator start, and the types the operator knows. \<open>Scenario\<close>: the harness of the
    reconcilers' tests.
  \<^item> \<open>Lease_Cycle\<close>: the server and the two reconcilers on one stored resource, each writing from a copy
    that may be old. The API server is the record \<open>Store\<close> with the law \<open>optimistic\<close>; a run of
    \<open>cluster_step\<close> is the sequence of the accepted writes of \<open>acquireCmd_Run\<close>, \<open>releaseCmd_Run\<close>,
    \<open>CIResource_Reconcile\<close> and \<open>CIPool_Reconcile\<close> and of edits by others. \<open>Lease_Samples\<close>: a store that
    counts its versions, and a run on it.
  \<^item> \<open>Operator_System\<close> and \<open>Operator_Filling\<close>: the two reconcilers and a provider together. The API server
    is the law \<open>api_server\<close> of a client, a run of \<open>operator_run\<close> a list of requests of the two work
    queues, and a provider whose machines are ready at once the locale \<open>prompt_provider\<close>, interpreted on
    the in-memory one. \<open>Lease_Roundtrip\<close>: the HTTP server and the operator on one cluster, the REST client by
    the law \<open>rest_server\<close>, a run of \<open>system_run\<close> the requests of a job and of the work queues in turn, and the
    locale \<open>prompt_cleaner\<close>. \<open>Operator_Samples\<close>: a small API server and a run of each on it.
  \<^item> \<open>Deep_Copy\<close>: \<open>zz_generated.deepcopy.go\<close> over a memory of cells, with the structs of \<open>api/v1\<close> as they
    are laid out there. \<open>Deep_Copy_Properties\<close>: the values behind a pointer, and the locales \<open>framed\<close>
    and \<open>deep_copier\<close>, which every copy function interprets.
  \<^item> \<open>Abstractions\<close>: the in-memory provider as an allocator, the highest number as a maximum, the created
    resources as well-formed objects. \<open>Cloud_Samples\<close>: libraries that refuse and small clouds for the instances.
  \<^item> \<open>Fsm_Properties\<close>, \<open>Provider_Properties\<close>, \<open>Server_Properties\<close>, \<open>Cloud_Properties\<close>,
    \<open>Account_Properties\<close>, the ends of \<open>Pool_Controller\<close>, \<open>Lease_Cycle\<close>, \<open>All_Providers\<close>, \<open>Scenario\<close> and
    \<open>Entry_Points\<close> and this theory: the properties, each with an instance at a concrete input.

  \<^bold>\<open>What is shown.\<close> Of the state machine: it only moves along the diagram and never to the
  error state; what it reports as changed is what it changed; it calls the provider in no state of rest; the
  finalizer stays until the provider released the machine; a lease ends exactly after the timeout; along every
  life a resource can have, the reconciler never dereferences a missing time and a resource past its first
  state carries the finalizer; a new resource becomes available, an expired lease returns, a deleted resource
  goes, and a fallback resource gets a machine when it is leased and gives it back after. Of the reconcilers:
  a request on a resource writes at most once, its status or the rest, never both; a pool grows by exactly the
  missing members under fresh names, every object it creates is well-formed, it evicts only idle members, the
  last ones by name and the right number of them, and is only let go when no member is listed; together they
  bring a new regular pool to life, every member available on a machine of its own, in whatever order the
  requests come. Of the server: it writes only what the token allows, answers once, leases from the best pool
  and shows nothing of other pools. Of both programs together: however their requests interleave and however
  old what they read, a resource is not leased again before its provider has cleaned it under the identifier
  it was leased with; and while something is on offer to its token, a job gets a machine and, when it gives it
  back, the machine is on offer again. Of the providers: whichever one a pool names, a resource becomes
  available only when it was reported ready under its own identifier; only four of them can make a run panic.
  The in-memory one refines an allocator of ten identifiers, so it never hands out an instance twice; the AWS
  one reports an instance ready only when it is running, and an acquisition counts the pool's instances in
  every region, asks for the configured machines in order and returns the one instance that was started;
  Equinix never has more devices of a pool than the pool asks for, and always works with the client of its own
  token; ironic takes only free nodes of the right type and, as long as no update is refused, never hands out
  a node twice; libvirt rebuilds a domain under its name and MAC address, and a domain that is gone does not
  hold up a deletion; a manual host of IBM cloud has its tags back after the release. The test harness returns
  within a bound. A deep copy, and what it points to, is new memory: the original is untouched, and writing to
  one never shows in the other, which is why the rest of the model can treat objects as values. A mock of the
  AWS interfaces gives a recorded call the answer it was recorded with. Some properties state defects: the
  finalizer of a pool lost when its members cannot be listed, a machine leaked when the write of the status
  fails, a resource of a vanished instance that cannot be deleted, a resource leased although it is being
  deleted, a resource evicted right after it was leased, a panic when the ironic node to release cannot be
  read.

  \<^bold>\<open>Not modelled.\<close> Logging. The cases of the tests themselves.
  Within the modelled parts: the routing of gin and the listening socket, the retries of the
  libraries, and concurrency, since each controller has one worker and \<open>operator_runs_complete\<close> shows
  that it is registered so; the HTTP server and the controllers meet only in the cluster, whose
  objects may change between any two requests (\<open>env\<close>, the edits of \<open>life_step\<close>, the steps of
  \<open>cluster_step\<close>, which follow one object from its creation to its removal).
\<close>

section \<open>From the server to the state machine\<close>

lemma Process_available:
  fixes w :: 'w
  assumes "NewProvider fac pool sec w = Some (Inr p, w1)" and "status_state cir = StateAvailable"
    and "spec_state cir = StateInUse"
  shows "\<exists>f'. Process lib fac now cir pool sec NewCIResourceFSM w =
     Some (((False, True, Minute, None),
        set_status_state (if IsZero (DeletionTimestamp (C_Meta cir)) then StateInUse else StateDelete) cir, f'), w1)"
proof (cases "IsZero (DeletionTimestamp (C_Meta cir))")
  case True
  with assms(2,3) show ?thesis
    by (subst Process_state [OF assms(1) fsm_known_simps(4) fsm_onEntry(4)])
      (auto simp: handleStateAvailable_def defaultCirRetryDelay_def)
next
  case False
  with assms(2,3) show ?thesis
    by (subst Process_state [OF assms(1) fsm_known_simps(4) fsm_onEntry(4)])
      (auto simp: handleStateAvailable_def defaultCirRetryDelay_def)
qed

text \<open>C34 (functional). A resource the server handed out is taken over by the next run of the state
  machine on it: it is in use, unless its deletion had been requested. Then it goes to the delete
  state although it was handed out: the server does not look at the deletion timestamp.\<close>

theorem acquired_resource_is_taken_over:
  assumes "acquireCmd_Run env (OfcirV1Client (recording rc)) ns types c w = (r, w')"
    and "puts_of w' = puts_of w @ new" and "(n, b, True) \<in> set new"
    and "NewProvider fac pool sec v = Some (Inr p, v1)"
  shows "\<exists>f'. Process lib fac now b pool sec NewCIResourceFSM v =
     Some (((False, True, Minute, None),
        set_status_state (if IsZero (DeletionTimestamp (C_Meta b)) then StateInUse else StateDelete) b, f'), v1)"
proof -
  from leased_was_eligible [OF assms(1-3)]
  have "status_state b = StateAvailable" "spec_state b = StateInUse" by (auto simp: eligible_def)
  from Process_available [OF assms(4) this] show ?thesis .
qed

text \<open>A resource the server accepted back goes to cleaning with the next run of the state
  machine on it.\<close>

theorem released_resource_is_cleaned:
  fixes v :: 'v
  assumes "releaseCmd_Run env (OfcirV1Client (recording rc)) ns k c w = (r, w')"
    and "puts_of w' = puts_of w @ new" and "(n, b, True) \<in> set new"
    and "NewProvider fac pool sec v = Some (Inr p, v1)"
  shows "\<exists>f'. Process lib fac now b pool sec NewCIResourceFSM v =
     Some (((False, True, Minute, None), set_status_state StateCleaning b, f'), v1)"
proof -
  from rest.release_writes [OF assms(1)] assms(2,3) have
    "status_state b = StateInUse" "spec_state b = StateAvailable" by auto
  then show ?thesis
    by (subst Process_state [OF assms(4) fsm_known_simps(6) fsm_onEntry(6)])
      (auto simp: handleStateInUse_def defaultCirRetryDelay_def Let_def)
qed

section \<open>A lease and a shrinking pool\<close>

text \<open>A member is selected when fewer idle members than the pool has too many come after it.\<close>

lemma among_the_last:
  assumes "P y" and "length (filter P after) < k"
  shows "y \<in> set (take k (filter P (rev (before @ y # after))))"
proof -
  have "filter P (rev (before @ y # after)) = filter P (rev after) @ y # filter P (rev before)"
    using assms(1) by simp
  moreover have "length (filter P (rev after)) < k" using assms(2) by (simp add: rev_filter [symmetric])
  then obtain j where "k - length (filter P (rev after)) = Suc j" by (metis Suc_diff_Suc)
  ultimately show ?thesis by (simp add: take_append)
qed

text \<open>C36 (error). A lease can be lost to a pool that shrinks. Take the object an acquisition has just
  had accepted, and a later request that shrinks the pool (its server accepts updates) and reads that object
  with the specification and status the acquisition left, not labelled for eviction yet. When fewer
  idle unlabelled members come after it by name than the pool has too many, the request labels it,
  although its specification asks for its use, and ends by asking for the deletion of all members that carry
  the label; and once the deletion date is on it, the next run of the state machine moves it to the
  delete state.\<close>

theorem leased_resource_evicted:
  assumes "acquireCmd_Run env (OfcirV1Client (recording rc)) ns types c w = (res, w')"
    and "puts_of w' = puts_of w @ new" and "(n, x, True) \<in> set new"
    and "manageCIResourcesFor (logged cl) now pool ([], v) = (r, ws, v')"
    and "List_CIResources cl (Namespace (P_Meta pool)) v = ((None, found), v1)"
    and "accepts_updates cl"
    and "filter (\<lambda>c. cir_pool c = pool_name pool) (sort_key cir_name found) = before @ y # after"
    and "C_Spec y = C_Spec x" and "C_Status y = C_Status x" and "EvictionLabel \<notin> dom (evict_labels y)"
    and "0 \<le> PSpec_Size (P_Spec pool)" and "int (length (before @ y # after)) \<le> max_int64"
    and "int (length (filter (\<lambda>c. status_state c \<in> {StateAvailable, StateMaintenance, StateError} \<and>
      EvictionLabel \<notin> dom (evict_labels c)) after)) < int (length (before @ y # after)) - PSpec_Size (P_Spec pool)"
    and "NewProvider fac pool sec u = Some (Inr p, u1)" and "\<not> IsZero (Some d)"
  shows "spec_state y = StateInUse \<and> W_Update_CIResource (select_for_eviction y) \<in> set ws \<and>
     Labels (C_Meta (select_for_eviction y)) = Some ((evict_labels y)(EvictionLabel \<mapsto> ''true'')) \<and>
     last ws = W_DeleteAllOf (Namespace (P_Meta pool)) [(EvictionLabel, ''true'')] \<and>
     (\<exists>f'. Process lib fac t (request_deletion d (select_for_eviction y)) pool sec NewCIResourceFSM u =
        Some (((False, True, Minute, None), set_status_state StateDelete (request_deletion d (select_for_eviction y)), f'), u1))"
proof -
  let ?P = "\<lambda>c. status_state c \<in> {StateAvailable, StateMaintenance, StateError} \<and> EvictionLabel \<notin> dom (evict_labels c)"
  let ?ms = "before @ y # after" and ?k = "length (before @ y # after) - nat (PSpec_Size (P_Spec pool))"
  from leased_was_eligible [OF assms(1-3)] assms(8,9)
  have y: "status_state y = StateAvailable" "spec_state y = StateInUse" by (auto simp: eligible_def)
  have small: "PSpec_Size (P_Spec pool) < int (length ?ms)" using assms(13) by linarith
  from shrink_log [OF assms(4-6) assms(7) [symmetric] assms(11) small assms(12)] obtain pre where
    ws: "ws = pre @ map (\<lambda>c. W_Update_CIResource (select_for_eviction c)) (take ?k (filter ?P (rev ?ms))) @
      [W_DeleteAllOf (Namespace (P_Meta pool)) [(EvictionLabel, ''true'')]]" by blast
  have "?P y" using y(1) assms(10) by simp
  moreover have "length (filter ?P after) < ?k" using assms(11,13) by linarith
  ultimately have "y \<in> set (take ?k (filter ?P (rev ?ms)))" by (rule among_the_last [of ?P])
  then have labelled: "W_Update_CIResource (select_for_eviction y) \<in> set ws"
    unfolding ws set_append set_map by (intro UnI2 UnI1 imageI)
  have z: "status_state (request_deletion d (select_for_eviction y)) = StateAvailable"
    "spec_state (request_deletion d (select_for_eviction y)) = StateInUse"
    "\<not> IsZero (DeletionTimestamp (C_Meta (request_deletion d (select_for_eviction y))))"
    using y assms(15) by (simp_all add: request_deletion_def select_for_eviction_def)
  have "\<exists>f'. Process lib fac t (request_deletion d (select_for_eviction y)) pool sec NewCIResourceFSM u =
      Some (((False, True, Minute, None), set_status_state StateDelete (request_deletion d (select_for_eviction y)), f'), u1)"
    using Process_available [OF assms(14) z(1,2), of lib t] by (simp only: if_not_P [OF z(3)])
  moreover have "Labels (C_Meta (select_for_eviction y)) = Some ((evict_labels y)(EvictionLabel \<mapsto> ''true''))"
    by (simp add: select_for_eviction_def)
  moreover have "last ws = W_DeleteAllOf (Namespace (P_Meta pool)) [(EvictionLabel, ''true'')]" by (simp add: ws)
  ultimately show ?thesis using y(2) labelled by (intro conjI)
qed

section \<open>From the pool to an available resource\<close>

text \<open>A resource as the pool's reconciler creates it becomes available in four requests
  under the provider's identifier, still of the pool, when the provider acquires and reports
  ready.\<close>

theorem created_resource_becomes_available:
  assumes "serves fac pool sec p {w, w1}" and "finalizer_laws lib" and "\<not> IsFallbackPool pool"
    and "\<not> ContainsFinalizer lib [] OfcirFinalizer"
    and "Acquire p (PSpec_Size (P_Spec pool)) (pool_name pool) (PSpec_Type (P_Spec pool)) w = Some ((r, None), w1)"
    and "AcquireCompleted p (Id r) w1 = Some ((True, r', None), w2)"
  shows "\<exists>cir'. drive lib fac pool sec [t1, t2, t3, t4] (newCIResource pool i) w = Some (cir', w2) \<and>
     status_state cir' = StateAvailable \<and> CStatus_ResourceId (C_Status cir') = Id r \<and> cir_pool cir' = pool_name pool"
proof -
  let ?new = "newCIResource pool i"
  have new: "status_state ?new = StateNone" "IsZero (DeletionTimestamp (C_Meta ?new))"
    "\<not> ContainsFinalizer lib (Finalizers (C_Meta ?new)) OfcirFinalizer" "cir_pool ?new = pool_name pool"
    using assms(4) by (simp_all add: newCIResource_def IsZero_def StateNone_def)
  from drive_provision [OF assms(1-3) new(1-3) assms(5,6)] obtain cir' where
    "drive lib fac pool sec [t1, t2, t3, t4] ?new w = Some (cir', w2)" "status_state cir' = StateAvailable"
    "CStatus_ResourceId (C_Status cir') = Id r" "C_Spec cir' = C_Spec ?new" by metis
  with new(4) show ?thesis by auto
qed

section \<open>Instances\<close>

lemma taken_over_witness:
  "\<exists>f'. Process list_finalizers demo_fac 20 (set_spec_state StateInUse demo_cir) demo_pool Map.empty NewCIResourceFSM world0 =
     Some (((False, True, Minute, None), set_status_state StateInUse (set_spec_state StateInUse demo_cir), f'), world0)"
proof -
  obtain e c' w' where run: "acquireCmd_Run calm demo_client ''ofcir'' [TypeCIHost] token_context ([], ()) = ((e, c'), w')"
    by (metis prod.exhaust)
  then have puts: "puts_of w' = puts_of ([], ()) @ [(''ofcir'', set_spec_state StateInUse demo_cir, True)]"
    by (auto simp: acquireCmd_Run_def rand_Shuffle_def puts_of_def put_of_def List.map_filter_def Let_def)
  from acquired_resource_is_taken_over [OF run puts _ demo_NewProvider, of "''ofcir''" "set_spec_state StateInUse demo_cir"]
  show ?thesis by (simp add: IsZero_def)
qed

text \<open>The pool of the leased resource is set to size zero before the state machine has run.\<close>

lemma leased_evicted_witness:
  "\<exists>r ws w'. manageCIResourcesFor (logged (fixed_client shrinking_pool [set_spec_state StateInUse demo_cir])) 0
      shrinking_pool ([], ()) = (r, ws, w') \<and>
     W_Update_CIResource (select_for_eviction (set_spec_state StateInUse demo_cir)) \<in> set ws"
proof -
  let ?y = "set_spec_state StateInUse demo_cir"
  obtain r ws w' where run: "manageCIResourcesFor (logged (fixed_client shrinking_pool [?y])) 0 shrinking_pool ([], ()) = (r, ws, w')"
    by (metis prod.exhaust)
  obtain res v where acq: "acquireCmd_Run calm demo_client ''ofcir'' [TypeCIHost] token_context ([], ()) = (res, v)"
    by (metis prod.exhaust)
  then have puts: "puts_of v = puts_of ([], ()) @ [(''ofcir'', ?y, True)]"
    by (auto simp: acquireCmd_Run_def rand_Shuffle_def puts_of_def put_of_def List.map_filter_def Let_def)
  have made: "NewProvider demo_fac shrinking_pool Map.empty world0 = Some (Inr (dummyProvider name_order), world0)"
    by simp
  have ms: "filter (\<lambda>c. cir_pool c = pool_name shrinking_pool) (sort_key cir_name [?y]) = [] @ ?y # []" by simp
  have "W_Update_CIResource (select_for_eviction ?y) \<in> set ws"
    using leased_resource_evicted [OF acq puts, of "''ofcir''" ?y "fixed_client shrinking_pool [?y]" 0 shrinking_pool
        "()" r ws w' "[?y]" "()" "[]" ?y "[]" demo_fac Map.empty world0 "dummyProvider name_order" world0 5] run ms made
    by (simp add: accepts_updates_def evict_labels_def a_cir_def IsZero_def int64_bounds)
  with run show ?thesis by blast
qed

lemma cleaned_witness:
  "\<exists>f'. Process list_finalizers demo_fac 20 (set_spec_state StateAvailable busy_cir) demo_pool Map.empty NewCIResourceFSM world0 =
     Some (((False, True, Minute, None), set_status_state StateCleaning (set_spec_state StateAvailable busy_cir), f'), world0)"
proof -
  let ?cs = "OfcirV1Client (recording (fixed_rest demo_pool busy_cir)) :: unit recorded OfcirV1Interface"
  obtain r w' where run: "releaseCmd_Run calm ?cs ''ofcir'' ''cir-0002'' token_context ([], ()) = (r, w')"
    by (metis prod.exhaust)
  then have puts: "puts_of w' = puts_of ([], ()) @ [(''ofcir'', set_spec_state StateAvailable busy_cir, True)]"
    by (auto simp: releaseCmd_Run_def puts_of_def put_of_def List.map_filter_def Let_def)
  from released_resource_is_cleaned [OF run puts _ demo_NewProvider, of "''ofcir''" "set_spec_state StateAvailable busy_cir"]
  show ?thesis by simp
qed

lemma created_witness:
  "\<exists>cir' w2. drive list_finalizers demo_fac demo_pool Map.empty [1, 2, 3, 4] (newCIResource demo_pool 1) world0 =
     Some (cir', w2) \<and> status_state cir' = StateAvailable"
proof -
  obtain r w1 and i :: dummyInstance where acq: "dummy_Acquire name_order 1 ''pool'' TypeCIHost world0 = Some ((r, None), w1)" "dummy_inv w1"
    "dummy_AcquireCompleted (Id r) w1 = Some ((True, di_Resource i, None), w1)" by (rule demo_acquire)
  have srv: "serves demo_fac demo_pool Map.empty (dummyProvider name_order) {world0, w1}"
    using acq(2) by (intro demo_serves) auto
  have "\<exists>cir'. drive list_finalizers demo_fac demo_pool Map.empty [1, 2, 3, 4] (newCIResource demo_pool 1) world0 = Some (cir', w1) \<and>
     status_state cir' = StateAvailable \<and> CStatus_ResourceId (C_Status cir') = Id r \<and> cir_pool cir' = pool_name demo_pool"
    by (rule created_resource_becomes_available [OF srv list_finalizers_laws]) (simp_all add: acq)
  then show ?thesis by blast
qed

end
